(* ===== verification/Prelude.thy ===== *)
theory Prelude
  imports Main "HOL-Library.Char_ord" "HOL-Library.List_Lexorder"
begin

section \<open>Shared vocabulary of the development\<close>

text \<open>
  Types, combinators and generic lemmas the component theories share: results
  with an error side (every \<open>return ..., err\<close> of the Go code is an \<open>Inl\<close>),
  stable sorting by a comparison (\<open>ORDER BY\<close> and \<open>sort.SliceStable\<close>), the
  conditional row update that is a SQL \<open>UPDATE ... WHERE\<close>, and the locale of
  systems whose every step keeps an invariant.
\<close>

named_theorems row_simps \<open>projections of rows through updates\<close>
named_theorems kind_simps \<open>equations between queue kind constants\<close>
named_theorems result_simps \<open>rules for results with an error side\<close>

subsection \<open>Results\<close>

type_synonym ('e, 'a) result = "'e + 'a"

definition andThen :: "('e, 'a) result \<Rightarrow> ('a \<Rightarrow> ('e, 'b) result) \<Rightarrow> ('e, 'b) result" where
  "andThen r f = (case r of Inl e \<Rightarrow> Inl e | Inr x \<Rightarrow> f x)"

definition ensure :: "bool \<Rightarrow> 'e \<Rightarrow> ('e, unit) result" where
  "ensure b e = (if b then Inr () else Inl e)"

lemma andThen_simps [simp, result_simps]:
  "andThen (Inl e) f = Inl e"
  "andThen (Inr x) f = f x"
  by (simp_all add: andThen_def)

lemma andThen_Inr_iff [result_simps]:
  "andThen r f = Inr y \<longleftrightarrow> (\<exists>x. r = Inr x \<and> f x = Inr y)"
  by (cases r) auto

lemma andThen_Inl_iff [result_simps]:
  "andThen r f = Inl e \<longleftrightarrow> r = Inl e \<or> (\<exists>x. r = Inr x \<and> f x = Inl e)"
  by (cases r) auto

lemma ensure_Inr_iff [simp, result_simps]: "ensure b e = Inr u \<longleftrightarrow> b"
  by (simp add: ensure_def)

lemma ensure_Inl_iff [simp, result_simps]: "ensure b e = Inl e' \<longleftrightarrow> \<not> b \<and> e' = e"
  by (auto simp: ensure_def)

lemma ensure_simps [simp]:
  "ensure True e = Inr ()"
  "ensure False e = Inl e"
  by (simp_all add: ensure_def)

text \<open>The first error of a list of checks, in order (a chain of early returns).\<close>

fun map_result :: "('a \<Rightarrow> ('e, 'b) result) \<Rightarrow> 'a list \<Rightarrow> ('e, 'b list) result" where
  "map_result f [] = Inr []"
| "map_result f (x # xs) = andThen (f x) (\<lambda>y. andThen (map_result f xs) (\<lambda>ys. Inr (y # ys)))"

lemma map_result_Inr_length: "map_result f xs = Inr ys \<Longrightarrow> length ys = length xs"
  by (induction xs arbitrary: ys) (auto simp: andThen_Inr_iff)

lemma map_result_Inr_nth:
  "map_result f xs = Inr ys \<Longrightarrow> i < length xs \<Longrightarrow> f (xs ! i) = Inr (ys ! i)"
  by (induction xs arbitrary: ys i) (auto simp: andThen_Inr_iff nth_Cons split: nat.splits)

lemma map_result_Inr_set:
  "map_result f xs = Inr ys \<Longrightarrow> y \<in> set ys \<Longrightarrow> \<exists>x\<in>set xs. f x = Inr y"
  by (induction xs arbitrary: ys) (fastforce simp: andThen_Inr_iff)+

subsection \<open>Stable sorting by a comparison\<close>

fun insert_by :: "('a \<Rightarrow> 'a \<Rightarrow> bool) \<Rightarrow> 'a \<Rightarrow> 'a list \<Rightarrow> 'a list" where
  "insert_by le x [] = [x]"
| "insert_by le x (y # ys) = (if le x y then x # y # ys else y # insert_by le x ys)"

fun sort_by :: "('a \<Rightarrow> 'a \<Rightarrow> bool) \<Rightarrow> 'a list \<Rightarrow> 'a list" where
  "sort_by le [] = []"
| "sort_by le (x # xs) = insert_by le x (sort_by le xs)"

lemma set_insert_by [simp]: "set (insert_by le x xs) = insert x (set xs)"
  by (induction xs) auto

lemma set_sort_by [simp]: "set (sort_by le xs) = set xs"
  by (induction xs) auto

lemma sort_by_eq_Nil [simp]: "sort_by le xs = [] \<longleftrightarrow> xs = []"
  using set_sort_by [of le xs] by (metis set_empty)

lemma sort_by_eq_Cons: "sort_by le xs = y # ys \<Longrightarrow> y \<in> set xs"
  using set_sort_by [of le xs] by (metis list.set_intros(1))

lemma length_insert_by [simp]: "length (insert_by le x xs) = Suc (length xs)"
  by (induction xs) auto

lemma length_sort_by [simp]: "length (sort_by le xs) = length xs"
  by (induction xs) auto

lemma distinct_insert_by: "distinct (insert_by le x xs) \<longleftrightarrow> x \<notin> set xs \<and> distinct xs"
  by (induction xs) auto

lemma distinct_sort_by [simp]: "distinct (sort_by le xs) = distinct xs"
  by (induction xs) (auto simp: distinct_insert_by)

lemma distinct_map_insert_by:
  "distinct (map f (insert_by le x xs)) \<longleftrightarrow> f x \<notin> f ` set xs \<and> distinct (map f xs)"
  by (induction xs) auto

lemma distinct_map_sort_by [simp]: "distinct (map f (sort_by le xs)) = distinct (map f xs)"
  by (induction xs) (auto simp: distinct_map_insert_by)

lemma sorted_insert_by:
  assumes "\<And>a b. le a b \<or> le b a" and "\<And>a b c. le a b \<Longrightarrow> le b c \<Longrightarrow> le a c"
  shows "sorted_wrt le xs \<Longrightarrow> sorted_wrt le (insert_by le x xs)"
proof (induction xs)
  case Nil
  then show ?case by simp
next
  case (Cons y ys)
  show ?case
  proof (cases "le x y")
    case True
    with Cons.prems show ?thesis by (auto intro: assms(2))
  next
    case False
    then have "le y x" using assms(1) by blast
    with False Cons show ?thesis by auto
  qed
qed

lemma sorted_sort_by:
  assumes "\<And>a b. le a b \<or> le b a" and "\<And>a b c. le a b \<Longrightarrow> le b c \<Longrightarrow> le a c"
  shows "sorted_wrt le (sort_by le xs)"
proof (induction xs)
  case (Cons x xs)
  then show ?case
    using sorted_insert_by [of le, OF assms] by simp
qed simp

text \<open>The stable sort keeps the order of elements it does not have to move.\<close>

lemma sort_by_sorted_id: "sorted_wrt le xs \<Longrightarrow> sort_by le xs = xs"
proof (induction xs)
  case (Cons x xs)
  then show ?case by (cases xs) auto
qed simp

subsection \<open>Conditional updates of a table\<close>

definition upd_where :: "('r \<Rightarrow> bool) \<Rightarrow> ('r \<Rightarrow> 'r) \<Rightarrow> 'r list \<Rightarrow> 'r list" where
  "upd_where p f rs = map (\<lambda>r. if p r then f r else r) rs"

definition count_where :: "('r \<Rightarrow> bool) \<Rightarrow> 'r list \<Rightarrow> nat" where
  "count_where p rs = length (filter p rs)"

lemma upd_where_Nil [simp]: "upd_where p f [] = []"
  by (simp add: upd_where_def)

lemma upd_where_Cons [simp]:
  "upd_where p f (r # rs) = (if p r then f r else r) # upd_where p f rs"
  by (simp add: upd_where_def)

lemma length_upd_where [simp]: "length (upd_where p f rs) = length rs"
  by (simp add: upd_where_def)

lemma set_upd_where: "set (upd_where p f rs) = (\<lambda>r. if p r then f r else r) ` set rs"
  by (simp add: upd_where_def)

lemma upd_where_map_id:
  assumes "\<And>r. p r \<Longrightarrow> g (f r) = g r"
  shows "map g (upd_where p f rs) = map g rs"
  using assms by (induction rs) auto

lemma upd_where_none: "\<forall>r\<in>set rs. \<not> p r \<Longrightarrow> upd_where p f rs = rs"
  by (induction rs) auto

lemma count_where_pos_iff [simp]: "0 < count_where p rs \<longleftrightarrow> (\<exists>r\<in>set rs. p r)"
  by (auto simp: count_where_def filter_empty_conv)

lemma count_where_unique:
  "distinct (map k rs) \<Longrightarrow> (\<And>r. p r \<Longrightarrow> k r = x) \<Longrightarrow> count_where p rs \<le> 1"
proof (induction rs)
  case Nil
  then show ?case by (simp add: count_where_def)
next
  case (Cons r rs)
  show ?case
  proof (cases "p r")
    case True
    then have "k r = x" using Cons.prems by blast
    have "\<not> p s" if "s \<in> set rs" for s
    proof
      assume "p s"
      then have "k s = x" using Cons.prems by blast
      with \<open>k r = x\<close> have "k r \<in> k ` set rs" using that by (metis image_eqI)
      with Cons.prems(1) show False by simp
    qed
    then have "filter p rs = []" by (simp add: filter_empty_conv)
    with True show ?thesis by (simp add: count_where_def)
  next
    case False
    with Cons show ?thesis by (simp add: count_where_def)
  qed
qed

lemma distinct_map_inj:
  "distinct (map k rs) \<Longrightarrow> r \<in> set rs \<Longrightarrow> s \<in> set rs \<Longrightarrow> k r = k s \<Longrightarrow> r = s"
  by (meson distinct_map inj_onD)

subsection \<open>Systems whose steps keep an invariant\<close>

text \<open>
  A component with state is its initial states and its steps. The contract is
  that the start satisfies the invariant and every step keeps it; then it holds
  along every run.
\<close>

locale invariant_system =
  fixes initial :: "'s \<Rightarrow> bool"
    and step :: "'s \<Rightarrow> 's \<Rightarrow> bool"
    and inv :: "'s \<Rightarrow> bool"
  assumes initial_inv: "initial s \<Longrightarrow> inv s"
    and step_inv: "step s t \<Longrightarrow> inv s \<Longrightarrow> inv t"
begin

lemma run_inv: "step\<^sup>*\<^sup>* s t \<Longrightarrow> inv s \<Longrightarrow> inv t"
  by (induction rule: rtranclp.induct) (auto intro: step_inv)

lemma reachable_inv: "initial s \<Longrightarrow> step\<^sup>*\<^sup>* s t \<Longrightarrow> inv t"
  by (blast intro: run_inv initial_inv)

end

subsection \<open>Text collations\<close>

text \<open>
  PostgreSQL compares text columns with the database's collation, which the
  repository does not fix for the queue tables. The comparison is a parameter
  of the definitions that order by text, and a collation is a linear order.
\<close>

type_synonym collation = "string \<Rightarrow> string \<Rightarrow> bool"

locale text_collation =
  fixes coll :: collation
  assumes coll_refl: "coll a a"
    and coll_antisym: "coll a b \<Longrightarrow> coll b a \<Longrightarrow> a = b"
    and coll_trans: "coll a b \<Longrightarrow> coll b c \<Longrightarrow> coll a c"
    and coll_total: "coll a b \<or> coll b a"

text \<open>Go compares strings bytewise, which is also PostgreSQL's collation \<open>"C"\<close>.\<close>

definition go_string_le :: collation where
  "go_string_le a b \<longleftrightarrow> a \<le> b"

interpretation go_string: text_collation go_string_le
  by unfold_locales (auto simp: go_string_le_def)

end
