(* ===== verification/Go_Text.thy ===== *)
theory Go_Text
  imports Prelude
begin

section \<open>Go strings, UTF-8 and decimal integers\<close>

text \<open>
  A Go string is a list of bytes; a \<^typ>\<open>char\<close> is a byte. This theory models the
  parts of \<open>unicode/utf8\<close>, \<open>strconv\<close>, \<open>strings\<close> and \<open>encoding/hex\<close> the queue uses:
  \<open>utf8.DecodeRune\<close> and \<open>utf8.EncodeRune\<close>, \<open>strconv.FormatInt\<close> and
  \<open>strconv.ParseInt\<close> (base 10, 64 bits), \<open>strings.HasPrefix\<close>,
  \<open>strings.LastIndexByte\<close> and \<open>hex.EncodeToString\<close>, with their round trips.
\<close>

type_synonym bytes = "char list"

abbreviation byte :: "char \<Rightarrow> nat" where
  "byte c \<equiv> of_char c"

lemma byte_less_256: "byte c < 256"
  by (rule nat_of_char_less_256)

subsection \<open>Prefixes and separators\<close>

fun HasPrefix :: "bytes \<Rightarrow> bytes \<Rightarrow> bool" where
  "HasPrefix s [] = True"
| "HasPrefix [] (p # ps) = False"
| "HasPrefix (c # s) (p # ps) = (c = p \<and> HasPrefix s ps)"

text \<open>The text after the last \<open>sep\<close>, or \<open>None\<close> where there is none: the slice
  \<open>s[strings.LastIndexByte(s, sep)+1:]\<close>.\<close>

fun after_last :: "char \<Rightarrow> bytes \<Rightarrow> bytes option" where
  "after_last sep [] = None"
| "after_last sep (c # cs) =
     (case after_last sep cs of
        Some t \<Rightarrow> Some t
      | None \<Rightarrow> if c = sep then Some cs else None)"

lemma HasPrefix_append [simp]: "HasPrefix (p @ s) p"
  by (induction p) auto

lemma HasPrefix_iff: "HasPrefix s p \<longleftrightarrow> (\<exists>t. s = p @ t)"
  by (induction s p rule: HasPrefix.induct) auto

lemma after_last_None_iff [simp]: "after_last sep s = None \<longleftrightarrow> sep \<notin> set s"
  by (induction s) (auto split: option.splits)

lemma after_last_append: "sep \<notin> set t \<Longrightarrow> after_last sep (s @ sep # t) = Some t"
  by (induction s) (auto simp: after_last_None_iff [THEN iffD2])

subsection \<open>Decimal integers\<close>

definition int64_min :: int where "int64_min = - (2 ^ 63)"

definition int64_max :: int where "int64_max = 2 ^ 63 - 1"

definition in_int64 :: "int \<Rightarrow> bool" where
  "in_int64 i \<longleftrightarrow> int64_min \<le> i \<and> i \<le> int64_max"

definition in_int32 :: "int \<Rightarrow> bool" where
  "in_int32 i \<longleftrightarrow> - (2 ^ 31) \<le> i \<and> i \<le> 2 ^ 31 - 1"

definition digit :: "nat \<Rightarrow> char" where
  "digit d = char_of (48 + d)"

definition is_digit :: "char \<Rightarrow> bool" where
  "is_digit c \<longleftrightarrow> 48 \<le> byte c \<and> byte c \<le> 57"

fun dec_digits :: "nat \<Rightarrow> bytes" where
  "dec_digits n = (if n < 10 then [digit n] else dec_digits (n div 10) @ [digit (n mod 10)])"

declare dec_digits.simps [simp del]

definition FormatInt :: "int \<Rightarrow> bytes" where
  "FormatInt i = (if i < 0 then CHR ''-'' # dec_digits (nat (- i)) else dec_digits (nat i))"

fun digits_value :: "nat \<Rightarrow> bytes \<Rightarrow> nat option" where
  "digits_value acc [] = Some acc"
| "digits_value acc (c # cs) =
     (if is_digit c then digits_value (acc * 10 + (byte c - 48)) cs else None)"

definition parse_uint :: "bytes \<Rightarrow> nat option" where
  "parse_uint s = (if s = [] then None else digits_value 0 s)"

definition ParseInt :: "bytes \<Rightarrow> int option" where
  "ParseInt s =
     (case s of
        [] \<Rightarrow> None
      | c # cs \<Rightarrow>
          (case parse_uint (if c = CHR ''+'' \<or> c = CHR ''-'' then cs else s) of
             None \<Rightarrow> None
           | Some n \<Rightarrow>
               (let v = (if c = CHR ''-'' then - int n else int n)
                in if in_int64 v then Some v else None)))"

lemma byte_digit [simp]: "d < 10 \<Longrightarrow> byte (digit d) = 48 + d"
  by (simp add: digit_def)

lemma is_digit_digit [simp]: "d < 10 \<Longrightarrow> is_digit (digit d)"
  by (simp add: is_digit_def)

lemma digits_value_append:
  "digits_value acc (xs @ ys) =
     (case digits_value acc xs of None \<Rightarrow> None | Some a \<Rightarrow> digits_value a ys)"
  by (induction xs arbitrary: acc) auto

lemma digits_value_dec_digits: "digits_value 0 (dec_digits n) = Some n"
proof (induction n rule: dec_digits.induct)
  case (1 n)
  show ?case
  proof (cases "n < 10")
    case True
    then show ?thesis by (simp add: dec_digits.simps [of n])
  next
    case False
    with 1 show ?thesis
      by (simp add: dec_digits.simps [of n] digits_value_append)
  qed
qed

lemma dec_digits_not_Nil [simp]: "dec_digits n \<noteq> []"
  by (subst dec_digits.simps) simp

lemma set_dec_digits: "c \<in> set (dec_digits n) \<Longrightarrow> is_digit c"
proof (induction n rule: dec_digits.induct)
  case (1 n)
  then show ?case
    by (cases "n < 10") (auto simp: dec_digits.simps [of n])
qed

lemma hd_dec_digits: "0 < n \<Longrightarrow> hd (dec_digits n) \<noteq> CHR ''0''"
proof (induction n rule: dec_digits.induct)
  case (1 n)
  show ?case
  proof (cases "n < 10")
    case True
    then have "byte (digit n) \<noteq> byte (CHR ''0'')" using 1 by simp
    with True show ?thesis by (metis dec_digits.simps list.sel(1))
  next
    case False
    with 1 show ?thesis by (simp add: dec_digits.simps [of n])
  qed
qed

lemma dec_digits_0 [simp]: "dec_digits 0 = ''0''"
  by code_simp

lemma FormatInt_not_Nil [simp]: "FormatInt i \<noteq> []"
  by (simp add: FormatInt_def)

lemma not_digit_signs [simp]: "\<not> is_digit CHR ''-''" "\<not> is_digit CHR ''+''" "\<not> is_digit CHR '':''"
  by (simp_all add: is_digit_def)

lemma colon_notin_FormatInt [simp]: "CHR '':'' \<notin> set (FormatInt i)"
  by (auto simp: FormatInt_def dest: set_dec_digits)

lemma ParseInt_FormatInt: "in_int64 i \<Longrightarrow> ParseInt (FormatInt i) = Some i"
proof -
  assume i: "in_int64 i"
  show ?thesis
  proof (cases "i < 0")
    case True
    with i show ?thesis
      by (simp add: ParseInt_def FormatInt_def parse_uint_def digits_value_dec_digits Let_def)
  next
    case False
    obtain c cs where d: "dec_digits (nat i) = c # cs"
      by (cases "dec_digits (nat i)") auto
    then have "is_digit c" using set_dec_digits [of c "nat i"] by simp
    then have "c \<noteq> CHR ''+''" "c \<noteq> CHR ''-''" by auto
    moreover have "parse_uint (c # cs) = Some (nat i)"
      using d digits_value_dec_digits [of "nat i"] by (simp add: parse_uint_def)
    ultimately show ?thesis using i False d
      by (simp add: ParseInt_def FormatInt_def Let_def)
  qed
qed

lemma ParseInt_in_int64: "ParseInt s = Some i \<Longrightarrow> in_int64 i"
  by (auto simp: ParseInt_def Let_def split: list.splits option.splits if_splits)

lemma FormatInt_inject: "in_int64 i \<Longrightarrow> in_int64 j \<Longrightarrow> FormatInt i = FormatInt j \<longleftrightarrow> i = j"
  by (metis ParseInt_FormatInt option.inject)

subsection \<open>Hexadecimal\<close>

definition hex_digit :: "nat \<Rightarrow> char" where
  "hex_digit d = char_of (if d < 10 then 48 + d else 87 + d)"

definition hex_byte :: "char \<Rightarrow> bytes" where
  "hex_byte c = [hex_digit (byte c div 16), hex_digit (byte c mod 16)]"

definition EncodeToString :: "bytes \<Rightarrow> bytes" where
  "EncodeToString bs = concat (map hex_byte bs)"

definition hex_value :: "char \<Rightarrow> nat option" where
  "hex_value c =
     (let b = byte c
      in if 48 \<le> b \<and> b \<le> 57 then Some (b - 48)
         else if 97 \<le> b \<and> b \<le> 102 then Some (b - 87)
         else if 65 \<le> b \<and> b \<le> 70 then Some (b - 55)
         else None)"

lemma length_EncodeToString [simp]: "length (EncodeToString bs) = 2 * length bs"
  by (induction bs) (auto simp: EncodeToString_def hex_byte_def)

lemma hex_value_hex_digit [simp]: "d < 16 \<Longrightarrow> hex_value (hex_digit d) = Some d"
  by (simp add: hex_value_def hex_digit_def Let_def)

end
