(* ===== verification/Go_Utf8.thy ===== *)
theory Go_Utf8
  imports Go_Text
begin

section \<open>UTF-8\<close>

text \<open>
  \<open>utf8.DecodeRune\<close> and \<open>utf8.EncodeRune\<close> on byte strings. Decoding returns the
  rune and the bytes it takes; an invalid sequence is the replacement character
  with width one. The accepted second bytes follow the standard's table, so
  overlong forms and surrogates are invalid.
\<close>

definition RuneError :: nat where "RuneError = 65533"

definition cont_in :: "nat \<Rightarrow> nat \<Rightarrow> char \<Rightarrow> bool" where
  "cont_in lo hi c \<longleftrightarrow> lo \<le> byte c \<and> byte c \<le> hi"

abbreviation cont :: "char \<Rightarrow> bool" where
  "cont \<equiv> cont_in 128 191"

definition second_lo :: "nat \<Rightarrow> nat" where
  "second_lo b0 = (if b0 = 224 then 160 else if b0 = 240 then 144 else 128)"

definition second_hi :: "nat \<Rightarrow> nat" where
  "second_hi b0 = (if b0 = 237 then 159 else if b0 = 244 then 143 else 191)"

fun DecodeRune :: "bytes \<Rightarrow> nat \<times> nat" where
  "DecodeRune [] = (RuneError, 0)"
| "DecodeRune (c0 # s) =
     (let b0 = byte c0 in
      if b0 < 128 then (b0, 1)
      else if b0 < 194 \<or> 244 < b0 then (RuneError, 1)
      else (case s of
              [] \<Rightarrow> (RuneError, 1)
            | c1 # s1 \<Rightarrow>
                (if \<not> cont_in (second_lo b0) (second_hi b0) c1 then (RuneError, 1)
                 else if b0 < 224 then (b0 mod 32 * 64 + byte c1 mod 64, 2)
                 else (case s1 of
                         [] \<Rightarrow> (RuneError, 1)
                       | c2 # s2 \<Rightarrow>
                           (if \<not> cont c2 then (RuneError, 1)
                            else if b0 < 240
                              then (b0 mod 16 * 4096 + byte c1 mod 64 * 64 + byte c2 mod 64, 3)
                            else (case s2 of
                                    [] \<Rightarrow> (RuneError, 1)
                                  | c3 # s3 \<Rightarrow>
                                      (if \<not> cont c3 then (RuneError, 1)
                                       else (b0 mod 8 * 262144 + byte c1 mod 64 * 4096
                                             + byte c2 mod 64 * 64 + byte c3 mod 64, 4))))))))"

declare DecodeRune.simps(2) [simp del]

definition EncodeRune :: "nat \<Rightarrow> bytes" where
  "EncodeRune r =
     (if r < 128 then [char_of r]
      else if r < 2048 then [char_of (192 + r div 64), char_of (128 + r mod 64)]
      else if 1114111 < r \<or> (55296 \<le> r \<and> r < 57344)
        then [char_of (239::nat), char_of (191::nat), char_of (189::nat)]
      else if r < 65536
        then [char_of (224 + r div 4096), char_of (128 + r div 64 mod 64), char_of (128 + r mod 64)]
      else [char_of (240 + r div 262144), char_of (128 + r div 4096 mod 64),
            char_of (128 + r div 64 mod 64), char_of (128 + r mod 64)])"

text \<open>A rune of two or more bytes is a valid sequence; its width is what decoding takes.\<close>

lemma DecodeRune_width: "DecodeRune s = (r, n) \<Longrightarrow> n \<le> length s \<and> (s \<noteq> [] \<longrightarrow> 0 < n)"
  by (cases s) (auto simp: DecodeRune.simps(2) Let_def split: if_splits list.splits)

lemma DecodeRune_prefix:
  "DecodeRune s = (r, n) \<Longrightarrow> 1 < n \<Longrightarrow> DecodeRune (take n s @ t) = (r, n)"
  by (cases s) (auto simp: DecodeRune.simps(2) Let_def split: if_splits list.splits)

lemma char_of_eqI: "n = byte c \<Longrightarrow> char_of n = c"
  by simp

lemma low_six:
  fixes q z :: nat
  assumes "z < 64"
  shows "(q * 64 + z) div 64 = q" and "(q * 64 + z) mod 64 = z"
  using assms by auto

lemma byte_mod:
  fixes b k m :: nat
  assumes "k * m \<le> b" "b < (k + 1) * m"
  shows "b = k * m + b mod m"
proof -
  have "b div m = k" using assms by (auto intro: div_nat_eqI simp: algebra_simps)
  then show ?thesis using div_mult_mod_eq [of b m] by simp
qed

lemma cont_byte: "128 \<le> b \<Longrightarrow> b \<le> 191 \<Longrightarrow> b = 128 + b mod 64" for b :: nat
  using byte_mod [of 2 64 b] by simp

lemma EncodeRune_2:
  assumes "194 \<le> b0" "b0 < 224" "second_lo b0 \<le> b1" "b1 \<le> second_hi b0"
  shows "EncodeRune (b0 mod 32 * 64 + b1 mod 64) = [char_of b0, char_of b1]"
proof -
  define x y where "x = b0 mod 32" and "y = b1 mod 64"
  have b: "b0 = 192 + x" "b1 = 128 + y" "2 \<le> x" "x < 32" "y < 64"
    using assms byte_mod [of 6 32 b0] cont_byte [of b1]
    by (auto simp: x_def y_def second_lo_def second_hi_def)
  show ?thesis
    unfolding x_def [symmetric] y_def [symmetric] using b
    by (simp add: EncodeRune_def low_six)
qed

lemma EncodeRune_3:
  assumes "224 \<le> b0" "b0 < 240" "second_lo b0 \<le> b1" "b1 \<le> second_hi b0" "128 \<le> b2" "b2 \<le> 191"
  shows "EncodeRune (b0 mod 16 * 4096 + b1 mod 64 * 64 + b2 mod 64) =
    [char_of b0, char_of b1, char_of b2]"
proof -
  define x y z where "x = b0 mod 16" and "y = b1 mod 64" and "z = b2 mod 64"
  have b1: "128 \<le> b1" "b1 \<le> 191"
    using assms(3,4) by (auto simp: second_lo_def second_hi_def split: if_splits)
  then have b: "b0 = 224 + x" "b1 = 128 + y" "b2 = 128 + z" "x < 16" "y < 64" "z < 64"
    using assms(1,2,5,6) byte_mod [of 14 16 b0] cont_byte [of b1] cont_byte [of b2]
    by (auto simp: x_def y_def z_def)
  define r where "r = x * 4096 + y * 64 + z"
  have r: "r = (x * 64 + y) * 64 + z" by (simp add: r_def)
  have d: "r div 64 = x * 64 + y" "r mod 64 = z"
    unfolding r by (rule low_six [OF b(6)])+
  have "r div 4096 = r div 64 div 64" by (simp add: div_mult2_eq [symmetric])
  then have d2: "r div 4096 = x" "r div 64 mod 64 = y" using d b by (simp_all add: low_six)
  have rng: "2048 \<le> r" "r < 65536" "\<not> (55296 \<le> r \<and> r < 57344)"
    using assms(3,4) b by (auto simp: r_def second_lo_def second_hi_def split: if_splits)
  show ?thesis
    unfolding x_def [symmetric] y_def [symmetric] z_def [symmetric] r_def [symmetric]
    using rng by (auto simp add: EncodeRune_def d(2) d2 b(1-3))
qed

lemma EncodeRune_4:
  assumes "240 \<le> b0" "b0 \<le> 244" "second_lo b0 \<le> b1" "b1 \<le> second_hi b0"
    "128 \<le> b2" "b2 \<le> 191" "128 \<le> b3" "b3 \<le> 191"
  shows "EncodeRune (b0 mod 8 * 262144 + b1 mod 64 * 4096 + b2 mod 64 * 64 + b3 mod 64) =
    [char_of b0, char_of b1, char_of b2, char_of b3]"
proof -
  define x y z w where "x = b0 mod 8" and "y = b1 mod 64" and "z = b2 mod 64" and "w = b3 mod 64"
  have b1: "128 \<le> b1" "b1 \<le> 191"
    using assms(3,4) by (auto simp: second_lo_def second_hi_def split: if_splits)
  then have b: "b0 = 240 + x" "b1 = 128 + y" "b2 = 128 + z" "b3 = 128 + w"
      "x \<le> 4" "y < 64" "z < 64" "w < 64"
    using assms(1,2,5-8) byte_mod [of 30 8 b0] cont_byte [of b1] cont_byte [of b2] cont_byte [of b3]
    by (auto simp: x_def y_def z_def w_def)
  define r where "r = x * 262144 + y * 4096 + z * 64 + w"
  have r: "r = ((x * 64 + y) * 64 + z) * 64 + w" by (simp add: r_def)
  have d: "r div 64 = (x * 64 + y) * 64 + z" "r mod 64 = w"
    unfolding r by (rule low_six [OF b(8)])+
  have "r div 4096 = r div 64 div 64" "r div 262144 = r div 64 div 64 div 64"
    by (simp_all add: div_mult2_eq [symmetric])
  moreover have e: "r div 64 div 64 = x * 64 + y" "r div 64 mod 64 = z"
    unfolding d by (rule low_six [OF b(7)])+
  moreover have "r div 64 div 64 div 64 = x" "r div 64 div 64 mod 64 = y"
    unfolding e by (rule low_six [OF b(6)])+
  ultimately have d2: "r div 4096 mod 64 = y" "r div 64 mod 64 = z" "r div 262144 = x"
    by simp_all
  have rng: "65536 \<le> r" "r \<le> 1114111"
    using assms(3,4) b by (auto simp: r_def second_lo_def second_hi_def split: if_splits)
  show ?thesis
    unfolding x_def [symmetric] y_def [symmetric] z_def [symmetric] w_def [symmetric] r_def [symmetric]
    using rng by (auto simp add: EncodeRune_def d(2) d2 b(1-4))
qed

lemma EncodeRune_DecodeRune:
  "DecodeRune s = (r, n) \<Longrightarrow> 1 < n \<Longrightarrow> EncodeRune r = take n s"
  by (cases s)
    (auto simp: DecodeRune.simps(2) Let_def cont_in_def EncodeRune_2 EncodeRune_3 EncodeRune_4
      split: if_splits list.splits)

lemma EncodeRune_ascii [simp]: "r < 128 \<Longrightarrow> EncodeRune r = [char_of r]"
  by (simp add: EncodeRune_def)

lemma DecodeRune_first_not_ascii:
  "DecodeRune (c # s) = (r, n) \<Longrightarrow> 1 < n \<Longrightarrow> 128 \<le> byte c"
  by (auto simp: DecodeRune.simps(2) Let_def split: if_splits)

subsection \<open>Valid strings\<close>

function ValidString :: "bytes \<Rightarrow> bool" where
  "ValidString [] = True"
| "ValidString (c # cs) =
     (case DecodeRune (c # cs) of
        (r, n) \<Rightarrow> (n = 1 \<longrightarrow> r < 128) \<and> ValidString (drop (n - 1) cs))"
  by pat_completeness auto
termination
  by (relation "measure length") (auto simp: less_Suc_eq_le)

declare ValidString.simps(2) [simp del]

lemma ValidString_ascii: "\<forall>c\<in>set s. byte c < 128 \<Longrightarrow> ValidString s"
  by (induction s) (auto simp: ValidString.simps(2) DecodeRune.simps(2) Let_def)

end
