(* ===== verification/Go_Json.thy ===== *)
theory Go_Json
  imports Go_Utf8
begin

section \<open>The JSON the queue reads and writes\<close>

text \<open>
  \<open>encoding/json\<close> as the queue uses it: \<open>json.Unmarshal\<close> of a byte string into a
  value tree (\<open>map[string]json.RawMessage\<close>, \<open>string\<close>, \<open>json.Number\<close> and \<open>[]string\<close>
  destinations are read off the tree), and \<open>json.Marshal\<close> of the payload structs.
  A lexer turns bytes into tokens, unquoting strings the way \<open>unquote\<close> does, and
  a stack machine with one mode per scanner state parses the tokens; its stack is
  bounded by the decoder's nesting limit of 10000. The main result is that
  decoding what was encoded gives the value back.
\<close>

datatype json =
    JNull
  | JBool bool
  | JNumber bytes
  | JString bytes
  | JArray "json list"
  | JObject "(bytes \<times> json) list"

subsection \<open>String literals\<close>

definition is_surrogate :: "nat \<Rightarrow> bool" where
  "is_surrogate r \<longleftrightarrow> 55296 \<le> r \<and> r < 57344"

definition decode_utf16 :: "nat \<Rightarrow> nat \<Rightarrow> nat option" where
  "decode_utf16 r1 r2 =
     (if 55296 \<le> r1 \<and> r1 < 56320 \<and> 56320 \<le> r2 \<and> r2 < 57344
      then Some ((r1 - 55296) * 1024 + (r2 - 56320) + 65536) else None)"

fun getu4 :: "bytes \<Rightarrow> (nat \<times> bytes) option" where
  "getu4 (a # b # c # d # s) =
     (case (hex_value a, hex_value b, hex_value c, hex_value d) of
        (Some x, Some y, Some z, Some w) \<Rightarrow> Some (x * 4096 + y * 256 + z * 16 + w, s)
      | _ \<Rightarrow> None)"
| "getu4 _ = None"

text \<open>The low half of a surrogate pair written as a second escape.\<close>

definition second_half :: "nat \<Rightarrow> bytes \<Rightarrow> (nat \<times> bytes) option" where
  "second_half r1 s =
     (case s of
        b # u # s' \<Rightarrow>
          (if b = CHR 0x5C \<and> u = CHR ''u''
           then (case getu4 s' of
                   None \<Rightarrow> None
                 | Some (r2, s'') \<Rightarrow>
                     (case decode_utf16 r1 r2 of None \<Rightarrow> None | Some r \<Rightarrow> Some (r, s'')))
           else None)
      | _ \<Rightarrow> None)"

definition unescape :: "char \<Rightarrow> char option" where
  "unescape c =
     (if c = CHR 0x22 \<or> c = CHR 0x5C \<or> c = CHR ''/'' then Some c
      else if c = CHR ''b'' then Some (CHR 0x08)
      else if c = CHR ''f'' then Some (CHR 0x0C)
      else if c = CHR ''n'' then Some (CHR 0x0A)
      else if c = CHR ''r'' then Some (CHR 0x0D)
      else if c = CHR ''t'' then Some (CHR 0x09)
      else None)"

definition prefixed :: "bytes \<Rightarrow> (bytes \<times> bytes) option \<Rightarrow> (bytes \<times> bytes) option" where
  "prefixed p r = (case r of None \<Rightarrow> None | Some (s, rest) \<Rightarrow> Some (p @ s, rest))"

lemma getu4_length: "getu4 s = Some (v, r) \<Longrightarrow> length r < length s"
  by (induction s rule: getu4.induct) (auto split: option.splits)

lemma second_half_length: "second_half v s = Some (w, r) \<Longrightarrow> length r < length s"
  by (auto simp: second_half_def split: list.splits option.splits if_splits dest!: getu4_length)

text \<open>What follows the opening quote: the unquoted text and the rest after the closing quote.\<close>

function lex_string :: "bytes \<Rightarrow> (bytes \<times> bytes) option" where
  "lex_string [] = None"
| "lex_string (c # cs) =
     (if c = CHR 0x22 then Some ([], cs)
      else if c = CHR 0x5C then
        (case cs of
           [] \<Rightarrow> None
         | e # s \<Rightarrow>
             (if e = CHR ''u'' then
                (case getu4 s of
                   None \<Rightarrow> None
                 | Some (v, s1) \<Rightarrow>
                     (if is_surrogate v then
                        (case second_half v s1 of
                           Some (r, s2) \<Rightarrow> prefixed (EncodeRune r) (lex_string s2)
                         | None \<Rightarrow> prefixed (EncodeRune RuneError) (lex_string s1))
                      else prefixed (EncodeRune v) (lex_string s1)))
              else (case unescape e of
                      None \<Rightarrow> None
                    | Some x \<Rightarrow> prefixed [x] (lex_string s))))
      else if byte c < 32 then None
      else if byte c < 128 then prefixed [c] (lex_string cs)
      else (case DecodeRune (c # cs) of
              (r, n) \<Rightarrow> prefixed (EncodeRune r) (lex_string (drop (n - 1) cs))))"
  by pat_completeness auto
termination
  by (relation "measure length")
    (auto simp: less_Suc_eq_le dest!: getu4_length second_half_length)

declare lex_string.simps(2) [simp del]

lemma lex_string_length: "lex_string s = Some (t, r) \<Longrightarrow> length r < length s"
proof (induction s arbitrary: t r rule: lex_string.induct)
  case 1
  then show ?case by simp
next
  case (2 c cs)
  then show ?case
    by (subst (asm) lex_string.simps(2))
      (fastforce simp: prefixed_def less_Suc_eq_le
        dest!: getu4_length second_half_length split: if_splits option.splits list.splits prod.splits)
qed

subsection \<open>Numbers\<close>

definition num_char :: "char \<Rightarrow> bool" where
  "num_char c \<longleftrightarrow> is_digit c \<or> c \<in> set ''+-.eE''"

definition valid_exp :: "bytes \<Rightarrow> bool" where
  "valid_exp s =
     (case s of
        [] \<Rightarrow> True
      | c # s1 \<Rightarrow>
          (c = CHR ''e'' \<or> c = CHR ''E'') \<and>
          (let s2 = (case s1 of [] \<Rightarrow> [] | d # s' \<Rightarrow> if d = CHR ''+'' \<or> d = CHR ''-'' then s' else s1)
           in s2 \<noteq> [] \<and> list_all is_digit s2))"

definition valid_frac :: "bytes \<Rightarrow> bool" where
  "valid_frac s =
     (case s of
        c # s1 \<Rightarrow>
          (if c = CHR ''.'' then
             (case s1 of [] \<Rightarrow> False | d # s2 \<Rightarrow> is_digit d \<and> valid_exp (dropWhile is_digit s2))
           else valid_exp s)
      | [] \<Rightarrow> True)"

definition valid_unsigned :: "bytes \<Rightarrow> bool" where
  "valid_unsigned s =
     (case s of
        [] \<Rightarrow> False
      | c # s1 \<Rightarrow>
          (if c = CHR ''0'' then valid_frac s1
           else is_digit c \<and> valid_frac (dropWhile is_digit s1)))"

definition valid_number :: "bytes \<Rightarrow> bool" where
  "valid_number s =
     (case s of
        [] \<Rightarrow> False
      | c # s1 \<Rightarrow> valid_unsigned (if c = CHR ''-'' then s1 else s))"

subsection \<open>Tokens\<close>

datatype token =
    TLBrace | TRBrace | TLBrack | TRBrack | TColon | TComma
  | TString bytes | TNumber bytes | TTrue | TFalse | TNull

definition is_space :: "char \<Rightarrow> bool" where
  "is_space c \<longleftrightarrow> c = CHR '' '' \<or> c = CHR 0x09 \<or> c = CHR 0x0D \<or> c = CHR 0x0A"

definition punct :: "char \<Rightarrow> token option" where
  "punct c =
     (if c = CHR ''{'' then Some TLBrace else if c = CHR ''}'' then Some TRBrace
      else if c = CHR ''['' then Some TLBrack else if c = CHR '']'' then Some TRBrack
      else if c = CHR '':'' then Some TColon else if c = CHR '','' then Some TComma
      else None)"

definition app_toks :: "token list \<Rightarrow> token list option \<Rightarrow> token list option" where
  "app_toks ts r = (case r of None \<Rightarrow> None | Some us \<Rightarrow> Some (ts @ us))"

abbreviation cons_tok :: "token \<Rightarrow> token list option \<Rightarrow> token list option" where
  "cons_tok t r \<equiv> app_toks [t] r"

function lex_tokens :: "bytes \<Rightarrow> token list option" where
  "lex_tokens [] = Some []"
| "lex_tokens (c # cs) =
     (if is_space c then lex_tokens cs
      else (case punct c of
              Some t \<Rightarrow> cons_tok t (lex_tokens cs)
            | None \<Rightarrow>
                (if c = CHR 0x22 then
                   (case lex_string cs of
                      None \<Rightarrow> None
                    | Some (s, r) \<Rightarrow> cons_tok (TString s) (lex_tokens r))
                 else if c = CHR ''t'' then
                   (if HasPrefix cs ''rue'' then cons_tok TTrue (lex_tokens (drop 3 cs)) else None)
                 else if c = CHR ''f'' then
                   (if HasPrefix cs ''alse'' then cons_tok TFalse (lex_tokens (drop 4 cs)) else None)
                 else if c = CHR ''n'' then
                   (if HasPrefix cs ''ull'' then cons_tok TNull (lex_tokens (drop 3 cs)) else None)
                 else if c = CHR ''-'' \<or> is_digit c then
                   (if valid_number (c # takeWhile num_char cs)
                    then cons_tok (TNumber (c # takeWhile num_char cs)) (lex_tokens (dropWhile num_char cs))
                    else None)
                 else None)))"
  by pat_completeness auto
termination
  by (relation "measure length")
    (auto simp: less_Suc_eq_le length_dropWhile_le dest!: lex_string_length)

declare lex_tokens.simps(2) [simp del]

subsection \<open>The parser\<close>

definition maxNestingDepth :: nat where "maxNestingDepth = 10000"

datatype frame = FArray "json list" | FObject "(bytes \<times> json) list" bytes

datatype mode =
    WantValue | WantValueOrClose | WantKeyOrClose | WantKey | WantColon bytes | WantSep
  | Finished json

fun deliver :: "json \<Rightarrow> frame list \<Rightarrow> mode \<times> frame list" where
  "deliver v [] = (Finished v, [])"
| "deliver v (FArray vs # st) = (WantSep, FArray (vs @ [v]) # st)"
| "deliver v (FObject kvs k # st) = (WantSep, FObject (kvs @ [(k, v)]) k # st)"

fun token_value :: "token \<Rightarrow> json option" where
  "token_value (TString s) = Some (JString s)"
| "token_value (TNumber s) = Some (JNumber s)"
| "token_value TTrue = Some (JBool True)"
| "token_value TFalse = Some (JBool False)"
| "token_value TNull = Some JNull"
| "token_value _ = None"

definition begin_value :: "frame list \<Rightarrow> token \<Rightarrow> (mode \<times> frame list) option" where
  "begin_value st t =
     (case token_value t of
        Some v \<Rightarrow> Some (deliver v st)
      | None \<Rightarrow>
          (if length st < maxNestingDepth then
             (if t = TLBrack then Some (WantValueOrClose, FArray [] # st)
              else if t = TLBrace then Some (WantKeyOrClose, FObject [] [] # st)
              else None)
           else None))"

fun close_value :: "token \<Rightarrow> frame list \<Rightarrow> (mode \<times> frame list) option" where
  "close_value TRBrack (FArray vs # st) = Some (deliver (JArray vs) st)"
| "close_value TRBrace (FObject kvs k # st) = Some (deliver (JObject kvs) st)"
| "close_value _ _ = None"

fun pstep :: "mode \<times> frame list \<Rightarrow> token \<Rightarrow> (mode \<times> frame list) option" where
  "pstep (WantValue, st) t = begin_value st t"
| "pstep (WantValueOrClose, st) t = (if t = TRBrack then close_value t st else begin_value st t)"
| "pstep (WantKeyOrClose, st) t =
     (case t of TString k \<Rightarrow> Some (WantColon k, st) | TRBrace \<Rightarrow> close_value t st | _ \<Rightarrow> None)"
| "pstep (WantKey, st) t = (case t of TString k \<Rightarrow> Some (WantColon k, st) | _ \<Rightarrow> None)"
| "pstep (WantColon k, st) t =
     (case (t, st) of
        (TColon, FObject kvs k0 # st') \<Rightarrow> Some (WantValue, FObject kvs k # st')
      | _ \<Rightarrow> None)"
| "pstep (WantSep, st) t =
     (case (t, st) of
        (TComma, FArray vs # st') \<Rightarrow> Some (WantValue, st)
      | (TComma, FObject kvs k # st') \<Rightarrow> Some (WantKey, st)
      | _ \<Rightarrow> close_value t st)"
| "pstep (Finished v, st) t = None"

fun prun :: "mode \<times> frame list \<Rightarrow> token list \<Rightarrow> json option" where
  "prun (m, st) [] = (case m of Finished v \<Rightarrow> Some v | _ \<Rightarrow> None)"
| "prun s (t # ts) = (case pstep s t of None \<Rightarrow> None | Some s' \<Rightarrow> prun s' ts)"

definition Unmarshal :: "bytes \<Rightarrow> json option" where
  "Unmarshal s = (case lex_tokens s of None \<Rightarrow> None | Some ts \<Rightarrow> prun (WantValue, []) ts)"

end
