(* ===== verification/Go_Json_Print.thy ===== *)
theory Go_Json_Print
  imports Go_Json
begin

section \<open>Encoding, destinations and the round trip\<close>

text \<open>
  \<open>json.Marshal\<close> (with its HTML escaping), the destinations \<open>json.Unmarshal\<close>
  fills from a value, and the theorem that decoding an encoded value returns it.
\<close>

subsection \<open>Encoding\<close>

definition html_safe :: "char \<Rightarrow> bool" where
  "html_safe c \<longleftrightarrow> 32 \<le> byte c \<and> byte c < 128 \<and>
     c \<noteq> CHR 0x22 \<and> c \<noteq> CHR 0x5C \<and> c \<noteq> CHR ''<'' \<and> c \<noteq> CHR ''>'' \<and> c \<noteq> CHR ''&''"

definition escape :: "char \<Rightarrow> bytes" where
  "escape c =
     (if c = CHR 0x22 \<or> c = CHR 0x5C then [CHR 0x5C, c]
      else if c = CHR 0x08 then [CHR 0x5C, CHR ''b'']
      else if c = CHR 0x0C then [CHR 0x5C, CHR ''f'']
      else if c = CHR 0x0A then [CHR 0x5C, CHR ''n'']
      else if c = CHR 0x0D then [CHR 0x5C, CHR ''r'']
      else if c = CHR 0x09 then [CHR 0x5C, CHR ''t'']
      else [CHR 0x5C, CHR ''u'', CHR ''0'', CHR ''0''] @ hex_byte c)"

function quote_body :: "bytes \<Rightarrow> bytes" where
  "quote_body [] = []"
| "quote_body (c # cs) =
     (if byte c < 128 then (if html_safe c then [c] else escape c) @ quote_body cs
      else (case DecodeRune (c # cs) of
              (r, n) \<Rightarrow>
                (if r = RuneError \<and> n = 1
                 then [CHR 0x5C, CHR ''u'', CHR ''f'', CHR ''f'', CHR ''f'', CHR ''d'']
                 else if r = 8232 \<or> r = 8233
                 then [CHR 0x5C, CHR ''u'', CHR ''2'', CHR ''0'', CHR ''2'', hex_digit (r mod 16)]
                 else take n (c # cs)) @ quote_body (drop (n - 1) cs)))"
  by pat_completeness auto
termination
  by (relation "measure length") (auto simp: less_Suc_eq_le)

declare quote_body.simps(2) [simp del]

definition quote :: "bytes \<Rightarrow> bytes" where
  "quote s = CHR 0x22 # quote_body s @ [CHR 0x22]"

fun join :: "'a list \<Rightarrow> 'a list list \<Rightarrow> 'a list" where
  "join sep [] = []"
| "join sep [x] = x"
| "join sep (x # y # zs) = x @ sep @ join sep (y # zs)"

fun Marshal :: "json \<Rightarrow> bytes" where
  "Marshal JNull = ''null''"
| "Marshal (JBool b) = (if b then ''true'' else ''false'')"
| "Marshal (JNumber n) = n"
| "Marshal (JString s) = quote s"
| "Marshal (JArray vs) = CHR ''['' # join '','' (map Marshal vs) @ '']''"
| "Marshal (JObject kvs) =
     CHR ''{'' # join '','' (map (\<lambda>(k, v). quote k @ CHR '':'' # Marshal v) kvs) @ ''}''"

subsection \<open>Destinations\<close>

text \<open>Into a \<open>string\<close>: null leaves the empty string; any other kind is an error.\<close>

fun json_string :: "json \<Rightarrow> bytes option" where
  "json_string (JString s) = Some s"
| "json_string JNull = Some []"
| "json_string _ = None"

text \<open>Into a \<open>[]string\<close>: null is the nil slice (\<open>None\<close> inside), elements as above.\<close>

fun json_strings :: "json \<Rightarrow> bytes list option option" where
  "json_strings JNull = Some None"
| "json_strings (JArray vs) =
     (if list_all (\<lambda>v. json_string v \<noteq> None) vs
      then Some (Some (map (\<lambda>v. the (json_string v)) vs)) else None)"
| "json_strings _ = None"

text \<open>Into a \<open>map[string]json.RawMessage\<close>: null is the nil map; of a repeated key the
  last value counts.\<close>

fun json_map :: "json \<Rightarrow> (bytes \<times> json) list option option" where
  "json_map JNull = Some None"
| "json_map (JObject kvs) = Some (Some kvs)"
| "json_map _ = None"

definition field :: "(bytes \<times> json) list \<Rightarrow> bytes \<Rightarrow> json option" where
  "field kvs k = map_of (rev kvs) k"

lemma field_Nil [simp]: "field [] k = None"
  by (simp add: field_def)

lemma field_Cons [simp]:
  "field ((k', v) # kvs) k =
     (case field kvs k of Some w \<Rightarrow> Some w | None \<Rightarrow> if k' = k then Some v else None)"
  by (auto simp: field_def map_add_def split: option.splits)

subsection \<open>Round trip of string literals\<close>

lemma prefixed_simps [simp]:
  "prefixed p (Some (s, r)) = Some (p @ s, r)"
  "prefixed p None = None"
  by (simp_all add: prefixed_def)

lemma not_surrogate_small: "v < 55296 \<Longrightarrow> \<not> is_surrogate v"
  by (simp add: is_surrogate_def)

lemma hex_value_literals [simp]:
  "hex_value CHR ''0'' = Some 0" "hex_value CHR ''2'' = Some 2"
  by (simp_all add: hex_value_def)

lemma getu4_hex_byte:
  "getu4 (CHR ''0'' # CHR ''0'' # hex_byte c @ s) = Some (byte c, s)"
proof -
  have "byte c div 16 < 16" by (rule less_mult_imp_div_less) simp
  then show ?thesis by (simp add: hex_byte_def div_mult_mod_eq)
qed

lemma lex_string_escape:
  assumes "byte c < 128" "\<not> html_safe c"
  shows "lex_string (escape c @ s) = prefixed [c] (lex_string s)"
proof (cases "escape c = [CHR 0x5C, CHR ''u'', CHR ''0'', CHR ''0''] @ hex_byte c")
  case True
  have "lex_string (CHR 0x5C # CHR ''u'' # CHR ''0'' # CHR ''0'' # hex_byte c @ s) =
      prefixed [c] (lex_string s)"
    using assms(1) getu4_hex_byte [of c s]
    by (subst lex_string.simps(2)) (simp add: not_surrogate_small)
  with True show ?thesis by simp
next
  case False
  then show ?thesis
    by (auto simp: escape_def lex_string.simps(2) unescape_def split: if_splits)
qed

lemma lex_string_html_safe:
  "html_safe c \<Longrightarrow> lex_string (c # s) = prefixed [c] (lex_string s)"
  by (subst lex_string.simps(2)) (auto simp: html_safe_def)

lemma lex_string_rune:
  assumes "DecodeRune (c # cs) = (r, n)" "1 < n"
  shows "lex_string (take n (c # cs) @ t) = prefixed (take n (c # cs)) (lex_string t)"
proof -
  have c: "128 \<le> byte c" using assms by (rule DecodeRune_first_not_ascii)
  have n: "n \<le> length (c # cs)" using DecodeRune_width [OF assms(1)] by simp
  obtain m where m: "n = Suc m" using assms(2) by (cases n) auto
  have d: "DecodeRune (c # (take m cs @ t)) = (r, n)"
    using DecodeRune_prefix [OF assms, of t] m by simp
  have "c \<noteq> CHR 0x22" "c \<noteq> CHR 0x5C" using c by auto
  then have "lex_string (c # (take m cs @ t)) =
      prefixed (EncodeRune r) (lex_string (drop (n - 1) (take m cs @ t)))"
    using c d by (subst lex_string.simps(2)) simp
  also have "drop (n - 1) (take m cs @ t) = t" using n m by simp
  finally show ?thesis using EncodeRune_DecodeRune [OF assms] m by simp
qed

lemma lex_string_separator:
  assumes "DecodeRune (c # cs) = (r, n)" "1 < n" "r = 8232 \<or> r = 8233"
  shows "lex_string ([CHR 0x5C, CHR ''u'', CHR ''2'', CHR ''0'', CHR ''2'', hex_digit (r mod 16)] @ t) =
    prefixed (take n (c # cs)) (lex_string t)"
  using assms(3) EncodeRune_DecodeRune [OF assms(1,2)]
  by (subst append_Cons, subst lex_string.simps(2)) (auto simp: not_surrogate_small)

lemma lex_string_quote_body:
  "ValidString s \<Longrightarrow> lex_string (quote_body s @ CHR 0x22 # t) = Some (s, t)"
proof (induction s rule: quote_body.induct)
  case 1
  then show ?case by (simp add: lex_string.simps(2))
next
  case (2 c cs)
  obtain r n where d: "DecodeRune (c # cs) = (r, n)" by fastforce
  show ?case
  proof (cases "byte c < 128")
    case True
    then have "DecodeRune (c # cs) = (byte c, 1)" by (simp add: DecodeRune.simps(2))
    then have "ValidString cs" using 2 by (simp add: ValidString.simps(2))
    then have IH: "lex_string (quote_body cs @ CHR 0x22 # t) = Some (cs, t)"
      using 2(1) True by blast
    show ?thesis
      using True IH lex_string_html_safe lex_string_escape
      by (auto simp: quote_body.simps(2))
  next
    case False
    with d 2(3) have v: "n = 1 \<longrightarrow> r < 128" "ValidString (drop (n - 1) cs)"
      by (auto simp: ValidString.simps(2))
    have n0: "0 < n" using DecodeRune_width [OF d] by simp
    have n1: "1 < n"
    proof (rule ccontr)
      assume "\<not> 1 < n"
      with n0 have "n = 1" by simp
      with v have "r < 128" by simp
      with d False \<open>n = 1\<close> show False
        by (auto simp: DecodeRune.simps(2) Let_def RuneError_def split: if_splits list.splits)
    qed
    have IH: "lex_string (quote_body (drop (n - 1) cs) @ CHR 0x22 # t) = Some (drop (n - 1) cs, t)"
      by (rule 2(2) [OF False d [symmetric] v(2)])
    obtain m where "n = Suc m" using n1 by (cases n) auto
    then have whole: "take n (c # cs) @ drop (n - 1) cs = c # cs" by simp
    show ?thesis
    proof (cases "r = 8232 \<or> r = 8233")
      case True
      with False d n1 IH whole lex_string_separator [OF d n1 True]
      show ?thesis by (simp add: quote_body.simps(2))
    next
      case sep: False
      with False d n1 IH whole lex_string_rune [OF d n1]
      show ?thesis by (simp add: quote_body.simps(2))
    qed
  qed
qed

lemma lex_quote:
  assumes "ValidString s"
  shows "lex_tokens (quote s @ t) = cons_tok (TString s) (lex_tokens t)"
  using lex_string_quote_body [OF assms, of t]
  by (simp add: quote_def lex_tokens.simps(2) is_space_def punct_def)

subsection \<open>Round trip of values\<close>

text \<open>The values an encoder can write: valid numbers and UTF-8 strings.\<close>

fun json_ok :: "json \<Rightarrow> bool" where
  "json_ok (JNumber n) = (valid_number n \<and> list_all num_char n)"
| "json_ok (JString s) = ValidString s"
| "json_ok (JArray vs) = list_all json_ok vs"
| "json_ok (JObject kvs) = list_all (\<lambda>(k, v). ValidString k \<and> json_ok v) kvs"
| "json_ok _ = True"

fun json_depth :: "json \<Rightarrow> nat" where
  "json_depth (JArray vs) = Suc (foldr max (map json_depth vs) 0)"
| "json_depth (JObject kvs) = Suc (foldr max (map (\<lambda>(k, v). json_depth v) kvs) 0)"
| "json_depth _ = 0"

fun tokens :: "json \<Rightarrow> token list" where
  "tokens JNull = [TNull]"
| "tokens (JBool b) = [if b then TTrue else TFalse]"
| "tokens (JNumber n) = [TNumber n]"
| "tokens (JString s) = [TString s]"
| "tokens (JArray vs) = TLBrack # join [TComma] (map tokens vs) @ [TRBrack]"
| "tokens (JObject kvs) =
     TLBrace # join [TComma] (map (\<lambda>(k, v). TString k # TColon # tokens v) kvs) @ [TRBrace]"

lemma join_Cons: "join sep (x # xs) = x @ concat (map (\<lambda>y. sep @ y) xs)"
  by (induction xs arbitrary: x) auto

lemma foldr_max_ge: "x \<in> set xs \<Longrightarrow> x \<le> foldr max xs (0::nat)"
  by (induction xs) auto

subsubsection \<open>Lexing an encoded value gives its tokens\<close>

definition num_stop :: "bytes \<Rightarrow> bool" where
  "num_stop t \<longleftrightarrow> (case t of [] \<Rightarrow> True | c # _ \<Rightarrow> \<not> num_char c)"

definition lexes :: "bytes \<Rightarrow> token list \<Rightarrow> bool" where
  "lexes s ts \<longleftrightarrow> (\<forall>t. num_stop t \<longrightarrow> lex_tokens (s @ t) = app_toks ts (lex_tokens t))"

lemma takeWhile_num_stop:
  "list_all num_char s \<Longrightarrow> num_stop t \<Longrightarrow>
    takeWhile num_char (s @ t) = s \<and> dropWhile num_char (s @ t) = t"
  by (induction s) (auto simp: num_stop_def split: list.splits)

lemma app_toks_simps [simp]:
  "app_toks [] r = r"
  "app_toks ts (app_toks us r) = app_toks (ts @ us) r"
  by (auto simp: app_toks_def split: option.splits)

lemma lex_punct:
  "punct c = Some tok \<Longrightarrow> lex_tokens (c # s) = cons_tok tok (lex_tokens s)"
  by (subst lex_tokens.simps(2)) (auto simp: punct_def is_space_def split: if_splits)

lemma lexes_number:
  assumes "valid_number n" "list_all num_char n"
  shows "lexes n [TNumber n]"
proof -
  obtain c cs where n: "n = c # cs" using assms(1) by (cases n) (auto simp: valid_number_def)
  have c: "c = CHR ''-'' \<or> is_digit c"
    using assms(1) by (auto simp: n valid_number_def valid_unsigned_def is_digit_def split: if_splits)
  then have "\<not> is_space c" "punct c = None" "c \<notin> set [CHR 0x22, CHR ''t'', CHR ''f'', CHR ''n'']"
    by (auto simp: is_space_def punct_def is_digit_def)
  then have "lex_tokens (n @ t) = cons_tok (TNumber n) (lex_tokens t)" if "num_stop t" for t
    using assms c takeWhile_num_stop [OF _ that, of cs]
    by (simp add: n lex_tokens.simps(2))
  then show ?thesis by (auto simp: lexes_def)
qed

lemma lexes_string: "ValidString s \<Longrightarrow> lexes (quote s) [TString s]"
  by (simp add: lexes_def lex_quote)

lemma lexes_literals: "lexes ''null'' [TNull]" "lexes ''true'' [TTrue]" "lexes ''false'' [TFalse]"
  by (simp_all add: lexes_def lex_tokens.simps(2) is_space_def punct_def)

lemma lexes_append:
  assumes "lexes s ts" "lexes s' ts'" "s' \<noteq> []" "\<not> num_char (hd s')"
  shows "lexes (s @ s') (ts @ ts')"
proof -
  have "lex_tokens (s @ s' @ t) = app_toks ts (lex_tokens (s' @ t))" for t
    using assms(1,3,4) by (cases s') (auto simp: lexes_def num_stop_def)
  then show ?thesis using assms(2) by (auto simp: lexes_def)
qed

lemma lexes_punct: "punct c = Some tok \<Longrightarrow> lexes s ts \<Longrightarrow> lexes (c # s) (tok # ts)"
  by (simp add: lexes_def lex_punct)

lemma lexes_Nil [simp]: "lexes [] []"
  by (simp add: lexes_def)

lemma not_num_punct: "\<not> num_char CHR '',''" "\<not> num_char CHR '']''" "\<not> num_char CHR ''}''"
    "\<not> num_char CHR '':''"
  by (simp_all add: num_char_def is_digit_def)

lemma lexes_tail:
  assumes "\<And>x. x \<in> set xs \<Longrightarrow> lexes (f x) (g x)" "punct c = Some tok" "\<not> num_char c"
  shows "lexes (concat (map (\<lambda>x. '','' @ f x) xs) @ [c]) (concat (map (\<lambda>x. [TComma] @ g x) xs) @ [tok])"
  using assms(1)
proof (induction xs)
  case Nil
  then show ?case using lexes_punct [OF assms(2) lexes_Nil] by simp
next
  case (Cons x xs)
  let ?s = "concat (map (\<lambda>x. '','' @ f x) xs) @ [c]"
  have "\<not> num_char (hd ?s)"
    using assms(3) not_num_punct by (cases xs) auto
  with Cons have "lexes (f x @ ?s) (g x @ concat (map (\<lambda>x. [TComma] @ g x) xs) @ [tok])"
    by (intro lexes_append [of "f x" "g x" ?s]) auto
  then show ?case using lexes_punct [of "CHR '',''" TComma] by (simp add: punct_def)
qed

lemma lexes_join:
  assumes "\<And>x. x \<in> set xs \<Longrightarrow> lexes (f x) (g x)" "punct c = Some tok" "\<not> num_char c"
  shows "lexes (join '','' (map f xs) @ [c]) (join [TComma] (map g xs) @ [tok])"
proof (cases xs)
  case Nil
  then show ?thesis using lexes_punct [OF assms(2) lexes_Nil] by simp
next
  case (Cons x ys)
  let ?s = "concat (map (\<lambda>x. '','' @ f x) ys) @ [c]"
  have "lexes ?s (concat (map (\<lambda>x. [TComma] @ g x) ys) @ [tok])"
    using lexes_tail [of ys f g, OF _ assms(2,3)] assms(1) Cons by simp
  moreover have "\<not> num_char (hd ?s)"
    using assms(3) not_num_punct by (cases ys) auto
  ultimately have "lexes (f x @ ?s) (g x @ concat (map (\<lambda>x. [TComma] @ g x) ys) @ [tok])"
    using assms(1) [of x] Cons by (intro lexes_append [of "f x" "g x" ?s]) auto
  then show ?thesis by (simp add: Cons join_Cons comp_def)
qed

lemma lexes_Marshal: "json_ok j \<Longrightarrow> lexes (Marshal j) (tokens j)"
proof (induction j)
  case (JArray vs)
  then have "lexes (join '','' (map Marshal vs) @ '']'') (join [TComma] (map tokens vs) @ [TRBrack])"
    by (intro lexes_join) (auto simp: list_all_iff punct_def not_num_punct)
  then show ?case by (simp add: lexes_punct punct_def)
next
  case (JObject kvs)
  let ?f = "\<lambda>(k, v). quote k @ CHR '':'' # Marshal v" and ?g = "\<lambda>(k, v). TString k # TColon # tokens v"
  have "lexes (?f kv) (?g kv)" if kv: "kv \<in> set kvs" for kv
  proof -
    obtain k v where [simp]: "kv = (k, v)" by fastforce
    have "lexes (Marshal v) (tokens v)" "ValidString k"
      using JObject kv by (auto simp: list_all_iff)
    then have "lexes (quote k @ CHR '':'' # Marshal v) ([TString k] @ TColon # tokens v)"
      using not_num_punct by (intro lexes_append lexes_string lexes_punct) (auto simp: punct_def)
    then show ?thesis by simp
  qed
  then have "lexes (join '','' (map ?f kvs) @ ''}'') (join [TComma] (map ?g kvs) @ [TRBrace])"
    by (intro lexes_join) (auto simp: punct_def not_num_punct)
  then show ?case by (simp add: lexes_punct punct_def)
qed (auto simp: lexes_literals lexes_number lexes_string)

subsubsection \<open>Parsing the tokens of a value delivers it\<close>

text \<open>The parser reads the tokens of a value below any stack that leaves room for it.\<close>

definition reads :: "json \<Rightarrow> bool" where
  "reads j \<longleftrightarrow> (\<forall>m st ts. (m = WantValue \<or> m = WantValueOrClose) \<longrightarrow>
     length st + json_depth j \<le> maxNestingDepth \<longrightarrow>
     prun (m, st) (tokens j @ ts) = prun (deliver j st) ts)"

lemma reads_array_tail:
  assumes "\<And>v. v \<in> set vs \<Longrightarrow> reads v"
    and "\<And>v. v \<in> set vs \<Longrightarrow> Suc (length st + json_depth v) \<le> maxNestingDepth"
  shows "prun (WantSep, FArray us # st) (concat (map (\<lambda>v. [TComma] @ tokens v) vs) @ TRBrack # ts) =
    prun (deliver (JArray (us @ vs)) st) ts"
  using assms
proof (induction vs arbitrary: us)
  case Nil
  then show ?case by simp
next
  case (Cons v vs)
  then have "prun (WantValue, FArray us # st) (tokens v @ ts') = prun (deliver v (FArray us # st)) ts'" for ts'
    by (auto simp: reads_def)
  with Cons.IH [of "us @ [v]"] Cons.prems show ?case by simp
qed

lemma reads_object_tail:
  assumes "\<And>k v. (k, v) \<in> set kvs \<Longrightarrow> reads v"
    and "\<And>k v. (k, v) \<in> set kvs \<Longrightarrow> Suc (length st + json_depth v) \<le> maxNestingDepth"
  shows "prun (WantSep, FObject us k0 # st)
      (concat (map (\<lambda>kv. [TComma] @ (case kv of (k, v) \<Rightarrow> TString k # TColon # tokens v)) kvs) @ TRBrace # ts) =
    prun (deliver (JObject (us @ kvs)) st) ts"
  using assms
proof (induction kvs arbitrary: us k0)
  case Nil
  then show ?case by simp
next
  case (Cons kv kvs)
  obtain k v where [simp]: "kv = (k, v)" by fastforce
  have "prun (WantValue, FObject us k # st) (tokens v @ ts') = prun (deliver v (FObject us k # st)) ts'" for ts'
    using Cons.prems [of k v] by (auto simp: reads_def)
  moreover have "prun (WantSep, FObject (us @ [(k, v)]) k # st)
      (concat (map (\<lambda>kv. [TComma] @ (case kv of (k, v) \<Rightarrow> TString k # TColon # tokens v)) kvs) @ TRBrace # ts) =
    prun (deliver (JObject ((us @ [(k, v)]) @ kvs)) st) ts"
    using Cons.prems by (intro Cons.IH) auto
  ultimately show ?case by simp
qed

lemma reads_array:
  assumes "\<And>v. v \<in> set vs \<Longrightarrow> reads v"
  shows "reads (JArray vs)"
  unfolding reads_def
proof (intro allI impI)
  fix m and st :: "frame list" and ts
  assume m: "m = WantValue \<or> m = WantValueOrClose"
    and d: "length st + json_depth (JArray vs) \<le> maxNestingDepth"
  have dv: "Suc (length st + json_depth v) \<le> maxNestingDepth" if "v \<in> set vs" for v
    using d that foldr_max_ge [of "json_depth v" "map json_depth vs"] by auto
  have open_st: "prun (m, st) (TLBrack # ts') = prun (WantValueOrClose, FArray [] # st) ts'" for ts'
    using m d by (auto simp: begin_value_def)
  show "prun (m, st) (tokens (JArray vs) @ ts) = prun (deliver (JArray vs) st) ts"
  proof (cases vs)
    case Nil
    then show ?thesis using open_st by simp
  next
    case (Cons v ws)
    have "prun (WantValueOrClose, FArray [] # st) (tokens v @ ts') =
        prun (WantSep, FArray [v] # st) ts'" for ts'
      using assms [of v] dv [of v] Cons by (auto simp: reads_def)
    moreover have "prun (WantSep, FArray [v] # st)
        (concat (map (\<lambda>v. [TComma] @ tokens v) ws) @ TRBrack # ts) =
        prun (deliver (JArray ([v] @ ws)) st) ts"
      using assms dv Cons by (intro reads_array_tail) auto
    ultimately show ?thesis
      using open_st by (simp add: Cons join_Cons comp_def)
  qed
qed

lemma reads_object:
  assumes "\<And>k v. (k, v) \<in> set kvs \<Longrightarrow> reads v"
  shows "reads (JObject kvs)"
  unfolding reads_def
proof (intro allI impI)
  fix m and st :: "frame list" and ts
  assume m: "m = WantValue \<or> m = WantValueOrClose"
    and d: "length st + json_depth (JObject kvs) \<le> maxNestingDepth"
  have dv: "Suc (length st + json_depth v) \<le> maxNestingDepth" if "(k, v) \<in> set kvs" for k v
    using d that foldr_max_ge [of "json_depth v" "map (\<lambda>(k, v). json_depth v) kvs"] by force
  have open_st: "prun (m, st) (TLBrace # ts') = prun (WantKeyOrClose, FObject [] [] # st) ts'" for ts'
    using m d by (auto simp: begin_value_def)
  show "prun (m, st) (tokens (JObject kvs) @ ts) = prun (deliver (JObject kvs) st) ts"
  proof (cases kvs)
    case Nil
    then show ?thesis using open_st by simp
  next
    case (Cons kv ws)
    obtain k v where [simp]: "kv = (k, v)" by fastforce
    have "prun (WantValue, FObject [] k # st) (tokens v @ ts') =
        prun (WantSep, FObject [(k, v)] k # st) ts'" for ts'
      using assms [of k v] dv [of k v] Cons by (auto simp: reads_def)
    moreover have "prun (WantSep, FObject [(k, v)] k # st)
        (concat (map (\<lambda>kv. [TComma] @ (case kv of (k, v) \<Rightarrow> TString k # TColon # tokens v)) ws) @ TRBrace # ts) =
        prun (deliver (JObject ([(k, v)] @ ws)) st) ts"
      using assms dv Cons by (intro reads_object_tail) auto
    ultimately show ?thesis
      using open_st by (simp add: Cons join_Cons comp_def)
  qed
qed

lemma reads_all: "reads j"
proof (induction j)
  case (JArray vs)
  then show ?case by (rule reads_array)
next
  case (JObject kvs)
  then show ?case by (intro reads_object) auto
qed (auto simp: reads_def begin_value_def)

lemma Unmarshal_Marshal:
  assumes "json_ok j" "json_depth j \<le> maxNestingDepth"
  shows "Unmarshal (Marshal j) = Some j"
proof -
  have "lex_tokens (Marshal j) = Some (tokens j)"
    using lexes_Marshal [OF assms(1)] by (auto simp: lexes_def num_stop_def app_toks_def dest: spec [of _ "[]"])
  moreover have "prun (WantValue, []) (tokens j @ []) = Some j"
    using reads_all [of j, unfolded reads_def, rule_format, of WantValue "[]" "[]"] assms(2) by simp
  ultimately show ?thesis by (simp add: Unmarshal_def)
qed

subsubsection \<open>Integers are valid numbers\<close>

lemma valid_frac_Nil [simp]: "valid_frac []"
  by (simp add: valid_frac_def)

lemma dropWhile_all: "list_all P xs \<Longrightarrow> dropWhile P xs = []"
  by (induction xs) auto

lemma valid_unsigned_dec_digits: "valid_unsigned (dec_digits n)"
proof (cases "n = 0")
  case False
  obtain c cs where d: "dec_digits n = c # cs" by (cases "dec_digits n") auto
  have "c \<noteq> CHR ''0''" using hd_dec_digits [of n] False d by simp
  moreover have "is_digit c" "list_all is_digit cs"
    using set_dec_digits [of _ n] d by (auto simp: list_all_iff)
  ultimately show ?thesis by (simp add: d valid_unsigned_def dropWhile_all)
qed (simp add: valid_unsigned_def)

lemma json_ok_FormatInt [simp]: "json_ok (JNumber (FormatInt i))"
proof -
  have "list_all num_char (FormatInt i)"
    by (auto simp: FormatInt_def list_all_iff num_char_def dest: set_dec_digits)
  moreover have "valid_number (dec_digits n)" for n
  proof -
    obtain c cs where d: "dec_digits n = c # cs" by (cases "dec_digits n") auto
    then have "c \<noteq> CHR ''-''" using set_dec_digits [of c n] by auto
    then show ?thesis using d valid_unsigned_dec_digits [of n] by (simp add: valid_number_def)
  qed
  then have "valid_number (FormatInt i)"
    using valid_unsigned_dec_digits by (simp add: FormatInt_def valid_number_def)
  ultimately show ?thesis by simp
qed

subsubsection \<open>Size of the printed text\<close>

lemma length_quote_body: "length (quote_body s) \<le> 6 * length s"
proof (induction s rule: quote_body.induct)
  case (2 c cs)
  show ?case
  proof (cases "byte c < 128")
    case True
    have "length (escape c) \<le> 6" by (simp add: escape_def hex_byte_def)
    with True 2(1) show ?thesis by (simp add: quote_body.simps(2))
  next
    case False
    obtain r n where d: "DecodeRune (c # cs) = (r, n)" by fastforce
    have "0 < n" "n \<le> Suc (length cs)" using DecodeRune_width [OF d] by auto
    moreover have "length (quote_body (drop (n - 1) cs)) \<le> 6 * length (drop (n - 1) cs)"
      using 2(2) [OF False d [symmetric]] .
    ultimately show ?thesis
      using False d by (auto simp: quote_body.simps(2))
  qed
qed simp

lemma length_quote: "length (quote s) \<le> 6 * length s + 2"
  using length_quote_body [of s] by (simp add: quote_def)

lemma quote_body_ascii:
  "list_all html_safe s \<Longrightarrow> quote_body s = s"
  by (induction s) (auto simp: quote_body.simps(2) html_safe_def)

end
