(* ===== verification/Go_Time.thy ===== *)
theory Go_Time
  imports Main
begin

section \<open>Instants and durations\<close>

text \<open>
  A Go \<open>time.Time\<close> is modelled by its instant, in nanoseconds since the Unix
  epoch, and a \<open>time.Duration\<close> by its nanoseconds; locations and the monotonic
  reading play no part in the queue, which compares and stores instants only, so
  \<open>t.UTC()\<close> is the identity. PostgreSQL's \<open>timestamptz\<close> has microsecond
  precision: a Go instant bound to a column is truncated to it, and a
  \<open>clock_timestamp()\<close> reading has it already.
\<close>

type_synonym time = int
type_synonym duration = int

abbreviation Microsecond :: duration where "Microsecond \<equiv> 1000"
abbreviation Millisecond :: duration where "Millisecond \<equiv> 1000000"
abbreviation Second :: duration where "Second \<equiv> 1000000000"
abbreviation Hour :: duration where "Hour \<equiv> 3600000000000"

text \<open>The zero \<open>time.Time\<close> is the first instant of year 1.\<close>

definition zero_time :: time where
  "zero_time = - 62135596800000000000"

definition IsZero :: "time \<Rightarrow> bool" where
  "IsZero t \<longleftrightarrow> t = zero_time"

text \<open>\<open>Truncate(time.Microsecond)\<close>: Go rounds down since the zero time, which is a
  whole number of microseconds.\<close>

definition Durable :: "time \<Rightarrow> time" where
  "Durable t = t div Microsecond * Microsecond"

text \<open>\<open>Duration.Milliseconds\<close> and \<open>Duration.Microseconds\<close> round toward zero.\<close>

definition Milliseconds :: "duration \<Rightarrow> int" where
  "Milliseconds d = (if 0 \<le> d then d div Millisecond else - ((- d) div Millisecond))"

definition Microseconds :: "duration \<Rightarrow> int" where
  "Microseconds d = (if 0 \<le> d then d div Microsecond else - ((- d) div Microsecond))"

text \<open>\<open>Time.Sub\<close> saturates at the bounds of a 64-bit duration.\<close>

definition Sub :: "time \<Rightarrow> time \<Rightarrow> duration" where
  "Sub t u = max (- (2 ^ 63)) (min (2 ^ 63 - 1) (t - u))"

lemma Durable_le: "Durable t \<le> t"
  by (simp add: Durable_def)

lemma Durable_mono: "s \<le> t \<Longrightarrow> Durable s \<le> Durable t"
  by (simp add: Durable_def zdiv_mono1)

lemma Durable_idem [simp]: "Durable (Durable t) = Durable t"
  by (simp add: Durable_def)

end
