(* ===== verification/Queue_Types.thy ===== *)
theory Queue_Types
  imports Go_Json_Print Go_Time
begin

section \<open>The queue's constants, errors and requests\<close>

text \<open>
  The closed vocabulary of \<open>internal/queue/queue.go\<close>: job kinds, bounds of the
  leased job's fields with the response-size arithmetic built on them, statuses
  and delivery coordinates, the error values the package returns, the request
  and result structs, and the validators of the lease requests.
\<close>

subsection \<open>Kinds\<close>

definition KindRuntimeInput :: bytes where [kind_simps]: "KindRuntimeInput = ''runtime_input''"
definition KindRuntimeRecovery :: bytes where [kind_simps]: "KindRuntimeRecovery = ''runtime_recovery''"
definition KindRuntimeConfigUpdate :: bytes where [kind_simps]: "KindRuntimeConfigUpdate = ''runtime_config_update''"
definition KindCleanupSession :: bytes where [kind_simps]: "KindCleanupSession = ''cleanup_session''"
definition KindSessionDeleteCleanup :: bytes where [kind_simps]: "KindSessionDeleteCleanup = ''session_delete_cleanup''"
definition KindEnvironmentBuild :: bytes where [kind_simps]: "KindEnvironmentBuild = ''environment_build''"
definition KindEnvironmentReadyFanout :: bytes where [kind_simps]: "KindEnvironmentReadyFanout = ''environment_ready_fanout''"
definition KindSandboxToolExecute :: bytes where [kind_simps]: "KindSandboxToolExecute = ''sandbox_tool_execute''"
definition KindSandboxActivate :: bytes where [kind_simps]: "KindSandboxActivate = ''sandbox_activate''"
definition KindSandboxMaterialize :: bytes where [kind_simps]: "KindSandboxMaterialize = ''sandbox_materialize''"
definition KindSandboxRelease :: bytes where [kind_simps]: "KindSandboxRelease = ''sandbox_release''"
definition KindSandboxToolCancel :: bytes where [kind_simps]: "KindSandboxToolCancel = ''sandbox_tool_cancel''"
definition KindSandboxOutputCapture :: bytes where [kind_simps]: "KindSandboxOutputCapture = ''sandbox_output_capture''"
definition KindSandboxOutputCaptureCleanup :: bytes where [kind_simps]: "KindSandboxOutputCaptureCleanup = ''sandbox_output_capture_cleanup''"
definition KindSandboxMemoryProjection :: bytes where [kind_simps]: "KindSandboxMemoryProjection = ''sandbox_memory_projection''"
definition KindSandboxBackgroundCommand :: bytes where [kind_simps]: "KindSandboxBackgroundCommand = ''sandbox_background_command''"
definition KindSandboxBackgroundReconcile :: bytes where [kind_simps]: "KindSandboxBackgroundReconcile = ''sandbox_background_reconcile''"

definition IsJobRunnerKind :: "bytes \<Rightarrow> bool" where
  "IsJobRunnerKind kind \<longleftrightarrow> kind \<in> set
     [KindRuntimeInput, KindRuntimeRecovery, KindRuntimeConfigUpdate, KindCleanupSession,
      KindSessionDeleteCleanup]"

definition isSandboxLifecycleKind :: "bytes \<Rightarrow> bool" where
  "isSandboxLifecycleKind kind \<longleftrightarrow> kind \<in> set
     [KindSandboxActivate, KindSandboxMaterialize, KindSandboxRelease]"

definition IsSandboxJobKind :: "bytes \<Rightarrow> bool" where
  "IsSandboxJobKind kind \<longleftrightarrow> kind \<in> set
     [KindSandboxToolExecute, KindSandboxActivate, KindSandboxMaterialize, KindSandboxRelease,
      KindSandboxToolCancel, KindSandboxOutputCapture, KindSandboxOutputCaptureCleanup,
      KindSandboxMemoryProjection, KindSandboxBackgroundCommand, KindSandboxBackgroundReconcile]"

definition isKnownKind :: "bytes \<Rightarrow> bool" where
  "isKnownKind kind \<longleftrightarrow> kind \<in> set
     [KindRuntimeInput, KindRuntimeRecovery, KindRuntimeConfigUpdate, KindCleanupSession,
      KindSessionDeleteCleanup, KindEnvironmentBuild, KindEnvironmentReadyFanout,
      KindSandboxToolExecute, KindSandboxActivate, KindSandboxMaterialize, KindSandboxRelease,
      KindSandboxToolCancel, KindSandboxOutputCapture, KindSandboxOutputCaptureCleanup,
      KindSandboxMemoryProjection, KindSandboxBackgroundCommand, KindSandboxBackgroundReconcile]"

definition RuntimeInputKindMachineMessage :: bytes where
  [kind_simps]: "RuntimeInputKindMachineMessage = ''machine_message''"

definition NonStartingRuntimeInputKinds :: "bytes list" where
  "NonStartingRuntimeInputKinds = [RuntimeInputKindMachineMessage]"

definition IsNonStartingRuntimeInputKind :: "bytes \<Rightarrow> bool" where
  "IsNonStartingRuntimeInputKind inputKind \<longleftrightarrow> inputKind \<in> set NonStartingRuntimeInputKinds"

definition isRuntimeInputKind :: "bytes \<Rightarrow> bool" where
  "isRuntimeInputKind inputKind \<longleftrightarrow> inputKind \<in> set
     [''messages'', ''interrupt_control'', ''tool_confirmation'', ''task_notification'',
      ''agent_mail'', ''approval_review'', ''rejection'', RuntimeInputKindMachineMessage]"

text \<open>Every known kind is served by exactly one consumer class.\<close>

lemma known_kind_cases:
  "isKnownKind k \<longleftrightarrow>
     IsJobRunnerKind k \<or> k = KindEnvironmentBuild \<or> k = KindEnvironmentReadyFanout \<or> IsSandboxJobKind k"
  by (auto simp: isKnownKind_def IsJobRunnerKind_def IsSandboxJobKind_def)

lemma job_runner_not_sandbox: "IsJobRunnerKind k \<Longrightarrow> \<not> IsSandboxJobKind k"
  by (auto simp: IsJobRunnerKind_def IsSandboxJobKind_def kind_simps)

subsection \<open>Statuses, scopes, classes\<close>

datatype status = Pending | Leased | Acknowledged | Cancelled | DeadLettered

fun status_text :: "status \<Rightarrow> bytes" where
  "status_text Pending = ''pending''"
| "status_text Leased = ''leased''"
| "status_text Acknowledged = ''acknowledged''"
| "status_text Cancelled = ''cancelled''"
| "status_text DeadLettered = ''dead_lettered''"

datatype delivery_scope = ScopePartition | ScopeThread | ScopeSession

datatype control_class = Ordinary | Interrupt | AgentMail

definition active :: "status \<Rightarrow> bool" where
  "active s \<longleftrightarrow> s = Pending \<or> s = Leased"

definition terminal :: "status \<Rightarrow> bool" where
  "terminal s \<longleftrightarrow> s = Acknowledged \<or> s = Cancelled \<or> s = DeadLettered"

lemma terminal_iff_not_active: "terminal s \<longleftrightarrow> \<not> active s"
  by (cases s) (auto simp: terminal_def active_def)

definition JobRunnerTerminalStates :: "status list" where
  "JobRunnerTerminalStates = [Acknowledged, Cancelled, DeadLettered]"

subsection \<open>Errors\<close>

text \<open>
  \<open>WrongKey kind column want\<close> is the \<open>ValidationError\<close> whose message is
  \<open>"<kind> <column> must be %q"\<close>; the quoting of \<open>want\<close> inside that message is kept
  symbolic. \<open>DatabaseError\<close> carries the SQLSTATE of a statement PostgreSQL rejects,
  \<open>OtherError\<close> the text of an \<open>errors.New\<close>, and \<open>RandomUnavailable\<close> is a failed read
  of the system's random source.
\<close>

datatype error =
    ValidationError bytes
  | WrongKey bytes bytes bytes
  | IntegrityError bytes
  | PreconditionError bytes
  | ErrJobRunnerSchedulerClosed
  | ErrNoRows
  | DatabaseError bytes
  | RandomUnavailable
  | OtherError bytes

fun IsValidationError :: "error \<Rightarrow> bool" where
  "IsValidationError (ValidationError m) = True"
| "IsValidationError (WrongKey k c w) = True"
| "IsValidationError _ = False"

fun IsIntegrityError :: "error \<Rightarrow> bool" where
  "IsIntegrityError (IntegrityError m) = True"
| "IsIntegrityError _ = False"

fun IsPreconditionError :: "error \<Rightarrow> bool" where
  "IsPreconditionError (PreconditionError m) = True"
| "IsPreconditionError _ = False"

type_synonym 'a res = "(error, 'a) result"

subsection \<open>Bounds\<close>

definition JobIDPrefix :: bytes where "JobIDPrefix = ''qjob_''"
definition LeaseTokenSize :: nat where "LeaseTokenSize = 16"
definition MaxWorkspaceIDBytes :: nat where "MaxWorkspaceIDBytes = 128"
definition MaxMcpManifestBytes :: nat where "MaxMcpManifestBytes = 256 * 1024"
definition MaxRuntimeInputEventRefsPerJob :: nat where "MaxRuntimeInputEventRefsPerJob = 512"
definition MaxQueueJobPayloadBytes :: nat where "MaxQueueJobPayloadBytes = 64 * 1024"
definition MaxQueueLeaseOwnerBytes :: nat where "MaxQueueLeaseOwnerBytes = 256"
definition MaxQueuePartitionKeyBytes :: nat where "MaxQueuePartitionKeyBytes = 512"
definition MaxQueueDedupeKeyBytes :: nat where "MaxQueueDedupeKeyBytes = 1280"
definition MaxQueueJobIDBytes :: nat where "MaxQueueJobIDBytes = length JobIDPrefix + 16"
definition MaxQueueJobKindBytes :: nat where "MaxQueueJobKindBytes = length KindSandboxOutputCaptureCleanup"
definition MaxQueueJobStatusBytes :: nat where "MaxQueueJobStatusBytes = length (status_text DeadLettered)"
definition MaxQueueTimestampBytes :: nat where "MaxQueueTimestampBytes = 35"
definition MaxQueueLeaseTokenBytes :: nat where "MaxQueueLeaseTokenBytes = length ''qlt_'' + 2 * LeaseTokenSize"
definition MaxQueueTraceContextBytes :: nat where "MaxQueueTraceContextBytes = 55"
definition maxProtoFieldTagBytes :: nat where "maxProtoFieldTagBytes = 2"
definition maxProtoStringLengthBytes :: nat where "maxProtoStringLengthBytes = 3"
definition maxProtoInt32Bytes :: nat where "maxProtoInt32Bytes = 10"
definition queueLeaseRepeatedTagBytes :: nat where "queueLeaseRepeatedTagBytes = 1"
definition queueLeaseJobLengthBytes :: nat where "queueLeaseJobLengthBytes = 3"
definition QueueLeaseResponseFixedOverhead :: nat where "QueueLeaseResponseFixedOverhead = 64 * 1024"
definition jobRunnerLeaseRetryHintBytes :: nat where "jobRunnerLeaseRetryHintBytes = 6"
definition MaxQueueLeaseGRPCMessageBytes :: nat where "MaxQueueLeaseGRPCMessageBytes = 4 * 1024 * 1024"
definition DefaultMaxAttempts :: int where "DefaultMaxAttempts = 10"
definition EnvironmentBuildPollInterval :: duration where "EnvironmentBuildPollInterval = 30 * Second"
definition SandboxTerminalRetentionAge :: duration where "SandboxTerminalRetentionAge = 24 * Hour"
definition SandboxMaintenanceBatchLimit :: int where "SandboxMaintenanceBatchLimit = 100"
definition JobRunnerTerminalRetentionAge :: duration where "JobRunnerTerminalRetentionAge = 24 * Hour"
definition JobRunnerDeadLetterRetentionAge :: duration where "JobRunnerDeadLetterRetentionAge = 7 * 24 * Hour"
definition JobRunnerRetentionStateLimit :: int where "JobRunnerRetentionStateLimit = 256"
definition MinJobRunnerLeaseDuration :: duration where "MinJobRunnerLeaseDuration = 5 * Second"
definition MaxJobRunnerLeaseDuration :: duration where "MaxJobRunnerLeaseDuration = 300 * Second"

lemmas bound_defs =
  JobIDPrefix_def LeaseTokenSize_def MaxWorkspaceIDBytes_def MaxQueueJobPayloadBytes_def
  MaxQueueLeaseOwnerBytes_def MaxQueuePartitionKeyBytes_def MaxQueueDedupeKeyBytes_def
  MaxQueueJobIDBytes_def MaxQueueJobKindBytes_def MaxQueueJobStatusBytes_def
  MaxQueueTimestampBytes_def MaxQueueLeaseTokenBytes_def MaxQueueTraceContextBytes_def
  maxProtoFieldTagBytes_def maxProtoStringLengthBytes_def maxProtoInt32Bytes_def
  queueLeaseRepeatedTagBytes_def queueLeaseJobLengthBytes_def QueueLeaseResponseFixedOverhead_def
  jobRunnerLeaseRetryHintBytes_def MaxQueueLeaseGRPCMessageBytes_def

record QueueJobFieldBound =
  Name :: bytes
  MaxValueBytes :: nat
  Numeric :: bool
  SeparatePayload :: bool

abbreviation text_bound :: "bytes \<Rightarrow> nat \<Rightarrow> QueueJobFieldBound" where
  "text_bound n m \<equiv> \<lparr>Name = n, MaxValueBytes = m, Numeric = False, SeparatePayload = False\<rparr>"

abbreviation numeric_bound :: "bytes \<Rightarrow> nat \<Rightarrow> QueueJobFieldBound" where
  "numeric_bound n m \<equiv> \<lparr>Name = n, MaxValueBytes = m, Numeric = True, SeparatePayload = False\<rparr>"

definition queueJobFieldBounds :: "QueueJobFieldBound list" where
  "queueJobFieldBounds =
     [text_bound ''id'' MaxQueueJobIDBytes,
      text_bound ''workspace_id'' MaxWorkspaceIDBytes,
      text_bound ''kind'' MaxQueueJobKindBytes,
      text_bound ''partition_key'' MaxQueuePartitionKeyBytes,
      text_bound ''dedupe_key'' MaxQueueDedupeKeyBytes,
      numeric_bound ''payload_version'' maxProtoInt32Bytes,
      \<lparr>Name = ''payload_json'', MaxValueBytes = MaxQueueJobPayloadBytes, Numeric = False,
        SeparatePayload = True\<rparr>,
      text_bound ''status'' MaxQueueJobStatusBytes,
      numeric_bound ''priority'' maxProtoInt32Bytes,
      text_bound ''available_at'' MaxQueueTimestampBytes,
      text_bound ''leased_by'' MaxQueueLeaseOwnerBytes,
      text_bound ''lease_token'' MaxQueueLeaseTokenBytes,
      text_bound ''leased_at'' MaxQueueTimestampBytes,
      text_bound ''leased_until'' MaxQueueTimestampBytes,
      numeric_bound ''attempt_count'' maxProtoInt32Bytes,
      numeric_bound ''max_attempts'' maxProtoInt32Bytes,
      text_bound ''trace_context'' MaxQueueTraceContextBytes]"

definition QueueJobFieldEnvelopeBytes :: "QueueJobFieldBound \<Rightarrow> nat" where
  "QueueJobFieldEnvelopeBytes b =
     (if Numeric b then maxProtoFieldTagBytes + MaxValueBytes b
      else maxProtoFieldTagBytes + maxProtoStringLengthBytes +
        (if SeparatePayload b then 0 else MaxValueBytes b))"

definition queueJobEnvelopeAllowance :: nat where
  "queueJobEnvelopeAllowance =
     fold (\<lambda>b total. total + QueueJobFieldEnvelopeBytes b) queueJobFieldBounds
       (queueLeaseRepeatedTagBytes + queueLeaseJobLengthBytes)"

definition MaxQueueLeaseJobs :: nat where
  "MaxQueueLeaseJobs =
     (MaxQueueLeaseGRPCMessageBytes - QueueLeaseResponseFixedOverhead) div
     (MaxQueueJobPayloadBytes + queueJobEnvelopeAllowance)"

definition MaxJobRunnerLeaseJobs :: nat where
  "MaxJobRunnerLeaseJobs =
     (MaxQueueLeaseGRPCMessageBytes - QueueLeaseResponseFixedOverhead - jobRunnerLeaseRetryHintBytes) div
     (MaxQueueJobPayloadBytes + queueJobEnvelopeAllowance)"

lemma allowance_eval: "queueJobEnvelopeAllowance = 2553"
  by (simp add: queueJobEnvelopeAllowance_def queueJobFieldBounds_def QueueJobFieldEnvelopeBytes_def
      bound_defs kind_simps)

lemma lease_jobs_eval: "MaxQueueLeaseJobs = 60" "MaxJobRunnerLeaseJobs = 60"
  by (simp_all add: MaxQueueLeaseJobs_def MaxJobRunnerLeaseJobs_def allowance_eval bound_defs)

subsection \<open>Jobs and requests\<close>

text \<open>The \<open>Job\<close> a lease returns. Go's nullable \<open>*time.Time\<close> fields are options.\<close>

record Job =
  job_ID :: bytes
  job_WorkspaceID :: bytes
  job_Kind :: bytes
  job_PartitionKey :: bytes
  job_QueuePartitionSequence :: int
  job_DedupeKey :: bytes
  job_PayloadVersion :: int
  job_PayloadJSON :: bytes
  job_Status :: status
  job_Priority :: int
  job_AvailableAt :: time
  job_LeasedBy :: bytes
  job_LeaseToken :: bytes
  job_LeasedAt :: "time option"
  job_LeasedUntil :: "time option"
  job_AttemptCount :: int
  job_MaxAttempts :: int
  job_CreatedAt :: time
  job_UpdatedAt :: time
  job_TraceContext :: bytes
  job_ReadyAt :: time

text \<open>In a request the empty scope and class a producer leaves unset are \<open>None\<close>.\<close>

record EnqueueRequest =
  er_ID :: bytes
  er_WorkspaceID :: bytes
  er_Kind :: bytes
  er_PartitionKey :: bytes
  er_DedupeKey :: bytes
  er_PayloadVersion :: int
  er_PayloadJSON :: bytes
  er_Priority :: int
  er_MaxAttempts :: int
  er_AvailableAt :: time
  er_Now :: time
  er_CausalSessionID :: bytes
  er_DeliveryScope :: "delivery_scope option"
  er_DeliveryThreadID :: bytes
  er_ControlClass :: "control_class option"

record LeaseRequest =
  lr_WorkspaceID :: bytes
  lr_Kinds :: "bytes list"
  lr_LeaseOwner :: bytes
  lr_MaxJobs :: int
  lr_LeaseDuration :: duration
  lr_Now :: time

record LeaseJobRunnerJobsRequest =
  jr_LeaseOwner :: bytes
  jr_MaxJobs :: int
  jr_LeaseDuration :: duration

text \<open>The identity of one live lease, and the complete identity of a leased job.\<close>

record ActiveLeaseRequest =
  al_WorkspaceID :: bytes
  al_JobID :: bytes
  al_LeaseToken :: bytes

record ExactLeaseRequest =
  xl_WorkspaceID :: bytes
  xl_JobID :: bytes
  xl_LeaseToken :: bytes
  xl_Kind :: bytes
  xl_PartitionKey :: bytes
  xl_DedupeKey :: bytes

text \<open>Minting of ids and tokens from the bytes the random source returned.\<close>

definition id_New :: "bytes \<Rightarrow> bytes \<Rightarrow> bytes" where
  "id_New rnd prefix = prefix @ EncodeToString rnd"

definition NewJobID :: "bytes \<Rightarrow> bytes" where
  "NewJobID rnd = id_New rnd JobIDPrefix"

definition NewLeaseToken :: "bytes option \<Rightarrow> bytes res" where
  "NewLeaseToken rnd =
     (case rnd of None \<Rightarrow> Inl RandomUnavailable | Some bs \<Rightarrow> Inr (''qlt_'' @ EncodeToString bs))"

lemma length_NewJobID: "length rnd = 8 \<Longrightarrow> length (NewJobID rnd) = MaxQueueJobIDBytes"
  by (simp add: NewJobID_def id_New_def MaxQueueJobIDBytes_def)

lemma NewJobID_not_Nil [simp]: "NewJobID rnd \<noteq> []"
  by (simp add: NewJobID_def id_New_def JobIDPrefix_def)

lemma NewLeaseToken_bound:
  "NewLeaseToken (Some bs) = Inr t \<Longrightarrow> length bs = LeaseTokenSize \<Longrightarrow> length t = MaxQueueLeaseTokenBytes"
  by (auto simp: NewLeaseToken_def bound_defs)

lemma NewLeaseToken_not_Nil: "NewLeaseToken rnd = Inr t \<Longrightarrow> t \<noteq> []"
  by (auto simp: NewLeaseToken_def split: option.splits)

subsection \<open>Validation of lease requests\<close>

definition ValidateLeaseOwner :: "bytes \<Rightarrow> unit res" where
  "ValidateLeaseOwner leaseOwner =
     andThen (ensure (leaseOwner \<noteq> []) (ValidationError ''lease_owner is required'')) (\<lambda>_.
     ensure (length leaseOwner \<le> MaxQueueLeaseOwnerBytes)
       (ValidationError ''lease_owner exceeds the maximum queue transport size''))"

definition capacity_message :: "nat \<Rightarrow> bytes" where
  "capacity_message m =
     ''max_jobs must not exceed '' @ FormatInt (int m) @ '' under the queue Lease message capacity''"

definition ValidateLeaseBatchSize :: "int \<Rightarrow> unit res" where
  "ValidateLeaseBatchSize maxJobs =
     andThen (ensure (0 < maxJobs) (ValidationError ''max_jobs must be positive'')) (\<lambda>_.
     ensure (maxJobs \<le> int MaxQueueLeaseJobs) (ValidationError (capacity_message MaxQueueLeaseJobs)))"

definition ValidateJobRunnerLeaseBatchSize :: "int \<Rightarrow> unit res" where
  "ValidateJobRunnerLeaseBatchSize maxJobs =
     andThen (ensure (0 < maxJobs) (ValidationError ''max_jobs must be positive'')) (\<lambda>_.
     ensure (maxJobs \<le> int MaxJobRunnerLeaseJobs)
       (ValidationError (capacity_message MaxJobRunnerLeaseJobs)))"

definition jobRunnerLeaseDurationError :: error where
  "jobRunnerLeaseDurationError = ValidationError
     (''lease_duration_ms must be between '' @ FormatInt (Milliseconds MinJobRunnerLeaseDuration) @
      '' and '' @ FormatInt (Milliseconds MaxJobRunnerLeaseDuration))"

definition ValidateJobRunnerLeaseDuration :: "duration \<Rightarrow> unit res" where
  "ValidateJobRunnerLeaseDuration d =
     ensure (MinJobRunnerLeaseDuration \<le> d \<and> d \<le> MaxJobRunnerLeaseDuration)
       jobRunnerLeaseDurationError"

definition JobRunnerLeaseDurationFromMillis :: "int \<Rightarrow> duration res" where
  "JobRunnerLeaseDurationFromMillis millis =
     (if millis < Milliseconds MinJobRunnerLeaseDuration \<or> Milliseconds MaxJobRunnerLeaseDuration < millis
      then Inl jobRunnerLeaseDurationError
      else Inr (millis * Millisecond))"

definition ValidateLeaseJobRunnerJobsRequest :: "LeaseJobRunnerJobsRequest \<Rightarrow> unit res" where
  "ValidateLeaseJobRunnerJobsRequest request =
     andThen (ValidateLeaseOwner (jr_LeaseOwner request)) (\<lambda>_.
     andThen (ValidateJobRunnerLeaseBatchSize (jr_MaxJobs request)) (\<lambda>_.
     ValidateJobRunnerLeaseDuration (jr_LeaseDuration request)))"

text \<open>The loop over the requested kinds, with the kinds already seen.\<close>

fun validate_kinds :: "bytes list \<Rightarrow> bytes list \<Rightarrow> unit res" where
  "validate_kinds seen [] = Inr ()"
| "validate_kinds seen (kind # kinds) =
     andThen (ensure (kind \<noteq> []) (ValidationError ''kinds must not contain empty values'')) (\<lambda>_.
     andThen (ensure (isKnownKind kind) (ValidationError (''unknown queue job kind: '' @ kind))) (\<lambda>_.
     andThen (ensure (kind \<notin> set seen) (ValidationError ''kinds must not contain duplicates'')) (\<lambda>_.
     validate_kinds (kind # seen) kinds)))"

definition ValidateLeaseRequest :: "LeaseRequest \<Rightarrow> unit res" where
  "ValidateLeaseRequest request =
     andThen (ensure (lr_WorkspaceID request \<noteq> []) (ValidationError ''workspace_id is required'')) (\<lambda>_.
     andThen (ensure (length (lr_WorkspaceID request) \<le> MaxWorkspaceIDBytes)
       (ValidationError ''workspace_id exceeds the maximum queue transport size'')) (\<lambda>_.
     andThen (ensure (lr_Kinds request \<noteq> []) (ValidationError ''kinds is required'')) (\<lambda>_.
     andThen (validate_kinds [] (lr_Kinds request)) (\<lambda>_.
     andThen (ValidateLeaseOwner (lr_LeaseOwner request)) (\<lambda>_.
     andThen (ensure (0 < lr_MaxJobs request) (ValidationError ''max_jobs must be positive'')) (\<lambda>_.
     andThen (ValidateLeaseBatchSize (lr_MaxJobs request)) (\<lambda>_.
     ensure (0 < lr_LeaseDuration request) (ValidationError ''lease_duration must be positive''))))))))"

definition validateFencedRequest :: "bytes \<Rightarrow> bytes \<Rightarrow> bytes \<Rightarrow> unit res" where
  "validateFencedRequest workspaceID jobID leaseToken =
     andThen (ensure (workspaceID \<noteq> []) (ValidationError ''workspace_id is required'')) (\<lambda>_.
     andThen (ensure (jobID \<noteq> []) (ValidationError ''job_id is required'')) (\<lambda>_.
     ensure (leaseToken \<noteq> []) (ValidationError ''lease_token is required'')))"

lemma validate_kinds_ok:
  "validate_kinds seen ks = Inr () \<longleftrightarrow>
     distinct ks \<and> set ks \<inter> set seen = {} \<and> (\<forall>k\<in>set ks. k \<noteq> [] \<and> isKnownKind k)"
  by (induction ks arbitrary: seen) (auto simp: andThen_Inr_iff)

lemma ValidateLeaseRequest_ok:
  "ValidateLeaseRequest r = Inr () \<longleftrightarrow>
     lr_WorkspaceID r \<noteq> [] \<and> length (lr_WorkspaceID r) \<le> 128 \<and>
     lr_Kinds r \<noteq> [] \<and> distinct (lr_Kinds r) \<and> (\<forall>k\<in>set (lr_Kinds r). isKnownKind k) \<and>
     lr_LeaseOwner r \<noteq> [] \<and> length (lr_LeaseOwner r) \<le> 256 \<and>
     0 < lr_MaxJobs r \<and> lr_MaxJobs r \<le> 60 \<and> 0 < lr_LeaseDuration r"
proof -
  have "isKnownKind k \<Longrightarrow> k \<noteq> []" for k by (auto simp: isKnownKind_def kind_simps)
  then show ?thesis
    by (auto simp: ValidateLeaseRequest_def ValidateLeaseOwner_def ValidateLeaseBatchSize_def
        andThen_Inr_iff validate_kinds_ok lease_jobs_eval bound_defs)
qed

lemma JobRunnerLeaseDurationFromMillis_iff:
  "JobRunnerLeaseDurationFromMillis ms = Inr d \<longleftrightarrow>
     d = ms * Millisecond \<and> ValidateJobRunnerLeaseDuration d = Inr ()"
  by (auto simp: JobRunnerLeaseDurationFromMillis_def ValidateJobRunnerLeaseDuration_def
      MinJobRunnerLeaseDuration_def MaxJobRunnerLeaseDuration_def Milliseconds_def)

end
