(* ===== verification/Queue_Keys.thy ===== *)
theory Queue_Keys
  imports Queue_Types
begin

section \<open>Partition keys and dedupe keys\<close>

text \<open>
  The formatters of \<open>internal/queue/queue.go\<close> that compose a job's partition key
  and dedupe key from its identity. A formatter returns the empty string where a
  component is missing. The lemmas say what the keys identify: a dedupe key
  names its kind, and with separator-free leading components it names the whole
  identity.
\<close>

abbreviation colon :: char where "colon \<equiv> CHR '':''"

definition FormatPartitionKey :: "bytes \<Rightarrow> bytes \<Rightarrow> bytes \<Rightarrow> bytes" where
  "FormatPartitionKey prefix workspaceID resourceID =
     (if prefix = [] \<or> workspaceID = [] \<or> resourceID = [] then []
      else prefix @ '':'' @ workspaceID @ '':'' @ resourceID)"

definition FormatSessionPartitionKey :: "bytes \<Rightarrow> bytes \<Rightarrow> bytes" where
  "FormatSessionPartitionKey workspaceID sessionID = FormatPartitionKey ''session'' workspaceID sessionID"

definition FormatEnvironmentPartitionKey :: "bytes \<Rightarrow> bytes \<Rightarrow> bytes" where
  "FormatEnvironmentPartitionKey workspaceID environmentID =
     FormatPartitionKey ''environment'' workspaceID environmentID"

definition formatQueueDedupeKey :: "bytes \<Rightarrow> bytes \<Rightarrow> bytes \<Rightarrow> bytes \<Rightarrow> bytes" where
  "formatQueueDedupeKey kind workspaceID ownerID itemID =
     (if kind = [] \<or> workspaceID = [] \<or> ownerID = [] \<or> itemID = [] then []
      else kind @ '':'' @ workspaceID @ '':'' @ ownerID @ '':'' @ itemID)"

definition formatSandboxExecutionDedupeKey ::
    "bytes \<Rightarrow> bytes \<Rightarrow> bytes \<Rightarrow> bytes \<Rightarrow> bytes \<Rightarrow> bytes \<Rightarrow> bytes" where
  "formatSandboxExecutionDedupeKey kind workspaceID sessionID sessionThreadID toolUseEventID suffix =
     (if kind = [] \<or> workspaceID = [] \<or> sessionID = [] \<or> sessionThreadID = [] \<or>
         toolUseEventID = [] \<or> suffix = [] then []
      else kind @ '':'' @ workspaceID @ '':'' @ sessionID @ '':'' @ sessionThreadID @ '':'' @
        toolUseEventID @ '':'' @ suffix)"

definition FormatRuntimeInputDedupeKey :: "bytes \<Rightarrow> bytes \<Rightarrow> bytes \<Rightarrow> bytes" where
  "FormatRuntimeInputDedupeKey workspaceID sessionID runtimeInputID =
     (if workspaceID = [] \<or> sessionID = [] \<or> runtimeInputID = [] then []
      else ''runtime_input:'' @ workspaceID @ '':'' @ sessionID @ '':'' @ runtimeInputID)"

definition FormatRuntimeRecoveryDedupeKey :: "bytes \<Rightarrow> bytes \<Rightarrow> bytes \<Rightarrow> bytes" where
  "FormatRuntimeRecoveryDedupeKey workspaceID sessionID sourceEventID =
     formatQueueDedupeKey KindRuntimeRecovery workspaceID sessionID sourceEventID"

definition FormatRuntimeHandoffDedupeKey :: "bytes \<Rightarrow> bytes \<Rightarrow> bytes \<Rightarrow> bytes \<Rightarrow> bytes" where
  "FormatRuntimeHandoffDedupeKey workspaceID sessionID sessionThreadID handoffID =
     formatQueueDedupeKey KindRuntimeRecovery workspaceID sessionID
       (''handoff:'' @ sessionThreadID @ '':'' @ handoffID)"

definition FormatTaskNotificationRuntimeInputID :: "bytes \<Rightarrow> bytes" where
  "FormatTaskNotificationRuntimeInputID taskID =
     (if taskID = [] then [] else ''task_notification:'' @ taskID)"

definition FormatRuntimeConfigUpdateDedupeKey :: "bytes \<Rightarrow> bytes \<Rightarrow> bytes \<Rightarrow> bytes" where
  "FormatRuntimeConfigUpdateDedupeKey workspaceID sessionID configGeneration =
     formatQueueDedupeKey KindRuntimeConfigUpdate workspaceID sessionID configGeneration"

definition FormatRuntimeMCPManifestUpdateDedupeKey :: "bytes \<Rightarrow> bytes \<Rightarrow> bytes \<Rightarrow> bytes \<Rightarrow> bytes" where
  "FormatRuntimeMCPManifestUpdateDedupeKey workspaceID sessionID mcpServerName manifestGeneration =
     formatQueueDedupeKey KindRuntimeConfigUpdate workspaceID sessionID
       (''mcp_manifest:'' @ mcpServerName @ '':'' @ manifestGeneration)"

definition FormatCleanupSessionDedupeKey :: "bytes \<Rightarrow> bytes \<Rightarrow> bytes \<Rightarrow> bytes" where
  "FormatCleanupSessionDedupeKey workspaceID sessionID cleanupJobID =
     formatQueueDedupeKey KindCleanupSession workspaceID sessionID cleanupJobID"

definition FormatSessionDeleteCleanupDedupeKey :: "bytes \<Rightarrow> bytes \<Rightarrow> bytes \<Rightarrow> bytes" where
  "FormatSessionDeleteCleanupDedupeKey workspaceID sessionID deleteCleanupID =
     formatQueueDedupeKey KindSessionDeleteCleanup workspaceID sessionID deleteCleanupID"

definition FormatEnvironmentBuildDedupeKey :: "bytes \<Rightarrow> bytes \<Rightarrow> bytes \<Rightarrow> bytes" where
  "FormatEnvironmentBuildDedupeKey workspaceID environmentID generation =
     formatQueueDedupeKey KindEnvironmentBuild workspaceID environmentID generation"

definition FormatEnvironmentReadyFanoutDedupeKey :: "bytes \<Rightarrow> bytes \<Rightarrow> bytes \<Rightarrow> bytes" where
  "FormatEnvironmentReadyFanoutDedupeKey workspaceID environmentID generation =
     formatQueueDedupeKey KindEnvironmentReadyFanout workspaceID environmentID generation"

definition FormatSandboxExecutionPartitionKey :: "bytes \<Rightarrow> bytes \<Rightarrow> bytes \<Rightarrow> bytes \<Rightarrow> bytes" where
  "FormatSandboxExecutionPartitionKey workspaceID sessionID sessionThreadID toolUseEventID =
     (if workspaceID = [] \<or> sessionID = [] \<or> sessionThreadID = [] \<or> toolUseEventID = [] then []
      else ''sandbox-execution:'' @ workspaceID @ '':'' @ sessionID @ '':'' @ sessionThreadID @ '':'' @
        toolUseEventID)"

definition FormatSandboxToolExecuteDedupeKey :: "bytes \<Rightarrow> bytes \<Rightarrow> bytes \<Rightarrow> bytes \<Rightarrow> int \<Rightarrow> bytes" where
  "FormatSandboxToolExecuteDedupeKey workspaceID sessionID sessionThreadID toolUseEventID generation =
     (if generation \<le> 0 then []
      else formatSandboxExecutionDedupeKey KindSandboxToolExecute workspaceID sessionID sessionThreadID
        toolUseEventID (FormatInt generation))"

definition FormatSandboxLifecyclePartitionKey :: "bytes \<Rightarrow> bytes \<Rightarrow> bytes" where
  "FormatSandboxLifecyclePartitionKey workspaceID logicalSandboxID =
     FormatPartitionKey ''sandbox-lifecycle'' workspaceID logicalSandboxID"

definition FormatSandboxLifecycleDedupeKey :: "bytes \<Rightarrow> bytes \<Rightarrow> bytes \<Rightarrow> bytes \<Rightarrow> bytes" where
  "FormatSandboxLifecycleDedupeKey kind workspaceID logicalSandboxID operationID =
     (if \<not> isSandboxLifecycleKind kind then []
      else formatQueueDedupeKey kind workspaceID logicalSandboxID operationID)"

definition FormatSandboxCancelPartitionKey :: "bytes \<Rightarrow> bytes \<Rightarrow> bytes \<Rightarrow> bytes \<Rightarrow> bytes" where
  "FormatSandboxCancelPartitionKey workspaceID sessionID sessionThreadID toolUseEventID =
     (if workspaceID = [] \<or> sessionID = [] \<or> sessionThreadID = [] \<or> toolUseEventID = [] then []
      else ''sandbox-cancel:'' @ workspaceID @ '':'' @ sessionID @ '':'' @ sessionThreadID @ '':'' @
        toolUseEventID)"

definition FormatSandboxToolCancelDedupeKey :: "bytes \<Rightarrow> bytes \<Rightarrow> bytes \<Rightarrow> bytes \<Rightarrow> bytes" where
  "FormatSandboxToolCancelDedupeKey workspaceID sessionID sessionThreadID toolUseEventID =
     formatSandboxExecutionDedupeKey KindSandboxToolCancel workspaceID sessionID sessionThreadID
       toolUseEventID ''cancel''"

definition FormatSandboxCapturePartitionKey :: "bytes \<Rightarrow> bytes \<Rightarrow> bytes \<Rightarrow> bytes" where
  "FormatSandboxCapturePartitionKey workspaceID sessionID finishIdleWriteID =
     (if workspaceID = [] \<or> sessionID = [] \<or> finishIdleWriteID = [] then []
      else ''sandbox-capture:'' @ workspaceID @ '':'' @ sessionID @ '':'' @ finishIdleWriteID)"

definition FormatSandboxOutputCaptureDedupeKey :: "bytes \<Rightarrow> bytes \<Rightarrow> bytes \<Rightarrow> int \<Rightarrow> bytes" where
  "FormatSandboxOutputCaptureDedupeKey workspaceID sessionID finishIdleWriteID captureGeneration =
     (if workspaceID = [] \<or> sessionID = [] \<or> finishIdleWriteID = [] \<or> captureGeneration \<le> 0 then []
      else KindSandboxOutputCapture @ '':'' @ workspaceID @ '':'' @ sessionID @ '':'' @
        finishIdleWriteID @ '':'' @ FormatInt captureGeneration)"

definition FormatSandboxOutputCaptureCleanupDedupeKey ::
    "bytes \<Rightarrow> bytes \<Rightarrow> bytes \<Rightarrow> int \<Rightarrow> int \<Rightarrow> bytes" where
  "FormatSandboxOutputCaptureCleanupDedupeKey workspaceID sessionID finishIdleWriteID
       captureGeneration cleanupGeneration =
     (if workspaceID = [] \<or> sessionID = [] \<or> finishIdleWriteID = [] \<or> captureGeneration \<le> 0 \<or>
         cleanupGeneration \<le> 0 then []
      else KindSandboxOutputCaptureCleanup @ '':'' @ workspaceID @ '':'' @ sessionID @ '':'' @
        finishIdleWriteID @ '':'' @ FormatInt captureGeneration @ '':'' @ FormatInt cleanupGeneration)"

definition FormatSandboxMemoryPartitionKey :: "bytes \<Rightarrow> bytes \<Rightarrow> bytes" where
  "FormatSandboxMemoryPartitionKey workspaceID memoryStoreID =
     FormatPartitionKey ''sandbox-memory'' workspaceID memoryStoreID"

definition FormatSandboxMemoryProjectionDedupeKey :: "bytes \<Rightarrow> bytes \<Rightarrow> bytes \<Rightarrow> bytes" where
  "FormatSandboxMemoryProjectionDedupeKey workspaceID memoryStoreID memoryWriteID =
     formatQueueDedupeKey KindSandboxMemoryProjection workspaceID memoryStoreID memoryWriteID"

definition FormatSandboxBackgroundPartitionKey :: "bytes \<Rightarrow> bytes \<Rightarrow> bytes \<Rightarrow> bytes" where
  "FormatSandboxBackgroundPartitionKey workspaceID sessionID taskID =
     (if workspaceID = [] \<or> sessionID = [] \<or> taskID = [] then []
      else ''sandbox-background:'' @ workspaceID @ '':'' @ sessionID @ '':'' @ taskID)"

definition FormatSandboxBackgroundCommandDedupeKey :: "bytes \<Rightarrow> bytes \<Rightarrow> bytes \<Rightarrow> bytes \<Rightarrow> bytes" where
  "FormatSandboxBackgroundCommandDedupeKey workspaceID sessionID taskID requestID =
     (if workspaceID = [] \<or> sessionID = [] \<or> taskID = [] \<or> requestID = [] then []
      else KindSandboxBackgroundCommand @ '':'' @ workspaceID @ '':'' @ sessionID @ '':'' @ taskID @
        '':'' @ requestID)"

definition FormatSandboxBackgroundReconcileDedupeKey :: "bytes \<Rightarrow> bytes \<Rightarrow> bytes \<Rightarrow> int \<Rightarrow> bytes" where
  "FormatSandboxBackgroundReconcileDedupeKey workspaceID sessionID taskID generation =
     (if workspaceID = [] \<or> sessionID = [] \<or> taskID = [] \<or> generation \<le> 0 then []
      else KindSandboxBackgroundReconcile @ '':'' @ workspaceID @ '':'' @ sessionID @ '':'' @ taskID @
        '':'' @ FormatInt generation)"

subsection \<open>What the keys identify\<close>

lemma colon_split:
  "colon \<notin> set a \<Longrightarrow> colon \<notin> set b \<Longrightarrow> a @ colon # s = b @ colon # t \<longleftrightarrow> a = b \<and> s = t"
  by (induction a arbitrary: b) (case_tac b; auto)+

definition before_colon :: "bytes \<Rightarrow> bytes" where
  "before_colon s = takeWhile (\<lambda>c. c \<noteq> colon) s"

lemma before_colon_append [simp]: "colon \<notin> set a \<Longrightarrow> before_colon (a @ colon # s) = a"
  by (induction a) (auto simp: before_colon_def)

lemma known_kind_no_colon: "isKnownKind k \<Longrightarrow> colon \<notin> set k \<and> k \<noteq> []"
  by (auto simp: isKnownKind_def kind_simps)

lemma formatQueueDedupeKey_kind:
  "formatQueueDedupeKey k w x y \<noteq> [] \<Longrightarrow> colon \<notin> set k \<Longrightarrow>
    before_colon (formatQueueDedupeKey k w x y) = k"
  by (auto simp: formatQueueDedupeKey_def split: if_splits)

lemma formatQueueDedupeKey_inj:
  assumes "formatQueueDedupeKey k w x y = formatQueueDedupeKey k' w' x' y'"
    and "formatQueueDedupeKey k w x y \<noteq> []"
    and "colon \<notin> set k \<union> set w \<union> set x" "colon \<notin> set k' \<union> set w' \<union> set x'"
  shows "k = k' \<and> w = w' \<and> x = x' \<and> y = y'"
  using assms by (auto simp: formatQueueDedupeKey_def colon_split split: if_splits)

lemma FormatPartitionKey_inj:
  assumes "FormatPartitionKey p w x = FormatPartitionKey p' w' x'"
    and "FormatPartitionKey p w x \<noteq> []"
    and "colon \<notin> set p \<union> set w" "colon \<notin> set p' \<union> set w'"
  shows "p = p' \<and> w = w' \<and> x = x'"
  using assms by (auto simp: FormatPartitionKey_def colon_split split: if_splits)

end
