(* ===== verification/Queue_Admission.thy ===== *)
theory Queue_Admission
  imports Queue_Keys
begin

section \<open>Admission of enqueue requests\<close>

text \<open>
  \<open>NormalizeEnqueueRequest\<close> of \<open>internal/queue/queue.go\<close> with everything it calls:
  decoding of the payload object, the canonical shape of each kind, the typed
  recovery payload of \<open>internal/queue/recovery.go\<close>, and the derivation of the
  structural delivery facts. A payload object is the list of its members in
  document order, of which the last with a given name counts. Go ranges over a
  map in an unspecified order when it looks for an unsupported field; the model
  fixes document order, which only decides the field such an error names.
\<close>

subsection \<open>Reading payload fields\<close>

type_synonym payload = "(bytes \<times> json) list"
type_synonym tokens = "bytes \<Rightarrow> bytes option"

definition decodePayloadObject :: "bytes \<Rightarrow> payload res" where
  "decodePayloadObject payloadJSON =
     (case Option.bind (Unmarshal payloadJSON) json_map of
        Some (Some raw) \<Rightarrow> Inr raw
      | _ \<Rightarrow> Inl (ValidationError ''payload_json must be a JSON object''))"

definition payloadToken :: "json \<Rightarrow> bytes option" where
  "payloadToken raw =
     (case json_string raw of
        Some text \<Rightarrow> if text \<noteq> [] then Some text else None
      | None \<Rightarrow> (case raw of JNumber n \<Rightarrow> if n \<noteq> [] then Some n else None | _ \<Rightarrow> None))"

definition payloadTokens :: "payload \<Rightarrow> tokens" where
  "payloadTokens raw key = Option.bind (field raw key) payloadToken"

text \<open>Indexing a Go map of strings: a missing key reads as the empty string.\<close>

definition token_at :: "tokens \<Rightarrow> bytes \<Rightarrow> bytes" where
  "token_at payload key = (case payload key of Some v \<Rightarrow> v | None \<Rightarrow> [])"

definition missing :: "bytes \<Rightarrow> error" where
  "missing key = ValidationError (''payload_json missing '' @ key)"

definition validatePayloadKeys :: "payload \<Rightarrow> bytes list \<Rightarrow> unit res" where
  "validatePayloadKeys raw allowed =
     (case find (\<lambda>key. key \<notin> set allowed) (map fst raw) of
        Some key \<Rightarrow> Inl (ValidationError (''payload_json contains unsupported field '' @ key))
      | None \<Rightarrow> Inr ())"

fun requirePayloadStrings :: "payload \<Rightarrow> bytes list \<Rightarrow> unit res" where
  "requirePayloadStrings raw [] = Inr ()"
| "requirePayloadStrings raw (key # keys) =
     (case field raw key of
        None \<Rightarrow> Inl (missing key)
      | Some v \<Rightarrow>
          (case json_string v of
             Some (c # text) \<Rightarrow> requirePayloadStrings raw keys
           | _ \<Rightarrow> Inl (ValidationError (''payload_json field '' @ key @ '' must be a non-empty string''))))"

definition requiredPayloadToken :: "tokens \<Rightarrow> bytes \<Rightarrow> bytes res" where
  "requiredPayloadToken payload key =
     (case payload key of
        Some v \<Rightarrow> if v \<noteq> [] then Inr v else Inl (missing key)
      | None \<Rightarrow> Inl (missing key))"

definition requiredPayloadTokens :: "tokens \<Rightarrow> bytes \<Rightarrow> bytes \<Rightarrow> (bytes \<times> bytes) res" where
  "requiredPayloadTokens payload first second =
     andThen (requiredPayloadToken payload first) (\<lambda>firstValue.
     andThen (requiredPayloadToken payload second) (\<lambda>secondValue.
     Inr (firstValue, secondValue)))"

definition parsePayloadInt64 :: "bytes \<Rightarrow> bytes \<Rightarrow> int res" where
  "parsePayloadInt64 value key =
     (case ParseInt value of
        Some parsed \<Rightarrow> Inr parsed
      | None \<Rightarrow> Inl (ValidationError (''payload_json field '' @ key @ '' must be an integer'')))"

definition requiredPayloadInt64 :: "tokens \<Rightarrow> bytes \<Rightarrow> int res" where
  "requiredPayloadInt64 payload key =
     andThen (requiredPayloadToken payload key) (\<lambda>value. parsePayloadInt64 value key)"

definition requiredPositivePayloadInt64 :: "tokens \<Rightarrow> bytes \<Rightarrow> int res" where
  "requiredPositivePayloadInt64 payload key =
     (case requiredPayloadInt64 payload key of
        Inr value \<Rightarrow>
          if 0 < value then Inr value
          else Inl (ValidationError (''payload_json field '' @ key @ '' must be positive''))
      | Inl e \<Rightarrow> Inl (ValidationError (''payload_json field '' @ key @ '' must be positive'')))"

definition payloadStringArray :: "payload \<Rightarrow> bytes \<Rightarrow> bool \<Rightarrow> bytes list res" where
  "payloadStringArray raw key allowEmpty =
     (case field raw key of
        None \<Rightarrow> Inl (missing key)
      | Some v \<Rightarrow>
          (case json_strings v of
             None \<Rightarrow> Inl (ValidationError (''payload_json field '' @ key @ '' must be a string array''))
           | Some slice \<Rightarrow>
               (let values = (case slice of None \<Rightarrow> [] | Some vs \<Rightarrow> vs)
                in if values = [] \<and> \<not> allowEmpty
                   then Inl (ValidationError (''payload_json field '' @ key @ '' must not be empty''))
                   else if [] \<in> set values
                   then Inl (ValidationError (''payload_json field '' @ key @ '' must not contain empty values''))
                   else Inr values)))"

definition requiredPayloadStringArray :: "payload \<Rightarrow> bytes \<Rightarrow> bytes list res" where
  "requiredPayloadStringArray raw key = payloadStringArray raw key False"

definition mcpManifestPayloadIdentity :: "payload \<Rightarrow> (bytes \<times> bytes) res" where
  "mcpManifestPayloadIdentity raw =
     (let tokens = payloadTokens raw
      in case requiredPayloadToken tokens ''mcp_server_name'' of
           Inl e \<Rightarrow> Inl (missing ''mcp_server_name'')
         | Inr mcpServerName \<Rightarrow>
             (case requiredPayloadInt64 tokens ''manifest_generation'' of
                Inl e \<Rightarrow> Inl (missing ''manifest_generation'')
              | Inr manifestGeneration \<Rightarrow>
                  if manifestGeneration \<le> 0 then Inl (missing ''manifest_generation'')
                  else Inr (mcpServerName, FormatInt manifestGeneration)))"

definition sandboxExecutionPayloadIdentity :: "tokens \<Rightarrow> (bytes \<times> bytes \<times> bytes) res" where
  "sandboxExecutionPayloadIdentity payload =
     andThen (requiredPayloadToken payload ''session_id'') (\<lambda>sessionID.
     andThen (requiredPayloadToken payload ''session_thread_id'') (\<lambda>sessionThreadID.
     andThen (requiredPayloadToken payload ''tool_use_event_id'') (\<lambda>toolUseEventID.
     Inr (sessionID, sessionThreadID, toolUseEventID))))"

definition requireCanonicalKeys :: "EnqueueRequest \<Rightarrow> bytes \<Rightarrow> bytes \<Rightarrow> unit res" where
  "requireCanonicalKeys request wantPartitionKey wantDedupeKey =
     andThen (ensure (er_PartitionKey request = wantPartitionKey)
       (WrongKey (er_Kind request) ''partition_key'' wantPartitionKey)) (\<lambda>_.
     ensure (er_DedupeKey request = wantDedupeKey)
       (WrongKey (er_Kind request) ''dedupe_key'' wantDedupeKey))"

subsection \<open>The recovery payload\<close>

record RuntimeRecoveryPayload =
  rp_SessionID :: bytes
  rp_SessionThreadID :: bytes
  rp_SourceEventID :: bytes
  rp_HandoffID :: bytes

text \<open>
  \<open>encoding/json\<close> matches a member to a struct field by its folded name. Among
  the names that can match an ASCII field name, folding raises ASCII letters and
  maps U+017F and U+212A, whose simple case folds are \<open>S\<close> and \<open>K\<close>.
\<close>

definition raise_letter :: "char \<Rightarrow> char" where
  "raise_letter c = (if 97 \<le> byte c \<and> byte c \<le> 122 then char_of (byte c - 32) else c)"

fun foldName :: "bytes \<Rightarrow> bytes" where
  "foldName (a # b # c # s) =
     (if a = CHR 0xC5 \<and> b = CHR 0xBF then CHR ''S'' # foldName (c # s)
      else if a = CHR 0xE2 \<and> b = CHR 0x84 \<and> c = CHR 0xAA then CHR ''K'' # foldName s
      else raise_letter a # foldName (b # c # s))"
| "foldName [a, b] =
     (if a = CHR 0xC5 \<and> b = CHR 0xBF then [CHR ''S''] else [raise_letter a, raise_letter b])"
| "foldName [a] = [raise_letter a]"
| "foldName [] = []"

definition store_string :: "json \<Rightarrow> bytes \<Rightarrow> bytes option" where
  "store_string v old = (case v of JString s \<Rightarrow> Some s | JNull \<Rightarrow> Some old | _ \<Rightarrow> None)"

definition store_recovery_field :: "bytes \<times> json \<Rightarrow> RuntimeRecoveryPayload \<Rightarrow> RuntimeRecoveryPayload option" where
  "store_recovery_field kv p =
     (let name = foldName (fst kv); v = snd kv
      in if name = foldName ''session_id''
         then map_option (\<lambda>s. p\<lparr>rp_SessionID := s\<rparr>) (store_string v (rp_SessionID p))
         else if name = foldName ''session_thread_id''
         then map_option (\<lambda>s. p\<lparr>rp_SessionThreadID := s\<rparr>) (store_string v (rp_SessionThreadID p))
         else if name = foldName ''source_event_id''
         then map_option (\<lambda>s. p\<lparr>rp_SourceEventID := s\<rparr>) (store_string v (rp_SourceEventID p))
         else if name = foldName ''handoff_id''
         then map_option (\<lambda>s. p\<lparr>rp_HandoffID := s\<rparr>) (store_string v (rp_HandoffID p))
         else None)"

fun store_recovery :: "payload \<Rightarrow> RuntimeRecoveryPayload \<Rightarrow> RuntimeRecoveryPayload option" where
  "store_recovery [] p = Some p"
| "store_recovery (kv # kvs) p = Option.bind (store_recovery_field kv p) (store_recovery kvs)"

text \<open>
  The whole document was parsed by the first \<open>Unmarshal\<close>, so the second decoder
  finds no trailing data after its value.
\<close>

definition DecodeRuntimeRecoveryPayload :: "bytes \<Rightarrow> RuntimeRecoveryPayload res" where
  "DecodeRuntimeRecoveryPayload raw =
     (case Option.bind (Unmarshal raw) json_map of
        None \<Rightarrow> Inl (ValidationError ''runtime recovery payload is invalid JSON'')
      | Some decoded \<Rightarrow>
          (let kvs = (case decoded of None \<Rightarrow> [] | Some kvs \<Rightarrow> kvs);
               eventPresent = (field kvs ''source_event_id'' \<noteq> None);
               handoffPresent = (field kvs ''handoff_id'' \<noteq> None)
           in if eventPresent = handoffPresent
              then Inl (ValidationError ''runtime recovery requires exactly one source'')
              else case store_recovery kvs
                  \<lparr>rp_SessionID = [], rp_SessionThreadID = [], rp_SourceEventID = [], rp_HandoffID = []\<rparr> of
                None \<Rightarrow> Inl (ValidationError ''runtime recovery payload fields are invalid'')
              | Some payload \<Rightarrow>
                  if rp_SessionID payload = [] \<or> rp_SessionThreadID payload = [] \<or>
                     (eventPresent \<and> rp_SourceEventID payload = []) \<or>
                     (handoffPresent \<and> rp_HandoffID payload = [])
                  then Inl (ValidationError ''runtime recovery payload is missing identity'')
                  else Inr payload))"

subsection \<open>The canonical shape of each kind\<close>

definition shape_runtime_recovery :: "EnqueueRequest \<Rightarrow> unit res" where
  "shape_runtime_recovery request =
     andThen (DecodeRuntimeRecoveryPayload (er_PayloadJSON request)) (\<lambda>recovery.
     requireCanonicalKeys request
       (FormatSessionPartitionKey (er_WorkspaceID request) (rp_SessionID recovery))
       (if rp_HandoffID recovery \<noteq> []
        then FormatRuntimeHandoffDedupeKey (er_WorkspaceID request) (rp_SessionID recovery)
          (rp_SessionThreadID recovery) (rp_HandoffID recovery)
        else FormatRuntimeRecoveryDedupeKey (er_WorkspaceID request) (rp_SessionID recovery)
          (rp_SourceEventID recovery)))"

text \<open>The event references and the two sequence bounds of a runtime input.\<close>

definition runtime_input_events :: "payload \<Rightarrow> tokens \<Rightarrow> bytes \<Rightarrow> bytes list res" where
  "runtime_input_events raw payload inputKind =
     (if inputKind = ''task_notification'' \<or> inputKind = ''agent_mail'' \<or>
         IsNonStartingRuntimeInputKind inputKind
      then
        andThen (payloadStringArray raw ''event_ids'' True) (\<lambda>eventIDs.
        andThen (if token_at payload ''sequence_from'' \<noteq> []
          then parsePayloadInt64 (token_at payload ''sequence_from'') ''sequence_from'' else Inr 0) (\<lambda>_.
        andThen (if token_at payload ''sequence_to'' \<noteq> []
          then parsePayloadInt64 (token_at payload ''sequence_to'') ''sequence_to'' else Inr 0) (\<lambda>_.
        Inr eventIDs)))
      else
        andThen (requiredPayloadStringArray raw ''event_ids'') (\<lambda>eventIDs.
        andThen (requiredPayloadInt64 payload ''sequence_from'') (\<lambda>_.
        andThen (requiredPayloadInt64 payload ''sequence_to'') (\<lambda>_.
        Inr eventIDs))))"

definition shape_runtime_input :: "EnqueueRequest \<Rightarrow> payload \<Rightarrow> tokens \<Rightarrow> unit res" where
  "shape_runtime_input request raw payload =
     andThen (validatePayloadKeys raw
       [''workspace_id'', ''session_id'', ''session_thread_id'', ''runtime_input_id'', ''event_ids'',
        ''sequence_from'', ''sequence_to'', ''input_kind'']) (\<lambda>_.
     andThen (requiredPayloadTokens payload ''session_id'' ''runtime_input_id'') (\<lambda>(sessionID, runtimeInputID).
     andThen (requiredPayloadTokens payload ''session_thread_id'' ''input_kind'') (\<lambda>_.
     let inputKind = token_at payload ''input_kind'' in
     andThen (ensure (isRuntimeInputKind inputKind)
       (ValidationError ''runtime_input input_kind is invalid'')) (\<lambda>_.
     andThen (runtime_input_events raw payload inputKind) (\<lambda>eventIDs.
     andThen (ensure (length eventIDs \<le> MaxRuntimeInputEventRefsPerJob)
       (ValidationError ''runtime_input event_ids exceeds the maximum event reference count'')) (\<lambda>_.
     andThen (ensure (\<not> ((inputKind = ''agent_mail'' \<or> IsNonStartingRuntimeInputKind inputKind) \<and>
         (eventIDs \<noteq> [] \<or> token_at payload ''sequence_from'' \<noteq> ''0'' \<or>
          token_at payload ''sequence_to'' \<noteq> ''0'')))
       (ValidationError (inputKind @ '' must be a bare runtime-input poke''))) (\<lambda>_.
     requireCanonicalKeys request
       (FormatSessionPartitionKey (er_WorkspaceID request) sessionID)
       (FormatRuntimeInputDedupeKey (er_WorkspaceID request) sessionID runtimeInputID))))))))"

definition shape_runtime_config_update :: "EnqueueRequest \<Rightarrow> payload \<Rightarrow> tokens \<Rightarrow> unit res" where
  "shape_runtime_config_update request raw payload =
     (if field raw ''config_generation'' \<noteq> None
      then
        andThen (validatePayloadKeys raw [''workspace_id'', ''session_id'', ''config_generation'']) (\<lambda>_.
        andThen (requiredPayloadToken payload ''session_id'') (\<lambda>sessionID.
        case requiredPayloadInt64 payload ''config_generation'' of
          Inl e \<Rightarrow> Inl (missing ''config_generation'')
        | Inr configGeneration \<Rightarrow>
            if configGeneration \<le> 0 then Inl (missing ''config_generation'')
            else requireCanonicalKeys request
              (FormatSessionPartitionKey (er_WorkspaceID request) sessionID)
              (FormatRuntimeConfigUpdateDedupeKey (er_WorkspaceID request) sessionID
                (FormatInt configGeneration))))
      else
        andThen (validatePayloadKeys raw
          [''workspace_id'', ''session_id'', ''mcp_server_name'', ''manifest_generation'']) (\<lambda>_.
        andThen (requiredPayloadToken payload ''session_id'') (\<lambda>sessionID.
        andThen (mcpManifestPayloadIdentity raw) (\<lambda>(mcpServerName, manifestGeneration).
        requireCanonicalKeys request
          (FormatSessionPartitionKey (er_WorkspaceID request) sessionID)
          (FormatRuntimeMCPManifestUpdateDedupeKey (er_WorkspaceID request) sessionID mcpServerName
            manifestGeneration)))))"

definition shape_cleanup_session :: "EnqueueRequest \<Rightarrow> payload \<Rightarrow> tokens \<Rightarrow> unit res" where
  "shape_cleanup_session request raw payload =
     andThen (validatePayloadKeys raw [''workspace_id'', ''session_id'', ''cleanup_job_id'']) (\<lambda>_.
     andThen (requiredPayloadTokens payload ''session_id'' ''cleanup_job_id'') (\<lambda>(sessionID, cleanupJobID).
     requireCanonicalKeys request
       (FormatSessionPartitionKey (er_WorkspaceID request) sessionID)
       (FormatCleanupSessionDedupeKey (er_WorkspaceID request) sessionID cleanupJobID)))"

definition shape_session_delete_cleanup :: "EnqueueRequest \<Rightarrow> payload \<Rightarrow> tokens \<Rightarrow> unit res" where
  "shape_session_delete_cleanup request raw payload =
     andThen (validatePayloadKeys raw [''workspace_id'', ''session_id'', ''delete_cleanup_id'']) (\<lambda>_.
     andThen (requiredPayloadTokens payload ''session_id'' ''delete_cleanup_id'') (\<lambda>(sessionID, deleteCleanupID).
     requireCanonicalKeys request
       (FormatSessionPartitionKey (er_WorkspaceID request) sessionID)
       (FormatSessionDeleteCleanupDedupeKey (er_WorkspaceID request) sessionID deleteCleanupID)))"

definition shape_environment_build :: "EnqueueRequest \<Rightarrow> payload \<Rightarrow> tokens \<Rightarrow> unit res" where
  "shape_environment_build request raw payload =
     andThen (validatePayloadKeys raw [''workspace_id'', ''environment_id'', ''generation'']) (\<lambda>_.
     andThen (requiredPayloadTokens payload ''environment_id'' ''generation'') (\<lambda>(environmentID, generation).
     requireCanonicalKeys request
       (FormatEnvironmentPartitionKey (er_WorkspaceID request) environmentID)
       (FormatEnvironmentBuildDedupeKey (er_WorkspaceID request) environmentID generation)))"

definition shape_environment_ready_fanout :: "EnqueueRequest \<Rightarrow> payload \<Rightarrow> tokens \<Rightarrow> unit res" where
  "shape_environment_ready_fanout request raw payload =
     andThen (validatePayloadKeys raw [''workspace_id'', ''environment_id'', ''generation'']) (\<lambda>_.
     andThen (requiredPayloadTokens payload ''environment_id'' ''generation'') (\<lambda>(environmentID, generation).
     requireCanonicalKeys request
       (FormatEnvironmentPartitionKey (er_WorkspaceID request) environmentID)
       (FormatEnvironmentReadyFanoutDedupeKey (er_WorkspaceID request) environmentID generation)))"

text \<open>The generation of a tool execution is the text after the key's last colon.\<close>

definition validateSandboxToolExecuteDedupeKey :: "EnqueueRequest \<Rightarrow> bytes \<Rightarrow> bytes \<Rightarrow> bytes \<Rightarrow> unit res" where
  "validateSandboxToolExecuteDedupeKey request sessionID sessionThreadID toolUseEventID =
     (case after_last colon (er_DedupeKey request) of
        Some (c # cs) \<Rightarrow>
          (case ParseInt (c # cs) of
             None \<Rightarrow> Inl (ValidationError (KindSandboxToolExecute @ '' dedupe_key must be canonical''))
           | Some generation \<Rightarrow>
               ensure (0 < generation \<and> er_DedupeKey request =
                   FormatSandboxToolExecuteDedupeKey (er_WorkspaceID request) sessionID sessionThreadID
                     toolUseEventID generation)
                 (ValidationError (KindSandboxToolExecute @ '' dedupe_key must be canonical'')))
      | _ \<Rightarrow> Inl (ValidationError
          (KindSandboxToolExecute @ '' dedupe_key must carry a positive execution generation'')))"

definition shape_sandbox_tool_execute :: "EnqueueRequest \<Rightarrow> payload \<Rightarrow> tokens \<Rightarrow> unit res" where
  "shape_sandbox_tool_execute request raw payload =
     andThen (validatePayloadKeys raw
       [''workspace_id'', ''session_id'', ''session_thread_id'', ''tool_use_event_id'']) (\<lambda>_.
     andThen (requirePayloadStrings raw [''session_id'', ''session_thread_id'', ''tool_use_event_id'']) (\<lambda>_.
     andThen (sandboxExecutionPayloadIdentity payload) (\<lambda>(sessionID, sessionThreadID, toolUseEventID).
     andThen (ensure (er_PartitionKey request =
         FormatSandboxExecutionPartitionKey (er_WorkspaceID request) sessionID sessionThreadID toolUseEventID)
       (ValidationError (er_Kind request @ '' partition_key must be canonical''))) (\<lambda>_.
     validateSandboxToolExecuteDedupeKey request sessionID sessionThreadID toolUseEventID))))"

definition shape_sandbox_lifecycle :: "EnqueueRequest \<Rightarrow> payload \<Rightarrow> tokens \<Rightarrow> unit res" where
  "shape_sandbox_lifecycle request raw payload =
     andThen (validatePayloadKeys raw
       [''workspace_id'', ''session_id'', ''logical_sandbox_id'', ''operation_id'']) (\<lambda>_.
     andThen (requirePayloadStrings raw [''session_id'', ''logical_sandbox_id'', ''operation_id'']) (\<lambda>_.
     andThen (requiredPayloadToken payload ''session_id'') (\<lambda>_.
     andThen (requiredPayloadTokens payload ''logical_sandbox_id'' ''operation_id'') (\<lambda>(logicalSandboxID, operationID).
     requireCanonicalKeys request
       (FormatSandboxLifecyclePartitionKey (er_WorkspaceID request) logicalSandboxID)
       (FormatSandboxLifecycleDedupeKey (er_Kind request) (er_WorkspaceID request) logicalSandboxID operationID)))))"

definition shape_sandbox_tool_cancel :: "EnqueueRequest \<Rightarrow> payload \<Rightarrow> tokens \<Rightarrow> unit res" where
  "shape_sandbox_tool_cancel request raw payload =
     andThen (validatePayloadKeys raw
       [''workspace_id'', ''session_id'', ''session_thread_id'', ''tool_use_event_id'']) (\<lambda>_.
     andThen (requirePayloadStrings raw [''session_id'', ''session_thread_id'', ''tool_use_event_id'']) (\<lambda>_.
     andThen (sandboxExecutionPayloadIdentity payload) (\<lambda>(sessionID, sessionThreadID, toolUseEventID).
     requireCanonicalKeys request
       (FormatSandboxCancelPartitionKey (er_WorkspaceID request) sessionID sessionThreadID toolUseEventID)
       (FormatSandboxToolCancelDedupeKey (er_WorkspaceID request) sessionID sessionThreadID toolUseEventID))))"

definition shape_sandbox_output_capture :: "EnqueueRequest \<Rightarrow> payload \<Rightarrow> tokens \<Rightarrow> unit res" where
  "shape_sandbox_output_capture request raw payload =
     andThen (validatePayloadKeys raw
       [''workspace_id'', ''session_id'', ''finish_idle_write_id'', ''capture_generation'']) (\<lambda>_.
     andThen (requirePayloadStrings raw [''session_id'', ''finish_idle_write_id'']) (\<lambda>_.
     andThen (requiredPayloadTokens payload ''session_id'' ''finish_idle_write_id'') (\<lambda>(sessionID, finishIdleWriteID).
     andThen (requiredPositivePayloadInt64 payload ''capture_generation'') (\<lambda>captureGeneration.
     requireCanonicalKeys request
       (FormatSandboxCapturePartitionKey (er_WorkspaceID request) sessionID finishIdleWriteID)
       (FormatSandboxOutputCaptureDedupeKey (er_WorkspaceID request) sessionID finishIdleWriteID
         captureGeneration)))))"

definition shape_sandbox_output_capture_cleanup :: "EnqueueRequest \<Rightarrow> payload \<Rightarrow> tokens \<Rightarrow> unit res" where
  "shape_sandbox_output_capture_cleanup request raw payload =
     andThen (validatePayloadKeys raw
       [''workspace_id'', ''session_id'', ''finish_idle_write_id'', ''capture_generation'',
        ''cleanup_generation'']) (\<lambda>_.
     andThen (requirePayloadStrings raw [''session_id'', ''finish_idle_write_id'']) (\<lambda>_.
     andThen (requiredPayloadTokens payload ''session_id'' ''finish_idle_write_id'') (\<lambda>(sessionID, finishIdleWriteID).
     andThen (requiredPositivePayloadInt64 payload ''capture_generation'') (\<lambda>captureGeneration.
     andThen (requiredPositivePayloadInt64 payload ''cleanup_generation'') (\<lambda>cleanupGeneration.
     requireCanonicalKeys request
       (FormatSandboxCapturePartitionKey (er_WorkspaceID request) sessionID finishIdleWriteID)
       (FormatSandboxOutputCaptureCleanupDedupeKey (er_WorkspaceID request) sessionID finishIdleWriteID
         captureGeneration cleanupGeneration))))))"

definition shape_sandbox_memory_projection :: "EnqueueRequest \<Rightarrow> payload \<Rightarrow> tokens \<Rightarrow> unit res" where
  "shape_sandbox_memory_projection request raw payload =
     andThen (validatePayloadKeys raw
       [''workspace_id'', ''session_id'', ''memory_store_id'', ''memory_write_id'']) (\<lambda>_.
     andThen (requirePayloadStrings raw [''session_id'', ''memory_store_id'', ''memory_write_id'']) (\<lambda>_.
     andThen (requiredPayloadToken payload ''session_id'') (\<lambda>_.
     andThen (requiredPayloadTokens payload ''memory_store_id'' ''memory_write_id'') (\<lambda>(memoryStoreID, memoryWriteID).
     requireCanonicalKeys request
       (FormatSandboxMemoryPartitionKey (er_WorkspaceID request) memoryStoreID)
       (FormatSandboxMemoryProjectionDedupeKey (er_WorkspaceID request) memoryStoreID memoryWriteID)))))"

definition shape_sandbox_background_command :: "EnqueueRequest \<Rightarrow> payload \<Rightarrow> tokens \<Rightarrow> unit res" where
  "shape_sandbox_background_command request raw payload =
     andThen (validatePayloadKeys raw [''workspace_id'', ''session_id'', ''task_id'', ''request_id'']) (\<lambda>_.
     andThen (requirePayloadStrings raw [''session_id'', ''task_id'', ''request_id'']) (\<lambda>_.
     andThen (requiredPayloadTokens payload ''session_id'' ''task_id'') (\<lambda>(sessionID, taskID).
     andThen (requiredPayloadToken payload ''request_id'') (\<lambda>requestID.
     requireCanonicalKeys request
       (FormatSandboxBackgroundPartitionKey (er_WorkspaceID request) sessionID taskID)
       (FormatSandboxBackgroundCommandDedupeKey (er_WorkspaceID request) sessionID taskID requestID)))))"

definition shape_sandbox_background_reconcile :: "EnqueueRequest \<Rightarrow> payload \<Rightarrow> tokens \<Rightarrow> unit res" where
  "shape_sandbox_background_reconcile request raw payload =
     andThen (validatePayloadKeys raw
       [''workspace_id'', ''session_id'', ''task_id'', ''reconcile_generation'']) (\<lambda>_.
     andThen (requirePayloadStrings raw [''session_id'', ''task_id'']) (\<lambda>_.
     andThen (requiredPayloadTokens payload ''session_id'' ''task_id'') (\<lambda>(sessionID, taskID).
     andThen (requiredPositivePayloadInt64 payload ''reconcile_generation'') (\<lambda>generation.
     requireCanonicalKeys request
       (FormatSandboxBackgroundPartitionKey (er_WorkspaceID request) sessionID taskID)
       (FormatSandboxBackgroundReconcileDedupeKey (er_WorkspaceID request) sessionID taskID generation)))))"

definition shape_of_kind :: "EnqueueRequest \<Rightarrow> payload \<Rightarrow> tokens \<Rightarrow> unit res" where
  "shape_of_kind request raw payload =
     (let kind = er_Kind request
      in if kind = KindRuntimeRecovery then shape_runtime_recovery request
         else if kind = KindRuntimeInput then shape_runtime_input request raw payload
         else if kind = KindRuntimeConfigUpdate then shape_runtime_config_update request raw payload
         else if kind = KindCleanupSession then shape_cleanup_session request raw payload
         else if kind = KindSessionDeleteCleanup then shape_session_delete_cleanup request raw payload
         else if kind = KindEnvironmentBuild then shape_environment_build request raw payload
         else if kind = KindEnvironmentReadyFanout then shape_environment_ready_fanout request raw payload
         else if kind = KindSandboxToolExecute then shape_sandbox_tool_execute request raw payload
         else if isSandboxLifecycleKind kind then shape_sandbox_lifecycle request raw payload
         else if kind = KindSandboxToolCancel then shape_sandbox_tool_cancel request raw payload
         else if kind = KindSandboxOutputCapture then shape_sandbox_output_capture request raw payload
         else if kind = KindSandboxOutputCaptureCleanup
           then shape_sandbox_output_capture_cleanup request raw payload
         else if kind = KindSandboxMemoryProjection then shape_sandbox_memory_projection request raw payload
         else if kind = KindSandboxBackgroundCommand then shape_sandbox_background_command request raw payload
         else if kind = KindSandboxBackgroundReconcile
           then shape_sandbox_background_reconcile request raw payload
         else Inl (ValidationError (''unknown queue job kind: '' @ kind)))"

definition payload_workspace :: "EnqueueRequest \<Rightarrow> tokens \<Rightarrow> unit res" where
  "payload_workspace request payload =
     (if er_Kind request \<noteq> KindRuntimeRecovery then
        andThen (ensure (token_at payload ''workspace_id'' \<noteq> []) (missing ''workspace_id'')) (\<lambda>_.
        ensure (token_at payload ''workspace_id'' = er_WorkspaceID request)
          (ValidationError ''payload workspace_id must match queue workspace_id''))
      else Inr ())"

definition validateCanonicalQueueShape :: "EnqueueRequest \<Rightarrow> unit res" where
  "validateCanonicalQueueShape request =
     andThen (ensure (isKnownKind (er_Kind request))
       (ValidationError (''unknown queue job kind: '' @ er_Kind request))) (\<lambda>_.
     andThen (ensure (er_DedupeKey request \<noteq> [])
       (ValidationError (''dedupe_key is required for '' @ er_Kind request))) (\<lambda>_.
     andThen (decodePayloadObject (er_PayloadJSON request)) (\<lambda>raw.
     let payload = payloadTokens raw in
     andThen (payload_workspace request payload) (\<lambda>_.
     andThen (ensure (\<not> (IsSandboxJobKind (er_Kind request) \<and> er_MaxAttempts request \<le> 0))
       (ValidationError (''max_attempts must be positive for '' @ er_Kind request))) (\<lambda>_.
     andThen (if IsSandboxJobKind (er_Kind request)
       then requirePayloadStrings raw [''workspace_id''] else Inr ()) (\<lambda>_.
     shape_of_kind request raw payload))))))"

subsection \<open>Delivery authority and normalisation\<close>

definition runtime_control_class :: "EnqueueRequest \<Rightarrow> tokens \<Rightarrow> control_class" where
  "runtime_control_class request payload =
     (if er_Kind request = KindRuntimeInput \<and> token_at payload ''input_kind'' = ''interrupt_control''
      then Interrupt
      else if er_Kind request = KindRuntimeInput \<and> token_at payload ''input_kind'' = ''agent_mail''
      then AgentMail
      else Ordinary)"

definition deriveQueueDeliveryAuthority :: "EnqueueRequest \<Rightarrow> EnqueueRequest res" where
  "deriveQueueDeliveryAuthority request0 =
     (let request = request0\<lparr>er_CausalSessionID := [], er_DeliveryScope := Some ScopePartition,
            er_DeliveryThreadID := [], er_ControlClass := Some Ordinary\<rparr>
      in if \<not> IsJobRunnerKind (er_Kind request) then Inr request
         else
           andThen (decodePayloadObject (er_PayloadJSON request)) (\<lambda>raw.
           let payload = payloadTokens raw in
           andThen (requiredPayloadToken payload ''session_id'') (\<lambda>sessionID.
           let request = request\<lparr>er_CausalSessionID := sessionID\<rparr> in
           if er_Kind request = KindRuntimeInput \<or> er_Kind request = KindRuntimeRecovery
           then andThen (requiredPayloadToken payload ''session_thread_id'') (\<lambda>threadID.
             Inr (request\<lparr>er_DeliveryScope := Some ScopeThread, er_DeliveryThreadID := threadID,
               er_ControlClass := Some (runtime_control_class request payload)\<rparr>))
           else Inr (request\<lparr>er_DeliveryScope := Some ScopeSession\<rparr>))))"

definition admission_bounds :: "EnqueueRequest \<Rightarrow> unit res" where
  "admission_bounds request =
     andThen (ensure (er_WorkspaceID request \<noteq> []) (ValidationError ''workspace_id is required'')) (\<lambda>_.
     andThen (ensure (length (er_WorkspaceID request) \<le> MaxWorkspaceIDBytes)
       (ValidationError ''workspace_id exceeds the maximum queue transport size'')) (\<lambda>_.
     andThen (ensure (er_Kind request \<noteq> []) (ValidationError ''kind is required'')) (\<lambda>_.
     andThen (ensure (er_PartitionKey request \<noteq> []) (ValidationError ''partition_key is required'')) (\<lambda>_.
     andThen (ensure (length (er_PartitionKey request) \<le> MaxQueuePartitionKeyBytes)
       (ValidationError ''partition_key exceeds the maximum queue transport size'')) (\<lambda>_.
     andThen (ensure (length (er_DedupeKey request) \<le> MaxQueueDedupeKeyBytes)
       (ValidationError ''dedupe_key exceeds the maximum queue transport size'')) (\<lambda>_.
     andThen (ensure (er_PayloadJSON request \<noteq> []) (ValidationError ''payload_json is required'')) (\<lambda>_.
     andThen (ensure (length (er_PayloadJSON request) \<le> MaxQueueJobPayloadBytes)
       (ValidationError ''payload_json exceeds the maximum queue job payload size'')) (\<lambda>_.
     ensure (er_ID request = [] \<or> length (er_ID request) \<le> MaxQueueJobIDBytes)
       (ValidationError ''id exceeds the maximum queue transport size'')))))))))"

text \<open>The defaults: a minted id, version 1, and \<open>storage.Now()\<close> for unset times.\<close>

definition admission_defaults :: "bytes \<Rightarrow> time \<Rightarrow> EnqueueRequest \<Rightarrow> EnqueueRequest" where
  "admission_defaults rnd wall request =
     (let now = (if IsZero (er_Now request) then Durable wall else er_Now request)
      in request\<lparr>er_ID := (if er_ID request = [] then NewJobID rnd else er_ID request),
           er_PayloadVersion := (if er_PayloadVersion request = 0 then 1 else er_PayloadVersion request),
           er_Now := now,
           er_AvailableAt := (if IsZero (er_AvailableAt request) then now else er_AvailableAt request)\<rparr>)"

definition NormalizeEnqueueRequest :: "bytes \<Rightarrow> time \<Rightarrow> EnqueueRequest \<Rightarrow> EnqueueRequest res" where
  "NormalizeEnqueueRequest rnd wall request0 =
     andThen (admission_bounds request0) (\<lambda>_.
     let request = admission_defaults rnd wall request0 in
     andThen (ensure (0 \<le> er_PayloadVersion request)
       (ValidationError ''payload_version must be positive'')) (\<lambda>_.
     andThen (ensure (0 \<le> er_MaxAttempts request)
       (ValidationError ''max_attempts must not be negative'')) (\<lambda>_.
     andThen (validateCanonicalQueueShape request) (\<lambda>_.
     deriveQueueDeliveryAuthority request))))"

subsection \<open>Constructors of runtime requests\<close>

definition runtime_request :: "bytes \<Rightarrow> bytes \<Rightarrow> bytes \<Rightarrow> bytes \<Rightarrow> bytes \<Rightarrow> json \<Rightarrow> time \<Rightarrow> EnqueueRequest" where
  "runtime_request rnd workspaceID kind partitionKey dedupeKey payload now =
     \<lparr>er_ID = NewJobID rnd, er_WorkspaceID = workspaceID, er_Kind = kind,
      er_PartitionKey = partitionKey, er_DedupeKey = dedupeKey, er_PayloadVersion = 1,
      er_PayloadJSON = Marshal payload, er_Priority = 0, er_MaxAttempts = DefaultMaxAttempts,
      er_AvailableAt = zero_time, er_Now = now, er_CausalSessionID = [], er_DeliveryScope = None,
      er_DeliveryThreadID = [], er_ControlClass = None\<rparr>"

definition NewRuntimeRecoveryEnqueueRequest ::
    "bytes \<Rightarrow> bytes \<Rightarrow> bytes \<Rightarrow> bytes \<Rightarrow> bytes \<Rightarrow> time \<Rightarrow> EnqueueRequest" where
  "NewRuntimeRecoveryEnqueueRequest rnd workspaceID sessionID sessionThreadID sourceEventID now =
     runtime_request rnd workspaceID KindRuntimeRecovery
       (FormatSessionPartitionKey workspaceID sessionID)
       (FormatRuntimeRecoveryDedupeKey workspaceID sessionID sourceEventID)
       (JObject [(''session_id'', JString sessionID), (''session_thread_id'', JString sessionThreadID),
          (''source_event_id'', JString sourceEventID)]) now"

definition NewRuntimeHandoffEnqueueRequest ::
    "bytes \<Rightarrow> bytes \<Rightarrow> bytes \<Rightarrow> bytes \<Rightarrow> bytes \<Rightarrow> time \<Rightarrow> EnqueueRequest" where
  "NewRuntimeHandoffEnqueueRequest rnd workspaceID sessionID sessionThreadID handoffID now =
     runtime_request rnd workspaceID KindRuntimeRecovery
       (FormatSessionPartitionKey workspaceID sessionID)
       (FormatRuntimeHandoffDedupeKey workspaceID sessionID sessionThreadID handoffID)
       (JObject [(''session_id'', JString sessionID), (''session_thread_id'', JString sessionThreadID),
          (''handoff_id'', JString handoffID)]) now"

definition NewTaskNotificationRuntimeInputEnqueueRequest ::
    "bytes \<Rightarrow> bytes \<Rightarrow> bytes \<Rightarrow> bytes \<Rightarrow> bytes \<Rightarrow> time \<Rightarrow> EnqueueRequest" where
  "NewTaskNotificationRuntimeInputEnqueueRequest rnd workspaceID sessionID sessionThreadID taskID now =
     (let runtimeInputID = FormatTaskNotificationRuntimeInputID taskID
      in runtime_request rnd workspaceID KindRuntimeInput
           (FormatSessionPartitionKey workspaceID sessionID)
           (FormatRuntimeInputDedupeKey workspaceID sessionID runtimeInputID)
           (JObject [(''workspace_id'', JString workspaceID), (''session_id'', JString sessionID),
              (''session_thread_id'', JString sessionThreadID),
              (''runtime_input_id'', JString runtimeInputID), (''event_ids'', JArray []),
              (''sequence_from'', JNumber (FormatInt 0)), (''sequence_to'', JNumber (FormatInt 0)),
              (''input_kind'', JString ''task_notification'')]) now)"

end
