(* ===== verification/Queue_Admission_Facts.thy ===== *)
theory Queue_Admission_Facts
  imports Queue_Admission
begin

section \<open>What admission guarantees\<close>

text \<open>
  Facts about \<open>NormalizeEnqueueRequest\<close>: the shape of every admitted request
  (transport bounds and delivery coordinates, which are also what the table's
  \<open>CHECK\<close> constraints ask of a new row), idempotence of normalisation, the
  dedupe key naming its kind, and that the request constructors produce requests
  admission accepts.
\<close>

subsection \<open>The shape of admitted requests\<close>

definition delivery_ok ::
    "bytes \<Rightarrow> delivery_scope \<Rightarrow> bytes \<Rightarrow> bytes \<Rightarrow> control_class \<Rightarrow> bool" where
  "delivery_ok kind scope session thread cls \<longleftrightarrow>
     (case scope of
        ScopePartition \<Rightarrow> \<not> IsJobRunnerKind kind \<and> session = [] \<and> thread = [] \<and> cls = Ordinary
      | ScopeThread \<Rightarrow>
          (kind = KindRuntimeInput \<or> kind = KindRuntimeRecovery) \<and> session \<noteq> [] \<and> thread \<noteq> [] \<and>
          (cls = Ordinary \<or> kind = KindRuntimeInput)
      | ScopeSession \<Rightarrow>
          (kind = KindRuntimeConfigUpdate \<or> kind = KindCleanupSession \<or> kind = KindSessionDeleteCleanup) \<and>
          session \<noteq> [] \<and> thread = [] \<and> cls = Ordinary)"

definition admitted :: "EnqueueRequest \<Rightarrow> bool" where
  "admitted r \<longleftrightarrow>
     er_WorkspaceID r \<noteq> [] \<and> length (er_WorkspaceID r) \<le> MaxWorkspaceIDBytes \<and>
     isKnownKind (er_Kind r) \<and>
     er_PartitionKey r \<noteq> [] \<and> length (er_PartitionKey r) \<le> MaxQueuePartitionKeyBytes \<and>
     er_DedupeKey r \<noteq> [] \<and> length (er_DedupeKey r) \<le> MaxQueueDedupeKeyBytes \<and>
     er_PayloadJSON r \<noteq> [] \<and> length (er_PayloadJSON r) \<le> MaxQueueJobPayloadBytes \<and>
     er_ID r \<noteq> [] \<and> length (er_ID r) \<le> MaxQueueJobIDBytes \<and>
     1 \<le> er_PayloadVersion r \<and> 0 \<le> er_MaxAttempts r \<and>
     (IsSandboxJobKind (er_Kind r) \<longrightarrow> 0 < er_MaxAttempts r) \<and>
     (\<exists>scope cls. er_DeliveryScope r = Some scope \<and> er_ControlClass r = Some cls \<and>
        delivery_ok (er_Kind r) scope (er_CausalSessionID r) (er_DeliveryThreadID r) cls)"

lemma requiredPayloadToken_Inr [simp]:
  "requiredPayloadToken p k = Inr v \<longleftrightarrow> p k = Some v \<and> v \<noteq> []"
  by (auto simp: requiredPayloadToken_def split: option.splits if_splits)

lemma derive_cases:
  assumes "deriveQueueDeliveryAuthority q = Inr r"
  obtains session scope thread cls where
    "r = q\<lparr>er_CausalSessionID := session, er_DeliveryScope := Some scope,
       er_DeliveryThreadID := thread, er_ControlClass := Some cls\<rparr>"
    "delivery_ok (er_Kind q) scope session thread cls"
proof (cases "IsJobRunnerKind (er_Kind q)")
  case False
  with assms show ?thesis
    by (intro that [of Ordinary "[]" ScopePartition "[]"])
      (simp_all add: deriveQueueDeliveryAuthority_def delivery_ok_def)
next
  case True
  then obtain raw session where "decodePayloadObject (er_PayloadJSON q) = Inr raw"
    "payloadTokens raw ''session_id'' = Some session" "session \<noteq> []"
    using assms by (auto simp: deriveQueueDeliveryAuthority_def Let_def andThen_Inr_iff)
  note * = this assms True
  show ?thesis
  proof (cases "er_Kind q = KindRuntimeInput \<or> er_Kind q = KindRuntimeRecovery")
    case thread: True
    with * obtain thread where "payloadTokens raw ''session_thread_id'' = Some thread" "thread \<noteq> []"
      by (auto simp: deriveQueueDeliveryAuthority_def Let_def andThen_Inr_iff)
    with * thread show ?thesis
      by (intro that [of "runtime_control_class q (payloadTokens raw)" thread ScopeThread session])
        (auto simp: deriveQueueDeliveryAuthority_def Let_def delivery_ok_def runtime_control_class_def
          andThen_Inr_iff)
  next
    case session: False
    with * show ?thesis
      by (intro that [of Ordinary "[]" ScopeSession session])
        (auto simp: deriveQueueDeliveryAuthority_def Let_def delivery_ok_def IsJobRunnerKind_def
          andThen_Inr_iff)
  qed
qed

lemma derive_fields:
  assumes "deriveQueueDeliveryAuthority q = Inr r"
  shows "er_WorkspaceID r = er_WorkspaceID q" "er_Kind r = er_Kind q"
    "er_PartitionKey r = er_PartitionKey q" "er_DedupeKey r = er_DedupeKey q"
    "er_PayloadJSON r = er_PayloadJSON q" "er_MaxAttempts r = er_MaxAttempts q"
    "er_ID r = er_ID q" "er_PayloadVersion r = er_PayloadVersion q" "er_Priority r = er_Priority q"
    "er_AvailableAt r = er_AvailableAt q" "er_Now r = er_Now q"
  using assms by (auto elim: derive_cases)

text \<open>Neither the derivation nor the shape check reads the delivery columns.\<close>

abbreviation redeliver ::
    "bytes \<Rightarrow> delivery_scope option \<Rightarrow> bytes \<Rightarrow> control_class option \<Rightarrow> EnqueueRequest \<Rightarrow> EnqueueRequest" where
  "redeliver a b c d q \<equiv> q\<lparr>er_CausalSessionID := a, er_DeliveryScope := b,
     er_DeliveryThreadID := c, er_ControlClass := d\<rparr>"

lemma derive_reads:
  "deriveQueueDeliveryAuthority (redeliver a b c d q) = deriveQueueDeliveryAuthority q"
  by (simp add: deriveQueueDeliveryAuthority_def runtime_control_class_def)

lemma derive_idem:
  assumes "deriveQueueDeliveryAuthority q = Inr r"
  shows "deriveQueueDeliveryAuthority r = Inr r"
proof -
  from assms obtain a b c d where "r = redeliver a (Some b) c (Some d) q" by (rule derive_cases)
  then show ?thesis using assms by (simp add: derive_reads)
qed

lemma keys_reads [simp]: "requireCanonicalKeys (redeliver a b c d q) = requireCanonicalKeys q"
  by (intro ext) (simp add: requireCanonicalKeys_def)

lemma tool_execute_key_reads [simp]:
  "validateSandboxToolExecuteDedupeKey (redeliver a b c d q) = validateSandboxToolExecuteDedupeKey q"
  by (intro ext)
    (simp add: validateSandboxToolExecuteDedupeKey_def cong: option.case_cong list.case_cong)

lemma shape_runtime_input_reads: "shape_runtime_input (redeliver a b c d q) = shape_runtime_input q"
  by (intro ext) (simp add: shape_runtime_input_def)

lemma shape_runtime_config_update_reads: "shape_runtime_config_update (redeliver a b c d q) = shape_runtime_config_update q"
  by (intro ext) (simp add: shape_runtime_config_update_def cong: if_cong sum.case_cong)

lemma shape_cleanup_session_reads: "shape_cleanup_session (redeliver a b c d q) = shape_cleanup_session q"
  by (intro ext) (simp add: shape_cleanup_session_def)

lemma shape_session_delete_cleanup_reads: "shape_session_delete_cleanup (redeliver a b c d q) = shape_session_delete_cleanup q"
  by (intro ext) (simp add: shape_session_delete_cleanup_def)

lemma shape_environment_build_reads: "shape_environment_build (redeliver a b c d q) = shape_environment_build q"
  by (intro ext) (simp add: shape_environment_build_def)

lemma shape_environment_ready_fanout_reads: "shape_environment_ready_fanout (redeliver a b c d q) = shape_environment_ready_fanout q"
  by (intro ext) (simp add: shape_environment_ready_fanout_def)

lemma shape_sandbox_tool_execute_reads: "shape_sandbox_tool_execute (redeliver a b c d q) = shape_sandbox_tool_execute q"
  by (intro ext) (simp add: shape_sandbox_tool_execute_def)

lemma shape_sandbox_lifecycle_reads: "shape_sandbox_lifecycle (redeliver a b c d q) = shape_sandbox_lifecycle q"
  by (intro ext) (simp add: shape_sandbox_lifecycle_def)

lemma shape_sandbox_tool_cancel_reads: "shape_sandbox_tool_cancel (redeliver a b c d q) = shape_sandbox_tool_cancel q"
  by (intro ext) (simp add: shape_sandbox_tool_cancel_def)

lemma shape_sandbox_output_capture_reads: "shape_sandbox_output_capture (redeliver a b c d q) = shape_sandbox_output_capture q"
  by (intro ext) (simp add: shape_sandbox_output_capture_def)

lemma shape_sandbox_output_capture_cleanup_reads: "shape_sandbox_output_capture_cleanup (redeliver a b c d q) = shape_sandbox_output_capture_cleanup q"
  by (intro ext) (simp add: shape_sandbox_output_capture_cleanup_def)

lemma shape_sandbox_memory_projection_reads: "shape_sandbox_memory_projection (redeliver a b c d q) = shape_sandbox_memory_projection q"
  by (intro ext) (simp add: shape_sandbox_memory_projection_def)

lemma shape_sandbox_background_command_reads: "shape_sandbox_background_command (redeliver a b c d q) = shape_sandbox_background_command q"
  by (intro ext) (simp add: shape_sandbox_background_command_def)

lemma shape_sandbox_background_reconcile_reads: "shape_sandbox_background_reconcile (redeliver a b c d q) = shape_sandbox_background_reconcile q"
  by (intro ext) (simp add: shape_sandbox_background_reconcile_def)

lemma shape_runtime_recovery_reads: "shape_runtime_recovery (redeliver a b c d q) = shape_runtime_recovery q"
  by (simp add: shape_runtime_recovery_def cong: if_cong)

lemmas shape_reads =
  shape_runtime_recovery_reads shape_runtime_input_reads shape_runtime_config_update_reads
  shape_cleanup_session_reads shape_session_delete_cleanup_reads shape_environment_build_reads
  shape_environment_ready_fanout_reads shape_sandbox_tool_execute_reads shape_sandbox_lifecycle_reads
  shape_sandbox_tool_cancel_reads shape_sandbox_output_capture_reads
  shape_sandbox_output_capture_cleanup_reads shape_sandbox_memory_projection_reads
  shape_sandbox_background_command_reads shape_sandbox_background_reconcile_reads

lemma shape_of_kind_reads: "shape_of_kind (redeliver a b c d q) raw p = shape_of_kind q raw p"
  by (simp add: shape_of_kind_def shape_reads Let_def cong: if_cong)

lemma payload_workspace_reads: "payload_workspace (redeliver a b c d q) = payload_workspace q"
  by (intro ext) (simp add: payload_workspace_def cong: if_cong)

lemma validate_reads:
  "validateCanonicalQueueShape (redeliver a b c d q) = validateCanonicalQueueShape q"
  by (simp add: validateCanonicalQueueShape_def payload_workspace_reads shape_of_kind_reads Let_def)

lemma admission_defaults_fields [simp]:
  "er_WorkspaceID (admission_defaults rnd wall q) = er_WorkspaceID q"
  "er_Kind (admission_defaults rnd wall q) = er_Kind q"
  "er_PartitionKey (admission_defaults rnd wall q) = er_PartitionKey q"
  "er_DedupeKey (admission_defaults rnd wall q) = er_DedupeKey q"
  "er_PayloadJSON (admission_defaults rnd wall q) = er_PayloadJSON q"
  "er_MaxAttempts (admission_defaults rnd wall q) = er_MaxAttempts q"
  "er_Priority (admission_defaults rnd wall q) = er_Priority q"
  "er_ID (admission_defaults rnd wall q) = (if er_ID q = [] then NewJobID rnd else er_ID q)"
  by (simp_all add: admission_defaults_def Let_def)

lemma NormalizeE:
  assumes "NormalizeEnqueueRequest rnd wall q = Inr r"
  obtains d where "d = admission_defaults rnd wall q" "admission_bounds q = Inr ()"
    "0 \<le> er_PayloadVersion d" "0 \<le> er_MaxAttempts d" "validateCanonicalQueueShape d = Inr ()"
    "deriveQueueDeliveryAuthority d = Inr r"
  using assms by (auto simp: NormalizeEnqueueRequest_def Let_def andThen_Inr_iff)

lemma shape_known: 
  assumes "validateCanonicalQueueShape r = Inr ()"
  shows "isKnownKind (er_Kind r)" "er_DedupeKey r \<noteq> []"
    "IsSandboxJobKind (er_Kind r) \<Longrightarrow> 0 < er_MaxAttempts r"
  using assms by (auto simp: validateCanonicalQueueShape_def andThen_Inr_iff Let_def)

lemma Normalize_admitted:
  assumes "NormalizeEnqueueRequest rnd wall q = Inr r" "length rnd = 8"
  shows "admitted r"
proof -
  obtain d where d: "d = admission_defaults rnd wall q" "admission_bounds q = Inr ()"
    "0 \<le> er_PayloadVersion d" "0 \<le> er_MaxAttempts d" "validateCanonicalQueueShape d = Inr ()"
    "deriveQueueDeliveryAuthority d = Inr r"
    using assms(1) by (rule NormalizeE)
  have v: "er_PayloadVersion d \<noteq> 0"
    using d(1) by (simp add: admission_defaults_def Let_def)
  obtain scope cls session thread where r: "r = d\<lparr>er_CausalSessionID := session,
      er_DeliveryScope := Some scope, er_DeliveryThreadID := thread, er_ControlClass := Some cls\<rparr>"
    "delivery_ok (er_Kind d) scope session thread cls"
    using d(6) by (rule derive_cases)
  have "er_ID d \<noteq> []" "length (er_ID d) \<le> MaxQueueJobIDBytes"
    using d(1,2) assms(2) by (auto simp: admission_bounds_def andThen_Inr_iff length_NewJobID)
  with d(1-4) r v show ?thesis
    using shape_known [OF d(5)] by (simp add: admitted_def admission_bounds_def andThen_Inr_iff)
qed

lemma Normalize_idem:
  assumes "NormalizeEnqueueRequest rnd wall q = Inr r" "length rnd = 8"
    and "\<not> IsZero (er_Now r)" "\<not> IsZero (er_AvailableAt r)"
  shows "NormalizeEnqueueRequest rnd' wall' r = Inr r"
proof -
  obtain d where d: "0 \<le> er_PayloadVersion d" "0 \<le> er_MaxAttempts d"
    "validateCanonicalQueueShape d = Inr ()" "deriveQueueDeliveryAuthority d = Inr r"
    using assms(1) by (rule NormalizeE)
  obtain a b c e where r: "r = redeliver a (Some b) c (Some e) d"
    using d(4) by (rule derive_cases)
  have "admitted r" using assms(1,2) by (rule Normalize_admitted)
  then have "er_Kind r \<noteq> []" using known_kind_no_colon by (auto simp: admitted_def)
  with \<open>admitted r\<close> have "admission_bounds r = Inr ()"
    by (simp add: admitted_def admission_bounds_def)
  moreover have "admission_defaults rnd' wall' r = r"
    using \<open>admitted r\<close> assms(3,4) by (simp add: admission_defaults_def Let_def admitted_def)
  moreover have "validateCanonicalQueueShape r = Inr ()"
    using d(3) r by (simp add: validate_reads)
  ultimately show ?thesis
    using d derive_idem [OF d(4)] derive_fields [OF d(4)]
    by (simp add: NormalizeEnqueueRequest_def)
qed

subsection \<open>A dedupe key names its kind\<close>

lemma requireCanonicalKeys_Inr [simp]:
  "requireCanonicalKeys r p d = Inr u \<longleftrightarrow> er_PartitionKey r = p \<and> er_DedupeKey r = d"
  by (auto simp: requireCanonicalKeys_def andThen_Inr_iff)

lemma sandbox_execution_key_kind:
  "formatSandboxExecutionDedupeKey k w s t u x \<noteq> [] \<Longrightarrow> colon \<notin> set k \<Longrightarrow>
    before_colon (formatSandboxExecutionDedupeKey k w s t u x) = k"
  by (auto simp: formatSandboxExecutionDedupeKey_def split: if_splits)

lemmas queue_key_defs =
  FormatRuntimeRecoveryDedupeKey_def FormatRuntimeHandoffDedupeKey_def
  FormatRuntimeConfigUpdateDedupeKey_def FormatRuntimeMCPManifestUpdateDedupeKey_def
  FormatCleanupSessionDedupeKey_def FormatSessionDeleteCleanupDedupeKey_def
  FormatEnvironmentBuildDedupeKey_def FormatEnvironmentReadyFanoutDedupeKey_def
  FormatSandboxMemoryProjectionDedupeKey_def

lemma kind_no_colon [simp]:
  "colon \<notin> set KindRuntimeRecovery" "colon \<notin> set KindRuntimeConfigUpdate"
  "colon \<notin> set KindCleanupSession" "colon \<notin> set KindSessionDeleteCleanup"
  "colon \<notin> set KindEnvironmentBuild" "colon \<notin> set KindEnvironmentReadyFanout"
  "colon \<notin> set KindSandboxToolExecute" "colon \<notin> set KindSandboxToolCancel"
  "colon \<notin> set KindSandboxOutputCapture" "colon \<notin> set KindSandboxOutputCaptureCleanup"
  "colon \<notin> set KindSandboxMemoryProjection" "colon \<notin> set KindSandboxBackgroundCommand"
  "colon \<notin> set KindSandboxBackgroundReconcile"
  by (simp_all add: kind_simps)

lemma runtime_keys_kind:
  "FormatRuntimeInputDedupeKey w s i \<noteq> [] \<Longrightarrow>
     before_colon (FormatRuntimeInputDedupeKey w s i) = KindRuntimeInput"
  "FormatRuntimeRecoveryDedupeKey w s i \<noteq> [] \<Longrightarrow>
     before_colon (FormatRuntimeRecoveryDedupeKey w s i) = KindRuntimeRecovery"
  "FormatRuntimeHandoffDedupeKey w s t i \<noteq> [] \<Longrightarrow>
     before_colon (FormatRuntimeHandoffDedupeKey w s t i) = KindRuntimeRecovery"
  "FormatRuntimeConfigUpdateDedupeKey w s i \<noteq> [] \<Longrightarrow>
     before_colon (FormatRuntimeConfigUpdateDedupeKey w s i) = KindRuntimeConfigUpdate"
  "FormatRuntimeMCPManifestUpdateDedupeKey w s t i \<noteq> [] \<Longrightarrow>
     before_colon (FormatRuntimeMCPManifestUpdateDedupeKey w s t i) = KindRuntimeConfigUpdate"
  "FormatCleanupSessionDedupeKey w s i \<noteq> [] \<Longrightarrow>
     before_colon (FormatCleanupSessionDedupeKey w s i) = KindCleanupSession"
  "FormatSessionDeleteCleanupDedupeKey w s i \<noteq> [] \<Longrightarrow>
     before_colon (FormatSessionDeleteCleanupDedupeKey w s i) = KindSessionDeleteCleanup"
  "FormatEnvironmentBuildDedupeKey w s i \<noteq> [] \<Longrightarrow>
     before_colon (FormatEnvironmentBuildDedupeKey w s i) = KindEnvironmentBuild"
  "FormatEnvironmentReadyFanoutDedupeKey w s i \<noteq> [] \<Longrightarrow>
     before_colon (FormatEnvironmentReadyFanoutDedupeKey w s i) = KindEnvironmentReadyFanout"
  by (simp_all only: queue_key_defs formatQueueDedupeKey_kind kind_no_colon not_False_eq_True)
    (auto simp: FormatRuntimeInputDedupeKey_def before_colon_def kind_simps split: if_splits)

lemma sandbox_keys_kind:
  "FormatSandboxToolExecuteDedupeKey w s t u g \<noteq> [] \<Longrightarrow>
     before_colon (FormatSandboxToolExecuteDedupeKey w s t u g) = KindSandboxToolExecute"
  "FormatSandboxToolCancelDedupeKey w s t u \<noteq> [] \<Longrightarrow>
     before_colon (FormatSandboxToolCancelDedupeKey w s t u) = KindSandboxToolCancel"
  "FormatSandboxOutputCaptureDedupeKey w s i g \<noteq> [] \<Longrightarrow>
     before_colon (FormatSandboxOutputCaptureDedupeKey w s i g) = KindSandboxOutputCapture"
  "FormatSandboxOutputCaptureCleanupDedupeKey w s i g h \<noteq> [] \<Longrightarrow>
     before_colon (FormatSandboxOutputCaptureCleanupDedupeKey w s i g h) = KindSandboxOutputCaptureCleanup"
  "FormatSandboxMemoryProjectionDedupeKey w s i \<noteq> [] \<Longrightarrow>
     before_colon (FormatSandboxMemoryProjectionDedupeKey w s i) = KindSandboxMemoryProjection"
  "FormatSandboxBackgroundCommandDedupeKey w s t i \<noteq> [] \<Longrightarrow>
     before_colon (FormatSandboxBackgroundCommandDedupeKey w s t i) = KindSandboxBackgroundCommand"
  "FormatSandboxBackgroundReconcileDedupeKey w s t g \<noteq> [] \<Longrightarrow>
     before_colon (FormatSandboxBackgroundReconcileDedupeKey w s t g) = KindSandboxBackgroundReconcile"
  "FormatSandboxLifecycleDedupeKey k w s i \<noteq> [] \<Longrightarrow>
     before_colon (FormatSandboxLifecycleDedupeKey k w s i) = k"
proof -
  show "FormatSandboxToolExecuteDedupeKey w s t u g \<noteq> [] \<Longrightarrow>
     before_colon (FormatSandboxToolExecuteDedupeKey w s t u g) = KindSandboxToolExecute"
    by (auto simp: FormatSandboxToolExecuteDedupeKey_def sandbox_execution_key_kind split: if_splits)
  show "FormatSandboxLifecycleDedupeKey k w s i \<noteq> [] \<Longrightarrow>
     before_colon (FormatSandboxLifecycleDedupeKey k w s i) = k"
    using known_kind_no_colon [of k]
    by (auto simp: FormatSandboxLifecycleDedupeKey_def isSandboxLifecycleKind_def isKnownKind_def
        formatQueueDedupeKey_kind split: if_splits)
qed (auto simp: FormatSandboxToolCancelDedupeKey_def sandbox_execution_key_kind
    FormatSandboxOutputCaptureDedupeKey_def FormatSandboxOutputCaptureCleanupDedupeKey_def
    FormatSandboxMemoryProjectionDedupeKey_def formatQueueDedupeKey_kind
    FormatSandboxBackgroundCommandDedupeKey_def FormatSandboxBackgroundReconcileDedupeKey_def
    split: if_splits)

lemma tool_execute_key_canonical:
  "validateSandboxToolExecuteDedupeKey r s t u = Inr () \<Longrightarrow>
    \<exists>g. er_DedupeKey r = FormatSandboxToolExecuteDedupeKey (er_WorkspaceID r) s t u g"
  by (auto simp: validateSandboxToolExecuteDedupeKey_def split: option.splits list.splits)

lemma config_update_key:
  assumes "shape_runtime_config_update r raw p = Inr ()"
  shows "(\<exists>s g. er_DedupeKey r = FormatRuntimeConfigUpdateDedupeKey (er_WorkspaceID r) s g) \<or>
    (\<exists>s n g. er_DedupeKey r = FormatRuntimeMCPManifestUpdateDedupeKey (er_WorkspaceID r) s n g)"
proof (cases "requiredPayloadInt64 p ''config_generation''")
  case (Inl e)
  with assms show ?thesis
    by (auto simp: shape_runtime_config_update_def andThen_Inr_iff split: if_splits) blast
next
  case (Inr g)
  with assms show ?thesis
    by (auto simp: shape_runtime_config_update_def andThen_Inr_iff split: if_splits) blast
qed

lemma runtime_shape_kind:
  assumes "er_DedupeKey r \<noteq> []"
  shows "shape_runtime_recovery r = Inr () \<Longrightarrow> before_colon (er_DedupeKey r) = KindRuntimeRecovery"
    "shape_runtime_input r raw p = Inr () \<Longrightarrow> before_colon (er_DedupeKey r) = KindRuntimeInput"
    "shape_cleanup_session r raw p = Inr () \<Longrightarrow> before_colon (er_DedupeKey r) = KindCleanupSession"
    "shape_session_delete_cleanup r raw p = Inr () \<Longrightarrow> before_colon (er_DedupeKey r) = KindSessionDeleteCleanup"
    "shape_environment_build r raw p = Inr () \<Longrightarrow> before_colon (er_DedupeKey r) = KindEnvironmentBuild"
    "shape_environment_ready_fanout r raw p = Inr () \<Longrightarrow> before_colon (er_DedupeKey r) = KindEnvironmentReadyFanout"
  using assms
  by (auto simp: shape_runtime_recovery_def shape_runtime_input_def shape_cleanup_session_def
      shape_session_delete_cleanup_def shape_environment_build_def shape_environment_ready_fanout_def
      andThen_Inr_iff Let_def runtime_keys_kind split: if_splits prod.splits)

lemma config_update_kind:
  assumes "shape_runtime_config_update r raw p = Inr ()" "er_DedupeKey r \<noteq> []"
  shows "before_colon (er_DedupeKey r) = KindRuntimeConfigUpdate"
  using config_update_key [OF assms(1)] assms(2) by (auto simp: runtime_keys_kind)

lemma tool_execute_kind:
  assumes "shape_sandbox_tool_execute r raw p = Inr ()" "er_DedupeKey r \<noteq> []"
  shows "before_colon (er_DedupeKey r) = KindSandboxToolExecute"
  using assms
  by (auto simp: shape_sandbox_tool_execute_def andThen_Inr_iff sandbox_keys_kind
      simp del: requirePayloadStrings.simps split: prod.splits dest!: tool_execute_key_canonical)

lemma sandbox_shape_kind:
  assumes "er_DedupeKey r \<noteq> []"
  shows "shape_sandbox_lifecycle r raw p = Inr () \<Longrightarrow> before_colon (er_DedupeKey r) = er_Kind r"
    "shape_sandbox_tool_cancel r raw p = Inr () \<Longrightarrow> before_colon (er_DedupeKey r) = KindSandboxToolCancel"
    "shape_sandbox_output_capture r raw p = Inr () \<Longrightarrow> before_colon (er_DedupeKey r) = KindSandboxOutputCapture"
    "shape_sandbox_output_capture_cleanup r raw p = Inr () \<Longrightarrow> before_colon (er_DedupeKey r) = KindSandboxOutputCaptureCleanup"
    "shape_sandbox_memory_projection r raw p = Inr () \<Longrightarrow> before_colon (er_DedupeKey r) = KindSandboxMemoryProjection"
    "shape_sandbox_background_command r raw p = Inr () \<Longrightarrow> before_colon (er_DedupeKey r) = KindSandboxBackgroundCommand"
    "shape_sandbox_background_reconcile r raw p = Inr () \<Longrightarrow> before_colon (er_DedupeKey r) = KindSandboxBackgroundReconcile"
  using assms
  by (auto simp: shape_sandbox_lifecycle_def shape_sandbox_tool_cancel_def
      shape_sandbox_output_capture_def shape_sandbox_output_capture_cleanup_def
      shape_sandbox_memory_projection_def shape_sandbox_background_command_def
      shape_sandbox_background_reconcile_def andThen_Inr_iff sandbox_keys_kind
      simp del: requirePayloadStrings.simps split: prod.splits)

lemma shape_dedupe_kind:
  assumes "validateCanonicalQueueShape r = Inr ()"
  shows "before_colon (er_DedupeKey r) = er_Kind r"
proof -
  obtain raw p where "shape_of_kind r raw p = Inr ()" and key: "er_DedupeKey r \<noteq> []"
    using assms by (auto simp: validateCanonicalQueueShape_def andThen_Inr_iff Let_def)
  then show ?thesis
    using runtime_shape_kind [OF key] sandbox_shape_kind [OF key] config_update_kind [OF _ key]
      tool_execute_kind [OF _ key]
    by (auto simp: shape_of_kind_def Let_def split: if_splits)
qed

subsection \<open>Constructed requests are admitted\<close>

lemma decode_Marshal:
  assumes "json_ok (JObject kvs)" "json_depth (JObject kvs) \<le> maxNestingDepth"
  shows "decodePayloadObject (Marshal (JObject kvs)) = Inr kvs"
    "Option.bind (Unmarshal (Marshal (JObject kvs))) json_map = Some (Some kvs)"
  using Unmarshal_Marshal [OF assms] by (simp_all add: decodePayloadObject_def del: Marshal.simps)

lemma foldName_fields [simp]:
  "foldName ''session_id'' = ''SESSION_ID''"
  "foldName ''session_thread_id'' = ''SESSION_THREAD_ID''"
  "foldName ''source_event_id'' = ''SOURCE_EVENT_ID''"
  "foldName ''handoff_id'' = ''HANDOFF_ID''"
  by code_simp+

lemma ValidString_fields [simp]:
  "ValidString ''session_id''" "ValidString ''session_thread_id''" "ValidString ''source_event_id''"
  "ValidString ''handoff_id''" "ValidString ''workspace_id''" "ValidString ''runtime_input_id''"
  "ValidString ''event_ids''" "ValidString ''sequence_from''" "ValidString ''sequence_to''"
  "ValidString ''input_kind''" "ValidString ''task_notification''"
  by (rule ValidString_ascii, simp)+

definition recovery_fields :: "bytes \<Rightarrow> bytes \<Rightarrow> bytes \<Rightarrow> bytes \<Rightarrow> payload" where
  "recovery_fields source sid tid x =
     [(''session_id'', JString sid), (''session_thread_id'', JString tid), (source, JString x)]"

lemma recovery_fields_ok:
  assumes "ValidString source" "ValidString sid" "ValidString tid" "ValidString x"
  shows "json_ok (JObject (recovery_fields source sid tid x))"
    "json_depth (JObject (recovery_fields source sid tid x)) \<le> maxNestingDepth"
  using assms by (simp_all add: recovery_fields_def maxNestingDepth_def)

lemma recovery_decode:
  assumes "ValidString sid" "ValidString tid" "ValidString x" "sid \<noteq> []" "tid \<noteq> []" "x \<noteq> []"
  shows "DecodeRuntimeRecoveryPayload (Marshal (JObject (recovery_fields ''source_event_id'' sid tid x))) =
      Inr \<lparr>rp_SessionID = sid, rp_SessionThreadID = tid, rp_SourceEventID = x, rp_HandoffID = []\<rparr>"
    "DecodeRuntimeRecoveryPayload (Marshal (JObject (recovery_fields ''handoff_id'' sid tid x))) =
      Inr \<lparr>rp_SessionID = sid, rp_SessionThreadID = tid, rp_SourceEventID = [], rp_HandoffID = x\<rparr>"
  using assms
  by (simp_all add: DecodeRuntimeRecoveryPayload_def decode_Marshal(2) [OF recovery_fields_ok]
      del: Marshal.simps)
    (simp_all add: recovery_fields_def store_recovery_field_def store_string_def Let_def
      del: foldName.simps)

lemma recovery_payload_length:
  "length (Marshal (JObject (recovery_fields source sid tid x))) \<le>
     6 * (length source + length sid + length tid + length x) + 200"
  using length_quote [of source] length_quote [of sid] length_quote [of tid] length_quote [of x]
    length_quote [of "''session_id''"] length_quote [of "''session_thread_id''"]
  by (simp add: recovery_fields_def)

lemma recovery_shape:
  assumes "er_Kind q = KindRuntimeRecovery" "er_DedupeKey q \<noteq> []"
    and "decodePayloadObject (er_PayloadJSON q) = Inr raw"
  shows "validateCanonicalQueueShape q = shape_runtime_recovery q"
proof -
  have "isKnownKind KindRuntimeRecovery" "\<not> IsSandboxJobKind KindRuntimeRecovery"
    by (simp_all add: isKnownKind_def IsSandboxJobKind_def kind_simps)
  with assms show ?thesis
    by (simp add: validateCanonicalQueueShape_def payload_workspace_def shape_of_kind_def)
qed

lemma recovery_derive:
  assumes "er_Kind q = KindRuntimeRecovery" "er_PayloadJSON q = Marshal (JObject (recovery_fields source sid tid x))"
    and "ValidString source" "ValidString sid" "ValidString tid" "ValidString x" "sid \<noteq> []" "tid \<noteq> []"
    and "source \<noteq> ''session_id''" "source \<noteq> ''session_thread_id''"
  shows "deriveQueueDeliveryAuthority q = Inr (redeliver sid (Some ScopeThread) tid (Some Ordinary) q)"
proof -
  have "IsJobRunnerKind KindRuntimeRecovery" "KindRuntimeRecovery \<noteq> KindRuntimeInput"
    by (simp_all add: IsJobRunnerKind_def kind_simps)
  moreover have "decodePayloadObject (er_PayloadJSON q) = Inr (recovery_fields source sid tid x)"
    using assms by (simp add: decode_Marshal(1) [OF recovery_fields_ok] del: Marshal.simps)
  moreover have "payloadTokens (recovery_fields source sid tid x) ''session_id'' = Some sid"
      "payloadTokens (recovery_fields source sid tid x) ''session_thread_id'' = Some tid"
    using assms by (simp_all add: payloadTokens_def recovery_fields_def payloadToken_def)
  ultimately show ?thesis
    using assms(1,7,8)
    by (simp add: deriveQueueDeliveryAuthority_def Let_def runtime_control_class_def
        requiredPayloadToken_def)
qed

text \<open>A request within the transport bounds goes straight to its shape check.\<close>

lemma normalize_runtime_request:
  assumes "length rnd = 8" "ws \<noteq> []" "length ws \<le> MaxWorkspaceIDBytes" "k \<noteq> []"
    and "pk \<noteq> []" "length pk \<le> MaxQueuePartitionKeyBytes" "length dk \<le> MaxQueueDedupeKeyBytes"
    and "length (Marshal j) \<le> MaxQueueJobPayloadBytes" "Marshal j \<noteq> []"
  shows "NormalizeEnqueueRequest rnd' wall (runtime_request rnd ws k pk dk j now) =
    (let d = admission_defaults rnd' wall (runtime_request rnd ws k pk dk j now)
     in andThen (validateCanonicalQueueShape d) (\<lambda>_. deriveQueueDeliveryAuthority d))"
  using assms
  by (simp add: NormalizeEnqueueRequest_def admission_bounds_def runtime_request_def length_NewJobID
      admission_defaults_def DefaultMaxAttempts_def Let_def)

lemma runtime_request_fields [simp]:
  "er_Kind (runtime_request rnd ws k pk dk j now) = k"
  "er_WorkspaceID (runtime_request rnd ws k pk dk j now) = ws"
  "er_PartitionKey (runtime_request rnd ws k pk dk j now) = pk"
  "er_DedupeKey (runtime_request rnd ws k pk dk j now) = dk"
  "er_PayloadJSON (runtime_request rnd ws k pk dk j now) = Marshal j"
  by (simp_all add: runtime_request_def)

definition request_id_ok :: "bytes \<Rightarrow> bool" where
  "request_id_ok i \<longleftrightarrow> i \<noteq> [] \<and> length i \<le> 256 \<and> ValidString i"

lemma session_partition_key_bound:
  assumes "ws \<noteq> []" "length ws \<le> MaxWorkspaceIDBytes" "request_id_ok sid"
  shows "FormatSessionPartitionKey ws sid \<noteq> []"
    "length (FormatSessionPartitionKey ws sid) \<le> MaxQueuePartitionKeyBytes"
  using assms by (simp_all add: FormatSessionPartitionKey_def FormatPartitionKey_def request_id_ok_def bound_defs)

lemma recovery_normalize:
  assumes "length rnd = 8" "ws \<noteq> []" "length ws \<le> MaxWorkspaceIDBytes"
    and ids: "request_id_ok sid" "request_id_ok tid" "request_id_ok x"
    and source: "source = ''source_event_id'' \<and> dk = FormatRuntimeRecoveryDedupeKey ws sid x \<or>
      source = ''handoff_id'' \<and> dk = FormatRuntimeHandoffDedupeKey ws sid tid x"
    and q: "q = runtime_request rnd ws KindRuntimeRecovery (FormatSessionPartitionKey ws sid) dk
    (JObject (recovery_fields source sid tid x)) now"
  shows "NormalizeEnqueueRequest rnd' wall q =
    Inr (redeliver sid (Some ScopeThread) tid (Some Ordinary) (admission_defaults rnd' wall q))"
proof -
  let ?d = "admission_defaults rnd' wall q"
  have src: "ValidString source" "source \<noteq> ''session_id''" "source \<noteq> ''session_thread_id''" "length source \<le> 15"
    using source by auto
  have "KindRuntimeRecovery \<noteq> []" "length KindRuntimeRecovery = 16" by (simp_all add: kind_simps)
  then have dk: "dk \<noteq> []" "length dk \<le> MaxQueueDedupeKeyBytes"
    using source assms(2,3) ids
    by (auto simp: FormatRuntimeRecoveryDedupeKey_def FormatRuntimeHandoffDedupeKey_def
        formatQueueDedupeKey_def request_id_ok_def bound_defs)
  have len: "length (Marshal (JObject (recovery_fields source sid tid x))) \<le> MaxQueueJobPayloadBytes"
    using recovery_payload_length [of source sid tid x] ids src
    by (simp add: request_id_ok_def bound_defs del: Marshal.simps)
  have ne: "Marshal (JObject (recovery_fields source sid tid x)) \<noteq> []" by simp
  have dec: "decodePayloadObject (er_PayloadJSON ?d) = Inr (recovery_fields source sid tid x)"
    using ids src by (simp add: q decode_Marshal(1) [OF recovery_fields_ok] request_id_ok_def del: Marshal.simps)
  have "shape_runtime_recovery ?d = Inr ()"
    using source ids
    by (auto simp: shape_runtime_recovery_def q recovery_decode request_id_ok_def simp del: Marshal.simps)
  then have "validateCanonicalQueueShape ?d = Inr ()"
    using recovery_shape [OF _ _ dec] dk by (simp add: q)
  moreover have "deriveQueueDeliveryAuthority ?d = Inr (redeliver sid (Some ScopeThread) tid (Some Ordinary) ?d)"
    using ids src by (intro recovery_derive [of _ source sid tid x]) (auto simp: q request_id_ok_def)
  ultimately show ?thesis
    using normalize_runtime_request [OF assms(1-3) _ session_partition_key_bound [OF assms(2,3) ids(1)] dk(2) len ne]
      \<open>KindRuntimeRecovery \<noteq> []\<close>
    by (simp add: q del: Marshal.simps)
qed

definition notification_fields :: "bytes \<Rightarrow> bytes \<Rightarrow> bytes \<Rightarrow> bytes \<Rightarrow> payload" where
  "notification_fields ws sid tid rid =
     [(''workspace_id'', JString ws), (''session_id'', JString sid), (''session_thread_id'', JString tid),
      (''runtime_input_id'', JString rid), (''event_ids'', JArray []),
      (''sequence_from'', JNumber (FormatInt 0)), (''sequence_to'', JNumber (FormatInt 0)),
      (''input_kind'', JString ''task_notification'')]"

lemma FormatInt_0 [simp]: "FormatInt 0 = ''0''"
  by (simp add: FormatInt_def)

lemma json_ok_zero [simp]: "valid_number ''0''" "num_char CHR ''0''"
  using json_ok_FormatInt [of 0] by simp_all

lemma notification_fields_ok:
  assumes "ValidString ws" "ValidString sid" "ValidString tid" "ValidString rid"
  shows "json_ok (JObject (notification_fields ws sid tid rid))"
    "json_depth (JObject (notification_fields ws sid tid rid)) \<le> maxNestingDepth"
  using assms by (simp_all add: notification_fields_def maxNestingDepth_def)

lemma notification_payload_length:
  "length (Marshal (JObject (notification_fields ws sid tid rid))) \<le>
     6 * (length ws + length sid + length tid + length rid) + 900"
  using length_quote [of ws] length_quote [of sid] length_quote [of tid] length_quote [of rid]
    length_quote [of "''workspace_id''"] length_quote [of "''session_id''"]
    length_quote [of "''session_thread_id''"] length_quote [of "''runtime_input_id''"]
    length_quote [of "''event_ids''"] length_quote [of "''sequence_from''"]
    length_quote [of "''sequence_to''"] length_quote [of "''input_kind''"]
    length_quote [of "''task_notification''"]
  by (simp add: notification_fields_def)

lemma notification_tokens:
  assumes "ws \<noteq> []" "sid \<noteq> []" "tid \<noteq> []" "rid \<noteq> []"
  shows "payloadTokens (notification_fields ws sid tid rid) ''workspace_id'' = Some ws"
    "payloadTokens (notification_fields ws sid tid rid) ''session_id'' = Some sid"
    "payloadTokens (notification_fields ws sid tid rid) ''session_thread_id'' = Some tid"
    "payloadTokens (notification_fields ws sid tid rid) ''runtime_input_id'' = Some rid"
    "payloadTokens (notification_fields ws sid tid rid) ''sequence_from'' = Some ''0''"
    "payloadTokens (notification_fields ws sid tid rid) ''sequence_to'' = Some ''0''"
    "payloadTokens (notification_fields ws sid tid rid) ''input_kind'' = Some ''task_notification''"
  using assms by (simp_all add: payloadTokens_def notification_fields_def payloadToken_def)

lemma ParseInt_zero: "ParseInt ''0'' = Some 0"
  using ParseInt_FormatInt [of 0] by (simp add: in_int64_def int64_min_def int64_max_def)

lemma notification_events:
  assumes "ws \<noteq> []" "sid \<noteq> []" "tid \<noteq> []" "rid \<noteq> []"
  shows "runtime_input_events (notification_fields ws sid tid rid)
    (payloadTokens (notification_fields ws sid tid rid)) ''task_notification'' = Inr []"
proof -
  have "payloadStringArray (notification_fields ws sid tid rid) ''event_ids'' True = Inr []"
    by (simp add: payloadStringArray_def notification_fields_def)
  then show ?thesis
    using notification_tokens [OF assms]
    by (simp add: runtime_input_events_def token_at_def parsePayloadInt64_def ParseInt_zero)
qed

lemma notification_shape:
  assumes "ws \<noteq> []" "sid \<noteq> []" "tid \<noteq> []" "rid \<noteq> []" "er_WorkspaceID q = ws"
    and "er_PartitionKey q = FormatSessionPartitionKey ws sid"
    and "er_DedupeKey q = FormatRuntimeInputDedupeKey ws sid rid"
  shows "shape_runtime_input q (notification_fields ws sid tid rid)
    (payloadTokens (notification_fields ws sid tid rid)) = Inr ()"
proof -
  have "validatePayloadKeys (notification_fields ws sid tid rid)
      [''workspace_id'', ''session_id'', ''session_thread_id'', ''runtime_input_id'', ''event_ids'',
        ''sequence_from'', ''sequence_to'', ''input_kind''] = Inr ()"
    by (simp add: validatePayloadKeys_def notification_fields_def)
  moreover have "isRuntimeInputKind ''task_notification''" "\<not> IsNonStartingRuntimeInputKind ''task_notification''"
    by (simp_all add: isRuntimeInputKind_def IsNonStartingRuntimeInputKind_def
        NonStartingRuntimeInputKinds_def kind_simps)
  ultimately show ?thesis
    using notification_tokens [OF assms(1-4)] notification_events [OF assms(1-4)] assms
    by (simp add: shape_runtime_input_def requiredPayloadTokens_def requiredPayloadToken_def token_at_def
        andThen_Inr_iff)
qed

lemma notification_derive:
  assumes "er_Kind q = KindRuntimeInput" "er_PayloadJSON q = Marshal (JObject (notification_fields ws sid tid rid))"
    and "ValidString ws" "ValidString sid" "ValidString tid" "ValidString rid"
    and "ws \<noteq> []" "sid \<noteq> []" "tid \<noteq> []" "rid \<noteq> []"
  shows "deriveQueueDeliveryAuthority q = Inr (redeliver sid (Some ScopeThread) tid (Some Ordinary) q)"
proof -
  have "IsJobRunnerKind KindRuntimeInput"
    by (simp add: IsJobRunnerKind_def)
  moreover have "decodePayloadObject (er_PayloadJSON q) = Inr (notification_fields ws sid tid rid)"
    using assms by (simp add: decode_Marshal(1) [OF notification_fields_ok] del: Marshal.simps)
  ultimately show ?thesis
    using assms(1,7-) notification_tokens [OF assms(7-)]
    by (simp add: deriveQueueDeliveryAuthority_def Let_def runtime_control_class_def
        requiredPayloadToken_def token_at_def)
qed

lemma notification_normalize:
  assumes "length rnd = 8" "ws \<noteq> []" "length ws \<le> MaxWorkspaceIDBytes" "ValidString ws"
    and ids: "request_id_ok sid" "request_id_ok tid" "request_id_ok rid"
    and q: "q = runtime_request rnd ws KindRuntimeInput (FormatSessionPartitionKey ws sid)
      (FormatRuntimeInputDedupeKey ws sid rid) (JObject (notification_fields ws sid tid rid)) now"
  shows "NormalizeEnqueueRequest rnd' wall q =
    Inr (redeliver sid (Some ScopeThread) tid (Some Ordinary) (admission_defaults rnd' wall q))"
proof -
  let ?d = "admission_defaults rnd' wall q"
  note ne = assms(2) ids [unfolded request_id_ok_def]
  have kind: "KindRuntimeInput \<noteq> []" "KindRuntimeInput \<noteq> KindRuntimeRecovery"
    "isKnownKind KindRuntimeInput" "\<not> IsSandboxJobKind KindRuntimeInput"
    by (simp_all add: kind_simps isKnownKind_def IsSandboxJobKind_def)
  have dk: "FormatRuntimeInputDedupeKey ws sid rid \<noteq> []"
    "length (FormatRuntimeInputDedupeKey ws sid rid) \<le> MaxQueueDedupeKeyBytes"
    using ne assms(3) by (auto simp: FormatRuntimeInputDedupeKey_def bound_defs)
  have len: "length (Marshal (JObject (notification_fields ws sid tid rid))) \<le> MaxQueueJobPayloadBytes"
    using notification_payload_length [of ws sid tid rid] ne assms(3) by (simp add: bound_defs del: Marshal.simps)
  have "decodePayloadObject (er_PayloadJSON ?d) = Inr (notification_fields ws sid tid rid)"
    using ne assms(4) by (simp add: q decode_Marshal(1) [OF notification_fields_ok] del: Marshal.simps)
  moreover have "shape_runtime_input ?d (notification_fields ws sid tid rid)
      (payloadTokens (notification_fields ws sid tid rid)) = Inr ()"
    using ne by (intro notification_shape) (auto simp: q)
  ultimately have "validateCanonicalQueueShape ?d = Inr ()"
    using dk kind ne notification_tokens [of ws sid tid rid]
    by (simp add: validateCanonicalQueueShape_def q payload_workspace_def token_at_def shape_of_kind_def
        del: Marshal.simps)
  moreover have "deriveQueueDeliveryAuthority ?d = Inr (redeliver sid (Some ScopeThread) tid (Some Ordinary) ?d)"
    using ne assms(4) by (intro notification_derive [of _ ws sid tid rid]) (auto simp: q)
  ultimately show ?thesis
    using normalize_runtime_request
        [OF assms(1-3) kind(1) session_partition_key_bound [OF assms(2,3) ids(1)] dk(2) len]
    by (simp add: q)
qed

subsection \<open>The keys and coordinates of each kind\<close>

text \<open>The partition and dedupe keys a job of a kind may carry, from the identity its payload
  names. A recovery job reads its identity through the typed payload.\<close>

definition positive_token :: "tokens \<Rightarrow> bytes \<Rightarrow> int \<Rightarrow> bool" where
  "positive_token tok key g \<longleftrightarrow> (\<exists>v. tok key = Some v \<and> ParseInt v = Some g \<and> 0 < g)"

inductive canonical_keys :: "bytes \<Rightarrow> bytes \<Rightarrow> tokens \<Rightarrow> bytes \<Rightarrow> bytes \<Rightarrow> bytes \<Rightarrow> bool" for ws json tok where
  keys_recovery: "DecodeRuntimeRecoveryPayload json = Inr p \<Longrightarrow> rp_HandoffID p = [] \<Longrightarrow>
    canonical_keys ws json tok KindRuntimeRecovery (FormatSessionPartitionKey ws (rp_SessionID p))
      (FormatRuntimeRecoveryDedupeKey ws (rp_SessionID p) (rp_SourceEventID p))"
| keys_handoff: "DecodeRuntimeRecoveryPayload json = Inr p \<Longrightarrow> rp_HandoffID p \<noteq> [] \<Longrightarrow>
    canonical_keys ws json tok KindRuntimeRecovery (FormatSessionPartitionKey ws (rp_SessionID p))
      (FormatRuntimeHandoffDedupeKey ws (rp_SessionID p) (rp_SessionThreadID p) (rp_HandoffID p))"
| keys_input: "tok ''session_id'' = Some s \<Longrightarrow> tok ''runtime_input_id'' = Some i \<Longrightarrow>
    canonical_keys ws json tok KindRuntimeInput (FormatSessionPartitionKey ws s) (FormatRuntimeInputDedupeKey ws s i)"
| keys_config: "tok ''session_id'' = Some s \<Longrightarrow> positive_token tok ''config_generation'' g \<Longrightarrow>
    canonical_keys ws json tok KindRuntimeConfigUpdate (FormatSessionPartitionKey ws s)
      (FormatRuntimeConfigUpdateDedupeKey ws s (FormatInt g))"
| keys_manifest: "tok ''session_id'' = Some s \<Longrightarrow> tok ''config_generation'' = None \<Longrightarrow> tok ''mcp_server_name'' = Some n \<Longrightarrow>
    positive_token tok ''manifest_generation'' g \<Longrightarrow>
    canonical_keys ws json tok KindRuntimeConfigUpdate (FormatSessionPartitionKey ws s)
      (FormatRuntimeMCPManifestUpdateDedupeKey ws s n (FormatInt g))"
| keys_cleanup: "tok ''session_id'' = Some s \<Longrightarrow> tok ''cleanup_job_id'' = Some i \<Longrightarrow>
    canonical_keys ws json tok KindCleanupSession (FormatSessionPartitionKey ws s) (FormatCleanupSessionDedupeKey ws s i)"
| keys_delete: "tok ''session_id'' = Some s \<Longrightarrow> tok ''delete_cleanup_id'' = Some i \<Longrightarrow>
    canonical_keys ws json tok KindSessionDeleteCleanup (FormatSessionPartitionKey ws s)
      (FormatSessionDeleteCleanupDedupeKey ws s i)"
| keys_build: "tok ''environment_id'' = Some e \<Longrightarrow> tok ''generation'' = Some g \<Longrightarrow>
    canonical_keys ws json tok KindEnvironmentBuild (FormatEnvironmentPartitionKey ws e) (FormatEnvironmentBuildDedupeKey ws e g)"
| keys_fanout: "tok ''environment_id'' = Some e \<Longrightarrow> tok ''generation'' = Some g \<Longrightarrow>
    canonical_keys ws json tok KindEnvironmentReadyFanout (FormatEnvironmentPartitionKey ws e)
      (FormatEnvironmentReadyFanoutDedupeKey ws e g)"
| keys_execute: "tok ''session_id'' = Some s \<Longrightarrow> tok ''session_thread_id'' = Some t \<Longrightarrow> tok ''tool_use_event_id'' = Some u \<Longrightarrow> 0 < g \<Longrightarrow>
    canonical_keys ws json tok KindSandboxToolExecute (FormatSandboxExecutionPartitionKey ws s t u)
      (FormatSandboxToolExecuteDedupeKey ws s t u g)"
| keys_cancel: "tok ''session_id'' = Some s \<Longrightarrow> tok ''session_thread_id'' = Some t \<Longrightarrow> tok ''tool_use_event_id'' = Some u \<Longrightarrow>
    canonical_keys ws json tok KindSandboxToolCancel (FormatSandboxCancelPartitionKey ws s t u)
      (FormatSandboxToolCancelDedupeKey ws s t u)"
| keys_lifecycle: "isSandboxLifecycleKind kind \<Longrightarrow> tok ''session_id'' = Some s \<Longrightarrow> tok ''logical_sandbox_id'' = Some l \<Longrightarrow>
    tok ''operation_id'' = Some i \<Longrightarrow>
    canonical_keys ws json tok kind (FormatSandboxLifecyclePartitionKey ws l) (FormatSandboxLifecycleDedupeKey kind ws l i)"
| keys_capture: "tok ''session_id'' = Some s \<Longrightarrow> tok ''finish_idle_write_id'' = Some f \<Longrightarrow> positive_token tok ''capture_generation'' g \<Longrightarrow>
    canonical_keys ws json tok KindSandboxOutputCapture (FormatSandboxCapturePartitionKey ws s f)
      (FormatSandboxOutputCaptureDedupeKey ws s f g)"
| keys_capture_cleanup: "tok ''session_id'' = Some s \<Longrightarrow> tok ''finish_idle_write_id'' = Some f \<Longrightarrow>
    positive_token tok ''capture_generation'' g \<Longrightarrow> positive_token tok ''cleanup_generation'' h \<Longrightarrow>
    canonical_keys ws json tok KindSandboxOutputCaptureCleanup (FormatSandboxCapturePartitionKey ws s f)
      (FormatSandboxOutputCaptureCleanupDedupeKey ws s f g h)"
| keys_memory: "tok ''session_id'' = Some s \<Longrightarrow> tok ''memory_store_id'' = Some m \<Longrightarrow> tok ''memory_write_id'' = Some i \<Longrightarrow>
    canonical_keys ws json tok KindSandboxMemoryProjection (FormatSandboxMemoryPartitionKey ws m)
      (FormatSandboxMemoryProjectionDedupeKey ws m i)"
| keys_command: "tok ''session_id'' = Some s \<Longrightarrow> tok ''task_id'' = Some t \<Longrightarrow> tok ''request_id'' = Some i \<Longrightarrow>
    canonical_keys ws json tok KindSandboxBackgroundCommand (FormatSandboxBackgroundPartitionKey ws s t)
      (FormatSandboxBackgroundCommandDedupeKey ws s t i)"
| keys_reconcile: "tok ''session_id'' = Some s \<Longrightarrow> tok ''task_id'' = Some t \<Longrightarrow> positive_token tok ''reconcile_generation'' g \<Longrightarrow>
    canonical_keys ws json tok KindSandboxBackgroundReconcile (FormatSandboxBackgroundPartitionKey ws s t)
      (FormatSandboxBackgroundReconcileDedupeKey ws s t g)"

lemma required_int:
  "requiredPayloadInt64 tok key = Inr g \<Longrightarrow> \<exists>v. tok key = Some v \<and> ParseInt v = Some g"
  by (auto simp: requiredPayloadInt64_def parsePayloadInt64_def andThen_Inr_iff split: option.splits)

lemma required_positive:
  "requiredPositivePayloadInt64 tok key = Inr g \<Longrightarrow> positive_token tok key g"
  by (auto simp: requiredPositivePayloadInt64_def positive_token_def split: sum.splits if_splits dest: required_int)

lemma manifest_identity:
  "mcpManifestPayloadIdentity raw = Inr (n, m) \<Longrightarrow>
    payloadTokens raw ''mcp_server_name'' = Some n \<and> (\<exists>g. m = FormatInt g \<and> positive_token (payloadTokens raw) ''manifest_generation'' g)"
  by (auto simp: mcpManifestPayloadIdentity_def positive_token_def Let_def split: sum.splits if_splits dest!: required_int)

lemma recovery_shape_keys:
  assumes "shape_runtime_recovery r = Inr ()"
  shows "canonical_keys (er_WorkspaceID r) (er_PayloadJSON r) tok KindRuntimeRecovery (er_PartitionKey r) (er_DedupeKey r)"
proof -
  obtain p where p: "DecodeRuntimeRecoveryPayload (er_PayloadJSON r) = Inr p"
      "er_PartitionKey r = FormatSessionPartitionKey (er_WorkspaceID r) (rp_SessionID p)"
      "er_DedupeKey r = (if rp_HandoffID p \<noteq> []
        then FormatRuntimeHandoffDedupeKey (er_WorkspaceID r) (rp_SessionID p) (rp_SessionThreadID p) (rp_HandoffID p)
        else FormatRuntimeRecoveryDedupeKey (er_WorkspaceID r) (rp_SessionID p) (rp_SourceEventID p))"
    using assms by (auto simp: shape_runtime_recovery_def andThen_Inr_iff simp del: split_paired_Ex)
  show ?thesis
    using keys_recovery [OF p(1)] keys_handoff [OF p(1)] by (cases "rp_HandoffID p = []") (simp_all add: p(2,3))
qed

lemma runtime_shape_keys:
  fixes r :: EnqueueRequest and raw :: payload
  defines "canonical \<equiv> canonical_keys (er_WorkspaceID r) (er_PayloadJSON r) (payloadTokens raw)"
  shows "shape_runtime_input r raw (payloadTokens raw) = Inr () \<Longrightarrow> canonical KindRuntimeInput (er_PartitionKey r) (er_DedupeKey r)"
    "shape_cleanup_session r raw (payloadTokens raw) = Inr () \<Longrightarrow> canonical KindCleanupSession (er_PartitionKey r) (er_DedupeKey r)"
    "shape_session_delete_cleanup r raw (payloadTokens raw) = Inr () \<Longrightarrow> canonical KindSessionDeleteCleanup (er_PartitionKey r) (er_DedupeKey r)"
    "shape_environment_build r raw (payloadTokens raw) = Inr () \<Longrightarrow> canonical KindEnvironmentBuild (er_PartitionKey r) (er_DedupeKey r)"
    "shape_environment_ready_fanout r raw (payloadTokens raw) = Inr () \<Longrightarrow> canonical KindEnvironmentReadyFanout (er_PartitionKey r) (er_DedupeKey r)"
  unfolding canonical_def
  by (auto simp: shape_runtime_input_def shape_cleanup_session_def shape_session_delete_cleanup_def shape_environment_build_def
      shape_environment_ready_fanout_def requiredPayloadTokens_def andThen_Inr_iff Let_def
      split: if_splits intro: canonical_keys.intros)

lemma config_shape_keys:
  assumes "shape_runtime_config_update r raw (payloadTokens raw) = Inr ()"
  shows "canonical_keys (er_WorkspaceID r) (er_PayloadJSON r) (payloadTokens raw) KindRuntimeConfigUpdate (er_PartitionKey r) (er_DedupeKey r)"
proof (cases "field raw ''config_generation'' = None")
  case True
  then have "payloadTokens raw ''config_generation'' = None" by (simp add: payloadTokens_def)
  then show ?thesis
    using assms True by (auto simp: shape_runtime_config_update_def andThen_Inr_iff dest!: manifest_identity intro: keys_manifest)
next
  case False
  show ?thesis
  proof (cases "requiredPayloadInt64 (payloadTokens raw) ''config_generation''")
    case (Inr g)
    then have "0 < g \<Longrightarrow> positive_token (payloadTokens raw) ''config_generation'' g"
      by (auto simp: positive_token_def dest: required_int)
    then show ?thesis
      using assms False Inr by (auto simp: shape_runtime_config_update_def andThen_Inr_iff split: if_splits intro: keys_config)
  qed (use assms False in \<open>auto simp: shape_runtime_config_update_def andThen_Inr_iff\<close>)
qed

lemma execute_key_generation:
  "validateSandboxToolExecuteDedupeKey r s t u = Inr () \<Longrightarrow>
    \<exists>g>0. er_DedupeKey r = FormatSandboxToolExecuteDedupeKey (er_WorkspaceID r) s t u g"
  by (auto simp: validateSandboxToolExecuteDedupeKey_def split: option.splits list.splits)

lemma sandbox_shape_keys:
  fixes r :: EnqueueRequest and raw :: payload
  defines "canonical \<equiv> canonical_keys (er_WorkspaceID r) (er_PayloadJSON r) (payloadTokens raw)"
  shows "shape_sandbox_tool_execute r raw (payloadTokens raw) = Inr () \<Longrightarrow> canonical KindSandboxToolExecute (er_PartitionKey r) (er_DedupeKey r)"
    "shape_sandbox_lifecycle r raw (payloadTokens raw) = Inr () \<Longrightarrow> isSandboxLifecycleKind (er_Kind r) \<Longrightarrow>
       canonical (er_Kind r) (er_PartitionKey r) (er_DedupeKey r)"
    "shape_sandbox_tool_cancel r raw (payloadTokens raw) = Inr () \<Longrightarrow> canonical KindSandboxToolCancel (er_PartitionKey r) (er_DedupeKey r)"
    "shape_sandbox_output_capture r raw (payloadTokens raw) = Inr () \<Longrightarrow> canonical KindSandboxOutputCapture (er_PartitionKey r) (er_DedupeKey r)"
    "shape_sandbox_output_capture_cleanup r raw (payloadTokens raw) = Inr () \<Longrightarrow>
       canonical KindSandboxOutputCaptureCleanup (er_PartitionKey r) (er_DedupeKey r)"
    "shape_sandbox_memory_projection r raw (payloadTokens raw) = Inr () \<Longrightarrow> canonical KindSandboxMemoryProjection (er_PartitionKey r) (er_DedupeKey r)"
    "shape_sandbox_background_command r raw (payloadTokens raw) = Inr () \<Longrightarrow> canonical KindSandboxBackgroundCommand (er_PartitionKey r) (er_DedupeKey r)"
    "shape_sandbox_background_reconcile r raw (payloadTokens raw) = Inr () \<Longrightarrow>
       canonical KindSandboxBackgroundReconcile (er_PartitionKey r) (er_DedupeKey r)"
  unfolding canonical_def
  by (auto simp: shape_sandbox_tool_execute_def shape_sandbox_lifecycle_def shape_sandbox_tool_cancel_def shape_sandbox_output_capture_def
      shape_sandbox_output_capture_cleanup_def shape_sandbox_memory_projection_def shape_sandbox_background_command_def
      shape_sandbox_background_reconcile_def sandboxExecutionPayloadIdentity_def requiredPayloadTokens_def andThen_Inr_iff
      simp del: requirePayloadStrings.simps dest!: execute_key_generation required_positive intro: canonical_keys.intros)

text \<open>Where a job is delivered: a Job Runner job to the Session its payload names, a runtime job
  to its Thread, with the class of a runtime input taken from its input kind.\<close>

definition delivered_as :: "EnqueueRequest \<Rightarrow> tokens \<Rightarrow> bool" where
  "delivered_as r tok \<longleftrightarrow>
     (if er_Kind r = KindRuntimeInput \<or> er_Kind r = KindRuntimeRecovery
      then er_DeliveryScope r = Some ScopeThread \<and> tok ''session_id'' = Some (er_CausalSessionID r) \<and>
        tok ''session_thread_id'' = Some (er_DeliveryThreadID r) \<and> er_ControlClass r \<noteq> None \<and>
        (er_ControlClass r = Some Interrupt \<longleftrightarrow> er_Kind r = KindRuntimeInput \<and> tok ''input_kind'' = Some ''interrupt_control'') \<and>
        (er_ControlClass r = Some AgentMail \<longleftrightarrow> er_Kind r = KindRuntimeInput \<and> tok ''input_kind'' = Some ''agent_mail'')
      else if IsJobRunnerKind (er_Kind r)
      then er_DeliveryScope r = Some ScopeSession \<and> tok ''session_id'' = Some (er_CausalSessionID r) \<and>
        er_DeliveryThreadID r = [] \<and> er_ControlClass r = Some Ordinary
      else er_DeliveryScope r = Some ScopePartition \<and> er_CausalSessionID r = [] \<and> er_DeliveryThreadID r = [] \<and>
        er_ControlClass r = Some Ordinary)"

lemma class_of_input:
  "runtime_control_class q tok = Interrupt \<longleftrightarrow> er_Kind q = KindRuntimeInput \<and> tok ''input_kind'' = Some ''interrupt_control''"
  "runtime_control_class q tok = AgentMail \<longleftrightarrow> er_Kind q = KindRuntimeInput \<and> tok ''input_kind'' = Some ''agent_mail''"
  by (auto simp: runtime_control_class_def token_at_def split: option.splits)

lemma derive_delivered:
  assumes "deriveQueueDeliveryAuthority q = Inr r" "decodePayloadObject (er_PayloadJSON q) = Inr raw"
  shows "delivered_as r (payloadTokens raw)"
proof (cases "IsJobRunnerKind (er_Kind q)")
  case False
  then have "er_Kind q \<noteq> KindRuntimeInput" "er_Kind q \<noteq> KindRuntimeRecovery" by (auto simp: IsJobRunnerKind_def)
  then show ?thesis using assms(1) False by (auto simp: deriveQueueDeliveryAuthority_def delivered_as_def)
next
  case True
  show ?thesis
  proof (cases "er_Kind q = KindRuntimeInput \<or> er_Kind q = KindRuntimeRecovery")
    case thread: True
    obtain s t where "payloadTokens raw ''session_id'' = Some s" "payloadTokens raw ''session_thread_id'' = Some t"
        "r = redeliver s (Some ScopeThread) t (Some (runtime_control_class q (payloadTokens raw))) q"
      using assms True thread
      by (auto simp: deriveQueueDeliveryAuthority_def Let_def andThen_Inr_iff runtime_control_class_def)
    then show ?thesis using thread class_of_input [of q "payloadTokens raw"] by (simp add: delivered_as_def)
  next
    case False
    then show ?thesis
      using assms True by (auto simp: deriveQueueDeliveryAuthority_def Let_def andThen_Inr_iff delivered_as_def)
  qed
qed

lemma shape_canonical_keys:
  assumes "validateCanonicalQueueShape r = Inr ()"
  obtains raw where "decodePayloadObject (er_PayloadJSON r) = Inr raw"
    "er_Kind r = KindRuntimeRecovery \<or> payloadTokens raw ''workspace_id'' = Some (er_WorkspaceID r)"
    "canonical_keys (er_WorkspaceID r) (er_PayloadJSON r) (payloadTokens raw) (er_Kind r) (er_PartitionKey r) (er_DedupeKey r)"
proof -
  obtain raw where raw: "decodePayloadObject (er_PayloadJSON r) = Inr raw" "payload_workspace r (payloadTokens raw) = Inr ()"
      "shape_of_kind r raw (payloadTokens raw) = Inr ()"
    using assms by (auto simp: validateCanonicalQueueShape_def andThen_Inr_iff Let_def)
  have "er_Kind r = KindRuntimeRecovery \<or> payloadTokens raw ''workspace_id'' = Some (er_WorkspaceID r)"
    using raw(2) by (auto simp: payload_workspace_def token_at_def andThen_Inr_iff split: if_splits option.splits)
  moreover have "canonical_keys (er_WorkspaceID r) (er_PayloadJSON r) (payloadTokens raw) (er_Kind r) (er_PartitionKey r) (er_DedupeKey r)"
    using raw(3) recovery_shape_keys [of r] runtime_shape_keys [of r raw] config_shape_keys [of r raw] sandbox_shape_keys [of r raw]
    by (simp add: shape_of_kind_def Let_def split: if_splits)
  ultimately show ?thesis using that raw(1) by blast
qed

subsection \<open>Properties of admission\<close>

text \<open>C3: every request admission accepts is within the transport bounds of the lease response
  and of a known kind. Its partition key and its dedupe key are the canonical ones of that
  kind for the workspace and the identity the payload names, and the payload's workspace is
  the request's. It is delivered where the payload says: a runtime job to the Session and
  Thread it names, with the interrupt or mail class exactly for those two input kinds, the
  other Job Runner jobs to their Session, every other job by its partition.\<close>

theorem normalized_request_admitted:
  assumes "NormalizeEnqueueRequest rnd wall q = Inr r" and "length rnd = 8"
  shows "admitted r \<and> (\<exists>raw. decodePayloadObject (er_PayloadJSON r) = Inr raw \<and>
    (er_Kind r = KindRuntimeRecovery \<or> payloadTokens raw ''workspace_id'' = Some (er_WorkspaceID r)) \<and>
    canonical_keys (er_WorkspaceID r) (er_PayloadJSON r) (payloadTokens raw) (er_Kind r) (er_PartitionKey r) (er_DedupeKey r) \<and>
    delivered_as r (payloadTokens raw))"
proof -
  obtain d where d: "validateCanonicalQueueShape d = Inr ()" "deriveQueueDeliveryAuthority d = Inr r"
    using assms(1) by (rule NormalizeE)
  obtain raw where raw: "decodePayloadObject (er_PayloadJSON d) = Inr raw"
      "er_Kind d = KindRuntimeRecovery \<or> payloadTokens raw ''workspace_id'' = Some (er_WorkspaceID d)"
      "canonical_keys (er_WorkspaceID d) (er_PayloadJSON d) (payloadTokens raw) (er_Kind d) (er_PartitionKey d) (er_DedupeKey d)"
    using shape_canonical_keys [OF d(1)] .
  show ?thesis
    using Normalize_admitted [OF assms] raw derive_delivered [OF d(2) raw(1)] unfolding derive_fields [OF d(2)] by blast
qed

definition sample_request :: EnqueueRequest where
  "sample_request = NewRuntimeRecoveryEnqueueRequest ''12345678'' ''ws'' ''sess'' ''thr'' ''evt'' 1000"

lemma sample_request_recovery:
  "sample_request = runtime_request ''12345678'' ''ws'' KindRuntimeRecovery (FormatSessionPartitionKey ''ws'' ''sess'')
     (FormatRuntimeRecoveryDedupeKey ''ws'' ''sess'' ''evt'')
     (JObject (recovery_fields ''source_event_id'' ''sess'' ''thr'' ''evt'')) 1000"
  by (simp add: sample_request_def NewRuntimeRecoveryEnqueueRequest_def recovery_fields_def)

lemma sample_ids: "request_id_ok ''sess''" "request_id_ok ''thr''" "request_id_ok ''evt''"
  by (auto simp: request_id_ok_def intro!: ValidString_ascii)

lemma sample_normalize:
  "NormalizeEnqueueRequest ''abcdefgh'' wall sample_request =
     Inr (redeliver ''sess'' (Some ScopeThread) ''thr'' (Some Ordinary) (admission_defaults ''abcdefgh'' wall sample_request))"
  by (rule recovery_normalize [OF _ _ _ sample_ids _ sample_request_recovery]) (auto simp: bound_defs)

theorem normalized_request_admitted_witness:
  "admitted (redeliver ''sess'' (Some ScopeThread) ''thr'' (Some Ordinary)
     (admission_defaults ''abcdefgh'' 0 sample_request)) \<and>
   (\<exists>tok. tok ''session_thread_id'' = Some ''thr'' \<and>
     canonical_keys ''ws'' (er_PayloadJSON sample_request) tok KindRuntimeRecovery (er_PartitionKey sample_request)
       (er_DedupeKey sample_request))"
proof -
  have "er_Kind sample_request = KindRuntimeRecovery" "er_WorkspaceID sample_request = ''ws''"
    unfolding sample_request_recovery by (simp_all add: runtime_request_def)
  then show ?thesis
    using normalized_request_admitted [OF sample_normalize, of 0] unfolding delivered_as_def by auto
qed

text \<open>Normalising an admitted request again, with any other random bytes and
  wall clock, returns it unchanged, so a request may pass admission at the
  producer and again at the store.\<close>

theorem normalize_idempotent:
  assumes "NormalizeEnqueueRequest rnd wall q = Inr r" and "length rnd = 8"
    and "\<not> IsZero (er_Now r)" and "\<not> IsZero (er_AvailableAt r)"
  shows "NormalizeEnqueueRequest rnd' wall' r = Inr r"
  using assms by (rule Normalize_idem)

theorem normalize_idempotent_witness:
  "NormalizeEnqueueRequest ''87654321'' 5 (redeliver ''sess'' (Some ScopeThread) ''thr'' (Some Ordinary)
     (admission_defaults ''abcdefgh'' 0 sample_request)) =
   Inr (redeliver ''sess'' (Some ScopeThread) ''thr'' (Some Ordinary)
     (admission_defaults ''abcdefgh'' 0 sample_request))"
  by (rule normalize_idempotent [OF sample_normalize])
    (simp_all add: sample_request_recovery admission_defaults_def runtime_request_def IsZero_def
      zero_time_def Let_def del: Marshal.simps)

text \<open>C9: dedupe keys of admitted requests of different kinds never collide, so the
  active-dedupe rule never suppresses a job of one kind because of another.\<close>

theorem dedupe_key_determines_kind:
  assumes "NormalizeEnqueueRequest rnd wall p = Inr q" and "NormalizeEnqueueRequest rnd' wall' p' = Inr q'"
    and "er_DedupeKey q = er_DedupeKey q'"
  shows "er_Kind q = er_Kind q'"
proof -
  obtain d where "validateCanonicalQueueShape d = Inr ()" "deriveQueueDeliveryAuthority d = Inr q"
    using assms(1) by (rule NormalizeE)
  moreover obtain d' where "validateCanonicalQueueShape d' = Inr ()" "deriveQueueDeliveryAuthority d' = Inr q'"
    using assms(2) by (rule NormalizeE)
  ultimately show ?thesis
    using assms(3) by (metis derive_fields(2,4) shape_dedupe_kind)
qed

theorem dedupe_key_determines_kind_witness:
  "er_Kind (redeliver ''sess'' (Some ScopeThread) ''thr'' (Some Ordinary)
     (admission_defaults ''abcdefgh'' 0 sample_request)) =
   er_Kind (redeliver ''sess'' (Some ScopeThread) ''thr'' (Some Ordinary)
     (admission_defaults ''abcdefgh'' 1 sample_request))"
  by (rule dedupe_key_determines_kind [OF sample_normalize sample_normalize]) simp

text \<open>C10: the recovery, handoff and task-notification requests the queue constructs
  for valid UTF-8 identities within the id bounds pass admission as ordinary
  Thread-scoped jobs of their Session and Thread.\<close>

theorem constructed_requests_admitted:
  assumes "length rnd = 8" and "ws \<noteq> []" and "length ws \<le> MaxWorkspaceIDBytes" and "ValidString ws"
    and "request_id_ok sid" and "request_id_ok tid" and "request_id_ok x"
    and "request_id_ok (FormatTaskNotificationRuntimeInputID task)"
    and "q \<in> {NewRuntimeRecoveryEnqueueRequest rnd ws sid tid x now,
                NewRuntimeHandoffEnqueueRequest rnd ws sid tid x now,
                NewTaskNotificationRuntimeInputEnqueueRequest rnd ws sid tid task now}"
  shows "NormalizeEnqueueRequest rnd' wall q =
    Inr (redeliver sid (Some ScopeThread) tid (Some Ordinary) (admission_defaults rnd' wall q))"
  using assms(9)
proof (elim insertE emptyE)
  assume "q = NewRuntimeRecoveryEnqueueRequest rnd ws sid tid x now"
  then show ?thesis
    by (intro recovery_normalize [OF assms(1-3,5-7)])
      (auto simp: NewRuntimeRecoveryEnqueueRequest_def recovery_fields_def)
next
  assume "q = NewRuntimeHandoffEnqueueRequest rnd ws sid tid x now"
  then show ?thesis
    by (intro recovery_normalize [OF assms(1-3,5-7)])
      (auto simp: NewRuntimeHandoffEnqueueRequest_def recovery_fields_def)
next
  assume "q = NewTaskNotificationRuntimeInputEnqueueRequest rnd ws sid tid task now"
  then show ?thesis
    by (intro notification_normalize [OF assms(1-6,8)])
      (simp add: NewTaskNotificationRuntimeInputEnqueueRequest_def notification_fields_def Let_def)
qed

theorem constructed_requests_admitted_witness:
  "NormalizeEnqueueRequest ''abcdefgh'' 0 (NewRuntimeHandoffEnqueueRequest ''12345678'' ''ws'' ''sess'' ''thr'' ''evt'' 7) =
   Inr (redeliver ''sess'' (Some ScopeThread) ''thr'' (Some Ordinary) (admission_defaults ''abcdefgh'' 0
     (NewRuntimeHandoffEnqueueRequest ''12345678'' ''ws'' ''sess'' ''thr'' ''evt'' 7)))"
  by (rule constructed_requests_admitted [where task = "''t1''", OF _ _ _ _ sample_ids])
    (auto simp: bound_defs request_id_ok_def FormatTaskNotificationRuntimeInputID_def intro!: ValidString_ascii)

end
