(* ===== verification/Queue_Recovery_Facts.thy ===== *)
theory Queue_Recovery_Facts
  imports Queue_Admission_Facts
begin

section \<open>Identities of recovery payloads\<close>

text \<open>
  \<open>DecodeRuntimeRecoveryPayload\<close> promises one reviewed source per payload. For
  payloads written with the field names of the struct it keeps that promise, and
  the decoded Session agrees with the one the delivery authority is derived
  from. Since \<open>encoding/json\<close> matches struct fields without regard to case while
  the presence test and the authority read exact names, other spellings break
  both; the last two theorems exhibit them.
\<close>

definition recovery_names :: "bytes list" where
  "recovery_names = [''session_id'', ''session_thread_id'', ''source_event_id'', ''handoff_id'']"

lemma store_exact:
  assumes "store_recovery kvs p = Some p'" and "set (map fst kvs) \<subseteq> set recovery_names"
  shows "(field kvs ''session_id'' = None \<longrightarrow> rp_SessionID p' = rp_SessionID p) \<and>
    (field kvs ''source_event_id'' = None \<longrightarrow> rp_SourceEventID p' = rp_SourceEventID p) \<and>
    (field kvs ''handoff_id'' = None \<longrightarrow> rp_HandoffID p' = rp_HandoffID p) \<and>
    (\<forall>s. field kvs ''session_id'' = Some (JString s) \<longrightarrow> rp_SessionID p' = s)"
  using assms
proof (induction kvs arbitrary: p)
  case Nil
  then show ?case by simp
next
  case (Cons kv kvs)
  obtain k v where kv: "kv = (k, v)" by fastforce
  obtain p1 where p1: "store_recovery_field (k, v) p = Some p1" "store_recovery kvs p1 = Some p'"
    using Cons.prems by (auto simp: kv bind_eq_Some_conv)
  have k: "k \<in> set recovery_names" using Cons.prems(2) by (simp add: kv)
  have "(k \<noteq> ''session_id'' \<longrightarrow> rp_SessionID p1 = rp_SessionID p) \<and>
      (k \<noteq> ''source_event_id'' \<longrightarrow> rp_SourceEventID p1 = rp_SourceEventID p) \<and>
      (k \<noteq> ''handoff_id'' \<longrightarrow> rp_HandoffID p1 = rp_HandoffID p) \<and>
      (\<forall>s. k = ''session_id'' \<longrightarrow> v = JString s \<longrightarrow> rp_SessionID p1 = s)"
    using p1(1) k
    by (auto simp: store_recovery_field_def recovery_names_def store_string_def Let_def
        simp del: foldName.simps)
  moreover have "set (map fst kvs) \<subseteq> set recovery_names" using Cons.prems(2) by auto
  ultimately show ?case
    using Cons.IH [OF p1(2)] by (auto simp: kv split: option.splits if_splits)
qed

lemma store_values:
  "store_recovery kvs p = Some p' \<Longrightarrow> (k, v) \<in> set kvs \<Longrightarrow> v = JNull \<or> (\<exists>s. v = JString s)"
proof (induction kvs arbitrary: p)
  case (Cons kv kvs)
  then obtain p1 where p1: "store_recovery_field kv p = Some p1" "store_recovery kvs p1 = Some p'"
    by (auto simp: bind_eq_Some_conv)
  have "snd kv = JNull \<or> (\<exists>s. snd kv = JString s)"
    using p1(1) by (auto simp: store_recovery_field_def store_string_def Let_def
        simp del: foldName.simps split: if_splits json.splits)
  with Cons p1 show ?case by auto
qed simp

lemma field_in: "field kvs k = Some v \<Longrightarrow> (k, v) \<in> set kvs"
  using map_of_SomeD by (fastforce simp: field_def)

lemma decode_recoveryE:
  assumes "DecodeRuntimeRecoveryPayload raw = Inr p" "decodePayloadObject raw = Inr kvs"
  obtains "store_recovery kvs
      \<lparr>rp_SessionID = [], rp_SessionThreadID = [], rp_SourceEventID = [], rp_HandoffID = []\<rparr> = Some p"
    "(field kvs ''source_event_id'' \<noteq> None) \<noteq> (field kvs ''handoff_id'' \<noteq> None)"
    "field kvs ''source_event_id'' \<noteq> None \<longrightarrow> rp_SourceEventID p \<noteq> []"
    "field kvs ''handoff_id'' \<noteq> None \<longrightarrow> rp_HandoffID p \<noteq> []"
proof -
  have "Option.bind (Unmarshal raw) json_map = Some (Some kvs)"
    using assms(2) by (auto simp: decodePayloadObject_def split: option.splits)
  with assms(1) show ?thesis
    by (intro that) (auto simp: DecodeRuntimeRecoveryPayload_def Let_def split: if_splits option.splits)
qed

text \<open>A recovery payload whose members use the struct's field names decodes to
  exactly one source, and where the delivery authority finds a Session id in the
  same payload it is the decoded one.\<close>

theorem recovery_exact_names:
  assumes "decodePayloadObject raw = Inr kvs" and "DecodeRuntimeRecoveryPayload raw = Inr p"
    and "set (map fst kvs) \<subseteq> set recovery_names"
  shows "(rp_SourceEventID p = []) \<noteq> (rp_HandoffID p = []) \<and>
    (\<forall>s. requiredPayloadToken (payloadTokens kvs) ''session_id'' = Inr s \<longrightarrow> s = rp_SessionID p)"
proof -
  let ?e = "\<lparr>rp_SessionID = [], rp_SessionThreadID = [], rp_SourceEventID = [], rp_HandoffID = []\<rparr>"
  have st: "store_recovery kvs ?e = Some p"
    and one: "(field kvs ''source_event_id'' \<noteq> None) \<noteq> (field kvs ''handoff_id'' \<noteq> None)"
    and ev: "field kvs ''source_event_id'' \<noteq> None \<longrightarrow> rp_SourceEventID p \<noteq> []"
    and ho: "field kvs ''handoff_id'' \<noteq> None \<longrightarrow> rp_HandoffID p \<noteq> []"
    using decode_recoveryE [OF assms(2,1)] by blast+
  note ex = store_exact [OF st assms(3)]
  have "(rp_SourceEventID p = []) \<noteq> (rp_HandoffID p = [])"
    using ex one ev ho by auto
  moreover have "s = rp_SessionID p" if s: "payloadTokens kvs ''session_id'' = Some s" "s \<noteq> []" for s
  proof -
    obtain v where v: "field kvs ''session_id'' = Some v" "payloadToken v = Some s"
      using s by (auto simp: payloadTokens_def bind_eq_Some_conv)
    show ?thesis
    proof (cases v)
      case (JString t)
      with v s ex show ?thesis by (auto simp: payloadToken_def split: if_splits)
    next
      case (JNumber n)
      then show ?thesis using store_values [OF st field_in [OF v(1)]] by simp
    qed (use v in \<open>auto simp: payloadToken_def\<close>)
  qed
  ultimately show ?thesis by simp
qed

definition handoff_payload :: bytes where
  "handoff_payload = Marshal (JObject (recovery_fields ''handoff_id'' ''sess'' ''thr'' ''h1''))"

lemma handoff_payload_decodes:
  "decodePayloadObject handoff_payload = Inr (recovery_fields ''handoff_id'' ''sess'' ''thr'' ''h1'')"
  "DecodeRuntimeRecoveryPayload handoff_payload =
     Inr \<lparr>rp_SessionID = ''sess'', rp_SessionThreadID = ''thr'', rp_SourceEventID = [], rp_HandoffID = ''h1''\<rparr>"
proof -
  have v: "ValidString ''sess''" "ValidString ''thr''" "ValidString ''h1''" "ValidString ''handoff_id''"
    by (auto intro!: ValidString_ascii)
  show "decodePayloadObject handoff_payload = Inr (recovery_fields ''handoff_id'' ''sess'' ''thr'' ''h1'')"
    unfolding handoff_payload_def by (rule decode_Marshal(1) [OF recovery_fields_ok [OF v(4,1-3)]])
  show "DecodeRuntimeRecoveryPayload handoff_payload =
     Inr \<lparr>rp_SessionID = ''sess'', rp_SessionThreadID = ''thr'', rp_SourceEventID = [], rp_HandoffID = ''h1''\<rparr>"
    unfolding handoff_payload_def by (rule recovery_decode(2) [OF v(1-3)]) simp_all
qed

theorem recovery_exact_names_witness:
  "rp_HandoffID \<lparr>rp_SessionID = ''sess'', rp_SessionThreadID = ''thr'', rp_SourceEventID = [], rp_HandoffID = ''h1''\<rparr> \<noteq> []"
proof -
  have "set (map fst (recovery_fields ''handoff_id'' ''sess'' ''thr'' ''h1'')) \<subseteq> set recovery_names"
    by (simp add: recovery_fields_def recovery_names_def)
  from recovery_exact_names [OF handoff_payload_decodes this] show ?thesis by simp
qed

lemma foldName_aliases [simp]:
  "foldName ''Source_Event_Id'' = ''SOURCE_EVENT_ID''"
  "foldName ''Session_Id'' = ''SESSION_ID''"
  by code_simp+

text \<open>\<open>{"session_id":"s","session_thread_id":"t","handoff_id":"h","Source_Event_Id":"e"}\<close>\<close>

definition aliased_sources :: bytes where
  "aliased_sources = Marshal (JObject
     [(''session_id'', JString ''s''), (''session_thread_id'', JString ''t''),
      (''handoff_id'', JString ''h''), (''Source_Event_Id'', JString ''e'')])"

text \<open>C11: a payload can carry both identities: the presence test sees only the handoff
  id, and the decoder then fills the event id from a differently cased member.\<close>

theorem recovery_sources_alias:
  "DecodeRuntimeRecoveryPayload aliased_sources =
     Inr \<lparr>rp_SessionID = ''s'', rp_SessionThreadID = ''t'', rp_SourceEventID = ''e'', rp_HandoffID = ''h''\<rparr>"
proof -
  let ?kvs = "[(''session_id'', JString ''s''), (''session_thread_id'', JString ''t''),
      (''handoff_id'', JString ''h''), (''Source_Event_Id'', JString ''e'')]"
  have "json_ok (JObject ?kvs)" "json_depth (JObject ?kvs) \<le> maxNestingDepth"
    by (auto simp: maxNestingDepth_def intro!: ValidString_ascii)
  note decoded = decode_Marshal(2) [OF this]
  show ?thesis
    unfolding aliased_sources_def DecodeRuntimeRecoveryPayload_def decoded
    by (simp add: store_recovery_field_def store_string_def Let_def del: foldName.simps)
qed

text \<open>A recovery request for Session \<open>B\<close> whose payload also names Session \<open>A\<close> by the exact
  spelling: \<open>{"session_id":"A","session_thread_id":"t","source_event_id":"e","Session_Id":"B"}\<close>.\<close>

definition aliased_payload :: payload where
  "aliased_payload = [(''session_id'', JString ''A''), (''session_thread_id'', JString ''t''),
     (''source_event_id'', JString ''e''), (''Session_Id'', JString ''B'')]"

definition aliased_session :: EnqueueRequest where
  "aliased_session = runtime_request ''12345678'' ''ws'' KindRuntimeRecovery
     (FormatSessionPartitionKey ''ws'' ''B'') (FormatRuntimeRecoveryDedupeKey ''ws'' ''B'' ''e'')
     (JObject aliased_payload) 1000"

lemma aliased_payload_ok: "json_ok (JObject aliased_payload)" "json_depth (JObject aliased_payload) \<le> maxNestingDepth"
  by (auto simp: aliased_payload_def maxNestingDepth_def intro!: ValidString_ascii)

lemma aliased_payload_length: "length (Marshal (JObject aliased_payload)) \<le> MaxQueueJobPayloadBytes"
  using length_quote [of "''session_id''"] length_quote [of "''session_thread_id''"]
    length_quote [of "''source_event_id''"] length_quote [of "''Session_Id''"]
    length_quote [of "''A''"] length_quote [of "''t''"] length_quote [of "''e''"] length_quote [of "''B''"]
  by (simp add: aliased_payload_def bound_defs)

lemma aliased_decode:
  "DecodeRuntimeRecoveryPayload (Marshal (JObject aliased_payload)) =
     Inr \<lparr>rp_SessionID = ''B'', rp_SessionThreadID = ''t'', rp_SourceEventID = ''e'', rp_HandoffID = []\<rparr>"
  unfolding DecodeRuntimeRecoveryPayload_def decode_Marshal(2) [OF aliased_payload_ok]
  by (simp add: aliased_payload_def store_recovery_field_def store_string_def Let_def del: foldName.simps)

lemma aliased_tokens:
  "payloadTokens aliased_payload ''session_id'' = Some ''A''"
  "payloadTokens aliased_payload ''session_thread_id'' = Some ''t''"
  by (simp_all add: payloadTokens_def aliased_payload_def payloadToken_def)

text \<open>C12: admission accepts a recovery job whose keys are those of one Session and whose
  lease exclusion is that of another.\<close>

theorem recovery_session_alias:
  "map_sum id (\<lambda>r. (er_PartitionKey r, er_CausalSessionID r))
     (NormalizeEnqueueRequest ''abcdefgh'' 0 aliased_session) =
   Inr (FormatSessionPartitionKey ''ws'' ''B'', ''A'')"
proof -
  let ?d = "admission_defaults ''abcdefgh'' 0 aliased_session"
  have kind: "KindRuntimeRecovery \<noteq> []" "IsJobRunnerKind KindRuntimeRecovery"
    "KindRuntimeRecovery \<noteq> KindRuntimeInput"
    by (simp_all add: kind_simps IsJobRunnerKind_def)
  have keys: "FormatSessionPartitionKey ''ws'' ''B'' \<noteq> []" "FormatRuntimeRecoveryDedupeKey ''ws'' ''B'' ''e'' \<noteq> []"
    "length (FormatSessionPartitionKey ''ws'' ''B'') \<le> MaxQueuePartitionKeyBytes"
    "length (FormatRuntimeRecoveryDedupeKey ''ws'' ''B'' ''e'') \<le> MaxQueueDedupeKeyBytes"
    by (simp_all add: FormatSessionPartitionKey_def FormatPartitionKey_def FormatRuntimeRecoveryDedupeKey_def
        formatQueueDedupeKey_def kind_simps bound_defs)
  have raw: "decodePayloadObject (er_PayloadJSON ?d) = Inr aliased_payload"
    by (simp add: aliased_session_def decode_Marshal(1) [OF aliased_payload_ok] del: Marshal.simps)
  have "shape_runtime_recovery ?d = Inr ()"
    by (simp add: shape_runtime_recovery_def aliased_session_def aliased_decode del: Marshal.simps)
  then have "validateCanonicalQueueShape ?d = Inr ()"
    using recovery_shape [OF _ _ raw] keys(2) by (simp add: aliased_session_def)
  moreover have "deriveQueueDeliveryAuthority ?d =
      Inr (redeliver ''A'' (Some ScopeThread) ''t'' (Some Ordinary) ?d)"
    using raw kind aliased_tokens
    by (simp add: deriveQueueDeliveryAuthority_def aliased_session_def Let_def runtime_control_class_def
        requiredPayloadToken_def del: Marshal.simps)
  ultimately show ?thesis
    using normalize_runtime_request [of "''12345678''" "''ws''" KindRuntimeRecovery
        "FormatSessionPartitionKey ''ws'' ''B''" "FormatRuntimeRecoveryDedupeKey ''ws'' ''B'' ''e''"
        "JObject aliased_payload"] keys kind aliased_payload_length
    by (simp add: aliased_session_def bound_defs)
qed

end
