(* ===== verification/Queue_Table.thy ===== *)
theory Queue_Table
  imports Queue_Admission_Facts
begin

section \<open>The queue tables\<close>

text \<open>
  The rows of \<open>queue_jobs\<close> and \<open>queue_partition_counters\<close> with the columns and
  constraints of \<open>internal/storage/postgresql_schema.go\<close>, the projection
  \<open>scanJob\<close> reads, and the queue's invariant. A nullable column is an option. A
  table is a list of rows; its order has no meaning to the queries. Each
  operation of the store is one committed transaction: it reads and returns
  whole states, and an operation that returns an error leaves the state as it
  was. \<open>clock_timestamp()\<close> is a parameter \<open>clk\<close>: \<open>clk s c\<close> is the reading at the
  \<open>c\<close>-th call site of the transaction's \<open>s\<close>-th statement.
\<close>

type_synonym clock = "nat \<Rightarrow> nat \<Rightarrow> time"

record queue_row =
  q_id :: bytes
  q_workspace :: bytes
  q_kind :: bytes
  q_partition :: bytes
  q_seq :: int
  q_session :: "bytes option"
  q_scope :: delivery_scope
  q_thread :: "bytes option"
  q_class :: control_class
  q_dedupe :: "bytes option"
  q_payload_version :: int
  q_status :: status
  q_payload :: bytes
  q_priority :: int
  q_token :: "bytes option"
  q_leased_by :: "bytes option"
  q_leased_at :: "time option"
  q_leased_until :: "time option"
  q_prev_attempts :: "int option"
  q_attempts :: int
  q_defers :: int
  q_max_attempts :: int
  q_available_at :: time
  q_ready_at :: time
  q_created_at :: time
  q_updated_at :: time
  q_acknowledged_at :: "time option"
  q_cancelled_at :: "time option"
  q_dead_lettered_at :: "time option"
  q_error_kind :: "bytes option"
  q_error_message :: "bytes option"
  q_trace :: "bytes option"

record counter_row =
  c_workspace :: bytes
  c_partition :: bytes
  c_last :: int
  c_created_at :: time
  c_updated_at :: time

record queue_db =
  jobs :: "queue_row list"
  counters :: "counter_row list"
  notifications :: "(bytes \<times> bytes) list"

definition nullableString :: "bytes \<Rightarrow> bytes option" where
  "nullableString v = (if v = [] then None else Some v)"

definition defaultString :: "bytes \<Rightarrow> bytes \<Rightarrow> bytes" where
  "defaultString v fallback = (if v \<noteq> [] then v else fallback)"

text \<open>The \<open>String\<close> of a \<open>sql.NullString\<close>: empty for \<open>NULL\<close>; also \<open>COALESCE(column, '')\<close>.\<close>

definition null_string :: "bytes option \<Rightarrow> bytes" where
  "null_string v = (case v of Some s \<Rightarrow> s | None \<Rightarrow> [])"

text \<open>SQL equality of nullable values is never true of \<open>NULL\<close>.\<close>

definition sql_eq :: "'a option \<Rightarrow> 'a option \<Rightarrow> bool" where
  "sql_eq a b \<longleftrightarrow> a \<noteq> None \<and> a = b"

definition scanJob :: "queue_row \<Rightarrow> Job" where
  "scanJob r =
     \<lparr>job_ID = q_id r, job_WorkspaceID = q_workspace r, job_Kind = q_kind r,
      job_PartitionKey = q_partition r, job_QueuePartitionSequence = q_seq r,
      job_DedupeKey = null_string (q_dedupe r), job_PayloadVersion = q_payload_version r,
      job_PayloadJSON = q_payload r, job_Status = q_status r, job_Priority = q_priority r,
      job_AvailableAt = q_available_at r, job_LeasedBy = null_string (q_leased_by r),
      job_LeaseToken = null_string (q_token r), job_LeasedAt = q_leased_at r,
      job_LeasedUntil = q_leased_until r, job_AttemptCount = q_attempts r,
      job_MaxAttempts = q_max_attempts r, job_CreatedAt = q_created_at r,
      job_UpdatedAt = q_updated_at r, job_TraceContext = null_string (q_trace r),
      job_ReadyAt = q_ready_at r\<rparr>"

lemma null_string_nullable [simp]: "null_string (nullableString v) = v"
  by (simp add: null_string_def nullableString_def)

lemma sql_eq_Some [simp]: "sql_eq a (Some b) \<longleftrightarrow> a = Some b"
  by (auto simp: sql_eq_def)

subsection \<open>Constraints\<close>

text \<open>\<open>queue_jobs_delivery_authority_shape\<close>\<close>

definition delivery_authority_shape :: "queue_row \<Rightarrow> bool" where
  "delivery_authority_shape r \<longleftrightarrow>
     (q_scope r = ScopePartition \<and> q_session r = None \<and> q_thread r = None \<and> q_class r = Ordinary) \<or>
     (q_scope r = ScopeThread \<and> q_session r \<noteq> None \<and> q_thread r \<noteq> None) \<or>
     (q_scope r = ScopeSession \<and> q_session r \<noteq> None \<and> q_thread r = None \<and> q_class r = Ordinary)"

definition lease_shape :: "queue_row \<Rightarrow> bool" where
  "lease_shape r \<longleftrightarrow>
     (q_status r = Leased \<and> q_token r \<noteq> None \<and> q_leased_by r \<noteq> None \<and> q_leased_at r \<noteq> None \<and>
      q_leased_until r \<noteq> None) \<or> q_status r \<noteq> Leased"

definition previous_attempt_shape :: "queue_row \<Rightarrow> bool" where
  "previous_attempt_shape r \<longleftrightarrow>
     (case q_prev_attempts r of
        None \<Rightarrow> True
      | Some n \<Rightarrow> 0 \<le> n \<and> q_status r = Leased \<and> IsJobRunnerKind (q_kind r))"

definition table_checks :: "queue_row \<Rightarrow> bool" where
  "table_checks r \<longleftrightarrow>
     isKnownKind (q_kind r) \<and> 0 < q_payload_version r \<and> 0 < q_seq r \<and> delivery_authority_shape r \<and>
     0 \<le> q_attempts r \<and> 0 \<le> q_defers r \<and> 0 \<le> q_max_attempts r \<and> lease_shape r \<and>
     previous_attempt_shape r"

subsection \<open>The invariant\<close>

text \<open>
  What the operations keep beyond the schema's checks: a row without a lease
  carries no lease columns, a terminal timestamp is set exactly in its terminal
  status, delivery coordinates fit the kind.
\<close>

definition row_ok :: "queue_row \<Rightarrow> bool" where
  "row_ok r \<longleftrightarrow> table_checks r \<and>
     delivery_ok (q_kind r) (q_scope r) (null_string (q_session r)) (null_string (q_thread r)) (q_class r) \<and>
     (q_status r \<noteq> Leased \<longrightarrow>
        q_token r = None \<and> q_leased_by r = None \<and> q_leased_at r = None \<and> q_leased_until r = None) \<and>
     (q_acknowledged_at r \<noteq> None \<longleftrightarrow> q_status r = Acknowledged) \<and>
     (q_cancelled_at r \<noteq> None \<longleftrightarrow> q_status r = Cancelled) \<and>
     (q_dead_lettered_at r \<noteq> None \<longleftrightarrow> q_status r = DeadLettered) \<and>
     q_dedupe r \<noteq> None"

definition partition_key_of :: "queue_row \<Rightarrow> bytes \<times> bytes" where
  "partition_key_of r = (q_workspace r, q_partition r)"

definition dedupe_key_of :: "queue_row \<Rightarrow> bytes \<times> bytes option" where
  "dedupe_key_of r = (q_workspace r, q_dedupe r)"

definition counter_key :: "counter_row \<Rightarrow> bytes \<times> bytes" where
  "counter_key c = (c_workspace c, c_partition c)"

text \<open>Two leases that must not be live at once: the same partition, the same Thread, or
  a Session-exclusive job beside any other job of its Session, except that an
  interrupt may run beside a leased configuration update.\<close>

definition excludes :: "queue_row \<Rightarrow> queue_row \<Rightarrow> bool" where
  "excludes r s \<longleftrightarrow> q_workspace r = q_workspace s \<and>
     (q_scope r = ScopePartition \<and> q_scope s = ScopePartition \<and> q_partition r = q_partition s \<or>
      sql_eq (q_session r) (q_session s) \<and>
        (q_scope r = ScopeThread \<and> q_scope s = ScopeThread \<and> sql_eq (q_thread r) (q_thread s) \<or>
         q_scope r = ScopeSession \<and> q_scope s = ScopeSession \<or>
         q_scope r = ScopeSession \<and> q_scope s = ScopeThread \<and>
           \<not> (q_kind r = KindRuntimeConfigUpdate \<and> q_class s = Interrupt) \<or>
         q_scope r = ScopeThread \<and> q_scope s = ScopeSession \<and>
           \<not> (q_kind s = KindRuntimeConfigUpdate \<and> q_class r = Interrupt)))"

definition lease_exclusion :: "queue_row list \<Rightarrow> bool" where
  "lease_exclusion rs \<longleftrightarrow>
     (\<forall>r\<in>set rs. \<forall>s\<in>set rs. q_status r = Leased \<longrightarrow> q_status s = Leased \<longrightarrow> q_id r \<noteq> q_id s \<longrightarrow>
        \<not> excludes r s)"

definition active_dedupe_unique :: "queue_row list \<Rightarrow> bool" where
  "active_dedupe_unique rs \<longleftrightarrow> distinct (map dedupe_key_of (filter (\<lambda>r. active (q_status r)) rs))"

definition counters_cover :: "queue_row list \<Rightarrow> counter_row list \<Rightarrow> bool" where
  "counters_cover rs cs \<longleftrightarrow> distinct (map counter_key cs) \<and> (\<forall>c\<in>set cs. 0 \<le> c_last c) \<and>
     (\<forall>r\<in>set rs. \<exists>c\<in>set cs. counter_key c = partition_key_of r \<and> q_seq r \<le> c_last c)"

definition jobs_inv :: "queue_row list \<Rightarrow> bool" where
  "jobs_inv rs \<longleftrightarrow> distinct (map q_id rs) \<and>
     distinct (map (\<lambda>r. (partition_key_of r, q_seq r)) rs) \<and>
     active_dedupe_unique rs \<and> (\<forall>r\<in>set rs. row_ok r) \<and> lease_exclusion rs"

definition queue_inv :: "queue_db \<Rightarrow> bool" where
  "queue_inv db \<longleftrightarrow> jobs_inv (jobs db) \<and> counters_cover (jobs db) (counters db)"

definition empty_db :: queue_db where
  "empty_db = \<lparr>jobs = [], counters = [], notifications = []\<rparr>"

lemma empty_db_inv: "queue_inv empty_db"
  by (simp add: queue_inv_def empty_db_def jobs_inv_def active_dedupe_unique_def lease_exclusion_def
      counters_cover_def)

lemma sql_eq_sym: "sql_eq a b \<longleftrightarrow> sql_eq b a"
  by (auto simp: sql_eq_def)

lemma excludes_sym: "excludes r s \<Longrightarrow> excludes s r"
  unfolding excludes_def using sql_eq_sym [of "q_session r"] sql_eq_sym [of "q_thread r"]
  by (elim conjE disjE) simp_all

lemma row_ok_coordinates:
  assumes "row_ok r"
  shows "q_scope r = ScopeThread \<Longrightarrow> q_session r \<noteq> None \<and> q_thread r \<noteq> None"
    and "q_scope r = ScopeSession \<Longrightarrow> q_session r \<noteq> None \<and> q_class r = Ordinary"
    and "q_scope r = ScopePartition \<Longrightarrow> q_session r = None"
  using assms by (simp_all add: row_ok_def table_checks_def delivery_authority_shape_def)

text \<open>The three partial unique indexes over leased rows are consequences of the
  exclusion; they can reject nothing the eligibility rule admits.\<close>

lemma leased_indexes:
  assumes "jobs_inv rs" "r \<in> set rs" "s \<in> set rs" "q_status r = Leased" "q_status s = Leased"
    and "q_workspace r = q_workspace s"
    and "q_scope r = ScopePartition \<and> q_scope s = ScopePartition \<and> q_partition r = q_partition s \<or>
      q_scope r = ScopeThread \<and> q_scope s = ScopeThread \<and> q_session r = q_session s \<and> q_thread r = q_thread s \<or>
      q_scope r = ScopeSession \<and> q_scope s = ScopeSession \<and> q_session r = q_session s"
  shows "r = s"
proof (rule ccontr)
  assume "r \<noteq> s"
  with assms(1-3) have "q_id r \<noteq> q_id s"
    using distinct_map_inj [of q_id rs r s] by (auto simp: jobs_inv_def)
  moreover have "row_ok r" using assms(1,2) by (simp add: jobs_inv_def)
  then have "excludes r s"
    using row_ok_coordinates [OF \<open>row_ok r\<close>] assms(6,7)
    by (elim disjE) (simp_all add: excludes_def sql_eq_def)
  ultimately show False
    using assms(1-5) by (simp add: jobs_inv_def lease_exclusion_def)
qed

end
