(* ===== verification/Queue_Contract.thy ===== *)
theory Queue_Contract
  imports Queue_Table
begin

section \<open>The contract of a row transition\<close>

text \<open>
  Every operation that settles, re-admits or renews jobs is one guarded update
  of rows. The contract of such an update is stated once: it applies to active
  rows only, keeps the identity a row was born with, never creates a lease, and
  keeps the row well formed. The lemmas derived from it are what the operations
  of the store rely on: the invariant survives, terminal rows are immutable, and
  the counters stay ahead of the sequences.
\<close>

definition same_identity :: "queue_row \<Rightarrow> queue_row \<Rightarrow> bool" where
  "same_identity r s \<longleftrightarrow>
     q_id r = q_id s \<and> q_workspace r = q_workspace s \<and> q_kind r = q_kind s \<and>
     q_partition r = q_partition s \<and> q_seq r = q_seq s \<and> q_session r = q_session s \<and>
     q_scope r = q_scope s \<and> q_thread r = q_thread s \<and> q_class r = q_class s \<and>
     q_dedupe r = q_dedupe s \<and> q_payload_version r = q_payload_version s \<and>
     q_payload r = q_payload s \<and> q_priority r = q_priority s \<and>
     q_max_attempts r = q_max_attempts s \<and> q_created_at r = q_created_at s \<and> q_trace r = q_trace s"

lemma same_identity_refl [simp]: "same_identity r r"
  by (simp add: same_identity_def)

lemma same_identity_trans: "same_identity r s \<Longrightarrow> same_identity s t \<Longrightarrow> same_identity r t"
  by (simp add: same_identity_def)

lemma same_identity_keys:
  assumes "same_identity r s"
  shows "q_id r = q_id s" "partition_key_of r = partition_key_of s" "dedupe_key_of r = dedupe_key_of s"
    "q_seq r = q_seq s"
  using assms by (simp_all add: same_identity_def partition_key_of_def dedupe_key_of_def)

lemma excludes_identity:
  "same_identity r r' \<Longrightarrow> same_identity s s' \<Longrightarrow> excludes r s = excludes r' s'"
  by (simp add: same_identity_def excludes_def)

lemma distinct_map_filter_image:
  assumes "distinct (map k (filter P rs))"
    and "\<And>r. r \<in> set rs \<Longrightarrow> k (f r) = k r" and "\<And>r. r \<in> set rs \<Longrightarrow> P' (f r) \<Longrightarrow> P r"
  shows "distinct (map k (filter P' (map f rs)))"
  using assms
proof (induction rs)
  case (Cons r rs)
  have ih: "distinct (map k (filter P' (map f rs)))"
    using Cons by (auto split: if_splits)
  show ?case
  proof (cases "P' (f r)")
    case True
    then have "P r" using Cons.prems(3) by simp
    then have "k r \<notin> k ` set (filter P rs)" using Cons.prems(1) by simp
    moreover have "k ` set (filter P' (map f rs)) \<subseteq> k ` set (filter P rs)"
      using Cons.prems(2,3) by fastforce
    ultimately show ?thesis using ih True Cons.prems(2) [of r] by auto
  qed (use ih in simp)
qed simp

text \<open>A whole-table image that keeps identities, creates no lease and revives no row.\<close>

lemma jobs_inv_image_exclusive:
  assumes inv: "jobs_inv rs"
    and ident: "\<And>r. r \<in> set rs \<Longrightarrow> same_identity (f r) r"
    and ok: "\<And>r. r \<in> set rs \<Longrightarrow> row_ok r \<Longrightarrow> row_ok (f r)"
    and active: "\<And>r. r \<in> set rs \<Longrightarrow> active (q_status (f r)) \<Longrightarrow> active (q_status r)"
    and excl: "lease_exclusion (map f rs)"
  shows "jobs_inv (map f rs)"
proof -
  have "map q_id (map f rs) = map q_id rs"
    "map (\<lambda>r. (partition_key_of r, q_seq r)) (map f rs) = map (\<lambda>r. (partition_key_of r, q_seq r)) rs"
    using same_identity_keys [OF ident] by simp_all
  then have ids: "distinct (map q_id (map f rs))"
    "distinct (map (\<lambda>r. (partition_key_of r, q_seq r)) (map f rs))"
    using inv by (simp_all only: jobs_inv_def)
  have "active_dedupe_unique (map f rs)"
    unfolding active_dedupe_unique_def
    using inv same_identity_keys(3) [OF ident] active
    by (intro distinct_map_filter_image [where P = "\<lambda>r. active (q_status r)"])
      (auto simp: jobs_inv_def active_dedupe_unique_def)
  moreover have "\<forall>r\<in>set (map f rs). row_ok r"
    using inv ok by (auto simp: jobs_inv_def)
  ultimately show ?thesis using ids excl by (simp only: jobs_inv_def)
qed

lemma jobs_inv_image:
  assumes inv: "jobs_inv rs"
    and ident: "\<And>r. r \<in> set rs \<Longrightarrow> same_identity (f r) r"
    and ok: "\<And>r. r \<in> set rs \<Longrightarrow> row_ok r \<Longrightarrow> row_ok (f r)"
    and leased: "\<And>r. r \<in> set rs \<Longrightarrow> q_status (f r) = Leased \<Longrightarrow> q_status r = Leased"
    and active: "\<And>r. r \<in> set rs \<Longrightarrow> active (q_status (f r)) \<Longrightarrow> active (q_status r)"
  shows "jobs_inv (map f rs)"
proof (rule jobs_inv_image_exclusive [OF inv ident ok active])
  show "lease_exclusion (map f rs)"
    unfolding lease_exclusion_def
  proof (intro ballI impI)
    fix r' s' assume "r' \<in> set (map f rs)" "s' \<in> set (map f rs)"
    then obtain r s where rs: "r \<in> set rs" "r' = f r" "s \<in> set rs" "s' = f s" by auto
    assume "q_status r' = Leased" "q_status s' = Leased" "q_id r' \<noteq> q_id s'"
    then have "\<not> excludes r s"
      using inv rs leased same_identity_keys(1) [OF ident] by (auto simp: jobs_inv_def lease_exclusion_def)
    then show "\<not> excludes r' s'"
      using excludes_identity [OF ident [OF rs(1)] ident [OF rs(3)]] rs by simp
  qed
qed

lemma counters_cover_image:
  assumes "counters_cover rs cs" and "\<And>r. r \<in> set rs \<Longrightarrow> same_identity (f r) r"
  shows "counters_cover (map f rs) cs"
  using assms same_identity_keys by (fastforce simp: counters_cover_def)

locale row_transition =
  fixes guard :: "queue_row \<Rightarrow> bool"
    and upd :: "queue_row \<Rightarrow> queue_row"
  assumes keeps_identity: "guard r \<Longrightarrow> same_identity (upd r) r"
    and keeps_ok: "guard r \<Longrightarrow> row_ok r \<Longrightarrow> row_ok (upd r)"
    and never_leases: "guard r \<Longrightarrow> q_status (upd r) = Leased \<Longrightarrow> q_status r = Leased"
    and only_active: "guard r \<Longrightarrow> active (q_status r)"
begin

lemma step_identity: "same_identity (if guard r then upd r else r) r"
  using keeps_identity by simp

lemma jobs_kept: "jobs_inv rs \<Longrightarrow> jobs_inv (upd_where guard upd rs)"
  unfolding upd_where_def
  by (rule jobs_inv_image) (auto simp: keeps_identity keeps_ok never_leases only_active split: if_splits)

lemma counters_kept: "counters_cover rs cs \<Longrightarrow> counters_cover (upd_where guard upd rs) cs"
  unfolding upd_where_def by (erule counters_cover_image) (rule step_identity)

lemma inv_kept: "queue_inv db \<Longrightarrow> queue_inv (db\<lparr>jobs := upd_where guard upd (jobs db)\<rparr>)"
  by (simp add: queue_inv_def jobs_kept counters_kept)

lemma terminal_kept: "r \<in> set rs \<Longrightarrow> terminal (q_status r) \<Longrightarrow> r \<in> set (upd_where guard upd rs)"
  using only_active by (force simp: set_upd_where terminal_iff_not_active)

lemma other_rows_kept: "r \<in> set rs \<Longrightarrow> \<not> guard r \<Longrightarrow> r \<in> set (upd_where guard upd rs)"
  by (force simp: set_upd_where)

end

subsection \<open>Deletion of rows\<close>

lemma distinct_map_filter: "distinct (map k rs) \<Longrightarrow> distinct (map k (filter P rs))"
  by (induction rs) auto

lemma jobs_inv_filter:
  assumes "jobs_inv rs"
  shows "jobs_inv (filter P rs)"
proof -
  have "filter (\<lambda>r. active (q_status r)) (filter P rs) = filter P (filter (\<lambda>r. active (q_status r)) rs)"
    by (auto simp: conj_commute intro: filter_cong)
  then show ?thesis
    using assms
    by (auto simp: jobs_inv_def lease_exclusion_def active_dedupe_unique_def simp del: filter_filter
        intro: distinct_map_filter)
qed

lemma counters_cover_filter: "counters_cover rs cs \<Longrightarrow> counters_cover (filter P rs) cs"
  by (auto simp: counters_cover_def)

end
