(* ===== verification/Queue_Enqueue.thy ===== *)
theory Queue_Enqueue
  imports Queue_Contract
begin

section \<open>Enqueueing\<close>

text \<open>
  \<open>EnqueueBatchTx\<close> of \<open>internal/queue/postgresql_store.go\<close> and what it calls: it
  normalises the whole batch, locks the partition counters in canonical order,
  and inserts the jobs in canonical order, returning the already active job
  where a dedupe key is taken. What the transaction reads from outside (clocks,
  random bytes, the trace context) is the \<open>tx_env\<close>.
\<close>

record tx_env =
  env_clock :: clock
  env_start :: time
  env_wall :: "nat \<Rightarrow> time"
  env_ids :: "nat \<Rightarrow> bytes"
  env_tokens :: "nat \<Rightarrow> bytes option"
  env_trace :: bytes

definition env_ok :: "tx_env \<Rightarrow> bool" where
  "env_ok env \<longleftrightarrow> (\<forall>n. length (env_ids env n) = 8) \<and>
     (\<forall>n bs. env_tokens env n = Some bs \<longrightarrow> length bs = LeaseTokenSize)"

subsection \<open>Consumer classes\<close>

definition NotificationChannel :: bytes where "NotificationChannel = ''tetral_queue_wakeup''"
definition ConsumerClassJobRunner :: bytes where "ConsumerClassJobRunner = ''bridge''"
definition ConsumerClassSandbox :: bytes where "ConsumerClassSandbox = ''sandbox''"

definition ConsumerClassForKind :: "bytes \<Rightarrow> bytes option" where
  "ConsumerClassForKind kind =
     (if kind \<in> set [KindRuntimeInput, KindRuntimeRecovery, KindRuntimeConfigUpdate, KindCleanupSession,
          KindSessionDeleteCleanup] then Some ConsumerClassJobRunner
      else if kind \<in> set [KindEnvironmentBuild, KindEnvironmentReadyFanout,
          KindSandboxToolExecute, KindSandboxActivate, KindSandboxMaterialize,
          KindSandboxRelease, KindSandboxToolCancel, KindSandboxOutputCapture,
          KindSandboxOutputCaptureCleanup, KindSandboxMemoryProjection,
          KindSandboxBackgroundCommand, KindSandboxBackgroundReconcile] then Some ConsumerClassSandbox
      else None)"

lemma ConsumerClassForKind_known: "ConsumerClassForKind k \<noteq> None \<longleftrightarrow> isKnownKind k"
  by (auto simp: ConsumerClassForKind_def isKnownKind_def)

subsection \<open>Single inserts\<close>

definition existing_active_dedupe :: "bytes \<Rightarrow> bytes \<Rightarrow> queue_row list \<Rightarrow> queue_row option" where
  "existing_active_dedupe workspaceID dedupeKey rs =
     (case sort_by (\<lambda>a b. q_seq a \<le> q_seq b)
        (filter (\<lambda>r. q_workspace r = workspaceID \<and> q_dedupe r = Some dedupeKey \<and>
           (q_status r = Pending \<or> q_status r = Leased)) rs) of
        r # _ \<Rightarrow> Some r
      | [] \<Rightarrow> None)"

definition existingActiveDedupeJob :: "bytes \<Rightarrow> bytes \<Rightarrow> queue_db \<Rightarrow> Job res" where
  "existingActiveDedupeJob workspaceID dedupeKey db =
     (case existing_active_dedupe workspaceID dedupeKey (jobs db) of
        Some r \<Rightarrow> Inr (scanJob r)
      | None \<Rightarrow> Inl ErrNoRows)"

text \<open>The \<open>VALUES\<close> of the insert.\<close>

definition new_row ::
    "time \<Rightarrow> bytes \<Rightarrow> EnqueueRequest \<Rightarrow> delivery_scope \<Rightarrow> control_class \<Rightarrow> int \<Rightarrow> queue_row" where
  "new_row clk trace request scope cls seq =
     \<lparr>q_id = er_ID request, q_workspace = er_WorkspaceID request, q_kind = er_Kind request,
      q_partition = er_PartitionKey request, q_seq = seq,
      q_session = nullableString (er_CausalSessionID request), q_scope = scope,
      q_thread = nullableString (er_DeliveryThreadID request), q_class = cls,
      q_dedupe = nullableString (er_DedupeKey request),
      q_payload_version = er_PayloadVersion request, q_status = Pending,
      q_payload = er_PayloadJSON request, q_priority = er_Priority request,
      q_token = None, q_leased_by = None, q_leased_at = None, q_leased_until = None,
      q_prev_attempts = None, q_attempts = 0, q_defers = 0, q_max_attempts = er_MaxAttempts request,
      q_available_at = Durable (er_AvailableAt request),
      q_ready_at = clk + Microseconds (Sub (er_AvailableAt request) (er_Now request)) * Microsecond,
      q_created_at = Durable (er_Now request), q_updated_at = Durable (er_Now request),
      q_acknowledged_at = None, q_cancelled_at = None, q_dead_lettered_at = None,
      q_error_kind = None, q_error_message = None, q_trace = nullableString trace\<rparr>"

text \<open>
  The statement: the \<open>integer\<close> parameters must fit, the row must pass the table's
  checks, an active row with the same dedupe key makes it do nothing (\<open>None\<close>), and
  any other unique index rejects a duplicate.
\<close>

definition insert_queue_job :: "queue_row \<Rightarrow> queue_row list \<Rightarrow> queue_row list option res" where
  "insert_queue_job row rs =
     (if \<not> (in_int32 (q_payload_version row) \<and> in_int32 (q_priority row) \<and> in_int32 (q_max_attempts row))
      then Inl (DatabaseError ''22003'')
      else if \<not> table_checks row then Inl (DatabaseError ''23514'')
      else if \<exists>r\<in>set rs. active (q_status r) \<and> q_workspace r = q_workspace row \<and> sql_eq (q_dedupe r) (q_dedupe row)
      then Inr None
      else if \<exists>r\<in>set rs. q_id r = q_id row \<or>
          partition_key_of r = partition_key_of row \<and> q_seq r = q_seq row
      then Inl (DatabaseError ''23505'')
      else Inr (Some (rs @ [row])))"

definition insertQueueJobTx ::
    "time \<Rightarrow> bytes \<Rightarrow> EnqueueRequest \<Rightarrow> int \<Rightarrow> queue_db \<Rightarrow> (queue_db \<times> Job \<times> bool) res" where
  "insertQueueJobTx clk trace request partitionSequence db =
     (case (er_DeliveryScope request, er_ControlClass request) of
        (Some scope, Some cls) \<Rightarrow>
          (let row = new_row clk trace request scope cls partitionSequence
           in andThen (insert_queue_job row (jobs db)) (\<lambda>ins.
              case ins of
                Some rs \<Rightarrow> Inr (db\<lparr>jobs := rs\<rparr>, scanJob row, True)
              | None \<Rightarrow>
                  if er_DedupeKey request = [] then Inl ErrNoRows
                  else andThen (existingActiveDedupeJob (er_WorkspaceID request) (er_DedupeKey request) db) (\<lambda>job.
                    Inr (db, job, False))))
      | _ \<Rightarrow> Inl (DatabaseError ''23514''))"

subsection \<open>Partition counters\<close>

text \<open>Locking a counter creates it at zero; on conflict the update rewrites the key with
  itself. Sequences and attempt counts are integers without a bound: the database's
  \<open>bigint\<close> and \<open>integer\<close> columns fail the statement at their limits instead of wrapping, and
  a partition that has numbered \<open>2^63\<close> jobs is out of reach.\<close>

definition lock_counter :: "time \<Rightarrow> bytes \<times> bytes \<Rightarrow> counter_row list \<Rightarrow> counter_row list" where
  "lock_counter start key cs =
     (if key \<in> counter_key ` set cs then cs
      else cs @ [\<lparr>c_workspace = fst key, c_partition = snd key, c_last = 0,
        c_created_at = start, c_updated_at = start\<rparr>])"

definition next_sequence :: "time \<Rightarrow> bytes \<times> bytes \<Rightarrow> counter_row list \<Rightarrow> (int \<times> counter_row list) res" where
  "next_sequence start key cs =
     (case find (\<lambda>c. counter_key c = key) cs of
        None \<Rightarrow> Inl ErrNoRows
      | Some c \<Rightarrow> Inr (c_last c + 1,
          upd_where (\<lambda>c. counter_key c = key) (\<lambda>c. c\<lparr>c_last := c_last c + 1, c_updated_at := start\<rparr>) cs))"

subsection \<open>Batches\<close>

fun normalize_batch :: "tx_env \<Rightarrow> nat \<Rightarrow> EnqueueRequest list \<Rightarrow> EnqueueRequest list res" where
  "normalize_batch env n [] = Inr []"
| "normalize_batch env n (request # requests) =
     andThen (NormalizeEnqueueRequest (env_ids env n) (env_wall env n) request) (\<lambda>r.
     andThen (normalize_batch env (Suc n) requests) (\<lambda>rs. Inr (r # rs)))"

definition request_partition :: "EnqueueRequest \<Rightarrow> bytes \<times> bytes" where
  "request_partition request = (er_WorkspaceID request, er_PartitionKey request)"

definition counter_key_le :: "bytes \<times> bytes \<Rightarrow> bytes \<times> bytes \<Rightarrow> bool" where
  "counter_key_le a b =
     (if fst a \<noteq> fst b then fst a < fst b else snd a \<le> snd b)"

definition partition_keys :: "EnqueueRequest list \<Rightarrow> (bytes \<times> bytes) list" where
  "partition_keys requests = sort_by counter_key_le (remdups (map request_partition requests))"

definition request_less :: "EnqueueRequest \<Rightarrow> EnqueueRequest \<Rightarrow> bool" where
  "request_less left right =
     (if er_WorkspaceID left \<noteq> er_WorkspaceID right then er_WorkspaceID left < er_WorkspaceID right
      else if er_Kind left \<noteq> er_Kind right then er_Kind left < er_Kind right
      else if er_PartitionKey left \<noteq> er_PartitionKey right then er_PartitionKey left < er_PartitionKey right
      else er_DedupeKey left < er_DedupeKey right)"

definition ordered_requests :: "EnqueueRequest list \<Rightarrow> (nat \<times> EnqueueRequest) list" where
  "ordered_requests requests =
     sort_by (\<lambda>a b. \<not> request_less (snd b) (snd a)) (enumerate 0 requests)"

text \<open>One iteration of the insert loop: the job for the request, and whether it is new.\<close>

definition enqueue_one ::
    "tx_env \<Rightarrow> nat \<Rightarrow> EnqueueRequest \<Rightarrow> queue_db \<Rightarrow> (queue_db \<times> Job \<times> bool) res" where
  "enqueue_one env s request db =
     (case (if er_DedupeKey request \<noteq> []
            then existing_active_dedupe (er_WorkspaceID request) (er_DedupeKey request) (jobs db)
            else None) of
        Some r \<Rightarrow> Inr (db, scanJob r, False)
      | None \<Rightarrow>
          andThen (next_sequence (env_start env) (request_partition request) (counters db)) (\<lambda>(seq, cs).
          insertQueueJobTx (env_clock env s 0) (env_trace env) request seq (db\<lparr>counters := cs\<rparr>)))"

fun enqueue_loop ::
    "tx_env \<Rightarrow> (nat \<times> EnqueueRequest) list \<Rightarrow> queue_db \<Rightarrow> (queue_db \<times> (nat \<times> Job) list \<times> bytes list) res" where
  "enqueue_loop env [] db = Inr (db, [], [])"
| "enqueue_loop env ((index, request) # items) db =
     andThen (enqueue_one env index request db) (\<lambda>(db1, job, inserted).
     andThen (if inserted
        then (case ConsumerClassForKind (er_Kind request) of
                Some c \<Rightarrow> Inr [c]
              | None \<Rightarrow> Inl (IntegrityError ''queue kind has no notification consumer class''))
        else Inr []) (\<lambda>cls.
     andThen (enqueue_loop env items db1) (\<lambda>(db2, js, classes).
     Inr (db2, (index, job) # js, cls @ classes))))"

definition EnqueueBatchTx ::
    "tx_env \<Rightarrow> EnqueueRequest list \<Rightarrow> queue_db \<Rightarrow> (queue_db \<times> Job option list) res" where
  "EnqueueBatchTx env requests db =
     andThen (normalize_batch env 0 requests) (\<lambda>normalized.
     if normalized = [] then Inr (db, [])
     else
       andThen (enqueue_loop env (ordered_requests normalized)
         (db\<lparr>counters := fold (lock_counter (env_start env)) (partition_keys normalized) (counters db)\<rparr>))
         (\<lambda>(db', js, classes).
       Inr (db'\<lparr>notifications := notifications db' @
           map (\<lambda>c. (NotificationChannel, c))
             (filter (\<lambda>c. c \<in> set classes) [ConsumerClassJobRunner, ConsumerClassSandbox])\<rparr>,
         map (map_of js) [0..<length normalized])))"

definition EnqueueTx :: "tx_env \<Rightarrow> EnqueueRequest \<Rightarrow> queue_db \<Rightarrow> (queue_db \<times> Job option) res" where
  "EnqueueTx env request db =
     andThen (EnqueueBatchTx env [request] db) (\<lambda>(db', js). Inr (db', hd js))"

text \<open>The service entry point normalises before it opens the transaction.\<close>

definition Enqueue :: "tx_env \<Rightarrow> EnqueueRequest \<Rightarrow> queue_db \<Rightarrow> (queue_db \<times> Job option) res" where
  "Enqueue env request db =
     andThen (NormalizeEnqueueRequest (env_ids env 0) (env_wall env 0) request) (\<lambda>r. EnqueueTx env r db)"

definition SandboxOutputCaptureCleanupMaxAttempts :: int where "SandboxOutputCaptureCleanupMaxAttempts = 5"

definition output_capture_cleanup_request ::
    "bytes \<Rightarrow> bytes \<Rightarrow> bytes \<Rightarrow> bytes \<Rightarrow> int \<Rightarrow> int \<Rightarrow> time \<Rightarrow> EnqueueRequest" where
  "output_capture_cleanup_request rnd workspaceID sessionID finishIdleWriteID captureGeneration
       cleanupGeneration now =
     \<lparr>er_ID = NewJobID rnd, er_WorkspaceID = workspaceID, er_Kind = KindSandboxOutputCaptureCleanup,
      er_PartitionKey = FormatSandboxCapturePartitionKey workspaceID sessionID finishIdleWriteID,
      er_DedupeKey = FormatSandboxOutputCaptureCleanupDedupeKey workspaceID sessionID finishIdleWriteID
        captureGeneration cleanupGeneration,
      er_PayloadVersion = 1,
      er_PayloadJSON = Marshal (JObject [(''workspace_id'', JString workspaceID), (''session_id'', JString sessionID),
        (''finish_idle_write_id'', JString finishIdleWriteID),
        (''capture_generation'', JNumber (FormatInt captureGeneration)),
        (''cleanup_generation'', JNumber (FormatInt cleanupGeneration))]),
      er_Priority = 0, er_MaxAttempts = SandboxOutputCaptureCleanupMaxAttempts,
      er_AvailableAt = zero_time, er_Now = now, er_CausalSessionID = [], er_DeliveryScope = None,
      er_DeliveryThreadID = [], er_ControlClass = None\<rparr>"

definition EnqueueSandboxOutputCaptureCleanupTx ::
    "tx_env \<Rightarrow> bytes \<Rightarrow> bytes \<Rightarrow> bytes \<Rightarrow> bytes \<Rightarrow> int \<Rightarrow> int \<Rightarrow> time \<Rightarrow> queue_db \<Rightarrow> queue_db res" where
  "EnqueueSandboxOutputCaptureCleanupTx env rnd workspaceID sessionID finishIdleWriteID captureGeneration
       cleanupGeneration now db =
     andThen (EnqueueTx env (output_capture_cleanup_request rnd workspaceID sessionID finishIdleWriteID
       captureGeneration cleanupGeneration now) db) (\<lambda>(db', job). Inr db')"

end
