(* ===== verification/Queue_Enqueue_Facts.thy ===== *)
theory Queue_Enqueue_Facts
  imports Queue_Enqueue
begin

section \<open>What enqueueing guarantees\<close>

text \<open>
  The insert loop keeps the queue's invariant, adds rows without touching the
  existing ones, and answers every request with an active job carrying its
  dedupe key. Sequences are handed out strictly increasing per partition.
\<close>

subsection \<open>The active job of a dedupe key\<close>

definition serves :: "EnqueueRequest \<Rightarrow> queue_row \<Rightarrow> bool" where
  "serves request r \<longleftrightarrow> q_workspace r = er_WorkspaceID request \<and>
     q_dedupe r = Some (er_DedupeKey request) \<and> active (q_status r)"

lemma existing_SomeD:
  assumes "existing_active_dedupe w k rs = Some r"
  shows "r \<in> set rs" "q_workspace r = w" "q_dedupe r = Some k" "active (q_status r)"
  using assms
  by (auto simp: existing_active_dedupe_def active_def split: list.splits dest!: sort_by_eq_Cons)

lemma existing_NoneD:
  assumes "existing_active_dedupe w k rs = None" "r \<in> set rs" "q_workspace r = w" "q_dedupe r = Some k"
  shows "\<not> active (q_status r)"
  using assms by (auto simp: existing_active_dedupe_def active_def filter_empty_conv split: list.splits)

lemma active_dedupe_inj:
  assumes "jobs_inv rs" "r \<in> set rs" "s \<in> set rs" "active (q_status r)" "active (q_status s)"
    and "dedupe_key_of r = dedupe_key_of s"
  shows "r = s"
  using assms distinct_map_inj [of dedupe_key_of "filter (\<lambda>r. active (q_status r)) rs" r s]
  by (simp add: jobs_inv_def active_dedupe_unique_def)

lemma existing_unique:
  assumes "jobs_inv rs" "r \<in> set rs" "active (q_status r)" "q_workspace r = w" "q_dedupe r = Some k"
  shows "existing_active_dedupe w k rs = Some r"
proof (cases "existing_active_dedupe w k rs")
  case None
  then show ?thesis using existing_NoneD [OF None assms(2)] assms by simp
next
  case (Some s)
  then show ?thesis
    using existing_SomeD [OF Some] active_dedupe_inj [OF assms(1), of s r] assms
    by (simp add: dedupe_key_of_def)
qed

subsection \<open>Counters\<close>

lemma lock_counter_keys: "counter_key ` set (lock_counter start key cs) = insert key (counter_key ` set cs)"
  by (auto simp: lock_counter_def counter_key_def image_iff)

lemma lock_counter_cover: "counters_cover rs cs \<Longrightarrow> counters_cover rs (lock_counter start key cs)"
  by (auto simp: counters_cover_def lock_counter_def counter_key_def)

lemma fold_lock_keys:
  "counter_key ` set (fold (lock_counter start) keys cs) = set keys \<union> counter_key ` set cs"
  by (induction keys arbitrary: cs) (auto simp: lock_counter_keys)

lemma fold_lock_cover: "counters_cover rs cs \<Longrightarrow> counters_cover rs (fold (lock_counter start) keys cs)"
  by (induction keys arbitrary: cs) (auto simp: lock_counter_cover)

lemma next_sequence_locked:
  assumes "key \<in> counter_key ` set cs"
  shows "\<exists>seq cs'. next_sequence start key cs = Inr (seq, cs')"
proof -
  have "find (\<lambda>c. counter_key c = key) cs \<noteq> None"
    using assms by (auto simp: find_None_iff)
  then show ?thesis by (auto simp: next_sequence_def)
qed

lemma next_sequence_ok:
  assumes "next_sequence start key cs = Inr (seq, cs')" "counters_cover rs cs"
  shows "0 < seq" "\<And>r. r \<in> set rs \<Longrightarrow> partition_key_of r = key \<Longrightarrow> q_seq r < seq"
    "counters_cover rs cs'" "\<exists>c\<in>set cs'. counter_key c = key \<and> c_last c = seq"
    "counter_key ` set cs' = counter_key ` set cs"
proof -
  let ?u = "\<lambda>c. c\<lparr>c_last := c_last c + 1, c_updated_at := start\<rparr>"
  obtain c where c: "find (\<lambda>c. counter_key c = key) cs = Some c" "seq = c_last c + 1"
    and cs': "cs' = upd_where (\<lambda>c. counter_key c = key) ?u cs"
    using assms(1) by (auto simp: next_sequence_def split: option.splits)
  have mem: "c \<in> set cs" "counter_key c = key"
    using c(1) by (auto simp: find_Some_iff)
  have keys: "map counter_key cs' = map counter_key cs"
    unfolding cs' by (rule upd_where_map_id) (simp add: counter_key_def)
  have uniq: "d = c" if "d \<in> set cs" "counter_key d = key" for d
    using assms(2) that mem distinct_map_inj [of counter_key cs d c] by (simp add: counters_cover_def)
  show "0 < seq" using assms(2) mem(1) c(2) by (auto simp: counters_cover_def)
  show "q_seq r < seq" if "r \<in> set rs" "partition_key_of r = key" for r
  proof -
    obtain d where "d \<in> set cs" "counter_key d = partition_key_of r" "q_seq r \<le> c_last d"
      using assms(2) \<open>r \<in> set rs\<close> by (auto simp: counters_cover_def)
    with uniq [of d] that(2) c(2) show ?thesis by simp
  qed
  show "\<exists>c\<in>set cs'. counter_key c = key \<and> c_last c = seq"
    using mem c(2) by (intro bexI [of _ "?u c"]) (auto simp: cs' set_upd_where counter_key_def)
  show "counter_key ` set cs' = counter_key ` set cs"
    using arg_cong [OF keys, of set] by simp
  have "\<forall>d\<in>set cs'. 0 \<le> c_last d"
    using assms(2) by (auto simp: cs' set_upd_where counters_cover_def)
  moreover have "\<exists>d\<in>set cs'. counter_key d = partition_key_of r \<and> q_seq r \<le> c_last d" if r: "r \<in> set rs" for r
  proof -
    obtain d where d: "d \<in> set cs" "counter_key d = partition_key_of r" "q_seq r \<le> c_last d"
      using assms(2) r by (auto simp: counters_cover_def)
    then have "(if counter_key d = key then ?u d else d) \<in> set cs'"
      by (auto simp: cs' set_upd_where)
    with d show ?thesis
      by (intro bexI [of _ "if counter_key d = key then ?u d else d"]) (auto simp: counter_key_def)
  qed
  ultimately show "counters_cover rs cs'"
    using assms(2) keys by (simp add: counters_cover_def)
qed

subsection \<open>One insert\<close>

lemma new_row_ok:
  assumes "admitted request" "er_DeliveryScope request = Some scope" "er_ControlClass request = Some cls" "0 < seq"
  shows "row_ok (new_row clk trace request scope cls seq)"
proof -
  have ok: "delivery_ok (er_Kind request) scope (er_CausalSessionID request) (er_DeliveryThreadID request) cls"
    and f: "isKnownKind (er_Kind request)" "1 \<le> er_PayloadVersion request" "0 \<le> er_MaxAttempts request"
      "er_DedupeKey request \<noteq> []"
    using assms(1-3) by (auto simp: admitted_def)
  then have "delivery_authority_shape (new_row clk trace request scope cls seq)"
    by (cases scope) (auto simp: delivery_authority_shape_def new_row_def delivery_ok_def nullableString_def)
  with ok f assms(4) show ?thesis
    by (simp add: row_ok_def table_checks_def lease_shape_def previous_attempt_shape_def new_row_def)
      (simp add: nullableString_def)
qed

lemma jobs_inv_snoc:
  assumes "jobs_inv rs" "row_ok row" "q_status row = Pending"
    and "\<And>r. r \<in> set rs \<Longrightarrow> q_id r \<noteq> q_id row"
    and "\<And>r. r \<in> set rs \<Longrightarrow> partition_key_of r = partition_key_of row \<Longrightarrow> q_seq r \<noteq> q_seq row"
    and "\<And>r. r \<in> set rs \<Longrightarrow> active (q_status r) \<Longrightarrow> dedupe_key_of r \<noteq> dedupe_key_of row"
  shows "jobs_inv (rs @ [row])"
proof -
  have "q_id row \<notin> q_id ` set rs"
    "(partition_key_of row, q_seq row) \<notin> (\<lambda>r. (partition_key_of r, q_seq r)) ` set rs"
    using assms(4,5) by force+
  moreover have "dedupe_key_of row \<notin> dedupe_key_of ` {r \<in> set rs. active (q_status r)}"
    using assms(6) by (metis (mono_tags, lifting) imageE mem_Collect_eq)
  then have "active_dedupe_unique (rs @ [row])"
    using assms(1,3) by (simp add: jobs_inv_def active_dedupe_unique_def active_def)
  moreover have "lease_exclusion (rs @ [row])"
    using assms(1,3) by (auto simp: jobs_inv_def lease_exclusion_def)
  ultimately show ?thesis
    using assms(1,2) by (auto simp: jobs_inv_def)
qed

lemma insert_queue_job_Some:
  assumes "insert_queue_job row rs = Inr (Some rs')" "jobs_inv rs" "row_ok row" "q_status row = Pending"
  shows "rs' = rs @ [row]" "jobs_inv rs'"
proof -
  show rs': "rs' = rs @ [row]"
    using assms(1) by (auto simp: insert_queue_job_def split: if_splits)
  have *: "\<not> (\<exists>r\<in>set rs. active (q_status r) \<and> q_workspace r = q_workspace row \<and> sql_eq (q_dedupe r) (q_dedupe row))"
    "\<not> (\<exists>r\<in>set rs. q_id r = q_id row \<or> partition_key_of r = partition_key_of row \<and> q_seq r = q_seq row)"
    using assms(1) by (auto simp: insert_queue_job_def split: if_splits)
  have "q_dedupe row \<noteq> None" using assms(3) by (simp add: row_ok_def)
  with * show "jobs_inv rs'"
    unfolding rs' by (intro jobs_inv_snoc assms(2-4)) (auto simp: dedupe_key_of_def sql_eq_def)
qed

definition enqueue_outcome ::
    "EnqueueRequest \<Rightarrow> queue_db \<Rightarrow> queue_db \<Rightarrow> Job \<Rightarrow> bool \<Rightarrow> bool" where
  "enqueue_outcome request db db' job inserted \<longleftrightarrow>
     queue_inv db' \<and> counter_key ` set (counters db') = counter_key ` set (counters db) \<and>
     notifications db' = notifications db \<and>
     (\<exists>r\<in>set (jobs db'). job = scanJob r \<and> serves request r \<and>
        (if inserted then jobs db' = jobs db @ [r] \<and> q_status r = Pending \<and> q_attempts r = 0 \<and>
             q_id r = er_ID request \<and> q_kind r = er_Kind request \<and>
             (\<forall>s\<in>set (jobs db). partition_key_of s = partition_key_of r \<longrightarrow> q_seq s < q_seq r)
         else jobs db' = jobs db))"

lemma enqueue_one_new:
  assumes "admitted request" "queue_inv db" "existing_active_dedupe (er_WorkspaceID request) (er_DedupeKey request) (jobs db) = None"
    and seq: "next_sequence start (request_partition request) (counters db) = Inr (seq, cs)"
    and ins: "insertQueueJobTx clk trace request seq (db\<lparr>counters := cs\<rparr>) = Inr (db', job, inserted)"
  shows "inserted \<and> enqueue_outcome request db db' job True"
proof -
  obtain scope cls where sc: "er_DeliveryScope request = Some scope" "er_ControlClass request = Some cls"
    and dk: "er_DedupeKey request \<noteq> []"
    using assms(1) by (auto simp: admitted_def)
  let ?row = "new_row clk trace request scope cls seq"
  have cover: "counters_cover (jobs db) (counters db)" and jobs: "jobs_inv (jobs db)"
    using assms(2) by (auto simp: queue_inv_def)
  note ns = next_sequence_ok [OF seq cover]
  have ok: "row_ok ?row" by (rule new_row_ok [OF assms(1) sc ns(1)])
  have row: "q_workspace ?row = er_WorkspaceID request" "q_dedupe ?row = Some (er_DedupeKey request)"
    "q_status ?row = Pending" "q_attempts ?row = 0" "q_id ?row = er_ID request" "q_kind ?row = er_Kind request"
    "q_seq ?row = seq"
    "partition_key_of ?row = request_partition request"
    using dk by (simp_all add: new_row_def nullableString_def partition_key_of_def request_partition_def)
  have "insert_queue_job ?row (jobs db) \<noteq> Inr None"
    using existing_NoneD [OF assms(3)] row(1,2) by (auto simp: insert_queue_job_def split: if_splits)
  then obtain rs where rs: "insert_queue_job ?row (jobs db) = Inr (Some rs)"
    and out: "db' = db\<lparr>counters := cs, jobs := rs\<rparr>" "job = scanJob ?row" "inserted"
    using ins sc by (auto simp: insertQueueJobTx_def Let_def andThen_Inr_iff split: option.splits)
  note rs' = insert_queue_job_Some [OF rs jobs ok row(3)]
  have "counters_cover rs cs"
    using ns(3,4) row(7,8) by (auto simp: counters_cover_def rs'(1))
  then show ?thesis
    using rs' ns(2,5) row out
    by (auto simp: enqueue_outcome_def queue_inv_def serves_def active_def)
qed

lemma enqueue_one_ok:
  assumes "admitted request" "queue_inv db"
    and "enqueue_one env s request db = Inr (db', job, inserted)"
  shows "enqueue_outcome request db db' job inserted"
proof (cases "existing_active_dedupe (er_WorkspaceID request) (er_DedupeKey request) (jobs db)")
  case (Some r)
  have "er_DedupeKey request \<noteq> []" using assms(1) by (simp add: admitted_def)
  with Some assms(3) have "db' = db" "job = scanJob r" "\<not> inserted"
    by (auto simp: enqueue_one_def)
  with existing_SomeD [OF Some] assms(2) show ?thesis
    by (auto simp: enqueue_outcome_def serves_def)
next
  case None
  then obtain seq cs where *: "next_sequence (env_start env) (request_partition request) (counters db) = Inr (seq, cs)"
    "insertQueueJobTx (env_clock env s 0) (env_trace env) request seq (db\<lparr>counters := cs\<rparr>) = Inr (db', job, inserted)"
    using assms(3) by (auto simp: enqueue_one_def andThen_Inr_iff split: if_splits)
  then show ?thesis using enqueue_one_new [OF assms(1,2) None *] by simp
qed

subsection \<open>Batches\<close>

lemma normalize_batch_nth:
  assumes "normalize_batch env n requests = Inr rs"
  shows "length rs = length requests \<and> (\<forall>i<length requests.
    NormalizeEnqueueRequest (env_ids env (n + i)) (env_wall env (n + i)) (requests ! i) = Inr (rs ! i))"
  using assms
proof (induction requests arbitrary: n rs)
  case (Cons q qs)
  then obtain r rs' where "NormalizeEnqueueRequest (env_ids env n) (env_wall env n) q = Inr r"
    "normalize_batch env (Suc n) qs = Inr rs'" "rs = r # rs'"
    by (auto simp: andThen_Inr_iff)
  with Cons.IH [of "Suc n" rs'] show ?case by (auto simp: nth_Cons split: nat.splits)
qed simp

lemma Normalize_keys:
  assumes "NormalizeEnqueueRequest rnd wall q = Inr r"
  shows "er_WorkspaceID r = er_WorkspaceID q" "er_DedupeKey r = er_DedupeKey q"
    "er_Kind r = er_Kind q" "er_PartitionKey r = er_PartitionKey q"
    "er_MaxAttempts r = er_MaxAttempts q" "er_Priority r = er_Priority q"
  using assms by (auto elim!: NormalizeE simp: derive_fields)

lemma enqueue_loop_ok:
  assumes "enqueue_loop env items db = Inr (db', js, classes)" "queue_inv db"
    and "\<forall>item\<in>set items. admitted (snd item)"
  shows "queue_inv db' \<and> notifications db' = notifications db \<and> map fst js = map fst items \<and>
    (\<exists>new. jobs db' = jobs db @ new \<and>
       (\<forall>r\<in>set new. q_status r = Pending \<and> ConsumerClassForKind (q_kind r) \<in> Some ` set classes)) \<and>
    (\<forall>(i, job)\<in>set js. \<exists>q r. (i, q) \<in> set items \<and> r \<in> set (jobs db') \<and> job = scanJob r \<and> serves q r)"
  using assms
proof (induction items arbitrary: db js classes)
  case Nil
  then show ?case by simp
next
  case (Cons item items)
  obtain i q where item: "item = (i, q)" by fastforce
  obtain db1 job ins cls js' classes' where
    one: "enqueue_one env i q db = Inr (db1, job, ins)"
    and cls: "(if ins then (case ConsumerClassForKind (er_Kind q) of
                Some c \<Rightarrow> Inr [c]
              | None \<Rightarrow> Inl (IntegrityError ''queue kind has no notification consumer class''))
        else Inr []) = Inr cls"
    and rest: "enqueue_loop env items db1 = Inr (db', js', classes')"
    and js: "js = (i, job) # js'" "classes = cls @ classes'"
    using Cons.prems(1) by (auto simp: item andThen_Inr_iff)
  have out: "enqueue_outcome q db db1 job ins"
    using Cons.prems(3) item by (intro enqueue_one_ok [OF _ Cons.prems(2) one]) simp
  then have inv1: "queue_inv db1" and "notifications db1 = notifications db"
    by (simp_all add: enqueue_outcome_def)
  obtain r where r: "r \<in> set (jobs db1)" "job = scanJob r" "serves q r"
    and grow: "if ins then jobs db1 = jobs db @ [r] \<and> q_status r = Pending \<and> q_kind r = er_Kind q
      else jobs db1 = jobs db"
    using out by (auto simp: enqueue_outcome_def split: if_splits)
  have ih: "queue_inv db' \<and> notifications db' = notifications db1 \<and> map fst js' = map fst items \<and>
    (\<exists>new. jobs db' = jobs db1 @ new \<and>
       (\<forall>r\<in>set new. q_status r = Pending \<and> ConsumerClassForKind (q_kind r) \<in> Some ` set classes')) \<and>
    (\<forall>(i, job)\<in>set js'. \<exists>q r. (i, q) \<in> set items \<and> r \<in> set (jobs db') \<and> job = scanJob r \<and> serves q r)"
    by (rule Cons.IH [OF rest inv1]) (use Cons.prems(3) in auto)
  then obtain new where new: "jobs db' = jobs db1 @ new"
    "\<forall>r\<in>set new. q_status r = Pending \<and> ConsumerClassForKind (q_kind r) \<in> Some ` set classes'"
    by blast
  have "\<exists>new. jobs db' = jobs db @ new \<and>
       (\<forall>r\<in>set new. q_status r = Pending \<and> ConsumerClassForKind (q_kind r) \<in> Some ` set classes)"
  proof (cases ins)
    case True
    then have "ConsumerClassForKind (q_kind r) \<in> Some ` set cls"
      using cls grow by (auto split: option.splits)
    then show ?thesis
      using True new grow js(2) by (intro exI [of _ "r # new"]) auto
  next
    case False
    then show ?thesis using new grow js(2) by (intro exI [of _ new]) auto
  qed
  moreover have "\<exists>q' r'. (i', q') \<in> set (item # items) \<and> r' \<in> set (jobs db') \<and> job' = scanJob r' \<and> serves q' r'"
    if "(i', job') \<in> set js" for i' job'
  proof (cases "(i', job') = (i, job)")
    case True
    have "r \<in> set (jobs db')" using r(1) new(1) by simp
    with True r(2,3) item show ?thesis by (intro exI [of _ q] exI [of _ r]) simp
  next
    case False
    then have "(i', job') \<in> set js'" using that js(1) by auto
    with ih show ?thesis by fastforce
  qed
  then have "\<forall>(i', job')\<in>set js. \<exists>q' r'. (i', q') \<in> set (item # items) \<and> r' \<in> set (jobs db') \<and>
      job' = scanJob r' \<and> serves q' r'"
    by blast
  moreover have "queue_inv db'" "notifications db' = notifications db" "map fst js = map fst (item # items)"
    using ih \<open>notifications db1 = notifications db\<close> js(1) item by simp_all
  ultimately show ?case by blast
qed

lemma set_ordered: "set (ordered_requests rs) = {(i, rs ! i) |i. i < length rs}"
  by (auto simp: ordered_requests_def in_set_enumerate_eq)

lemma map_of_indices:
  assumes "map fst js = map fst items" "distinct (map fst items)" "i \<in> fst ` set items"
  shows "\<exists>job. map_of js i = Some job \<and> (i, job) \<in> set js"
proof -
  have "i \<in> fst ` set js" using assms(1,3) by (metis list.set_map)
  then obtain job where "map_of js i = Some job"
    by (metis map_of_eq_None_iff not_Some_eq)
  then show ?thesis by (auto dest: map_of_SomeD)
qed

lemma distinct_ordered: "distinct (map fst (ordered_requests rs))"
  by (simp add: ordered_requests_def)

lemma EnqueueBatchTxE:
  assumes "EnqueueBatchTx env requests db = Inr (db', js)" "requests \<noteq> []"
  obtains ns db1 js1 classes where "normalize_batch env 0 requests = Inr ns"
    "enqueue_loop env (ordered_requests ns)
       (db\<lparr>counters := fold (lock_counter (env_start env)) (partition_keys ns) (counters db)\<rparr>) = Inr (db1, js1, classes)"
    "db' = db1\<lparr>notifications := notifications db1 @ map (\<lambda>c. (NotificationChannel, c))
       (filter (\<lambda>c. c \<in> set classes) [ConsumerClassJobRunner, ConsumerClassSandbox])\<rparr>"
    "js = map (map_of js1) [0..<length ns]"
proof -
  obtain ns where ns: "normalize_batch env 0 requests = Inr ns"
    using assms(1) by (auto simp: EnqueueBatchTx_def andThen_Inr_iff)
  then have "ns \<noteq> []" using normalize_batch_nth [OF ns] assms(2) by auto
  with assms(1) ns show ?thesis
    by (auto simp: EnqueueBatchTx_def andThen_Inr_iff intro: that)
qed

lemma queue_inv_lock:
  "queue_inv db \<Longrightarrow> queue_inv (db\<lparr>counters := fold (lock_counter start) keys (counters db)\<rparr>)"
  by (simp add: queue_inv_def fold_lock_cover)

lemma queue_inv_notifications [simp]: "queue_inv (db\<lparr>notifications := ns\<rparr>) = queue_inv db"
  by (simp add: queue_inv_def)

lemma EnqueueBatchTx_ok:
  assumes "EnqueueBatchTx env requests db = Inr (db', js)" "env_ok env" "queue_inv db"
  shows "queue_inv db' \<and> length js = length requests \<and>
    (\<exists>new. jobs db' = jobs db @ new \<and> (\<forall>r\<in>set new. q_status r = Pending \<and>
       (\<exists>c. ConsumerClassForKind (q_kind r) = Some c \<and> (NotificationChannel, c) \<in> set (notifications db')))) \<and>
    (\<forall>i<length requests. \<exists>r\<in>set (jobs db'). js ! i = Some (scanJob r) \<and> serves (requests ! i) r)"
proof (cases "requests = []")
  case True
  then show ?thesis using assms(1,3) by (simp add: EnqueueBatchTx_def)
next
  case False
  obtain ns db1 js1 classes where e: "normalize_batch env 0 requests = Inr ns"
    "enqueue_loop env (ordered_requests ns)
       (db\<lparr>counters := fold (lock_counter (env_start env)) (partition_keys ns) (counters db)\<rparr>) = Inr (db1, js1, classes)"
    "db' = db1\<lparr>notifications := notifications db1 @ map (\<lambda>c. (NotificationChannel, c))
       (filter (\<lambda>c. c \<in> set classes) [ConsumerClassJobRunner, ConsumerClassSandbox])\<rparr>"
    "js = map (map_of js1) [0..<length ns]"
    using assms(1) False by (rule EnqueueBatchTxE)
  note nb = normalize_batch_nth [OF e(1)]
  have adm: "\<forall>item\<in>set (ordered_requests ns). admitted (snd item)"
    using nb assms(2) Normalize_admitted by (auto simp: env_ok_def set_ordered)
  note loop = enqueue_loop_ok [OF e(2) queue_inv_lock [OF assms(3)] adm]
  have inv: "queue_inv db1" and fst: "map fst js1 = map fst (ordered_requests ns)"
    and served: "\<And>i job. (i, job) \<in> set js1 \<Longrightarrow>
      \<exists>q r. (i, q) \<in> set (ordered_requests ns) \<and> r \<in> set (jobs db1) \<and> job = scanJob r \<and> serves q r"
    using loop by fast+
  obtain new where new: "jobs db1 = jobs db @ new"
    "\<forall>r\<in>set new. q_status r = Pending \<and> ConsumerClassForKind (q_kind r) \<in> Some ` set classes"
    using loop by (metis (no_types, lifting) queue_db.select_convs(1) queue_db.surjective queue_db.update_convs(2))
  have "\<exists>r\<in>set (jobs db'). js ! i = Some (scanJob r) \<and> serves (requests ! i) r" if i: "i < length requests" for i
  proof -
    have "i \<in> fst ` set (ordered_requests ns)" using i nb by (force simp: set_ordered)
    then obtain job where job: "map_of js1 i = Some job" "(i, job) \<in> set js1"
      using map_of_indices [OF fst distinct_ordered] by blast
    obtain q r where qr: "(i, q) \<in> set (ordered_requests ns)" "r \<in> set (jobs db1)" "job = scanJob r" "serves q r"
      using served [OF job(2)] by blast
    have "NormalizeEnqueueRequest (env_ids env i) (env_wall env i) (requests ! i) = Inr q"
      using qr(1) nb i by (auto simp: set_ordered)
    then have "serves (requests ! i) r"
      using qr(4) Normalize_keys(1,2) by (simp add: serves_def)
    with qr(2,3) job(1) e(3,4) i nb show ?thesis by auto
  qed
  moreover have "\<exists>c. ConsumerClassForKind (q_kind r) = Some c \<and> (NotificationChannel, c) \<in> set (notifications db')"
    if r: "r \<in> set new" for r
  proof -
    obtain c where c: "ConsumerClassForKind (q_kind r) = Some c" "c \<in> set classes"
      using new(2) r by auto
    then have "c = ConsumerClassJobRunner \<or> c = ConsumerClassSandbox"
      by (auto simp: ConsumerClassForKind_def split: if_splits)
    with c e(3) show ?thesis by auto
  qed
  ultimately show ?thesis
    using inv new e(3,4) nb by simp
qed

subsection \<open>Single requests\<close>

lemma singleton_batch [simp]:
  "ordered_requests [n] = [(0, n)]" "partition_keys [n] = [request_partition n]"
  by (simp_all add: ordered_requests_def partition_keys_def)

lemma EnqueueTx_single:
  assumes "NormalizeEnqueueRequest (env_ids env 0) (env_wall env 0) q = Inr n"
  shows "EnqueueTx env q db =
    andThen (enqueue_loop env [(0, n)] (db\<lparr>counters := lock_counter (env_start env) (request_partition n) (counters db)\<rparr>))
      (\<lambda>(db', js, classes).
        Inr (db'\<lparr>notifications := notifications db' @ map (\<lambda>c. (NotificationChannel, c))
          (filter (\<lambda>c. c \<in> set classes) [ConsumerClassJobRunner, ConsumerClassSandbox])\<rparr>, map_of js 0))"
  using assms
  by (simp add: EnqueueTx_def EnqueueBatchTx_def andThen_def split: sum.splits prod.splits)

lemma enqueue_one_progress:
  assumes "admitted n" "queue_inv db" "request_partition n \<in> counter_key ` set (counters db)"
    and "in_int32 (er_PayloadVersion n)" "in_int32 (er_Priority n)" "in_int32 (er_MaxAttempts n)"
    and "er_ID n \<notin> q_id ` set (jobs db)"
  shows "\<exists>db' job ins. enqueue_one env s n db = Inr (db', job, ins)"
proof (cases "existing_active_dedupe (er_WorkspaceID n) (er_DedupeKey n) (jobs db)")
  case (Some r)
  then have "enqueue_one env s n db = Inr (db, scanJob r, False)"
    using assms(1) by (simp add: enqueue_one_def admitted_def)
  then show ?thesis by blast
next
  case None
  obtain scope cls where sc: "er_DeliveryScope n = Some scope" "er_ControlClass n = Some cls"
    and dk: "er_DedupeKey n \<noteq> []"
    using assms(1) by (auto simp: admitted_def)
  obtain seq cs where seq: "next_sequence (env_start env) (request_partition n) (counters db) = Inr (seq, cs)"
    using next_sequence_locked [OF assms(3)] by blast
  let ?row = "new_row (env_clock env s 0) (env_trace env) n scope cls seq"
  note ns = next_sequence_ok [OF seq, of "jobs db"]
  have cover: "counters_cover (jobs db) (counters db)" using assms(2) by (simp add: queue_inv_def)
  have ok: "row_ok ?row" by (rule new_row_ok [OF assms(1) sc ns(1) [OF cover]])
  have keys: "q_id ?row = er_ID n" "partition_key_of ?row = request_partition n" "q_seq ?row = seq"
    "q_workspace ?row = er_WorkspaceID n" "q_dedupe ?row = Some (er_DedupeKey n)"
    "in_int32 (q_payload_version ?row)" "in_int32 (q_priority ?row)" "in_int32 (q_max_attempts ?row)"
    using dk assms(4-6)
    by (simp_all add: new_row_def nullableString_def partition_key_of_def request_partition_def)
  have "\<not> (\<exists>r\<in>set (jobs db). active (q_status r) \<and> q_workspace r = q_workspace ?row \<and> sql_eq (q_dedupe r) (q_dedupe ?row))"
    using existing_NoneD [OF None] keys(4,5) by auto
  moreover have "\<not> (\<exists>r\<in>set (jobs db). q_id r = q_id ?row \<or> partition_key_of r = partition_key_of ?row \<and> q_seq r = q_seq ?row)"
    using assms(7) ns(2) [OF cover] keys(1-3) by force
  ultimately have "insert_queue_job ?row (jobs db) = Inr (Some (jobs db @ [?row]))"
    using ok keys(6-8) by (simp add: insert_queue_job_def row_ok_def)
  then show ?thesis
    using None seq sc by (auto simp: enqueue_one_def insertQueueJobTx_def Let_def)
qed

subsection \<open>Properties of enqueueing\<close>

definition sample_env :: tx_env where
  "sample_env = \<lparr>env_clock = (\<lambda>s c. 5000000), env_start = 4000000, env_wall = (\<lambda>n. 3000000),
     env_ids = (\<lambda>n. ''abcdefgh''), env_tokens = (\<lambda>n. Some ''0123456789abcdef''), env_trace = []\<rparr>"

lemma sample_env_ok: "env_ok sample_env"
  by (simp add: env_ok_def sample_env_def LeaseTokenSize_def)

text \<open>C2: a batch that is accepted keeps the queue's invariant, leaves every existing
  row as it was, appends only pending rows, announces the consumer class of each
  new row, and answers every request with an active job of the request's
  workspace that carries its dedupe key.\<close>

theorem enqueue_batch_sound:
  assumes "EnqueueBatchTx env requests db = Inr (db', js)" and "env_ok env" and "queue_inv db"
  shows "queue_inv db' \<and> length js = length requests \<and>
    (\<exists>new. jobs db' = jobs db @ new \<and> (\<forall>r\<in>set new. q_status r = Pending \<and>
       (\<exists>c. ConsumerClassForKind (q_kind r) = Some c \<and> (NotificationChannel, c) \<in> set (notifications db')))) \<and>
    (\<forall>i<length requests. \<exists>r\<in>set (jobs db'). js ! i = Some (scanJob r) \<and> serves (requests ! i) r)"
  using assms by (rule EnqueueBatchTx_ok)

lemma EnqueueTx_succeeds:
  assumes "NormalizeEnqueueRequest (env_ids env 0) (env_wall env 0) q = Inr n"
    and "env_ok env" and "queue_inv db"
    and "in_int32 (er_PayloadVersion n)" and "in_int32 (er_Priority n)" and "in_int32 (er_MaxAttempts n)"
    and "er_ID n \<notin> q_id ` set (jobs db)"
  shows "\<exists>db' job. EnqueueTx env q db = Inr (db', Some job)"
proof -
  let ?db = "db\<lparr>counters := lock_counter (env_start env) (request_partition n) (counters db)\<rparr>"
  have adm: "admitted n" using Normalize_admitted [OF assms(1)] assms(2) by (simp add: env_ok_def)
  have inv: "queue_inv ?db" using assms(3) by (simp add: queue_inv_def lock_counter_cover)
  have locked: "request_partition n \<in> counter_key ` set (counters ?db)" by (simp add: lock_counter_keys)
  have fresh: "er_ID n \<notin> q_id ` set (jobs ?db)" using assms(7) by simp
  obtain db1 job ins where one: "enqueue_one env 0 n ?db = Inr (db1, job, ins)"
    using enqueue_one_progress [OF adm inv locked assms(4-6) fresh] by blast
  have "ConsumerClassForKind (er_Kind n) \<noteq> None"
    using adm ConsumerClassForKind_known [of "er_Kind n"] by (simp add: admitted_def)
  then show ?thesis
    using one by (auto simp: EnqueueTx_single [OF assms(1)] split: if_splits)
qed

text \<open>Admission is the only obstacle to enqueueing: a request that normalises, whose
  integer columns fit and whose id is unused is always answered with a job.\<close>

theorem enqueue_succeeds:
  assumes "NormalizeEnqueueRequest (env_ids env 0) (env_wall env 0) q = Inr n"
    and "env_ok env" and "queue_inv db"
    and "in_int32 (er_PayloadVersion n)" and "in_int32 (er_Priority n)" and "in_int32 (er_MaxAttempts n)"
    and "er_ID n \<notin> q_id ` set (jobs db)"
  shows "\<exists>db' job. EnqueueTx env q db = Inr (db', Some job)"
  using assms by (rule EnqueueTx_succeeds)

text \<open>C8: while a job with the request's dedupe key is active, enqueueing returns that job
  and changes nothing but the (created or untouched) partition counter.\<close>

theorem enqueue_returns_active_duplicate:
  assumes "NormalizeEnqueueRequest (env_ids env 0) (env_wall env 0) q = Inr n" and "queue_inv db"
    and "r \<in> set (jobs db)" and "active (q_status r)" and "q_workspace r = er_WorkspaceID q"
    and "q_dedupe r = Some (er_DedupeKey q)"
  shows "EnqueueTx env q db =
    Inr (db\<lparr>counters := lock_counter (env_start env) (request_partition n) (counters db)\<rparr>, Some (scanJob r))"
proof -
  have "existing_active_dedupe (er_WorkspaceID n) (er_DedupeKey n) (jobs db) = Some r"
    using existing_unique [OF _ assms(3,4)] assms(2,5,6) Normalize_keys [OF assms(1)]
    by (simp add: queue_inv_def)
  moreover have "er_DedupeKey n \<noteq> []"
    using assms(1) by (auto elim!: NormalizeE simp: derive_fields dest: shape_known)
  ultimately show ?thesis
    by (simp add: EnqueueTx_single [OF assms(1)] enqueue_one_def)
qed

text \<open>Concrete states: the sample request in the empty queue.\<close>

definition sample_normalized :: EnqueueRequest where
  "sample_normalized = redeliver ''sess'' (Some ScopeThread) ''thr'' (Some Ordinary)
     (admission_defaults ''abcdefgh'' 3000000 sample_request)"

lemma sample_env_normalize:
  "NormalizeEnqueueRequest (env_ids sample_env 0) (env_wall sample_env 0) sample_request = Inr sample_normalized"
  using sample_normalize by (simp add: sample_env_def sample_normalized_def)

definition sample_row :: queue_row where
  "sample_row = new_row 5000000 [] sample_normalized ScopeThread Ordinary 1"

definition sample_counter :: counter_row where
  "sample_counter = \<lparr>c_workspace = ''ws'', c_partition = ''session:ws:sess'', c_last = 1,
     c_created_at = 4000000, c_updated_at = 4000000\<rparr>"

definition sample_db :: queue_db where
  "sample_db = \<lparr>jobs = [sample_row], counters = [sample_counter],
     notifications = [(NotificationChannel, ConsumerClassJobRunner)]\<rparr>"

lemma sample_normalized_fields:
  "er_DedupeKey sample_normalized = ''runtime_recovery:ws:sess:evt''" "er_WorkspaceID sample_normalized = ''ws''"
  "er_PartitionKey sample_normalized = ''session:ws:sess''" "er_Kind sample_normalized = KindRuntimeRecovery"
  "er_DeliveryScope sample_normalized = Some ScopeThread" "er_ControlClass sample_normalized = Some Ordinary"
  "er_PayloadVersion sample_normalized = 1" "er_Priority sample_normalized = 0"
  "er_MaxAttempts sample_normalized = 10"
  by (simp_all add: sample_normalized_def sample_request_recovery FormatRuntimeRecoveryDedupeKey_def
      formatQueueDedupeKey_def kind_simps FormatSessionPartitionKey_def FormatPartitionKey_def
      runtime_request_def admission_defaults_def Let_def DefaultMaxAttempts_def)

lemma sample_row_ok: "row_ok sample_row"
  unfolding sample_row_def
  by (rule new_row_ok [OF _ sample_normalized_fields(5,6)])
    (use Normalize_admitted [OF sample_env_normalize] sample_env_ok in \<open>auto simp: env_ok_def\<close>)

lemma recovery_class:
  "ConsumerClassForKind KindRuntimeRecovery = Some ConsumerClassJobRunner"
  "ConsumerClassSandbox \<noteq> ConsumerClassJobRunner"
  by (simp_all add: ConsumerClassForKind_def ConsumerClassJobRunner_def ConsumerClassSandbox_def)

lemma sample_enqueue: "EnqueueTx sample_env sample_request empty_db = Inr (sample_db, Some (scanJob sample_row))"
proof -
  have "insert_queue_job sample_row [] = Inr (Some [sample_row])"
    using sample_row_ok
    by (simp add: insert_queue_job_def row_ok_def sample_row_def new_row_def sample_normalized_fields in_int32_def)
  then show ?thesis
    unfolding EnqueueTx_single [OF sample_env_normalize]
    by (simp add: empty_db_def enqueue_one_def existing_active_dedupe_def lock_counter_def
        request_partition_def sample_normalized_fields next_sequence_def counter_key_def
        insertQueueJobTx_def sample_db_def sample_counter_def sample_row_def sample_env_def
        recovery_class Let_def)
qed

lemma EnqueueTx_batch:
  assumes "EnqueueTx env q db = Inr (db', Some job)"
  shows "EnqueueBatchTx env [q] db = Inr (db', [Some job])"
proof -
  obtain db1 js where b: "EnqueueBatchTx env [q] db = Inr (db1, js)"
    using assms by (cases "EnqueueBatchTx env [q] db") (auto simp: EnqueueTx_def)
  with assms have js: "EnqueueBatchTx env [q] db = Inr (db', js)" "hd js = Some job"
    by (simp_all add: EnqueueTx_def)
  obtain ns where "normalize_batch env 0 [q] = Inr ns" "length js = length ns"
    using EnqueueBatchTxE [OF js(1)] by (metis length_map length_upt list.distinct(1) diff_zero)
  then have "length js = 1" using normalize_batch_nth by fastforce
  with js show ?thesis by (cases js) auto
qed

lemmas sample_enqueue_batch = EnqueueTx_batch [OF sample_enqueue]

theorem enqueue_batch_sound_witness: "queue_inv sample_db"
  using enqueue_batch_sound [OF sample_enqueue_batch sample_env_ok empty_db_inv] by blast

lemma sample_ints:
  "in_int32 (er_PayloadVersion sample_normalized)" "in_int32 (er_Priority sample_normalized)"
  "in_int32 (er_MaxAttempts sample_normalized)"
  by (simp_all add: sample_normalized_fields in_int32_def)

theorem enqueue_succeeds_witness: "\<exists>db' job. EnqueueTx sample_env sample_request empty_db = Inr (db', Some job)"
  by (rule enqueue_succeeds [OF sample_env_normalize sample_env_ok empty_db_inv sample_ints])
    (simp add: empty_db_def)

lemma sample_db_inv: "queue_inv sample_db"
  using EnqueueBatchTx_ok [OF sample_enqueue_batch sample_env_ok empty_db_inv] by blast

lemma sample_row_in: "sample_row \<in> set (jobs sample_db)"
  by (simp add: sample_db_def)

theorem enqueue_returns_active_duplicate_witness:
  "EnqueueTx sample_env sample_request sample_db =
     Inr (sample_db\<lparr>counters := lock_counter (env_start sample_env) (request_partition sample_normalized)
       (counters sample_db)\<rparr>, Some (scanJob sample_row))"
  by (rule enqueue_returns_active_duplicate [OF sample_env_normalize sample_db_inv sample_row_in])
    (simp_all add: sample_row_def new_row_def active_def nullableString_def sample_normalized_fields
      Normalize_keys(1,2) [OF sample_env_normalize, unfolded sample_normalized_fields, symmetric])

end
