(* ===== verification/Queue_Lease.thy ===== *)
theory Queue_Lease
  imports Queue_Enqueue_Facts
begin

section \<open>Workspace-scoped leasing\<close>

text \<open>
  \<open>Lease\<close> of \<open>internal/queue/postgresql_store.go\<close>: the eligibility predicate the
  discovery query and the token-minting update share, the attempt bookkeeping,
  the exact update of one candidate, and the loop. A Session's lifecycle state
  and status live in the \<open>sessions\<close> table, which the queue only reads: the lookup
  by workspace and id is the parameter \<open>sess\<close>. Text is ordered by the database
  collation \<open>coll\<close>.
\<close>

type_synonym session_lookup = "bytes \<Rightarrow> bytes \<Rightarrow> (bytes \<times> bytes) option"

record RetryPolicy =
  pol_BaseDelay :: duration
  pol_MaxDelay :: duration
  pol_MaxAttempts :: int
  pol_RandomInt64 :: "(int \<Rightarrow> int) option"

text \<open>\<open>rand.Int64N\<close>, the default generator, is the argument \<open>rng\<close>.\<close>

definition normalizeRetryPolicy :: "(int \<Rightarrow> int) \<Rightarrow> RetryPolicy \<Rightarrow> RetryPolicy" where
  "normalizeRetryPolicy rng policy =
     \<lparr>pol_BaseDelay = (if pol_BaseDelay policy \<le> 0 then Second else pol_BaseDelay policy),
      pol_MaxDelay = (if pol_MaxDelay policy \<le> 0 then 60 * Second else pol_MaxDelay policy),
      pol_MaxAttempts = (if pol_MaxAttempts policy \<le> 0 then DefaultMaxAttempts else pol_MaxAttempts policy),
      pol_RandomInt64 = (case pol_RandomInt64 policy of None \<Rightarrow> Some rng | Some f \<Rightarrow> Some f)\<rparr>"

subsection \<open>Eligibility\<close>

definition session_admits :: "session_lookup \<Rightarrow> queue_row \<Rightarrow> bool" where
  "session_admits sess candidate \<longleftrightarrow>
     (case q_session candidate of
        None \<Rightarrow> True
      | Some sid \<Rightarrow>
          (case sess (q_workspace candidate) sid of
             Some (lifecycle, status) \<Rightarrow>
               if q_kind candidate = KindSessionDeleteCleanup then lifecycle = ''deleted''
               else lifecycle \<noteq> ''deleted'' \<and> status \<noteq> ''terminated''
           | None \<Rightarrow> q_kind candidate \<noteq> KindSessionDeleteCleanup))"

definition leased_partition_blocks :: "queue_row \<Rightarrow> queue_row \<Rightarrow> bool" where
  "leased_partition_blocks candidate leased \<longleftrightarrow>
     q_workspace leased = q_workspace candidate \<and> q_status leased = Leased \<and>
     q_id leased \<noteq> q_id candidate \<and> q_scope leased = ScopePartition \<and>
     q_partition leased = q_partition candidate"

definition leased_thread_blocks :: "queue_row \<Rightarrow> queue_row \<Rightarrow> bool" where
  "leased_thread_blocks candidate leased \<longleftrightarrow>
     q_workspace leased = q_workspace candidate \<and> q_status leased = Leased \<and>
     q_id leased \<noteq> q_id candidate \<and> sql_eq (q_session leased) (q_session candidate) \<and>
     \<not> (q_class candidate = Interrupt \<and> q_kind leased = KindRuntimeConfigUpdate) \<and>
     (q_scope leased = ScopeSession \<or>
      (q_scope leased = ScopeThread \<and> sql_eq (q_thread leased) (q_thread candidate)))"

definition leased_session_blocks :: "queue_row \<Rightarrow> queue_row \<Rightarrow> bool" where
  "leased_session_blocks candidate leased \<longleftrightarrow>
     q_workspace leased = q_workspace candidate \<and> q_status leased = Leased \<and>
     q_id leased \<noteq> q_id candidate \<and> sql_eq (q_session leased) (q_session candidate) \<and>
     (q_scope leased = ScopeThread \<or> q_scope leased = ScopeSession)"

definition pending_partition_precedes :: "time \<Rightarrow> queue_row \<Rightarrow> queue_row \<Rightarrow> bool" where
  "pending_partition_precedes now candidate pending \<longleftrightarrow>
     q_scope candidate = ScopePartition \<and> q_scope pending = ScopePartition \<and>
     q_partition pending = q_partition candidate \<and> q_available_at pending \<le> now \<and>
     (q_priority pending > q_priority candidate \<or>
      (q_priority pending = q_priority candidate \<and> q_seq pending < q_seq candidate))"

definition pending_session_precedes :: "time \<Rightarrow> queue_row \<Rightarrow> queue_row \<Rightarrow> bool" where
  "pending_session_precedes now candidate pending \<longleftrightarrow>
     q_scope candidate = ScopeSession \<and> sql_eq (q_session pending) (q_session candidate) \<and>
     (q_scope pending = ScopeThread \<or> q_scope pending = ScopeSession) \<and>
     \<not> (q_kind candidate = KindSessionDeleteCleanup \<and> q_kind pending \<noteq> KindSessionDeleteCleanup) \<and>
     q_available_at pending \<le> now \<and> q_seq pending < q_seq candidate"

definition pending_thread_precedes :: "queue_row \<Rightarrow> queue_row \<Rightarrow> bool" where
  "pending_thread_precedes candidate pending \<longleftrightarrow>
     q_scope candidate = ScopeThread \<and> sql_eq (q_session pending) (q_session candidate) \<and>
     \<not> (q_kind candidate = KindRuntimeRecovery \<and> q_class pending = Interrupt) \<and>
     ((q_scope pending = ScopeSession \<and> q_seq pending < q_seq candidate \<and>
       \<not> (q_class candidate = Interrupt \<and> q_kind pending = KindRuntimeConfigUpdate)) \<or>
      (q_scope pending = ScopeThread \<and> sql_eq (q_thread pending) (q_thread candidate) \<and>
       ((q_kind pending = KindRuntimeRecovery \<and> q_class candidate = Interrupt) \<or>
        (q_class pending = Interrupt \<and>
          (q_class candidate \<noteq> Interrupt \<or> q_seq pending < q_seq candidate)) \<or>
        (q_class candidate \<noteq> Interrupt \<and> q_class pending \<noteq> Interrupt \<and>
          q_seq pending < q_seq candidate))))"

definition pending_blocks :: "time \<Rightarrow> queue_row \<Rightarrow> queue_row \<Rightarrow> bool" where
  "pending_blocks now candidate pending \<longleftrightarrow>
     q_workspace pending = q_workspace candidate \<and> q_status pending = Pending \<and>
     q_id pending \<noteq> q_id candidate \<and>
     (pending_partition_precedes now candidate pending \<or>
      pending_session_precedes now candidate pending \<or>
      pending_thread_precedes candidate pending)"

definition leaseEligibilityPredicate ::
    "session_lookup \<Rightarrow> time \<Rightarrow> queue_row list \<Rightarrow> queue_row \<Rightarrow> bool" where
  "leaseEligibilityPredicate sess now rs candidate \<longleftrightarrow>
     q_status candidate = Pending \<and> q_available_at candidate \<le> now \<and>
     session_admits sess candidate \<and>
     (q_scope candidate \<noteq> ScopePartition \<or> \<not> (\<exists>l\<in>set rs. leased_partition_blocks candidate l)) \<and>
     (q_scope candidate \<noteq> ScopeThread \<or> \<not> (\<exists>l\<in>set rs. leased_thread_blocks candidate l)) \<and>
     (q_scope candidate \<noteq> ScopeSession \<or> \<not> (\<exists>l\<in>set rs. leased_session_blocks candidate l)) \<and>
     \<not> (\<exists>p\<in>set rs. pending_blocks now candidate p)"

subsection \<open>Attempt bookkeeping\<close>

text \<open>\<open>COALESCE(NULLIF(max_attempts, 0), default)\<close>\<close>

definition effective_budget :: "int \<Rightarrow> queue_row \<Rightarrow> int" where
  "effective_budget defaultMaxAttempts r =
     (if q_max_attempts r = 0 then defaultMaxAttempts else q_max_attempts r)"

definition leaseAttemptCountExpression :: "int \<Rightarrow> queue_row \<Rightarrow> int" where
  "leaseAttemptCountExpression defaultMaxAttempts r =
     (if q_class r = Interrupt \<and> q_attempts r \<ge> effective_budget defaultMaxAttempts r
      then q_attempts r
      else if q_kind r = KindCleanupSession \<and> q_attempts r \<ge> effective_budget defaultMaxAttempts r
      then q_attempts r
      else if q_kind r = KindRuntimeInput \<and> q_class r = AgentMail \<and>
          q_attempts r \<ge> effective_budget defaultMaxAttempts r + 1
      then q_attempts r
      else q_attempts r + 1)"

subsection \<open>The lease transaction\<close>

text \<open>\<open>ORDER BY priority DESC, available_at ASC, partition_key ASC, queue_partition_sequence ASC\<close>\<close>

definition lease_order :: "collation \<Rightarrow> queue_row \<Rightarrow> queue_row \<Rightarrow> bool" where
  "lease_order coll a b =
     (if q_priority a \<noteq> q_priority b then q_priority b < q_priority a
      else if q_available_at a \<noteq> q_available_at b then q_available_at a < q_available_at b
      else if q_partition a \<noteq> q_partition b then coll (q_partition a) (q_partition b)
      else q_seq a \<le> q_seq b)"

definition leaseCandidatesQuery ::
    "collation \<Rightarrow> session_lookup \<Rightarrow> bytes \<Rightarrow> bytes list \<Rightarrow> time \<Rightarrow> int \<Rightarrow> queue_row list \<Rightarrow> queue_row list" where
  "leaseCandidatesQuery coll sess workspaceID kinds now limit rs =
     take (nat limit) (sort_by (lease_order coll)
       (filter (\<lambda>r. q_workspace r = workspaceID \<and> q_kind r \<in> set kinds \<and>
          leaseEligibilityPredicate sess now rs r) rs))"

text \<open>The exact row the discovery read, by every column it carried over.\<close>

definition candidate_matches :: "bytes \<Rightarrow> queue_row \<Rightarrow> queue_row \<Rightarrow> bool" where
  "candidate_matches workspaceID candidate r \<longleftrightarrow>
     q_workspace r = workspaceID \<and> q_id r = q_id candidate \<and> q_kind r = q_kind candidate \<and>
     q_partition r = q_partition candidate \<and> q_available_at r = q_available_at candidate \<and>
     q_seq r = q_seq candidate \<and>
     q_session r = nullableString (null_string (q_session candidate)) \<and>
     q_scope r = q_scope candidate \<and>
     q_thread r = nullableString (null_string (q_thread candidate)) \<and> q_class r = q_class candidate"

definition lease_guard ::
    "session_lookup \<Rightarrow> LeaseRequest \<Rightarrow> queue_row list \<Rightarrow> queue_row \<Rightarrow> queue_row \<Rightarrow> bool" where
  "lease_guard sess request rs candidate r \<longleftrightarrow>
     candidate_matches (lr_WorkspaceID request) candidate r \<and>
     leaseEligibilityPredicate sess (Durable (lr_Now request)) rs r"

definition lease_set :: "clock \<Rightarrow> nat \<Rightarrow> bytes \<Rightarrow> bytes \<Rightarrow> duration \<Rightarrow> int \<Rightarrow> queue_row \<Rightarrow> queue_row" where
  "lease_set clk s owner leaseToken leaseDuration defaultMaxAttempts r =
     r\<lparr>q_status := Leased, q_leased_by := Some owner, q_token := Some leaseToken,
       q_leased_at := Some (clk s 0),
       q_leased_until := Some (clk s 1 + Milliseconds leaseDuration * Millisecond),
       q_attempts := leaseAttemptCountExpression defaultMaxAttempts r,
       q_updated_at := clk s 2\<rparr>"

definition leaseCandidate ::
    "session_lookup \<Rightarrow> clock \<Rightarrow> nat \<Rightarrow> LeaseRequest \<Rightarrow> queue_row \<Rightarrow> bytes \<Rightarrow> int \<Rightarrow> queue_row list \<Rightarrow>
     queue_row list \<times> Job option" where
  "leaseCandidate sess clk s request candidate leaseToken defaultMaxAttempts rs =
     (let guard = lease_guard sess request rs candidate;
          upd = lease_set clk s (lr_LeaseOwner request) leaseToken (lr_LeaseDuration request) defaultMaxAttempts
      in (upd_where guard upd rs,
          map_option (\<lambda>r. let job = scanJob (upd r)
            in if job_MaxAttempts job = 0 then job\<lparr>job_MaxAttempts := defaultMaxAttempts\<rparr> else job)
            (find guard rs)))"

fun lease_loop ::
    "session_lookup \<Rightarrow> tx_env \<Rightarrow> LeaseRequest \<Rightarrow> int \<Rightarrow> nat \<Rightarrow> queue_row list \<Rightarrow> queue_row list \<Rightarrow> Job list \<Rightarrow>
     (queue_row list \<times> Job list) res" where
  "lease_loop sess env request defaultMaxAttempts n [] rs leased = Inr (rs, leased)"
| "lease_loop sess env request defaultMaxAttempts n (candidate # candidates) rs leased =
     (if int (length leased) \<ge> lr_MaxJobs request then Inr (rs, leased)
      else
        andThen (NewLeaseToken (env_tokens env n)) (\<lambda>leaseToken.
        case leaseCandidate sess (env_clock env) (Suc n) request candidate leaseToken defaultMaxAttempts rs of
          (rs', job) \<Rightarrow>
            lease_loop sess env request defaultMaxAttempts (Suc n) candidates rs'
              (case job of Some j \<Rightarrow> leased @ [j] | None \<Rightarrow> leased)))"

definition Lease ::
    "collation \<Rightarrow> session_lookup \<Rightarrow> tx_env \<Rightarrow> RetryPolicy \<Rightarrow> LeaseRequest \<Rightarrow> queue_db \<Rightarrow> (queue_db \<times> Job list) res" where
  "Lease coll sess env policy request0 db =
     andThen (ValidateLeaseRequest request0) (\<lambda>_.
     let request = request0\<lparr>lr_Now := (if IsZero (lr_Now request0) then Durable (env_wall env 0) else lr_Now request0)\<rparr>;
         candidates = leaseCandidatesQuery coll sess (lr_WorkspaceID request) (lr_Kinds request)
           (Durable (lr_Now request)) (lr_MaxJobs request * 8) (jobs db)
     in andThen (lease_loop sess env request (pol_MaxAttempts policy) 0 candidates (jobs db) []) (\<lambda>(rs, leased).
        Inr (db\<lparr>jobs := rs\<rparr>, leased)))"

end
