(* ===== verification/Queue_Transitions.thy ===== *)
theory Queue_Transitions
  imports Queue_Lease
begin

section \<open>Fenced transitions off a lease\<close>

text \<open>
  The operations of \<open>internal/queue/postgresql_store.go\<close> that a lease holder
  calls with its token (\<open>Heartbeat\<close>, \<open>AckTx\<close>, \<open>Retry\<close>, \<open>Defer\<close>, \<open>DeadLetterTx\<close>,
  \<open>ReleaseUnstartedJob\<close>, the two lease assertions), the maintenance that reclaims
  expired leases, and the cancellations of pending work. A statement's \<open>WHERE\<close>
  clause is its guard and its \<open>SET\<close> list its update. A nil receiver or a nil
  transaction is a programming error and has no case here.
\<close>

subsection \<open>Requests\<close>

record ReleaseUnstartedJobRequest =
  ru_WorkspaceID :: bytes
  ru_JobID :: bytes
  ru_LeaseToken :: bytes

record HeartbeatRequest =
  hb_WorkspaceID :: bytes
  hb_JobID :: bytes
  hb_LeaseToken :: bytes
  hb_LeaseDuration :: duration

record HeartbeatResult =
  hr_Updated :: bool
  hr_LeasedUntil :: time

record AckRequest =
  ak_WorkspaceID :: bytes
  ak_JobID :: bytes
  ak_LeaseToken :: bytes
  ak_Now :: time

record RetryRequest =
  rt_WorkspaceID :: bytes
  rt_JobID :: bytes
  rt_LeaseToken :: bytes
  rt_ErrorKind :: bytes
  rt_ErrorMessage :: bytes
  rt_Now :: time

record DeferRequest =
  df_WorkspaceID :: bytes
  df_JobID :: bytes
  df_LeaseToken :: bytes
  df_Now :: time

record DeadLetterRequest =
  dl_WorkspaceID :: bytes
  dl_JobID :: bytes
  dl_LeaseToken :: bytes
  dl_ErrorKind :: bytes
  dl_ErrorMessage :: bytes
  dl_Now :: time

record CancelRequest =
  cn_WorkspaceID :: bytes
  cn_SessionID :: bytes
  cn_SessionThreadID :: bytes
  cn_InterruptFenceSequence :: int
  cn_Now :: time

record ReclaimExpiredLeasesRequest =
  re_WorkspaceID :: bytes
  re_Kind :: bytes
  re_Limit :: int
  re_ErrorKind :: bytes
  re_ErrorMessage :: bytes

record TargetedCancelRequest =
  tc_WorkspaceID :: bytes
  tc_JobID :: bytes
  tc_Kind :: bytes
  tc_PartitionKey :: bytes
  tc_DedupeKey :: bytes
  tc_Now :: time

record DeadLetterExhaustedRequest =
  de_WorkspaceID :: bytes
  de_JobID :: bytes
  de_ObservedAttemptCount :: int
  de_ErrorKind :: bytes
  de_ErrorMessage :: bytes
  de_Now :: time

subsection \<open>Statement fragments\<close>

text \<open>\<open>if request.Now.IsZero() { request.Now = storage.Now() }\<close>\<close>

definition request_now :: "tx_env \<Rightarrow> time \<Rightarrow> time" where
  "request_now env now = (if IsZero now then Durable (env_wall env 0) else now)"

definition named_job :: "bytes \<Rightarrow> bytes \<Rightarrow> queue_row \<Rightarrow> bool" where
  "named_job workspaceID jobID r \<longleftrightarrow> q_workspace r = workspaceID \<and> q_id r = jobID"

text \<open>\<open>workspace_id = $1 AND id = $2 AND lease_token = $3 AND status = 'leased'\<close>\<close>

definition held_lease :: "bytes \<Rightarrow> bytes \<Rightarrow> bytes \<Rightarrow> queue_row \<Rightarrow> bool" where
  "held_lease workspaceID jobID leaseToken r \<longleftrightarrow>
     named_job workspaceID jobID r \<and> q_token r = Some leaseToken \<and> q_status r = Leased"

text \<open>\<open>... AND leased_until > clock_timestamp()\<close>\<close>

definition live_lease :: "time \<Rightarrow> bytes \<Rightarrow> bytes \<Rightarrow> bytes \<Rightarrow> queue_row \<Rightarrow> bool" where
  "live_lease clock workspaceID jobID leaseToken r \<longleftrightarrow>
     held_lease workspaceID jobID leaseToken r \<and>
     (case q_leased_until r of Some until \<Rightarrow> clock < until | None \<Rightarrow> False)"

definition clear_lease :: "queue_row \<Rightarrow> queue_row" where
  "clear_lease r = r\<lparr>q_token := None, q_leased_by := None, q_leased_at := None, q_leased_until := None,
     q_prev_attempts := None\<rparr>"

definition exec_where :: "(queue_row \<Rightarrow> bool) \<Rightarrow> (queue_row \<Rightarrow> queue_row) \<Rightarrow> queue_db \<Rightarrow> queue_db \<times> bool" where
  "exec_where guard upd db = (db\<lparr>jobs := upd_where guard upd (jobs db)\<rparr>, 0 < count_where guard (jobs db))"

text \<open>A \<open>NULL\<close> scanned into a Go value of a non-null type fails.\<close>

definition scan_error :: error where
  "scan_error = OtherError ''sql: Scan error''"

definition nil_call :: error where
  "nil_call = OtherError ''runtime error: invalid memory address or nil pointer dereference''"

subsection \<open>Heartbeat and lease assertions\<close>

definition heartbeat_set :: "clock \<Rightarrow> duration \<Rightarrow> queue_row \<Rightarrow> queue_row" where
  "heartbeat_set clk leaseDuration r =
     r\<lparr>q_leased_until := Some (clk 0 0 + Milliseconds leaseDuration * Millisecond), q_updated_at := clk 0 1\<rparr>"

definition Heartbeat :: "tx_env \<Rightarrow> HeartbeatRequest \<Rightarrow> queue_db \<Rightarrow> (queue_db \<times> HeartbeatResult) res" where
  "Heartbeat env request db =
     andThen (validateFencedRequest (hb_WorkspaceID request) (hb_JobID request) (hb_LeaseToken request)) (\<lambda>_.
     andThen (ensure (0 < hb_LeaseDuration request) (ValidationError ''lease_duration must be positive'')) (\<lambda>_.
     let guard = live_lease (env_clock env 0 2) (hb_WorkspaceID request) (hb_JobID request) (hb_LeaseToken request)
     in case exec_where guard (heartbeat_set (env_clock env) (hb_LeaseDuration request)) db of
          (db', updated) \<Rightarrow>
            Inr (db', if updated
              then \<lparr>hr_Updated = True,
                hr_LeasedUntil = env_clock env 0 0 + Milliseconds (hb_LeaseDuration request) * Millisecond\<rparr>
              else \<lparr>hr_Updated = False, hr_LeasedUntil = zero_time\<rparr>)))"

definition lease_active :: "(queue_row \<Rightarrow> bool) \<Rightarrow> time \<Rightarrow> queue_db \<Rightarrow> bool res" where
  "lease_active guard clock db =
     (case find guard (jobs db) of
        None \<Rightarrow> Inr False
      | Some r \<Rightarrow>
          (case q_leased_until r of
             None \<Rightarrow> Inl scan_error
           | Some leasedUntil \<Rightarrow> Inr (clock < leasedUntil)))"

definition AssertActiveLeaseTx :: "tx_env \<Rightarrow> ActiveLeaseRequest \<Rightarrow> queue_db \<Rightarrow> bool res" where
  "AssertActiveLeaseTx env request db =
     andThen (validateFencedRequest (al_WorkspaceID request) (al_JobID request) (al_LeaseToken request)) (\<lambda>_.
     lease_active (held_lease (al_WorkspaceID request) (al_JobID request) (al_LeaseToken request))
       (env_clock env 1 0) db)"

definition AssertExactLeaseTx :: "tx_env \<Rightarrow> ExactLeaseRequest \<Rightarrow> queue_db \<Rightarrow> bool res" where
  "AssertExactLeaseTx env request db =
     andThen (validateFencedRequest (xl_WorkspaceID request) (xl_JobID request) (xl_LeaseToken request)) (\<lambda>_.
     andThen (ensure (xl_Kind request \<noteq> [] \<and> xl_PartitionKey request \<noteq> [] \<and> xl_DedupeKey request \<noteq> [])
       (ValidationError ''complete queue lease identity is required'')) (\<lambda>_.
     lease_active (\<lambda>r. held_lease (xl_WorkspaceID request) (xl_JobID request) (xl_LeaseToken request) r \<and>
         q_kind r = xl_Kind request \<and> q_partition r = xl_PartitionKey request \<and>
         q_dedupe r = Some (xl_DedupeKey request))
       (env_clock env 1 0) db))"

subsection \<open>Acknowledge and dead-letter\<close>

definition ack_set :: "time \<Rightarrow> queue_row \<Rightarrow> queue_row" where
  "ack_set now r = (clear_lease r)\<lparr>q_status := Acknowledged, q_acknowledged_at := Some now,
     q_error_kind := None, q_error_message := None, q_updated_at := now\<rparr>"

definition AckTx :: "tx_env \<Rightarrow> AckRequest \<Rightarrow> queue_db \<Rightarrow> (queue_db \<times> bool) res" where
  "AckTx env request db =
     andThen (validateFencedRequest (ak_WorkspaceID request) (ak_JobID request) (ak_LeaseToken request)) (\<lambda>_.
     Inr (exec_where
       (live_lease (env_clock env 0 0) (ak_WorkspaceID request) (ak_JobID request) (ak_LeaseToken request))
       (ack_set (Durable (request_now env (ak_Now request)))) db))"

definition Ack :: "tx_env \<Rightarrow> AckRequest \<Rightarrow> queue_db \<Rightarrow> (queue_db \<times> bool) res" where
  "Ack env request db =
     andThen (validateFencedRequest (ak_WorkspaceID request) (ak_JobID request) (ak_LeaseToken request)) (\<lambda>_.
     AckTx env (request\<lparr>ak_Now := request_now env (ak_Now request)\<rparr>) db)"

definition dead_letter_set :: "time \<Rightarrow> bytes \<Rightarrow> bytes \<Rightarrow> queue_row \<Rightarrow> queue_row" where
  "dead_letter_set now errorKind errorMessage r =
     (clear_lease r)\<lparr>q_status := DeadLettered, q_dead_lettered_at := Some now,
       q_error_kind := nullableString errorKind, q_error_message := nullableString errorMessage,
       q_updated_at := now\<rparr>"

definition DeadLetterTx :: "tx_env \<Rightarrow> DeadLetterRequest \<Rightarrow> queue_db \<Rightarrow> (queue_db \<times> bool) res" where
  "DeadLetterTx env request db =
     andThen (validateFencedRequest (dl_WorkspaceID request) (dl_JobID request) (dl_LeaseToken request)) (\<lambda>_.
     Inr (exec_where
       (live_lease (env_clock env 0 0) (dl_WorkspaceID request) (dl_JobID request) (dl_LeaseToken request))
       (dead_letter_set (Durable (request_now env (dl_Now request))) (dl_ErrorKind request)
         (dl_ErrorMessage request)) db))"

definition DeadLetter :: "tx_env \<Rightarrow> DeadLetterRequest \<Rightarrow> queue_db \<Rightarrow> (queue_db \<times> bool) res" where
  "DeadLetter env request db =
     andThen (validateFencedRequest (dl_WorkspaceID request) (dl_JobID request) (dl_LeaseToken request)) (\<lambda>_.
     DeadLetterTx env (request\<lparr>dl_Now := request_now env (dl_Now request)\<rparr>) db)"

subsection \<open>Retry\<close>

text \<open>Two's complement wrap-around of a 64-bit result.\<close>

definition int64_wrap :: "int \<Rightarrow> int" where
  "int64_wrap i = (i + 2 ^ 63) mod 2 ^ 64 - 2 ^ 63"

text \<open>The doubling loop; \<open>attempt\<close> counts up to \<open>attemptCount\<close>.\<close>

function retry_cap :: "duration \<Rightarrow> int \<Rightarrow> int \<Rightarrow> duration \<Rightarrow> duration" where
  "retry_cap maxDelay attemptCount attempt capDelay =
     (if attempt < attemptCount \<and> capDelay < maxDelay
      then if capDelay > maxDelay div 2 then maxDelay
           else retry_cap maxDelay attemptCount (attempt + 1) (capDelay * 2)
      else capDelay)"
  by pat_completeness auto
termination by (relation "measure (\<lambda>(m, n, a, c). nat (n - a))") auto

declare retry_cap.simps [simp del]

text \<open>The delay drawn for an attempt; \<open>None\<close> is the call of a nil generator, which a
  normalised policy does not have.\<close>

definition queueRetryDelay :: "RetryPolicy \<Rightarrow> int \<Rightarrow> duration option" where
  "queueRetryDelay policy attemptCount =
     (let capDelay = min (retry_cap (pol_MaxDelay policy) attemptCount 1 (pol_BaseDelay policy)) (pol_MaxDelay policy)
      in map_option (\<lambda>rnd. rnd (int64_wrap (capDelay + 1))) (pol_RandomInt64 policy))"

text \<open>
  The casts \<open>payload_json::jsonb\<close> with \<open>->>\<close>, \<open>::bigint\<close> and
  \<open>jsonb_array_elements_text(payload_json::jsonb -> 'event_ids')\<close> are PostgreSQL's:
  \<open>None\<close> is the error of a text that does not cast, and a missing member or a
  JSON null is a \<open>NULL\<close>.
\<close>

record casts =
  cast_jsonb :: "bytes \<Rightarrow> (bytes \<Rightarrow> bytes option) option"
  cast_bigint :: "bytes \<Rightarrow> int option"
  cast_event_ids :: "bytes \<Rightarrow> bytes option list option"

text \<open>\<open>kind = 'runtime_input' AND payload_json::jsonb ->> 'input_kind' = ...\<close> scanned
  into a bool.\<close>

definition input_kind_is :: "casts \<Rightarrow> bytes \<Rightarrow> queue_row \<Rightarrow> bool res" where
  "input_kind_is pg inputKind r =
     (if q_kind r \<noteq> KindRuntimeInput then Inr False
      else case cast_jsonb pg (q_payload r) of
        None \<Rightarrow> Inl (DatabaseError ''22P02'')
      | Some member \<Rightarrow>
          (case member ''input_kind'' of
             None \<Rightarrow> Inl scan_error
           | Some v \<Rightarrow> Inr (v = inputKind)))"

definition pending_set :: "time \<Rightarrow> time \<Rightarrow> time \<Rightarrow> queue_row \<Rightarrow> queue_row" where
  "pending_set availableAt readyAt now r =
     (clear_lease r)\<lparr>q_status := Pending, q_available_at := availableAt, q_ready_at := readyAt,
       q_updated_at := now\<rparr>"

definition failed_set :: "bytes \<Rightarrow> bytes \<Rightarrow> queue_row \<Rightarrow> queue_row" where
  "failed_set errorKind errorMessage r =
     r\<lparr>q_error_kind := nullableString errorKind, q_error_message := nullableString errorMessage\<rparr>"

definition Retry ::
    "casts \<Rightarrow> tx_env \<Rightarrow> RetryPolicy \<Rightarrow> RetryRequest \<Rightarrow> queue_db \<Rightarrow> (queue_db \<times> bool) res" where
  "Retry pg env policy request db =
     andThen (validateFencedRequest (rt_WorkspaceID request) (rt_JobID request) (rt_LeaseToken request)) (\<lambda>_.
     let guard = (\<lambda>s c. live_lease (env_clock env s c) (rt_WorkspaceID request) (rt_JobID request)
           (rt_LeaseToken request));
         now = request_now env (rt_Now request);
         fail = failed_set (rt_ErrorKind request) (rt_ErrorMessage request)
     in case find (guard 0 0) (jobs db) of
          None \<Rightarrow> Inr (db, False)
        | Some row \<Rightarrow>
            andThen (input_kind_is pg ''interrupt_control'' row) (\<lambda>interruptBarrier.
            andThen (input_kind_is pg ''agent_mail'' row) (\<lambda>agentMailFinalization.
            let attemptCount = q_attempts row;
                effectiveMaxAttempts =
                  (if q_max_attempts row = 0 then pol_MaxAttempts policy else q_max_attempts row)
            in if attemptCount \<ge> effectiveMaxAttempts
               then if interruptBarrier \<or> agentMailFinalization \<or> q_kind row = KindCleanupSession
                 then Inr (exec_where (guard 1 1)
                   (\<lambda>r. fail (pending_set (Durable now) (env_clock env 1 0) (Durable now) r)) db)
                 else Inr (exec_where (guard 1 0)
                   (dead_letter_set (Durable now) (rt_ErrorKind request) (rt_ErrorMessage request)) db)
               else case queueRetryDelay policy attemptCount of
                 None \<Rightarrow> Inl nil_call
               | Some retryDelay \<Rightarrow>
                   Inr (exec_where (guard 1 1)
                     (\<lambda>r. fail (pending_set (Durable (now + retryDelay))
                       (env_clock env 1 0 + Microseconds retryDelay * Microsecond) (Durable now) r)) db))))"

subsection \<open>Defer\<close>

definition defer_set :: "time \<Rightarrow> time \<Rightarrow> time \<Rightarrow> queue_row \<Rightarrow> queue_row" where
  "defer_set availableAt readyAt now r =
     (pending_set availableAt readyAt now r)\<lparr>q_attempts := q_attempts r - 1, q_defers := q_defers r + 1\<rparr>"

definition deferred_shape :: "DeferRequest \<Rightarrow> queue_row \<Rightarrow> EnqueueRequest" where
  "deferred_shape request row =
     \<lparr>er_ID = df_JobID request, er_WorkspaceID = df_WorkspaceID request, er_Kind = q_kind row,
      er_PartitionKey = q_partition row, er_DedupeKey = null_string (q_dedupe row),
      er_PayloadVersion = q_payload_version row, er_PayloadJSON = q_payload row, er_Priority = 0,
      er_MaxAttempts = 0, er_AvailableAt = zero_time, er_Now = zero_time,
      er_CausalSessionID = [], er_DeliveryScope = None, er_DeliveryThreadID = [], er_ControlClass = None\<rparr>"

definition Defer :: "tx_env \<Rightarrow> RetryPolicy \<Rightarrow> DeferRequest \<Rightarrow> queue_db \<Rightarrow> (queue_db \<times> bool) res" where
  "Defer env policy request db =
     andThen (validateFencedRequest (df_WorkspaceID request) (df_JobID request) (df_LeaseToken request)) (\<lambda>_.
     let guard = (\<lambda>s c. live_lease (env_clock env s c) (df_WorkspaceID request) (df_JobID request)
           (df_LeaseToken request));
         now = request_now env (df_Now request)
     in case find (guard 0 0) (jobs db) of
          None \<Rightarrow> Inr (db, False)
        | Some row \<Rightarrow>
            andThen (ensure (q_kind row = KindRuntimeConfigUpdate \<or> q_kind row = KindEnvironmentBuild)
              (ValidationError ''queue job kind cannot be deferred'')) (\<lambda>_.
            andThen (ensure (1 \<le> q_attempts row)
              (OtherError ''queue: leased job has invalid attempt count'')) (\<lambda>_.
            andThen (validateCanonicalQueueShape (deferred_shape request row)) (\<lambda>_.
            case find (guard 1 0) (jobs db) of
              None \<Rightarrow> Inl ErrNoRows
            | Some row' \<Rightarrow>
                (case (if q_kind row = KindRuntimeConfigUpdate then queueRetryDelay policy (q_defers row' + 1)
                       else Some EnvironmentBuildPollInterval) of
                   None \<Rightarrow> Inl nil_call
                 | Some deferDelay \<Rightarrow>
                     Inr (exec_where (guard 2 1)
                       (defer_set (Durable (now + deferDelay))
                         (env_clock env 2 0 + Microseconds deferDelay * Microsecond) (Durable now)) db))))))"

subsection \<open>Release of an unstarted direct lease\<close>

definition release_set :: "time \<Rightarrow> time \<Rightarrow> queue_row \<Rightarrow> queue_row" where
  "release_set now readyAt r =
     (pending_set now readyAt now r)\<lparr>q_attempts := (case q_prev_attempts r of Some n \<Rightarrow> n | None \<Rightarrow> q_attempts r)\<rparr>"

definition ReleaseUnstartedJob ::
    "tx_env \<Rightarrow> ReleaseUnstartedJobRequest \<Rightarrow> queue_db \<Rightarrow> (queue_db \<times> bool) res" where
  "ReleaseUnstartedJob env request db =
     andThen (validateFencedRequest (ru_WorkspaceID request) (ru_JobID request) (ru_LeaseToken request)) (\<lambda>_.
     let held = held_lease (ru_WorkspaceID request) (ru_JobID request) (ru_LeaseToken request) in
     case find (named_job (ru_WorkspaceID request) (ru_JobID request)) (jobs db) of
       None \<Rightarrow> Inr (db, False)
     | Some _ \<Rightarrow>
         (case find held (jobs db) of
            None \<Rightarrow> Inr (db, False)
          | Some row \<Rightarrow>
              (case q_leased_until row of
                 None \<Rightarrow> Inl scan_error
               | Some leasedUntil \<Rightarrow>
                   let now = env_clock env 2 0 in
                   if \<not> now < leasedUntil then Inr (db, False)
                   else if \<not> IsJobRunnerKind (q_kind row) \<or> q_prev_attempts row = None
                   then Inl (PreconditionError ''queue lease was not issued by direct Job Runner leasing'')
                   else case exec_where (\<lambda>r. held r \<and> q_prev_attempts r \<noteq> None)
                          (release_set now (env_clock env 3 0)) db of
                     (db', updated) \<Rightarrow>
                       if \<not> updated then Inl (IntegrityError ''locked queue lease changed during release'')
                       else Inr (db'\<lparr>notifications := notifications db' @
                         [(NotificationChannel, ConsumerClassJobRunner)]\<rparr>, True))))"

subsection \<open>Reclaiming expired leases\<close>

definition validateReclaimExpiredLeasesRequest :: "ReclaimExpiredLeasesRequest \<Rightarrow> unit res" where
  "validateReclaimExpiredLeasesRequest request =
     ensure (0 \<le> re_Limit request) (ValidationError ''limit must not be negative'')"

text \<open>The selection: rows other transactions hold locked are skipped, and every row is
  compared with its own reading of the clock.\<close>

definition expired_order :: "collation \<Rightarrow> queue_row \<Rightarrow> queue_row \<Rightarrow> bool" where
  "expired_order coll a b =
     (if q_leased_until a \<noteq> q_leased_until b
      then (case (q_leased_until a, q_leased_until b) of
              (Some s, Some t) \<Rightarrow> s < t | (Some _, None) \<Rightarrow> True | _ \<Rightarrow> False)
      else coll (q_id a) (q_id b))"

definition expired_leases ::
    "collation \<Rightarrow> (bytes \<Rightarrow> bool) \<Rightarrow> clock \<Rightarrow> ReclaimExpiredLeasesRequest \<Rightarrow> int \<Rightarrow> queue_row list \<Rightarrow> queue_row list" where
  "expired_leases coll locked clk request limit rs =
     take (nat limit) (sort_by (expired_order coll) (map snd
       (filter (\<lambda>(i, r). (re_WorkspaceID request = [] \<or> q_workspace r = re_WorkspaceID request) \<and>
          q_status r = Leased \<and> (case q_leased_until r of Some until \<Rightarrow> until \<le> clk 0 i | None \<Rightarrow> False) \<and>
          (re_Kind request = [] \<or> q_kind r = re_Kind request) \<and> \<not> locked (q_id r))
        (enumerate 0 rs))))"

definition reclaim_set :: "clock \<Rightarrow> nat \<Rightarrow> bytes \<Rightarrow> bytes \<Rightarrow> queue_row \<Rightarrow> queue_row" where
  "reclaim_set clk s errorKind errorMessage r =
     failed_set errorKind errorMessage (pending_set (clk s 0) (clk s 1) (clk s 2) r)"

fun reclaim_loop ::
    "clock \<Rightarrow> nat \<Rightarrow> bytes \<Rightarrow> bytes \<Rightarrow> queue_row list \<Rightarrow> queue_db \<Rightarrow> nat \<Rightarrow> queue_db \<times> nat" where
  "reclaim_loop clk s errorKind errorMessage [] db reclaimed = (db, reclaimed)"
| "reclaim_loop clk s errorKind errorMessage (lease # expired) db reclaimed =
     (case exec_where (\<lambda>r. named_job (q_workspace lease) (q_id lease) r \<and> q_status r = Leased)
         (reclaim_set clk s errorKind errorMessage) db of
        (db', updated) \<Rightarrow>
          reclaim_loop clk (Suc s) errorKind errorMessage expired db'
            (if updated then Suc reclaimed else reclaimed))"

definition ReclaimExpiredLeases ::
    "collation \<Rightarrow> (bytes \<Rightarrow> bool) \<Rightarrow> tx_env \<Rightarrow> ReclaimExpiredLeasesRequest \<Rightarrow> queue_db \<Rightarrow> (queue_db \<times> nat) res" where
  "ReclaimExpiredLeases coll locked env request db =
     andThen (validateReclaimExpiredLeasesRequest request) (\<lambda>_.
     let limit = (if re_Limit request = 0 then 100 else re_Limit request)
     in Inr (reclaim_loop (env_clock env) 1 (defaultString (re_ErrorKind request) ''lease_expired'')
          (defaultString (re_ErrorMessage request) ''queue lease expired'')
          (expired_leases coll locked (env_clock env) request limit (jobs db)) db 0))"

subsection \<open>Cancellation of pending work\<close>

definition cancel_set :: "time \<Rightarrow> queue_row \<Rightarrow> queue_row" where
  "cancel_set now r = r\<lparr>q_status := Cancelled, q_cancelled_at := Some now, q_updated_at := now\<rparr>"

definition CancelTx :: "tx_env \<Rightarrow> TargetedCancelRequest \<Rightarrow> queue_db \<Rightarrow> (queue_db \<times> bool) res" where
  "CancelTx env request db =
     andThen (ensure (tc_WorkspaceID request \<noteq> [] \<and> tc_JobID request \<noteq> [] \<and> tc_Kind request \<noteq> [] \<and>
         tc_PartitionKey request \<noteq> [] \<and> tc_DedupeKey request \<noteq> [])
       (ValidationError ''complete targeted queue identity is required'')) (\<lambda>_.
     let now = request_now env (tc_Now request);
         named = named_job (tc_WorkspaceID request) (tc_JobID request)
     in case find named (jobs db) of
          None \<Rightarrow> Inr (db, False)
        | Some row \<Rightarrow>
            if q_kind row \<noteq> tc_Kind request \<or> q_partition row \<noteq> tc_PartitionKey request \<or>
               q_dedupe row \<noteq> Some (tc_DedupeKey request)
            then Inl (IntegrityError ''targeted queue job identity does not match'')
            else if q_status row \<noteq> Pending then Inr (db, False)
            else Inr (exec_where (\<lambda>r. named r \<and> q_status r = Pending) (cancel_set (Durable now)) db))"

definition exhausted_set :: "time \<Rightarrow> bytes \<Rightarrow> bytes \<Rightarrow> queue_row \<Rightarrow> queue_row" where
  "exhausted_set now errorKind errorMessage r =
     r\<lparr>q_status := DeadLettered, q_dead_lettered_at := Some now, q_error_kind := nullableString errorKind,
       q_error_message := nullableString errorMessage, q_updated_at := now\<rparr>"

definition DeadLetterExhaustedTx ::
    "tx_env \<Rightarrow> DeadLetterExhaustedRequest \<Rightarrow> queue_db \<Rightarrow> (queue_db \<times> bool) res" where
  "DeadLetterExhaustedTx env request db =
     andThen (ensure (de_WorkspaceID request \<noteq> [] \<and> de_JobID request \<noteq> [] \<and> 0 < de_ObservedAttemptCount request)
       (ValidationError ''workspace_id, job_id, and a positive observed attempt count are required'')) (\<lambda>_.
     Inr (exec_where
       (\<lambda>r. named_job (de_WorkspaceID request) (de_JobID request) r \<and> q_status r = Pending \<and>
          q_attempts r = de_ObservedAttemptCount request \<and> 0 < q_max_attempts r \<and>
          q_max_attempts r \<le> q_attempts r)
       (exhausted_set (Durable (request_now env (de_Now request))) (de_ErrorKind request) (de_ErrorMessage request))
       db))"

definition validateCancelRequest :: "CancelRequest \<Rightarrow> unit res" where
  "validateCancelRequest request =
     andThen (ensure (cn_WorkspaceID request \<noteq> []) (ValidationError ''workspace_id is required'')) (\<lambda>_.
     andThen (ensure (cn_SessionID request \<noteq> []) (ValidationError ''session_id is required'')) (\<lambda>_.
     andThen (ensure (cn_SessionThreadID request \<noteq> []) (ValidationError ''session_thread_id is required'')) (\<lambda>_.
     ensure (0 < cn_InterruptFenceSequence request)
       (ValidationError ''interrupt_fence_sequence must be positive''))))"

text \<open>The \<open>WHERE\<close> clause; a failing cast fails the statement. The conditions are read left to
  right, so a cast is reached only for rows the conditions before it accept. PostgreSQL does
  not promise that order: another plan may also cast the payload of other rows and fail where
  this reading succeeds, and then the transaction changes nothing.\<close>

definition fenced_message :: "casts \<Rightarrow> CancelRequest \<Rightarrow> queue_row \<Rightarrow> bool res" where
  "fenced_message pg request r =
     (if \<not> (q_workspace r = cn_WorkspaceID request \<and>
           q_partition r = FormatSessionPartitionKey (cn_WorkspaceID request) (cn_SessionID request) \<and>
           q_status r = Pending \<and> q_kind r = KindRuntimeInput)
      then Inr False
      else case cast_jsonb pg (q_payload r) of
        None \<Rightarrow> Inl (DatabaseError ''22P02'')
      | Some member \<Rightarrow>
          if member ''session_thread_id'' \<noteq> Some (cn_SessionThreadID request) then Inr False
          else if member ''input_kind'' \<noteq> Some ''messages'' then Inr False
          else case member ''sequence_to'' of
            None \<Rightarrow> Inr False
          | Some v \<Rightarrow>
              (case cast_bigint pg v of
                 None \<Rightarrow> Inl (DatabaseError ''22P02'')
               | Some n \<Rightarrow> Inr (n < cn_InterruptFenceSequence request)))"

definition Cancel :: "casts \<Rightarrow> tx_env \<Rightarrow> CancelRequest \<Rightarrow> queue_db \<Rightarrow> (queue_db \<times> nat) res" where
  "Cancel pg env request db =
     andThen (validateCancelRequest request) (\<lambda>_.
     andThen (map_result (fenced_message pg request) (jobs db)) (\<lambda>_.
     let guard = (\<lambda>r. fenced_message pg request r = Inr True)
     in Inr (db\<lparr>jobs := upd_where guard (cancel_set (Durable (request_now env (cn_Now request)))) (jobs db)\<rparr>,
          count_where guard (jobs db))))"

end
