(* ===== verification/Queue_Custody.thy ===== *)
theory Queue_Custody
  imports Queue_Transitions
begin

section \<open>Queue and Inbox custody\<close>

text \<open>
  The transactions of \<open>internal/queue/postgresql_store.go\<close> that settle a Queue job
  together with its row of \<open>session_runtime_inbox\<close>: the interrupt fence that cancels
  pending messages, the cancellation and the deferral of one leased runtime input,
  and the replacement of a malformed one. The two tables are one state, because
  the transactions must not let them diverge.
\<close>

text \<open>The columns of \<open>session_runtime_inbox\<close> the queue reads or writes.\<close>

record inbox_row =
  ib_workspace :: bytes
  ib_session :: bytes
  ib_thread :: bytes
  ib_input :: bytes
  ib_kind :: bytes
  ib_event_ids :: bytes
  ib_from :: "int option"
  ib_to :: "int option"
  ib_status :: bytes
  ib_binding :: "bytes option"
  ib_generation :: "int option"
  ib_pod :: "bytes option"
  ib_updated_at :: time

record custody_db =
  cu_queue :: queue_db
  cu_inbox :: "inbox_row list"

text \<open>\<open>session_runtime_inbox_sequence_shape\<close> and \<open>session_runtime_inbox_binding_shape\<close>\<close>

definition inbox_unbound :: "inbox_row \<Rightarrow> bool" where
  "inbox_unbound i \<longleftrightarrow> ib_binding i = None \<and> ib_generation i = None \<and> ib_pod i = None"

definition inbox_bound :: "inbox_row \<Rightarrow> bool" where
  "inbox_bound i \<longleftrightarrow> ib_binding i \<noteq> None \<and> ib_binding i \<noteq> Some [] \<and>
     (case ib_generation i of Some g \<Rightarrow> 0 < g | None \<Rightarrow> False) \<and> ib_pod i \<noteq> None \<and> ib_pod i \<noteq> Some []"

definition inbox_binding_shape :: "inbox_row \<Rightarrow> bool" where
  "inbox_binding_shape i \<longleftrightarrow>
     (ib_status i = ''queued'' \<and> inbox_unbound i) \<or>
     (ib_status i = ''accepted'' \<and> ib_kind i = RuntimeInputKindMachineMessage \<and> inbox_unbound i) \<or>
     (ib_status i \<in> {''delivering'', ''accepted'', ''parked'', ''committed''} \<and> inbox_bound i) \<or>
     (ib_status i \<in> {''cancelled'', ''dead_lettered''} \<and> (inbox_unbound i \<or> inbox_bound i))"

definition inbox_sequence_shape :: "inbox_row \<Rightarrow> bool" where
  "inbox_sequence_shape i \<longleftrightarrow>
     (case (ib_from i, ib_to i) of
        (None, None) \<Rightarrow> True | (Some a, Some b) \<Rightarrow> a \<le> b | _ \<Rightarrow> False)"

definition inbox_checks :: "inbox_row \<Rightarrow> bool" where
  "inbox_checks i \<longleftrightarrow> isRuntimeInputKind (ib_kind i) \<and>
     ib_status i \<in> {''queued'', ''delivering'', ''accepted'', ''parked'', ''committed'', ''cancelled'', ''dead_lettered''} \<and>
     inbox_sequence_shape i \<and> inbox_binding_shape i"

definition inbox_key :: "inbox_row \<Rightarrow> bytes \<times> bytes" where
  "inbox_key i = (ib_workspace i, ib_input i)"

definition inbox_inv :: "inbox_row list \<Rightarrow> bool" where
  "inbox_inv inbox \<longleftrightarrow> distinct (map inbox_key inbox) \<and> (\<forall>i\<in>set inbox. inbox_checks i)"

subsection \<open>Requests\<close>

record CancelLeasedRuntimeInputRequest =
  cl_Lease :: ExactLeaseRequest
  cl_SessionID :: bytes
  cl_RuntimeInputID :: bytes
  cl_InputKind :: bytes
  cl_Now :: time

record DeferLeasedRuntimeInputRequest =
  dr_Lease :: ExactLeaseRequest
  dr_SessionID :: bytes
  dr_RuntimeInputID :: bytes
  dr_InputKind :: bytes
  dr_Now :: time

record InterruptFenceRequest =
  if_Lease :: ExactLeaseRequest
  if_SessionID :: bytes
  if_SessionThreadID :: bytes
  if_InterruptFenceSequence :: int
  if_Now :: time

record ReplaceMalformedRuntimeInputCustodyRequest =
  rm_WorkspaceID :: bytes
  rm_SessionID :: bytes
  rm_RuntimeInputID :: bytes
  rm_JobID :: bytes
  rm_LeaseToken :: bytes
  rm_Now :: time

record ReplaceMalformedRuntimeInputCustodyResult =
  rr_DeadLettered :: bool
  rr_Replaced :: bool

subsection \<open>Members of the payload\<close>

text \<open>\<open>payload_json::jsonb ->> key\<close> scanned into a string.\<close>

definition payload_member :: "casts \<Rightarrow> bytes \<Rightarrow> queue_row \<Rightarrow> bytes res" where
  "payload_member pg key r =
     (case cast_jsonb pg (q_payload r) of
        None \<Rightarrow> Inl (DatabaseError ''22P02'')
      | Some member \<Rightarrow> (case member key of None \<Rightarrow> Inl scan_error | Some v \<Rightarrow> Inr v))"

definition payload_bigint :: "casts \<Rightarrow> bytes \<Rightarrow> queue_row \<Rightarrow> int res" where
  "payload_bigint pg key r =
     andThen (payload_member pg key r) (\<lambda>v.
     case cast_bigint pg v of None \<Rightarrow> Inl (DatabaseError ''22P02'') | Some n \<Rightarrow> Inr n)"

text \<open>The member as a nullable text, inside a join.\<close>

definition member_text :: "casts \<Rightarrow> bytes \<Rightarrow> queue_row \<Rightarrow> bytes option" where
  "member_text pg key r =
     (case cast_jsonb pg (q_payload r) of None \<Rightarrow> None | Some member \<Rightarrow> member key)"

definition locked_row :: "ExactLeaseRequest \<Rightarrow> queue_db \<Rightarrow> queue_row res" where
  "locked_row lease db =
     (case find (named_job (xl_WorkspaceID lease) (xl_JobID lease)) (jobs db) of
        None \<Rightarrow> Inl ErrNoRows
      | Some r \<Rightarrow> Inr r)"

subsection \<open>The interrupt fence\<close>

definition fence_cancel_request :: "InterruptFenceRequest \<Rightarrow> CancelRequest" where
  "fence_cancel_request request =
     \<lparr>cn_WorkspaceID = xl_WorkspaceID (if_Lease request), cn_SessionID = if_SessionID request,
      cn_SessionThreadID = if_SessionThreadID request,
      cn_InterruptFenceSequence = if_InterruptFenceSequence request, cn_Now = if_Now request\<rparr>"

definition follower_inbox :: "casts \<Rightarrow> CancelRequest \<Rightarrow> queue_row \<Rightarrow> inbox_row \<Rightarrow> bool" where
  "follower_inbox pg request queue inbox \<longleftrightarrow>
     ib_workspace inbox = q_workspace queue \<and> ib_session inbox = cn_SessionID request \<and>
     ib_thread inbox = cn_SessionThreadID request \<and>
     member_text pg ''runtime_input_id'' queue = Some (ib_input inbox) \<and>
     ib_kind inbox \<in> {''messages'', ''rejection''} \<and> ib_status inbox \<in> {''queued'', ''delivering''}"

definition candidate_queue ::
    "casts \<Rightarrow> CancelRequest \<Rightarrow> queue_row list \<Rightarrow> inbox_row list \<Rightarrow> (bytes \<times> bytes) list" where
  "candidate_queue pg request rs inbox =
     concat (map (\<lambda>r. map (\<lambda>i. (q_id r, ib_input i)) (filter (follower_inbox pg request r) inbox))
       (filter (\<lambda>r. fenced_message pg request r = Inr True) rs))"

definition inbox_status_set :: "bytes \<Rightarrow> time \<Rightarrow> inbox_row \<Rightarrow> inbox_row" where
  "inbox_status_set st now i = i\<lparr>ib_status := st, ib_updated_at := now\<rparr>"

definition CancelInterruptFencedMessagesTx ::
    "casts \<Rightarrow> tx_env \<Rightarrow> InterruptFenceRequest \<Rightarrow> custody_db \<Rightarrow> (custody_db \<times> bool \<times> nat \<times> bytes list) res" where
  "CancelInterruptFencedMessagesTx pg env request db =
     (let lease = if_Lease request;
          cancelRequest = fence_cancel_request request;
          rs = jobs (cu_queue db)
      in
      andThen (ensure (xl_Kind lease = KindRuntimeInput)
        (ValidationError ''interrupt fence lease kind must be runtime_input'')) (\<lambda>_.
      andThen (validateCancelRequest cancelRequest) (\<lambda>_.
      andThen (ensure (xl_PartitionKey lease = FormatSessionPartitionKey (xl_WorkspaceID lease) (if_SessionID request))
        (IntegrityError ''interrupt fence lease partition does not match Session'')) (\<lambda>_.
      andThen (AssertExactLeaseTx env lease (cu_queue db)) (\<lambda>active.
      if \<not> active then Inr (db, False, 0, [])
      else
        andThen (locked_row lease (cu_queue db)) (\<lambda>row.
        andThen (payload_member pg ''session_id'' row) (\<lambda>payloadSessionID.
        andThen (payload_member pg ''session_thread_id'' row) (\<lambda>payloadThreadID.
        andThen (payload_member pg ''input_kind'' row) (\<lambda>payloadInputKind.
        andThen (payload_bigint pg ''sequence_to'' row) (\<lambda>payloadSequenceTo.
        andThen (ensure (payloadSessionID = if_SessionID request \<and> payloadThreadID = if_SessionThreadID request \<and>
            payloadInputKind = ''interrupt_control'' \<and> payloadSequenceTo = if_InterruptFenceSequence request)
          (IntegrityError ''interrupt fence lease payload does not match cancellation scope'')) (\<lambda>_.
        andThen (map_result (fenced_message pg cancelRequest) rs) (\<lambda>_.
        let now = Durable (request_now env (cn_Now cancelRequest));
            followers = candidate_queue pg cancelRequest rs (cu_inbox db);
            queueGuard = (\<lambda>r. q_workspace r = cn_WorkspaceID cancelRequest \<and> q_id r \<in> fst ` set followers);
            inboxGuard = (\<lambda>i. ib_workspace i = cn_WorkspaceID cancelRequest \<and>
              ib_session i = cn_SessionID cancelRequest \<and> ib_thread i = cn_SessionThreadID cancelRequest \<and>
              ib_input i \<in> snd ` set followers);
            cancelledQueue = count_where queueGuard rs;
            cancelledInbox = count_where inboxGuard (cu_inbox db)
        in
        andThen (map_result (\<lambda>r. case cast_event_ids pg (q_payload r) of
            None \<Rightarrow> Inl (DatabaseError ''22023'') | Some ids \<Rightarrow> Inr (map null_string ids))
          (filter queueGuard rs)) (\<lambda>eventIDs.
        andThen (ensure (length followers = cancelledQueue \<and> cancelledQueue = cancelledInbox)
          (IntegrityError ''interrupt fence Queue and Inbox cancellation diverged'')) (\<lambda>_.
        Inr (db\<lparr>cu_queue := (cu_queue db)\<lparr>jobs := upd_where queueGuard (cancel_set now) rs\<rparr>,
               cu_inbox := upd_where inboxGuard (inbox_status_set ''cancelled'' now) (cu_inbox db)\<rparr>,
          True, cancelledQueue, concat eventIDs)))))))))))))))"

subsection \<open>One leased runtime input\<close>

definition payload_identity :: "casts \<Rightarrow> queue_row \<Rightarrow> (bytes \<times> bytes \<times> bytes) res" where
  "payload_identity pg row =
     andThen (payload_member pg ''session_id'' row) (\<lambda>sessionID.
     andThen (payload_member pg ''runtime_input_id'' row) (\<lambda>runtimeInputID.
     andThen (payload_member pg ''input_kind'' row) (\<lambda>inputKind.
     Inr (sessionID, runtimeInputID, inputKind))))"

text \<open>The Inbox row of the delivery, in one of the given statuses.\<close>

definition inbox_custody :: "bytes \<Rightarrow> bytes \<Rightarrow> bytes \<Rightarrow> bytes \<Rightarrow> bytes list \<Rightarrow> inbox_row \<Rightarrow> bool" where
  "inbox_custody workspaceID sessionID runtimeInputID inputKind statuses i \<longleftrightarrow>
     ib_workspace i = workspaceID \<and> ib_session i = sessionID \<and> ib_input i = runtimeInputID \<and>
     ib_kind i = inputKind \<and> ib_status i \<in> set statuses"

definition cancel_leased_set :: "time \<Rightarrow> queue_row \<Rightarrow> queue_row" where
  "cancel_leased_set now r = (clear_lease r)\<lparr>q_status := Cancelled, q_cancelled_at := Some now, q_updated_at := now\<rparr>"

definition CancelLeasedRuntimeInputCustodyTx ::
    "casts \<Rightarrow> tx_env \<Rightarrow> CancelLeasedRuntimeInputRequest \<Rightarrow> custody_db \<Rightarrow> (custody_db \<times> bool) res" where
  "CancelLeasedRuntimeInputCustodyTx pg env request db =
     (let lease = cl_Lease request; now = Durable (request_now env (cl_Now request)) in
      andThen (ensure (xl_Kind lease = KindRuntimeInput \<and> cl_SessionID request \<noteq> [] \<and>
          cl_RuntimeInputID request \<noteq> [] \<and> cl_InputKind request \<noteq> [])
        (ValidationError ''complete barrier-stale runtime input identity is required'')) (\<lambda>_.
      andThen (AssertExactLeaseTx env lease (cu_queue db)) (\<lambda>active.
      if \<not> active then Inr (db, False)
      else
        andThen (locked_row lease (cu_queue db)) (\<lambda>row.
        andThen (payload_identity pg row) (\<lambda>identity.
        andThen (ensure (identity = (cl_SessionID request, cl_RuntimeInputID request, cl_InputKind request))
          (IntegrityError ''barrier-stale Queue payload does not match Inbox custody'')) (\<lambda>_.
        let inboxGuard = inbox_custody (xl_WorkspaceID lease) (cl_SessionID request) (cl_RuntimeInputID request)
              (cl_InputKind request) [''queued'', ''delivering'', ''accepted'']
        in andThen (ensure (0 < count_where inboxGuard (cu_inbox db))
             (IntegrityError ''barrier-stale Inbox custody is not active'')) (\<lambda>_.
           case exec_where (live_lease (env_clock env 4 0) (xl_WorkspaceID lease) (xl_JobID lease) (xl_LeaseToken lease))
               (cancel_leased_set now) (cu_queue db) of
             (queue', updated) \<Rightarrow>
               if \<not> updated then Inl (IntegrityError ''barrier-stale Queue lease changed during cancellation'')
               else Inr (\<lparr>cu_queue = queue',
                 cu_inbox = upd_where inboxGuard (inbox_status_set ''cancelled'' now) (cu_inbox db)\<rparr>, True))))))))"

definition defer_leased_set :: "time \<Rightarrow> time \<Rightarrow> queue_row \<Rightarrow> queue_row" where
  "defer_leased_set now readyAt r =
     (pending_set now readyAt now r)\<lparr>q_attempts := q_attempts r - 1, q_error_kind := None, q_error_message := None\<rparr>"

definition inbox_requeue_set :: "time \<Rightarrow> inbox_row \<Rightarrow> inbox_row" where
  "inbox_requeue_set now i = i\<lparr>ib_status := ''queued'', ib_binding := None, ib_generation := None, ib_pod := None,
     ib_updated_at := now\<rparr>"

definition DeferLeasedRuntimeInputCustodyTx ::
    "casts \<Rightarrow> tx_env \<Rightarrow> DeferLeasedRuntimeInputRequest \<Rightarrow> custody_db \<Rightarrow> (custody_db \<times> bool) res" where
  "DeferLeasedRuntimeInputCustodyTx pg env request db =
     (let lease = dr_Lease request; now = Durable (request_now env (dr_Now request)) in
      andThen (ensure (xl_Kind lease = KindRuntimeInput \<and> dr_SessionID request \<noteq> [] \<and>
          dr_RuntimeInputID request \<noteq> [] \<and> dr_InputKind request \<noteq> [])
        (ValidationError ''complete barrier deferral runtime input identity is required'')) (\<lambda>_.
      andThen (AssertExactLeaseTx env lease (cu_queue db)) (\<lambda>active.
      if \<not> active then Inr (db, False)
      else
        andThen (locked_row lease (cu_queue db)) (\<lambda>row.
        andThen (payload_identity pg row) (\<lambda>identity.
        andThen (ensure (identity = (dr_SessionID request, dr_RuntimeInputID request, dr_InputKind request))
          (IntegrityError ''barrier deferral Queue payload does not match Inbox custody'')) (\<lambda>_.
        let inboxGuard = inbox_custody (xl_WorkspaceID lease) (dr_SessionID request) (dr_RuntimeInputID request)
              (dr_InputKind request) [''queued'', ''delivering''];
            queueGuard = (\<lambda>r. live_lease (env_clock env 3 1) (xl_WorkspaceID lease) (xl_JobID lease) (xl_LeaseToken lease) r \<and>
              0 < q_attempts r)
        in andThen (ensure (count_where inboxGuard (cu_inbox db) = 1 \<and>
               count_where queueGuard (jobs (cu_queue db)) = 1)
             (IntegrityError ''barrier deferral Queue and Inbox custody diverged'')) (\<lambda>_.
           Inr (\<lparr>cu_queue = (cu_queue db)\<lparr>jobs := upd_where queueGuard (defer_leased_set now (env_clock env 3 0))
                   (jobs (cu_queue db))\<rparr>,
                 cu_inbox = upd_where inboxGuard (inbox_requeue_set now) (cu_inbox db)\<rparr>, True))))))))"

subsection \<open>Replacement of a malformed runtime input\<close>

definition replacement_payload ::
    "bytes \<Rightarrow> bytes \<Rightarrow> bytes \<Rightarrow> bytes \<Rightarrow> bytes list \<Rightarrow> int \<Rightarrow> int \<Rightarrow> bytes \<Rightarrow> payload" where
  "replacement_payload workspaceID sessionID threadID runtimeInputID eventIDs sequenceStart sequenceEnd inputKind =
     [(''workspace_id'', JString workspaceID), (''session_id'', JString sessionID),
      (''session_thread_id'', JString threadID), (''runtime_input_id'', JString runtimeInputID),
      (''event_ids'', JArray (map JString eventIDs)), (''sequence_from'', JNumber (FormatInt sequenceStart)),
      (''sequence_to'', JNumber (FormatInt sequenceEnd)), (''input_kind'', JString inputKind)]"

text \<open>The switch on the input kind: the references of the replacement and its budget.\<close>

definition replacement_events ::
    "bytes \<Rightarrow> bytes \<Rightarrow> bytes list \<Rightarrow> int option \<Rightarrow> int option \<Rightarrow> (bytes list \<times> int \<times> int \<times> int) res" where
  "replacement_events runtimeInputID inputKind eventIDs sequenceFrom sequenceTo =
     (if inputKind = ''agent_mail'' then
        if \<not> HasPrefix runtimeInputID ''agent_mail:'' \<or> runtimeInputID = ''agent_mail:''
        then Inl (IntegrityError ''queued agent-mail Inbox identity is invalid'')
        else Inr ([], 0, 0, DefaultMaxAttempts)
      else if inputKind = ''task_notification'' then
        if \<not> HasPrefix runtimeInputID ''task_notification:'' \<or> runtimeInputID = ''task_notification:''
        then Inl (IntegrityError ''queued task-notification Inbox identity is invalid'')
        else Inr ([], 0, 0, DefaultMaxAttempts)
      else if inputKind = RuntimeInputKindMachineMessage then
        if \<not> HasPrefix runtimeInputID (inputKind @ '':'') \<or> runtimeInputID = inputKind @ '':''
        then Inl (IntegrityError ''queued machine-message Inbox identity is invalid'')
        else Inr ([], 0, 0, 0)
      else case (sequenceFrom, sequenceTo) of
        (Some a, Some b) \<Rightarrow>
          if eventIDs = [] \<or> a \<le> 0 \<or> b < a
          then Inl (IntegrityError ''queued runtime Inbox event range is invalid'')
          else Inr (eventIDs, a, b, 0)
      | _ \<Rightarrow> Inl (IntegrityError ''queued runtime Inbox event range is invalid''))"

definition canonicalRuntimeInputReplacement ::
    "bytes \<Rightarrow> bytes \<Rightarrow> bytes \<Rightarrow> bytes \<Rightarrow> bytes \<Rightarrow> bytes \<Rightarrow> bytes \<Rightarrow> int option \<Rightarrow> int option \<Rightarrow> time \<Rightarrow> EnqueueRequest res" where
  "canonicalRuntimeInputReplacement rnd workspaceID sessionID runtimeInputID threadID inputKind eventIDsJSON
       sequenceFrom sequenceTo now =
     andThen (ensure (threadID \<noteq> [] \<and> isRuntimeInputKind inputKind)
       (IntegrityError ''queued runtime Inbox identity is invalid'')) (\<lambda>_.
     case Option.bind (Unmarshal eventIDsJSON) json_strings of
       Some (Some eventIDs) \<Rightarrow>
         andThen (replacement_events runtimeInputID inputKind eventIDs sequenceFrom sequenceTo)
           (\<lambda>(eventIDs', sequenceStart, sequenceEnd, maxAttempts).
         Inr ((runtime_request rnd workspaceID KindRuntimeInput
             (FormatSessionPartitionKey workspaceID sessionID)
             (FormatRuntimeInputDedupeKey workspaceID sessionID runtimeInputID)
             (JObject (replacement_payload workspaceID sessionID threadID runtimeInputID eventIDs'
               sequenceStart sequenceEnd inputKind)) now)
           \<lparr>er_Priority := (if inputKind = ''interrupt_control'' then 100 else 0), er_MaxAttempts := maxAttempts\<rparr>))
     | _ \<Rightarrow> Inl (IntegrityError ''queued runtime Inbox event identity is invalid''))"

text \<open>The environment of the statements after the first \<open>n\<close> of a transaction.\<close>

definition later_env :: "nat \<Rightarrow> tx_env \<Rightarrow> tx_env" where
  "later_env n env = env\<lparr>env_clock := (\<lambda>s. env_clock env (s + n))\<rparr>"

definition malformed_error :: "queue_row \<Rightarrow> queue_row" where
  "malformed_error r = r\<lparr>q_error_kind := Some ''invalid_runtime_job_payload'',
     q_error_message := Some ''runtime queue payload conflicts with durable custody''\<rparr>"

definition retire_malformed_set :: "time \<Rightarrow> queue_row \<Rightarrow> queue_row" where
  "retire_malformed_set now r = malformed_error (dead_letter_set now [] [] r)"

definition settle_malformed_inbox ::
    "tx_env \<Rightarrow> ReplaceMalformedRuntimeInputCustodyRequest \<Rightarrow> time \<Rightarrow> inbox_row \<Rightarrow> custody_db \<Rightarrow>
     (custody_db \<times> ReplaceMalformedRuntimeInputCustodyResult) res" where
  "settle_malformed_inbox env request now inbox db =
     (if ib_status inbox = ''delivering'' \<or> ib_status inbox = ''accepted'' then
        let guard = (\<lambda>i. ib_workspace i = rm_WorkspaceID request \<and> ib_session i = rm_SessionID request \<and>
              ib_input i = rm_RuntimeInputID request \<and> ib_status i \<in> {''delivering'', ''accepted''})
        in andThen (ensure (0 < count_where guard (cu_inbox db))
             (IntegrityError ''active runtime Inbox custody changed during malformed Queue settlement'')) (\<lambda>_.
           Inr (db\<lparr>cu_inbox := upd_where guard (inbox_status_set ''dead_lettered'' (Durable now)) (cu_inbox db)\<rparr>,
             \<lparr>rr_DeadLettered = True, rr_Replaced = False\<rparr>))
      else if ib_status inbox \<noteq> ''queued'' then Inr (db, \<lparr>rr_DeadLettered = True, rr_Replaced = False\<rparr>)
      else
        andThen (canonicalRuntimeInputReplacement (env_ids env 0) (rm_WorkspaceID request) (rm_SessionID request)
          (rm_RuntimeInputID request) (ib_thread inbox) (ib_kind inbox) (ib_event_ids inbox) (ib_from inbox)
          (ib_to inbox) now) (\<lambda>enqueue.
        andThen (EnqueueTx (later_env 3 env) enqueue (cu_queue db)) (\<lambda>(queue', job).
        Inr (db\<lparr>cu_queue := queue'\<rparr>, \<lparr>rr_DeadLettered = True, rr_Replaced = job \<noteq> None\<rparr>))))"

definition ReplaceMalformedRuntimeInputCustody ::
    "tx_env \<Rightarrow> ReplaceMalformedRuntimeInputCustodyRequest \<Rightarrow> custody_db \<Rightarrow>
     (custody_db \<times> ReplaceMalformedRuntimeInputCustodyResult) res" where
  "ReplaceMalformedRuntimeInputCustody env request db =
     andThen (ensure (rm_WorkspaceID request \<noteq> [] \<and> rm_SessionID request \<noteq> [] \<and> rm_RuntimeInputID request \<noteq> [] \<and>
         rm_JobID request \<noteq> [] \<and> rm_LeaseToken request \<noteq> [])
       (ValidationError ''complete malformed runtime-input custody identity is required'')) (\<lambda>_.
     let now = request_now env (rm_Now request);
         untouched = Inr (db, \<lparr>rr_DeadLettered = False, rr_Replaced = False\<rparr>)
     in case find (\<lambda>r. named_job (rm_WorkspaceID request) (rm_JobID request) r \<and>
            q_session r = Some (rm_SessionID request)) (jobs (cu_queue db)) of
          None \<Rightarrow> untouched
        | Some row \<Rightarrow>
            let leaseCurrent = (case q_leased_until row of Some until \<Rightarrow> env_clock env 0 0 < until | None \<Rightarrow> False)
            in if q_kind row \<noteq> KindRuntimeInput \<or> q_status row \<noteq> Leased \<or>
                  null_string (q_token row) \<noteq> rm_LeaseToken request \<or> \<not> leaseCurrent
               then untouched
               else case exec_where (live_lease (env_clock env 2 0) (rm_WorkspaceID request) (rm_JobID request)
                        (rm_LeaseToken request)) (retire_malformed_set (Durable now)) (cu_queue db) of
                 (queue', updated) \<Rightarrow>
                   if \<not> updated then untouched
                   else case find (\<lambda>i. ib_workspace i = rm_WorkspaceID request \<and> ib_session i = rm_SessionID request \<and>
                            ib_input i = rm_RuntimeInputID request) (cu_inbox db) of
                     None \<Rightarrow> Inr (db\<lparr>cu_queue := queue'\<rparr>, \<lparr>rr_DeadLettered = True, rr_Replaced = False\<rparr>)
                   | Some inbox \<Rightarrow> settle_malformed_inbox env request now inbox (db\<lparr>cu_queue := queue'\<rparr>))"

end
