(* ===== verification/Queue_Lease_Facts.thy ===== *)
theory Queue_Lease_Facts
  imports Queue_Lease
begin

section \<open>What leasing guarantees\<close>

text \<open>
  A lease transaction is a sequence of single leases, each of a row that is
  eligible in the table the previous ones left. Over that step relation the
  invariant (and with it lease exclusion), the fate of every row and the
  returned jobs follow by rule induction. The last part is about the eligibility
  rule itself: head-of-lane order, progress of partitions and Threads, and the
  cycle the rule admits.
\<close>

subsection \<open>Single leases\<close>

lemma row_ok_thread_kind:
  assumes "row_ok r" "q_scope r = ScopeThread"
  shows "q_kind r \<noteq> KindRuntimeConfigUpdate"
  using assms by (auto simp: row_ok_def delivery_ok_def kind_simps)

text \<open>The part of eligibility that protects live leases: no leased row blocks the candidate.\<close>

definition unblocked :: "queue_row list \<Rightarrow> queue_row \<Rightarrow> bool" where
  "unblocked rs candidate \<longleftrightarrow> q_status candidate = Pending \<and>
     (q_scope candidate = ScopePartition \<longrightarrow> \<not> (\<exists>l\<in>set rs. leased_partition_blocks candidate l)) \<and>
     (q_scope candidate = ScopeThread \<longrightarrow> \<not> (\<exists>l\<in>set rs. leased_thread_blocks candidate l)) \<and>
     (q_scope candidate = ScopeSession \<longrightarrow> \<not> (\<exists>l\<in>set rs. leased_session_blocks candidate l))"

lemma eligible_unblocked: "leaseEligibilityPredicate sess now rs r \<Longrightarrow> unblocked rs r"
  by (auto simp: leaseEligibilityPredicate_def unblocked_def)

lemma unblocked_not_excluded:
  assumes "row_ok r" "row_ok l" "l \<in> set rs" "unblocked rs r"
    and "q_status l = Leased" "q_id l \<noteq> q_id r"
  shows "\<not> excludes r l"
proof (cases "q_scope r")
  case ScopePartition
  then have "\<not> leased_partition_blocks r l" using assms(3,4) by (auto simp: unblocked_def)
  with ScopePartition assms show ?thesis
    using row_ok_coordinates(3) [OF assms(1)] by (auto simp: excludes_def leased_partition_blocks_def sql_eq_def)
next
  case ScopeThread
  then have "\<not> leased_thread_blocks r l" using assms(3,4) by (auto simp: unblocked_def)
  with ScopeThread assms(5,6) show ?thesis
    using row_ok_thread_kind [OF assms(2)]
    by (auto simp: excludes_def leased_thread_blocks_def sql_eq_sym [of "q_session l" "q_session r"]
        sql_eq_sym [of "q_thread l" "q_thread r"])
next
  case ScopeSession
  then have "\<not> leased_session_blocks r l" using assms(3,4) by (auto simp: unblocked_def)
  with ScopeSession assms(5,6) show ?thesis
    by (auto simp: excludes_def leased_session_blocks_def sql_eq_sym [of "q_session l" "q_session r"])
qed

lemma attempt_count_nonneg: "0 \<le> q_attempts r \<Longrightarrow> 0 \<le> leaseAttemptCountExpression d r"
  by (simp add: leaseAttemptCountExpression_def)

lemma attempt_count_grows:
  "q_attempts r \<le> leaseAttemptCountExpression d r \<and> leaseAttemptCountExpression d r \<le> q_attempts r + 1"
  by (simp add: leaseAttemptCountExpression_def)

lemma lease_set_identity [simp]: "same_identity (lease_set clk s owner tok dur d r) r"
  by (simp add: same_identity_def lease_set_def)

lemma lease_set_fields [simp]:
  "q_id (lease_set clk s owner tok dur d r) = q_id r"
  "q_status (lease_set clk s owner tok dur d r) = Leased"
  "q_token (lease_set clk s owner tok dur d r) = Some tok"
  "q_leased_by (lease_set clk s owner tok dur d r) = Some owner"
  "q_attempts (lease_set clk s owner tok dur d r) = leaseAttemptCountExpression d r"
  by (simp_all add: lease_set_def)

lemma lease_set_ok: "row_ok r \<Longrightarrow> q_status r = Pending \<Longrightarrow> row_ok (lease_set clk s owner tok dur d r)"
  using attempt_count_nonneg [of r d]
  by (auto simp: row_ok_def table_checks_def lease_shape_def previous_attempt_shape_def lease_set_def
      delivery_authority_shape_def split: option.splits)

text \<open>Leasing one row of a well-formed table, whichever update mints the token.\<close>

lemma lease_row_inv:
  assumes inv: "jobs_inv rs" and r: "r \<in> set rs" "unblocked rs r"
    and u: "same_identity (u r) r" "row_ok (u r)"
  shows "jobs_inv (upd_where (\<lambda>x. q_id x = q_id r) u rs)"
proof -
  let ?f = "\<lambda>x. if q_id x = q_id r then u x else x"
  have only: "x = r" if "x \<in> set rs" "q_id x = q_id r" for x
    using inv that r(1) distinct_map_inj [of q_id rs x r] by (simp add: jobs_inv_def)
  have ok: "row_ok x" if "x \<in> set rs" for x using inv that by (simp add: jobs_inv_def)
  have ident: "same_identity (?f x) x" if "x \<in> set rs" for x
    using only [OF that] u(1) by (cases "q_id x = q_id r") simp_all
  have pend: "q_status r = Pending" using r(2) by (simp add: unblocked_def)
  have excl: "\<not> excludes r l" if "l \<in> set rs" "q_status l = Leased" for l
  proof (rule unblocked_not_excluded [OF ok [OF r(1)] ok [OF that(1)] that(1) r(2) that(2)])
    show "q_id l \<noteq> q_id r" using only [OF that(1)] that(2) pend by auto
  qed
  have "lease_exclusion (map ?f rs)"
    unfolding lease_exclusion_def
  proof (intro ballI impI)
    fix x' y' assume "x' \<in> set (map ?f rs)" "y' \<in> set (map ?f rs)"
    then obtain x y where xy: "x \<in> set rs" "x' = ?f x" "y \<in> set rs" "y' = ?f y" by auto
    assume st: "q_status x' = Leased" "q_status y' = Leased" "q_id x' \<noteq> q_id y'"
    have "q_id x' = q_id x" "q_id y' = q_id y"
      unfolding xy(2,4) by (rule same_identity_keys(1) [OF ident], rule xy)+
    then have ids: "q_id x \<noteq> q_id y" using st(3) by simp
    have "\<not> excludes x y"
    proof (cases "q_id x = q_id r \<or> q_id y = q_id r")
      case False
      with st xy have "q_status x = Leased" "q_status y = Leased" by auto
      with inv xy ids show ?thesis by (simp add: jobs_inv_def lease_exclusion_def)
    next
      case True
      then show ?thesis
      proof
        assume "q_id x = q_id r"
        with only xy(1) ids have "x = r" "q_id y \<noteq> q_id r" by auto
        with st(2) xy excl [of y] show ?thesis by simp
      next
        assume "q_id y = q_id r"
        with only xy(3) ids have "y = r" "q_id x \<noteq> q_id r" by auto
        with st(1) xy excl [of x] show ?thesis using excludes_sym [of x r] by auto
      qed
    qed
    then show "\<not> excludes x' y'"
      using excludes_identity [OF ident [OF xy(1)] ident [OF xy(3)]] xy by simp
  qed
  moreover have "row_ok (?f x)" if "x \<in> set rs" for x
    using only [OF that] u(2) ok [OF that] by (cases "q_id x = q_id r") simp_all
  moreover have "active (q_status x)" if "x \<in> set rs" "active (q_status (?f x))" for x
    using only [OF that(1)] that(2) pend by (cases "q_id x = q_id r") (simp_all add: active_def)
  ultimately show ?thesis
    unfolding upd_where_def by (intro jobs_inv_image_exclusive [OF inv] ident)
qed

subsection \<open>The transaction as a sequence of leases\<close>

definition leased_job :: "int \<Rightarrow> queue_row \<Rightarrow> Job" where
  "leased_job d r = (let job = scanJob r
     in if job_MaxAttempts job = 0 then job\<lparr>job_MaxAttempts := d\<rparr> else job)"

lemma leased_job_ID [simp]: "job_ID (leased_job d r) = q_id r"
  by (simp add: leased_job_def scanJob_def Let_def)

inductive lease_steps ::
    "session_lookup \<Rightarrow> clock \<Rightarrow> LeaseRequest \<Rightarrow> int \<Rightarrow> queue_row list \<Rightarrow> Job list \<Rightarrow> queue_row list \<Rightarrow> bool"
  for sess clk request d rs where
  lease_none: "lease_steps sess clk request d rs [] rs"
| lease_one: "lease_steps sess clk request d rs js rs1 \<Longrightarrow> r \<in> set rs1 \<Longrightarrow>
    q_workspace r = lr_WorkspaceID request \<Longrightarrow> q_kind r \<in> set (lr_Kinds request) \<Longrightarrow>
    leaseEligibilityPredicate sess (Durable (lr_Now request)) rs1 r \<Longrightarrow> tok \<noteq> [] \<Longrightarrow>
    u = lease_set clk s (lr_LeaseOwner request) tok (lr_LeaseDuration request) d \<Longrightarrow>
    lease_steps sess clk request d rs (js @ [leased_job d (u r)]) (upd_where (\<lambda>x. q_id x = q_id r) u rs1)"

inductive_cases lease_steps_NilE: "lease_steps sess clk request d rs [] rs'"

lemma lease_steps_inv: "lease_steps sess clk request d rs js rs' \<Longrightarrow> jobs_inv rs \<Longrightarrow> jobs_inv rs'"
proof (induction rule: lease_steps.induct)
  case (lease_one js rs1 r tok u s)
  then have "row_ok r" "q_status r = Pending"
    by (auto simp: jobs_inv_def leaseEligibilityPredicate_def)
  with lease_one show ?case
    by (intro lease_row_inv [OF _ lease_one.hyps(2) eligible_unblocked [OF lease_one.hyps(5)]]) (auto simp: lease_set_ok)
qed

lemma lease_steps_counters:
  "lease_steps sess clk request d rs js rs' \<Longrightarrow> counters_cover rs cs \<Longrightarrow> counters_cover rs' cs"
proof (induction rule: lease_steps.induct)
  case (lease_one js rs1 r tok u s)
  then show ?case unfolding upd_where_def by (auto intro: counters_cover_image)
qed

lemma upd_where_id_mem:
  "x \<in> set (upd_where (\<lambda>x. q_id x = i) u rs) \<Longrightarrow> (\<And>y. q_status (u y) = Leased) \<Longrightarrow>
    x \<in> set rs \<and> q_id x \<noteq> i \<or> q_status x = Leased"
  by (auto simp: set_upd_where)

lemma lease_steps_pending:
  "lease_steps sess clk request d rs js rs' \<Longrightarrow> r \<in> set rs' \<Longrightarrow> q_status r = Pending \<Longrightarrow> r \<in> set rs"
proof (induction rule: lease_steps.induct)
  case (lease_one js rs1 r0 tok u s)
  then show ?case using upd_where_id_mem [of r "q_id r0" u rs1] by auto
qed

text \<open>Every returned job was pending, due and requested, and is now a leased row.\<close>

lemma lease_steps_jobs:
  "lease_steps sess clk request d rs js rs' \<Longrightarrow> jobs_inv rs \<Longrightarrow> j \<in> set js \<Longrightarrow>
    (\<exists>r\<in>set rs. \<exists>s tok. q_id r = job_ID j \<and> q_status r = Pending \<and> q_workspace r = lr_WorkspaceID request \<and>
       q_kind r \<in> set (lr_Kinds request) \<and> q_available_at r \<le> Durable (lr_Now request) \<and>
       session_admits sess r \<and> tok \<noteq> [] \<and>
       (let r' = lease_set clk s (lr_LeaseOwner request) tok (lr_LeaseDuration request) d r
        in r' \<in> set rs' \<and> j = leased_job d r'))"
proof (induction arbitrary: j rule: lease_steps.induct)
  case (lease_one js rs1 r tok u s)
  have inv1: "jobs_inv rs1" using lease_steps_inv [OF lease_one.hyps(1)] lease_one.prems(1) by simp
  have pend: "q_status r = Pending" using lease_one.hyps(5) by (simp add: leaseEligibilityPredicate_def)
  let ?rs2 = "upd_where (\<lambda>x. q_id x = q_id r) u rs1"
  show ?case
  proof (cases "j \<in> set js")
    case True
    then obtain r0 s0 tok0 where r0: "r0 \<in> set rs" "q_id r0 = job_ID j" "q_status r0 = Pending"
      "q_workspace r0 = lr_WorkspaceID request" "q_kind r0 \<in> set (lr_Kinds request)"
      "q_available_at r0 \<le> Durable (lr_Now request)" "session_admits sess r0" "tok0 \<noteq> []"
      and mem: "lease_set clk s0 (lr_LeaseOwner request) tok0 (lr_LeaseDuration request) d r0 \<in> set rs1"
      and j: "j = leased_job d (lease_set clk s0 (lr_LeaseOwner request) tok0 (lr_LeaseDuration request) d r0)"
      using lease_one.IH [OF lease_one.prems(1) True] by (auto simp: Let_def)
    let ?r' = "lease_set clk s0 (lr_LeaseOwner request) tok0 (lr_LeaseDuration request) d r0"
    have "q_id ?r' \<noteq> q_id r"
      using inv1 mem lease_one.hyps(2) pend distinct_map_inj [of q_id rs1 ?r' r] by (auto simp: jobs_inv_def)
    then have "?r' \<in> set ?rs2" using mem by (force simp: set_upd_where)
    with r0 j show ?thesis by (auto simp: Let_def)
  next
    case False
    then have j: "j = leased_job d (u r)" using lease_one.prems(2) by simp
    have "r \<in> set rs" using lease_steps_pending [OF lease_one.hyps(1,2) pend] .
    moreover have "u r \<in> set ?rs2" using lease_one.hyps(2) by (force simp: set_upd_where)
    ultimately show ?thesis
      using lease_one.hyps pend j
      by (intro bexI [of _ r] exI [of _ s] exI [of _ tok]) (auto simp: leaseEligibilityPredicate_def Let_def)
  qed
qed simp

lemma lease_steps_others:
  "lease_steps sess clk request d rs js rs' \<Longrightarrow> r \<in> set rs \<Longrightarrow> q_id r \<notin> job_ID ` set js \<Longrightarrow> r \<in> set rs'"
proof (induction rule: lease_steps.induct)
  case (lease_one js rs1 r0 tok u s)
  then show ?case by (force simp: set_upd_where)
qed

lemma lease_steps_distinct:
  "lease_steps sess clk request d rs js rs' \<Longrightarrow> jobs_inv rs \<Longrightarrow> distinct (map job_ID js)"
proof (induction rule: lease_steps.induct)
  case (lease_one js rs1 r tok u s)
  have "q_id r \<notin> job_ID ` set js"
  proof
    assume "q_id r \<in> job_ID ` set js"
    then obtain j where j: "j \<in> set js" "job_ID j = q_id r" by auto
    obtain r0 s0 tok0 where "q_id r0 = job_ID j"
      and mem: "lease_set clk s0 (lr_LeaseOwner request) tok0 (lr_LeaseDuration request) d r0 \<in> set rs1"
      using lease_steps_jobs [OF lease_one.hyps(1) lease_one.prems j(1)] by (auto simp: Let_def)
    moreover have "jobs_inv rs1" using lease_steps_inv [OF lease_one.hyps(1) lease_one.prems] .
    ultimately have "r = lease_set clk s0 (lr_LeaseOwner request) tok0 (lr_LeaseDuration request) d r0"
      using j(2) lease_one.hyps(2) distinct_map_inj [of q_id rs1 r] by (auto simp: jobs_inv_def)
    then have "q_status r = Leased" by simp
    then show False using lease_one.hyps(5) by (simp add: leaseEligibilityPredicate_def)
  qed
  with lease_one show ?case by simp
qed simp

subsection \<open>The loop takes lease steps\<close>

lemma leaseCandidate_step:
  assumes "leaseCandidate sess clk s request c tok d rs = (rs', job)" "jobs_inv rs"
  shows "case job of
      None \<Rightarrow> rs' = rs
    | Some j \<Rightarrow> \<exists>r\<in>set rs. lease_guard sess request rs c r \<and>
        (let u = lease_set clk s (lr_LeaseOwner request) tok (lr_LeaseDuration request) d
         in j = leased_job d (u r) \<and> rs' = upd_where (\<lambda>x. q_id x = q_id r) u rs)"
proof (cases "find (lease_guard sess request rs c) rs")
  case None
  then have "\<forall>r\<in>set rs. \<not> lease_guard sess request rs c r" by (auto simp: find_None_iff)
  with None assms(1) show ?thesis by (auto simp: leaseCandidate_def Let_def upd_where_none)
next
  case (Some r)
  let ?g = "lease_guard sess request rs c"
  let ?u = "lease_set clk s (lr_LeaseOwner request) tok (lr_LeaseDuration request) d"
  have r: "r \<in> set rs" "?g r" using Some by (auto simp: find_Some_iff)
  have "?g x \<longleftrightarrow> q_id x = q_id r" if "x \<in> set rs" for x
  proof
    assume "?g x"
    then show "q_id x = q_id r" using r(2) by (simp add: lease_guard_def candidate_matches_def)
  next
    assume "q_id x = q_id r"
    then have "x = r" using assms(2) that r(1) distinct_map_inj [of q_id rs x r] by (simp add: jobs_inv_def)
    then show "?g x" using r(2) by simp
  qed
  then have "upd_where ?g ?u rs = upd_where (\<lambda>x. q_id x = q_id r) ?u rs"
    by (auto simp: upd_where_def)
  then have "job = Some (leased_job d (?u r))" "rs' = upd_where (\<lambda>x. q_id x = q_id r) ?u rs"
    using Some assms(1) by (auto simp: leaseCandidate_def leased_job_def Let_def)
  with r show ?thesis by (auto simp: Let_def intro!: bexI [of _ r])
qed

lemma lease_loop_steps:
  assumes "lease_loop sess env request d n cands rs leased = Inr (rs', leased')" "jobs_inv rs0"
    and "lease_steps sess (env_clock env) request d rs0 leased rs"
    and "\<forall>c\<in>set cands. q_kind c \<in> set (lr_Kinds request)" "int (length leased) \<le> lr_MaxJobs request"
  shows "lease_steps sess (env_clock env) request d rs0 leased' rs' \<and> int (length leased') \<le> lr_MaxJobs request"
  using assms
proof (induction cands arbitrary: n rs leased)
  case (Cons c cands)
  show ?case
  proof (cases "int (length leased) \<ge> lr_MaxJobs request")
    case True
    with Cons.prems show ?thesis by simp
  next
    case False
    then obtain tok where tok: "NewLeaseToken (env_tokens env n) = Inr tok"
      using Cons.prems(1) by (auto simp: andThen_Inr_iff)
    obtain rs1 job where lc: "leaseCandidate sess (env_clock env) (Suc n) request c tok d rs = (rs1, job)"
      by fastforce
    have rest: "lease_loop sess env request d (Suc n) cands rs1
        (case job of Some j \<Rightarrow> leased @ [j] | None \<Rightarrow> leased) = Inr (rs', leased')"
      using Cons.prems(1) False tok lc by simp
    have inv: "jobs_inv rs" using lease_steps_inv [OF Cons.prems(3,2)] .
    have "lease_steps sess (env_clock env) request d rs0 (case job of Some j \<Rightarrow> leased @ [j] | None \<Rightarrow> leased) rs1"
    proof (cases job)
      case None
      with leaseCandidate_step [OF lc inv] Cons.prems(3) show ?thesis by simp
    next
      case (Some j)
      let ?u = "lease_set (env_clock env) (Suc n) (lr_LeaseOwner request) tok (lr_LeaseDuration request) d"
      obtain r where r: "r \<in> set rs" "lease_guard sess request rs c r"
        "j = leased_job d (?u r)" "rs1 = upd_where (\<lambda>x. q_id x = q_id r) ?u rs"
        using leaseCandidate_step [OF lc inv] Some by (auto simp: Let_def)
      have g: "q_workspace r = lr_WorkspaceID request" "q_kind r \<in> set (lr_Kinds request)"
        "leaseEligibilityPredicate sess (Durable (lr_Now request)) rs r"
        using r(2) Cons.prems(4) by (auto simp: lease_guard_def candidate_matches_def)
      show ?thesis
        using lease_one [OF Cons.prems(3) r(1) g NewLeaseToken_not_Nil [OF tok] refl, of "Suc n"] Some r(3,4)
        by simp
    qed
    then show ?thesis
      using Cons.IH [OF rest Cons.prems(2)] Cons.prems(4) False by (auto split: option.splits)
  qed
qed simp

lemma Lease_steps:
  assumes "Lease coll sess env policy request db = Inr (db', js)" "queue_inv db"
  shows "\<exists>rq. lr_Kinds rq = lr_Kinds request \<and> lr_WorkspaceID rq = lr_WorkspaceID request \<and>
    lr_LeaseOwner rq = lr_LeaseOwner request \<and> lr_LeaseDuration rq = lr_LeaseDuration request \<and>
    (\<not> IsZero (lr_Now request) \<longrightarrow> lr_Now rq = lr_Now request) \<and>
    lease_steps sess (env_clock env) rq (pol_MaxAttempts policy) (jobs db) js (jobs db') \<and>
    db' = db\<lparr>jobs := jobs db'\<rparr> \<and> int (length js) \<le> lr_MaxJobs request"
proof -
  let ?rq = "request\<lparr>lr_Now := (if IsZero (lr_Now request) then Durable (env_wall env 0) else lr_Now request)\<rparr>"
  let ?c = "leaseCandidatesQuery coll sess (lr_WorkspaceID ?rq) (lr_Kinds ?rq) (Durable (lr_Now ?rq))
    (lr_MaxJobs ?rq * 8) (jobs db)"
  obtain rs where v: "ValidateLeaseRequest request = Inr ()"
    and loop: "lease_loop sess env ?rq (pol_MaxAttempts policy) 0 ?c (jobs db) [] = Inr (rs, js)"
    and db': "db' = db\<lparr>jobs := rs\<rparr>"
    using assms(1) by (auto simp: Lease_def Let_def andThen_Inr_iff)
  have "\<forall>c\<in>set ?c. q_kind c \<in> set (lr_Kinds ?rq)"
    using set_take_subset by (fastforce simp: leaseCandidatesQuery_def)
  moreover have "0 \<le> lr_MaxJobs ?rq" using v by (simp add: ValidateLeaseRequest_ok)
  ultimately have "lease_steps sess (env_clock env) ?rq (pol_MaxAttempts policy) (jobs db) js rs \<and>
      int (length js) \<le> lr_MaxJobs ?rq"
    using assms(2) by (intro lease_loop_steps [OF loop]) (auto simp: queue_inv_def intro: lease_none)
  then show ?thesis using db' by (intro exI [of _ ?rq]) simp
qed

lemma Lease_inv:
  assumes "Lease coll sess env policy request db = Inr (db', js)" "queue_inv db"
  shows "queue_inv db'"
proof -
  obtain rq where st: "lease_steps sess (env_clock env) rq (pol_MaxAttempts policy) (jobs db) js (jobs db')"
    and db': "db' = db\<lparr>jobs := jobs db'\<rparr>"
    using Lease_steps [OF assms] by blast
  have "counters db' = counters db" by (subst db') simp
  with lease_steps_inv [OF st] lease_steps_counters [OF st] assms(2) show ?thesis
    by (simp add: queue_inv_def)
qed

end
