(* ===== verification/Queue_Eligibility.thy ===== *)
theory Queue_Eligibility
  imports Queue_Lease_Facts
begin

section \<open>Order and progress of the eligibility rule\<close>

text \<open>
  Facts about \<open>leaseEligibilityPredicate\<close> alone: an ordinary job is leased from
  the head of its Thread lane even while the head backs off, an unleased
  partition with due work always offers a job, a Thread lane without pending
  recoveries does too, and a lane holding an ordinary job, a later recovery and
  an interrupt offers none.
\<close>

definition same_lane :: "queue_row \<Rightarrow> queue_row \<Rightarrow> bool" where
  "same_lane r s \<longleftrightarrow> q_workspace r = q_workspace s \<and> q_scope r = ScopeThread \<and> q_scope s = ScopeThread \<and>
     sql_eq (q_session r) (q_session s) \<and> sql_eq (q_thread r) (q_thread s)"

lemma same_lane_sym: "same_lane r s \<Longrightarrow> same_lane s r"
  unfolding same_lane_def sql_eq_def by metis

lemma same_lane_trans: "same_lane r s \<Longrightarrow> same_lane s t \<Longrightarrow> same_lane r t"
  unfolding same_lane_def sql_eq_def by metis

lemma not_eligibleI:
  "p \<in> set rs \<Longrightarrow> pending_blocks now c p \<Longrightarrow> \<not> leaseEligibilityPredicate sess now rs c"
  by (auto simp: leaseEligibilityPredicate_def)

lemma lane_blocks:
  assumes "same_lane p c" "q_status p = Pending" "q_id p \<noteq> q_id c"
    and "\<not> (q_kind c = KindRuntimeRecovery \<and> q_class p = Interrupt)"
    and "q_kind p = KindRuntimeRecovery \<and> q_class c = Interrupt \<or>
      q_class p = Interrupt \<and> (q_class c \<noteq> Interrupt \<or> q_seq p < q_seq c) \<or>
      q_class c \<noteq> Interrupt \<and> q_class p \<noteq> Interrupt \<and> q_seq p < q_seq c"
  shows "pending_blocks now c p"
  using assms by (simp add: pending_blocks_def pending_thread_precedes_def same_lane_def)

subsection \<open>Concrete rows\<close>

definition lane_row :: "bytes \<Rightarrow> bytes \<Rightarrow> control_class \<Rightarrow> int \<Rightarrow> queue_row" where
  "lane_row i kind cls seq =
     \<lparr>q_id = i, q_workspace = ''ws'', q_kind = kind, q_partition = ''session:ws:s'', q_seq = seq,
      q_session = Some ''s'', q_scope = ScopeThread, q_thread = Some ''t'', q_class = cls,
      q_dedupe = Some i, q_payload_version = 1, q_status = Pending, q_payload = ''{}'', q_priority = 0,
      q_token = None, q_leased_by = None, q_leased_at = None, q_leased_until = None,
      q_prev_attempts = None, q_attempts = 0, q_defers = 0, q_max_attempts = 10,
      q_available_at = 0, q_ready_at = 0, q_created_at = 0, q_updated_at = 0,
      q_acknowledged_at = None, q_cancelled_at = None, q_dead_lettered_at = None,
      q_error_kind = None, q_error_message = None, q_trace = None\<rparr>"

definition lane_rows :: "queue_row list" where
  "lane_rows = [lane_row ''o'' KindRuntimeInput Ordinary 1, lane_row ''r'' KindRuntimeRecovery Ordinary 2,
     lane_row ''i'' KindRuntimeInput Interrupt 3]"

definition no_sessions :: session_lookup where
  "no_sessions w i = None"

lemma lane_row_ok:
  "kind = KindRuntimeInput \<or> kind = KindRuntimeRecovery \<and> cls = Ordinary \<Longrightarrow> 0 < seq \<Longrightarrow>
    row_ok (lane_row i kind cls seq)"
  by (auto simp: row_ok_def table_checks_def delivery_authority_shape_def lease_shape_def
      previous_attempt_shape_def delivery_ok_def lane_row_def isKnownKind_def null_string_def)

lemma lane_rows_inv: "jobs_inv lane_rows"
proof -
  have "\<forall>r\<in>set lane_rows. row_ok r" by (simp add: lane_rows_def lane_row_ok)
  moreover have "distinct (map q_id lane_rows)" "distinct (map (\<lambda>r. (partition_key_of r, q_seq r)) lane_rows)"
    "active_dedupe_unique lane_rows" "lease_exclusion lane_rows"
    by (simp_all add: lane_rows_def lane_row_def partition_key_of_def active_dedupe_unique_def
        dedupe_key_of_def lease_exclusion_def active_def)
  ultimately show ?thesis by (simp add: jobs_inv_def)
qed

subsection \<open>Head of the lane\<close>

text \<open>C7: an ordinary Thread job that is eligible has no earlier ordinary job pending on
  its Thread, whatever that job's backoff, and unless it is a recovery no interrupt
  pending there at all.\<close>

theorem eligible_is_lane_head:
  assumes "leaseEligibilityPredicate sess now rs c" and "q_class c \<noteq> Interrupt"
    and "p \<in> set rs" and "q_status p = Pending" and "q_id p \<noteq> q_id c" and "same_lane p c"
  shows "(q_class p \<noteq> Interrupt \<longrightarrow> q_seq c \<le> q_seq p) \<and>
    (q_class p = Interrupt \<longrightarrow> q_kind c = KindRuntimeRecovery)"
  using not_eligibleI [OF assms(3) lane_blocks [OF assms(6,4,5)]] assms(1,2)
  by (meson linorder_not_le)

lemma lane_eligible: "leaseEligibilityPredicate no_sessions 0 [lane_row ''a'' KindRuntimeInput Ordinary 1,
    lane_row ''b'' KindRuntimeInput Ordinary 2] (lane_row ''a'' KindRuntimeInput Ordinary 1)"
  by (simp add: leaseEligibilityPredicate_def lane_row_def session_admits_def no_sessions_def
      leased_thread_blocks_def pending_blocks_def pending_partition_precedes_def
      pending_session_precedes_def pending_thread_precedes_def kind_simps)

theorem eligible_is_lane_head_witness:
  "q_seq (lane_row ''a'' KindRuntimeInput Ordinary 1) \<le> q_seq (lane_row ''b'' KindRuntimeInput Ordinary 2)"
  using eligible_is_lane_head [OF lane_eligible, of "lane_row ''b'' KindRuntimeInput Ordinary 2"]
  by (simp add: lane_row_def same_lane_def)

subsection \<open>A lane that offers nothing\<close>

text \<open>C5: when an ordinary job, a later recovery and an interrupt are pending on one Thread,
  no pending job of that Thread from the ordinary one on is ever eligible: the ordinary
  job waits for the interrupt, the interrupt for the recovery and the recovery for the
  ordinary job, at every time and for every Session state.\<close>

theorem lane_deadlock:
  assumes "jobs_inv rs" and "o1 \<in> set rs" and "r1 \<in> set rs" and "i1 \<in> set rs"
    and "q_status o1 = Pending" and "q_status r1 = Pending" and "q_status i1 = Pending"
    and "same_lane o1 r1" and "same_lane r1 i1"
    and "q_class o1 \<noteq> Interrupt" and "q_kind o1 \<noteq> KindRuntimeRecovery"
    and "q_kind r1 = KindRuntimeRecovery" and "q_class i1 = Interrupt" and "q_seq o1 < q_seq r1"
    and "c \<in> set rs" and "same_lane c o1" and "c = o1 \<or> q_seq o1 < q_seq c"
  shows "\<not> leaseEligibilityPredicate sess now rs c"
proof -
  have ids: "q_id x = q_id y \<longleftrightarrow> x = y" if "x \<in> set rs" "y \<in> set rs" for x y
    using assms(1) that distinct_map_inj [of q_id rs x y] by (auto simp: jobs_inv_def)
  have ok: "row_ok r1" "row_ok i1" using assms by (auto simp: jobs_inv_def)
  then have r1: "q_class r1 \<noteq> Interrupt" and i1: "q_kind i1 \<noteq> KindRuntimeRecovery"
    using assms(9,12,13) by (auto simp: row_ok_def delivery_ok_def same_lane_def kind_simps)
  have lanes: "same_lane o1 c" "same_lane i1 c" "same_lane r1 c"
    using assms(8,9,16) by (meson same_lane_sym same_lane_trans)+
  consider (int) "q_class c = Interrupt" | (rec) "q_class c \<noteq> Interrupt" "q_kind c = KindRuntimeRecovery"
    | (ord) "q_class c \<noteq> Interrupt" "q_kind c \<noteq> KindRuntimeRecovery" by blast
  then show ?thesis
  proof cases
    case int
    then have "q_id r1 \<noteq> q_id c" using ids [OF assms(3,15)] r1 by auto
    then show ?thesis
      using int assms(12) r1
      by (intro not_eligibleI [OF assms(3)] lane_blocks [OF lanes(3) assms(6)]) auto
  next
    case ord
    then have "q_id i1 \<noteq> q_id c" using ids [OF assms(4,15)] assms(13) by auto
    then show ?thesis
      using ord assms(13)
      by (intro not_eligibleI [OF assms(4)] lane_blocks [OF lanes(2) assms(7)]) auto
  next
    case rec
    then have id: "q_id o1 \<noteq> q_id c" using ids [OF assms(2,15)] assms(11) by auto
    with assms(17) have "q_seq o1 < q_seq c" by auto
    with id rec assms(10) show ?thesis
      by (intro not_eligibleI [OF assms(2)] lane_blocks [OF lanes(1) assms(5)]) auto
  qed
qed

theorem lane_deadlock_witness:
  "\<not> leaseEligibilityPredicate no_sessions 1000000 lane_rows (lane_row ''o'' KindRuntimeInput Ordinary 1)"
  by (rule lane_deadlock [OF lane_rows_inv, of "lane_row ''o'' KindRuntimeInput Ordinary 1"
        "lane_row ''r'' KindRuntimeRecovery Ordinary 2" "lane_row ''i'' KindRuntimeInput Interrupt 3"])
    (simp_all add: lane_rows_def, simp_all add: lane_row_def same_lane_def kind_simps)

subsection \<open>Progress\<close>

lemma ex_min_int:
  fixes f :: "'a \<Rightarrow> int"
  assumes "finite A" "A \<noteq> {}"
  obtains x where "x \<in> A" "\<And>y. y \<in> A \<Longrightarrow> f x \<le> f y"
proof -
  have "Min (f ` A) \<in> f ` A" using assms by (intro Min_in) auto
  then obtain x where x: "x \<in> A" "f x = Min (f ` A)" by auto
  have "f x \<le> f y" if "y \<in> A" for y using assms(1) that x(2) by simp
  with x(1) show ?thesis by (rule that)
qed

definition due_in_partition :: "time \<Rightarrow> bytes \<Rightarrow> bytes \<Rightarrow> queue_row \<Rightarrow> bool" where
  "due_in_partition now w k r \<longleftrightarrow> q_workspace r = w \<and> q_scope r = ScopePartition \<and> q_partition r = k \<and>
     q_status r = Pending \<and> q_available_at r \<le> now"

text \<open>A partition with due partition-scoped work and no leased partition job always has an
  eligible job: the rule cannot stall a partition.\<close>

theorem partition_progress:
  assumes "jobs_inv rs" and "r \<in> set rs" and "due_in_partition now w k r"
    and "\<not> (\<exists>l\<in>set rs. q_workspace l = w \<and> q_scope l = ScopePartition \<and> q_partition l = k \<and> q_status l = Leased)"
  shows "\<exists>c\<in>set rs. due_in_partition now w k c \<and> leaseEligibilityPredicate sess now rs c"
proof -
  let ?D = "{c \<in> set rs. due_in_partition now w k c}"
  obtain m where m: "m \<in> ?D" "\<And>y. y \<in> ?D \<Longrightarrow> - q_priority m \<le> - q_priority y"
    using assms(2,3) by (rule_tac ex_min_int [of ?D "\<lambda>r. - q_priority r"]) auto
  let ?E = "{c \<in> ?D. q_priority c = q_priority m}"
  obtain c where c: "c \<in> ?E" "\<And>y. y \<in> ?E \<Longrightarrow> q_seq c \<le> q_seq y"
    using m(1) by (rule_tac ex_min_int [of ?E q_seq]) auto
  have due: "c \<in> set rs" "due_in_partition now w k c" "q_priority c = q_priority m" using c(1) by auto
  have none: "\<not> pending_blocks now c p" if p: "p \<in> set rs" for p
  proof
    assume "pending_blocks now c p"
    then have "p \<in> ?D" and *: "q_priority p > q_priority c \<or> q_priority p = q_priority c \<and> q_seq p < q_seq c"
      using due(2) p
      by (auto simp: pending_blocks_def pending_partition_precedes_def pending_session_precedes_def
          pending_thread_precedes_def due_in_partition_def)
    with m(2) [of p] c(2) [of p] due(3) show False by auto
  qed
  have "q_session c = None"
    using assms(1) due(1,2) row_ok_coordinates(3) [of c] by (auto simp: jobs_inv_def due_in_partition_def)
  then have "leaseEligibilityPredicate sess now rs c"
    using due(2) none assms(4)
    by (auto simp: leaseEligibilityPredicate_def session_admits_def due_in_partition_def
        leased_partition_blocks_def)
  with due show ?thesis by blast
qed

definition build_row :: "bytes \<Rightarrow> int \<Rightarrow> queue_row" where
  "build_row i seq = (lane_row i KindEnvironmentBuild Ordinary seq)
     \<lparr>q_scope := ScopePartition, q_session := None, q_thread := None, q_partition := ''environment:ws:e''\<rparr>"

lemma build_row_inv: "jobs_inv [build_row ''b1'' 1]"
proof -
  have "row_ok (build_row ''b1'' 1)"
    by (simp add: row_ok_def table_checks_def delivery_authority_shape_def lease_shape_def
        previous_attempt_shape_def delivery_ok_def build_row_def lane_row_def isKnownKind_def
        IsJobRunnerKind_def null_string_def kind_simps)
  then show ?thesis
    by (simp add: jobs_inv_def active_dedupe_unique_def lease_exclusion_def)
qed

theorem partition_progress_witness:
  "\<exists>c\<in>set [build_row ''b1'' 1]. due_in_partition 5 ''ws'' ''environment:ws:e'' c \<and>
     leaseEligibilityPredicate no_sessions 5 [build_row ''b1'' 1] c"
  by (rule partition_progress [OF build_row_inv, of "build_row ''b1'' 1"])
    (simp_all add: due_in_partition_def build_row_def lane_row_def)

definition lane_open :: "session_lookup \<Rightarrow> time \<Rightarrow> queue_row list \<Rightarrow> queue_row \<Rightarrow> bool" where
  "lane_open sess now rs r \<longleftrightarrow>
     (\<forall>x\<in>set rs. q_workspace x = q_workspace r \<longrightarrow> sql_eq (q_session x) (q_session r) \<longrightarrow>
        (q_scope x = ScopeSession \<longrightarrow> terminal (q_status x)) \<and>
        (same_lane x r \<longrightarrow> q_status x \<noteq> Leased \<and>
          (q_status x = Pending \<longrightarrow> q_kind x \<noteq> KindRuntimeRecovery \<and> q_available_at x \<le> now))) \<and>
     (case sess (q_workspace r) (null_string (q_session r)) of
        None \<Rightarrow> True
      | Some (lifecycle, status) \<Rightarrow> lifecycle \<noteq> ''deleted'' \<and> status \<noteq> ''terminated'')"

text \<open>C6: a Thread lane with pending work, none of it a recovery, offers an eligible job as soon
  as its jobs are due, nothing of the lane is leased and no Session-exclusive job is
  active: the first interrupt, or else the first ordinary job.\<close>

theorem thread_lane_progress:
  assumes "jobs_inv rs" and "r \<in> set rs" and "q_scope r = ScopeThread" and "q_status r = Pending"
    and "lane_open sess now rs r"
  shows "\<exists>c\<in>set rs. same_lane c r \<and> leaseEligibilityPredicate sess now rs c"
proof -
  have ok: "row_ok x" if "x \<in> set rs" for x using assms(1) that by (simp add: jobs_inv_def)
  have coord: "q_session r \<noteq> None" "q_thread r \<noteq> None"
    using row_ok_coordinates(1) [OF ok [OF assms(2)] assms(3)] by auto
  let ?L = "{x \<in> set rs. same_lane x r \<and> q_status x = Pending}"
  let ?I = "{x \<in> ?L. q_class x = Interrupt}"
  let ?C = "if ?I = {} then ?L else ?I"
  have "r \<in> ?L" using assms(2,3,4) coord by (simp add: same_lane_def sql_eq_def)
  then have "finite ?C" "?C \<noteq> {}" by auto
  then obtain c where c: "c \<in> ?C" "\<And>y. y \<in> ?C \<Longrightarrow> q_seq c \<le> q_seq y"
    by (rule ex_min_int [where f = q_seq]) blast
  then have cL: "c \<in> set rs" "same_lane c r" "q_status c = Pending" by (auto split: if_splits)
  have head: "q_class c = Interrupt \<or> ?I = {}" using c(1) by (auto split: if_splits)
  have open_c: "q_kind c \<noteq> KindRuntimeRecovery" "q_available_at c \<le> now"
    using assms(5) cL by (auto simp: lane_open_def same_lane_def)
  have scope: "q_scope c = ScopeThread" "q_workspace c = q_workspace r" "q_session c = q_session r" "q_thread c = q_thread r"
    using cL(2) by (auto simp: same_lane_def sql_eq_def)
  have rec: "q_kind p \<noteq> KindRuntimeRecovery" if "p \<in> ?L" for p
    using assms(5) that by (auto simp: lane_open_def same_lane_def)
  have none: "\<not> pending_blocks now c p" if p: "p \<in> set rs" for p
  proof
    assume b: "pending_blocks now c p"
    then have "pending_thread_precedes c p" and st: "q_status p = Pending" "q_workspace p = q_workspace c"
      using scope by (auto simp: pending_blocks_def pending_partition_precedes_def pending_session_precedes_def)
    then have sess: "sql_eq (q_session p) (q_session r)" "q_scope p \<noteq> ScopeSession"
      and th: "q_scope p = ScopeThread" "sql_eq (q_thread p) (q_thread c)"
      using assms(5) p scope
      by (auto simp: pending_thread_precedes_def lane_open_def terminal_def)
    then have pL: "p \<in> ?L"
      using p st scope assms(3) by (simp add: same_lane_def)
    have "q_class p = Interrupt \<and> (q_class c \<noteq> Interrupt \<or> q_seq p < q_seq c) \<or>
        q_class c \<noteq> Interrupt \<and> q_class p \<noteq> Interrupt \<and> q_seq p < q_seq c"
      using \<open>pending_thread_precedes c p\<close> rec [OF pL] th(1) by (auto simp: pending_thread_precedes_def)
    moreover have "p \<in> ?I \<or> q_class p \<noteq> Interrupt" using pL by auto
    ultimately show False
      using head c(2) [of p] pL c(1) by (auto split: if_splits)
  qed
  have admits: "session_admits sess c"
    using assms(5) scope coord open_c row_ok_thread_kind [OF ok [OF cL(1)]] ok [OF cL(1)]
    by (auto simp: session_admits_def lane_open_def null_string_def row_ok_def delivery_ok_def kind_simps
        split: option.splits)
  have "\<not> leased_thread_blocks c l" if "l \<in> set rs" for l
    using assms(3,5) that scope
    by (auto simp: leased_thread_blocks_def lane_open_def same_lane_def sql_eq_def terminal_def)
  with none admits open_c(2) cL scope show ?thesis
    by (intro bexI [of _ c]) (auto simp: leaseEligibilityPredicate_def)
qed

lemma lane_open_sample: "lane_open no_sessions 7 [lane_row ''a'' KindRuntimeInput Ordinary 1,
    lane_row ''i'' KindRuntimeInput Interrupt 2] (lane_row ''a'' KindRuntimeInput Ordinary 1)"
  by (simp add: lane_open_def lane_row_def no_sessions_def kind_simps)

lemma lane_pair_inv: "jobs_inv [lane_row ''a'' KindRuntimeInput Ordinary 1, lane_row ''i'' KindRuntimeInput Interrupt 2]"
proof -
  let ?rs = "[lane_row ''a'' KindRuntimeInput Ordinary 1, lane_row ''i'' KindRuntimeInput Interrupt 2]"
  have "\<forall>r\<in>set ?rs. row_ok r" by (simp add: lane_row_ok)
  then show ?thesis
    by (simp add: jobs_inv_def lane_row_def partition_key_of_def active_dedupe_unique_def
        dedupe_key_of_def lease_exclusion_def active_def)
qed

theorem thread_lane_progress_witness:
  "\<exists>c\<in>set [lane_row ''a'' KindRuntimeInput Ordinary 1, lane_row ''i'' KindRuntimeInput Interrupt 2].
     same_lane c (lane_row ''a'' KindRuntimeInput Ordinary 1) \<and>
     leaseEligibilityPredicate no_sessions 7 [lane_row ''a'' KindRuntimeInput Ordinary 1,
       lane_row ''i'' KindRuntimeInput Interrupt 2] c"
  by (rule thread_lane_progress [OF lane_pair_inv _ _ _ lane_open_sample]) (simp_all add: lane_row_def)

section \<open>Results of a lease\<close>

text \<open>C1: a lease keeps the queue's invariant, so no two live leases exclude each other; it
  returns at most the requested number of distinct jobs, each of which was a pending, due
  job of a requested kind in the requested workspace and is now leased to the caller under
  a fresh token; every other row is as it was.\<close>

theorem lease_sound:
  assumes "Lease coll sess env policy request db = Inr (db', js)" and "queue_inv db"
  shows "queue_inv db' \<and> int (length js) \<le> lr_MaxJobs request \<and> distinct (map job_ID js) \<and>
    (\<forall>j\<in>set js. \<exists>r\<in>set (jobs db). \<exists>r'\<in>set (jobs db').
       job_ID j = q_id r \<and> same_identity r' r \<and> q_status r = Pending \<and> q_kind r \<in> set (lr_Kinds request) \<and>
       q_workspace r = lr_WorkspaceID request \<and> session_admits sess r \<and>
       (\<not> IsZero (lr_Now request) \<longrightarrow> q_available_at r \<le> Durable (lr_Now request)) \<and>
       q_status r' = Leased \<and> q_leased_by r' = Some (lr_LeaseOwner request) \<and>
       q_token r' = Some (job_LeaseToken j) \<and> job_LeaseToken j \<noteq> [] \<and>
       q_attempts r' = leaseAttemptCountExpression (pol_MaxAttempts policy) r) \<and>
    (\<forall>r\<in>set (jobs db). q_id r \<notin> job_ID ` set js \<longrightarrow> r \<in> set (jobs db'))"
proof -
  obtain rq where rq: "lr_Kinds rq = lr_Kinds request" "lr_WorkspaceID rq = lr_WorkspaceID request"
    "lr_LeaseOwner rq = lr_LeaseOwner request" "\<not> IsZero (lr_Now request) \<longrightarrow> lr_Now rq = lr_Now request"
    and st: "lease_steps sess (env_clock env) rq (pol_MaxAttempts policy) (jobs db) js (jobs db')"
    and len: "int (length js) \<le> lr_MaxJobs request"
    using Lease_steps [OF assms] by auto
  have inv: "jobs_inv (jobs db)" using assms(2) by (simp add: queue_inv_def)
  have each: "\<exists>r\<in>set (jobs db). \<exists>r'\<in>set (jobs db').
       job_ID j = q_id r \<and> same_identity r' r \<and> q_status r = Pending \<and> q_kind r \<in> set (lr_Kinds request) \<and>
       q_workspace r = lr_WorkspaceID request \<and> session_admits sess r \<and>
       (\<not> IsZero (lr_Now request) \<longrightarrow> q_available_at r \<le> Durable (lr_Now request)) \<and>
       q_status r' = Leased \<and> q_leased_by r' = Some (lr_LeaseOwner request) \<and>
       q_token r' = Some (job_LeaseToken j) \<and> job_LeaseToken j \<noteq> [] \<and>
       q_attempts r' = leaseAttemptCountExpression (pol_MaxAttempts policy) r" if j: "j \<in> set js" for j
  proof -
    obtain r s tok where r: "r \<in> set (jobs db)" "q_id r = job_ID j" "q_status r = Pending"
      "q_workspace r = lr_WorkspaceID rq" "q_kind r \<in> set (lr_Kinds rq)"
      "q_available_at r \<le> Durable (lr_Now rq)" "session_admits sess r" "tok \<noteq> []"
      and r': "lease_set (env_clock env) s (lr_LeaseOwner rq) tok (lr_LeaseDuration rq) (pol_MaxAttempts policy) r
        \<in> set (jobs db')" (is "?r' \<in> _")
      and jj: "j = leased_job (pol_MaxAttempts policy)
        (lease_set (env_clock env) s (lr_LeaseOwner rq) tok (lr_LeaseDuration rq) (pol_MaxAttempts policy) r)"
      using lease_steps_jobs [OF st inv j] by (auto simp: Let_def)
    have "job_LeaseToken j = tok" by (simp add: jj leased_job_def scanJob_def lease_set_def Let_def null_string_def)
    with r r' rq show ?thesis
      by (rule_tac bexI [of _ r], rule_tac bexI [of _ ?r']) (auto simp: lease_set_def same_identity_def)
  qed
  show ?thesis
    using each Lease_inv [OF assms] len lease_steps_distinct [OF st inv] lease_steps_others [OF st] by blast
qed

subsection \<open>The head of the discovery is served\<close>

lemma lease_loop_total:
  assumes "\<And>n. env_tokens env n \<noteq> None"
  shows "\<exists>rs' js. lease_loop sess env request d n cands rs leased = Inr (rs', leased @ js)"
proof (induction cands arbitrary: n rs leased)
  case (Cons c cands)
  obtain bs where bs: "env_tokens env n = Some bs" using assms [of n] by blast
  then obtain tok where tok: "NewLeaseToken (env_tokens env n) = Inr tok" by (simp add: NewLeaseToken_def)
  obtain rs1 job where lc: "leaseCandidate sess (env_clock env) (Suc n) request c tok d rs = (rs1, job)"
    by fastforce
  show ?case
    using tok lc Cons.IH [of "Suc n" rs1 "leased @ (case job of Some j \<Rightarrow> [j] | None \<Rightarrow> [])"]
    by (cases job) auto
qed simp

lemma lease_order_total:
  assumes "text_collation coll"
  shows "lease_order coll a b \<or> lease_order coll b a"
  using text_collation.coll_total [OF assms] by (auto simp: lease_order_def)

lemma lease_order_trans:
  assumes "text_collation coll" "lease_order coll a b" "lease_order coll b c"
  shows "lease_order coll a c"
  using assms(2,3) text_collation.coll_trans [OF assms(1), of "q_partition a" "q_partition b" "q_partition c"]
    text_collation.coll_antisym [OF assms(1), of "q_partition a" "q_partition b"]
  by (auto simp: lease_order_def split: if_splits)

lemma row_ok_nullable:
  assumes "row_ok r"
  shows "nullableString (null_string (q_session r)) = q_session r"
    and "nullableString (null_string (q_thread r)) = q_thread r"
  using assms
  by (auto simp: row_ok_def table_checks_def delivery_authority_shape_def delivery_ok_def
      nullableString_def null_string_def split: option.splits)

text \<open>A requested row that may be leased now, and the one the discovery order puts first.\<close>

definition lease_wanted :: "session_lookup \<Rightarrow> LeaseRequest \<Rightarrow> queue_row list \<Rightarrow> queue_row \<Rightarrow> bool" where
  "lease_wanted sess request rs r \<longleftrightarrow> q_workspace r = lr_WorkspaceID request \<and> q_kind r \<in> set (lr_Kinds request) \<and>
     leaseEligibilityPredicate sess (Durable (lr_Now request)) rs r"

definition lease_least :: "collation \<Rightarrow> session_lookup \<Rightarrow> LeaseRequest \<Rightarrow> queue_row list \<Rightarrow> queue_row \<Rightarrow> bool" where
  "lease_least coll sess request rs c \<longleftrightarrow> c \<in> set rs \<and> lease_wanted sess request rs c \<and>
     (\<forall>r\<in>set rs. lease_wanted sess request rs r \<longrightarrow> lease_order coll c r)"

lemma Lease_head:
  assumes "queue_inv db" and "text_collation coll" and "ValidateLeaseRequest request = Inr ()"
    and "\<not> IsZero (lr_Now request)" and "\<And>n. env_tokens env n \<noteq> None"
    and "r \<in> set (jobs db)" and "lease_wanted sess request (jobs db) r"
  shows "\<exists>db' j js c. Lease coll sess env policy request db = Inr (db', j # js) \<and> job_ID j = q_id c \<and>
    lease_least coll sess request (jobs db) c"
proof -
  let ?P = "lease_wanted sess request (jobs db)"
  let ?s = "sort_by (lease_order coll) (filter ?P (jobs db))"
  have "r \<in> set ?s" using assms(6,7) by simp
  then obtain c cs where s: "?s = c # cs" by (cases ?s) auto
  have c: "c \<in> set (jobs db)" "?P c" using sort_by_eq_Cons [OF s] by auto
  have "sorted_wrt (lease_order coll) (c # cs)"
    using sorted_sort_by [of "lease_order coll" "filter ?P (jobs db)",
        OF lease_order_total [OF assms(2)] lease_order_trans [OF assms(2)]] s by simp
  moreover have "lease_order coll c c" using lease_order_total [OF assms(2), of c c] by blast
  moreover have "set (c # cs) = {x \<in> set (jobs db). ?P x}" unfolding s [symmetric] by auto
  ultimately have least: "lease_least coll sess request (jobs db) c" using c by (auto simp: lease_least_def)
  obtain bs where bs: "env_tokens env 0 = Some bs" using assms(5) [of 0] by blast
  then obtain tok where tok: "NewLeaseToken (env_tokens env 0) = Inr tok" by (simp add: NewLeaseToken_def)
  have max: "0 < lr_MaxJobs request" using assms(3) by (simp add: ValidateLeaseRequest_ok)
  then obtain m where m: "nat (lr_MaxJobs request * 8) = Suc m" by (cases "nat (lr_MaxJobs request * 8)") auto
  have okc: "row_ok c" using assms(1) c(1) by (auto simp: queue_inv_def jobs_inv_def)
  have "lease_guard sess request (jobs db) c c"
    using c row_ok_nullable [OF okc] by (simp add: lease_guard_def candidate_matches_def lease_wanted_def)
  then obtain x where x: "find (lease_guard sess request (jobs db) c) (jobs db) = Some x"
    using c(1) by (cases "find (lease_guard sess request (jobs db) c) (jobs db)") (auto simp: find_None_iff)
  then have "lease_guard sess request (jobs db) c x" by (auto simp: find_Some_iff)
  then have idx: "q_id x = q_id c" by (simp add: lease_guard_def candidate_matches_def)
  define u where "u = lease_set (env_clock env) (Suc 0) (lr_LeaseOwner request) tok (lr_LeaseDuration request)
    (pol_MaxAttempts policy)"
  have lc: "leaseCandidate sess (env_clock env) (Suc 0) request c tok (pol_MaxAttempts policy) (jobs db) =
    (upd_where (lease_guard sess request (jobs db) c) u (jobs db), Some (leased_job (pol_MaxAttempts policy) (u x)))"
    using x by (simp add: leaseCandidate_def leased_job_def u_def Let_def)
  obtain rs' js where loop: "lease_loop sess env request (pol_MaxAttempts policy) (Suc 0) (take m cs)
      (upd_where (lease_guard sess request (jobs db) c) u (jobs db)) [leased_job (pol_MaxAttempts policy) (u x)] =
    Inr (rs', [leased_job (pol_MaxAttempts policy) (u x)] @ js)"
    using lease_loop_total [OF assms(5)] by blast
  have "Lease coll sess env policy request db = Inr (db\<lparr>jobs := rs'\<rparr>, leased_job (pol_MaxAttempts policy) (u x) # js)"
    using assms(3,4) s [unfolded lease_wanted_def [abs_def]] m max tok lc loop by (simp add: Lease_def leaseCandidatesQuery_def Let_def)
  moreover have "job_ID (leased_job (pol_MaxAttempts policy) (u x)) = q_id c" by (simp add: idx u_def)
  ultimately show ?thesis using least by blast
qed

definition lane_db :: queue_db where
  "lane_db = \<lparr>jobs = [lane_row ''a'' KindRuntimeInput Ordinary 1, lane_row ''i'' KindRuntimeInput Interrupt 2],
     counters = [\<lparr>c_workspace = ''ws'', c_partition = ''session:ws:s'', c_last = 2, c_created_at = 0,
       c_updated_at = 0\<rparr>], notifications = []\<rparr>"

lemma lane_db_inv: "queue_inv lane_db"
  using lane_pair_inv
  by (simp add: queue_inv_def lane_db_def counters_cover_def counter_key_def partition_key_of_def lane_row_def)

definition lane_request :: LeaseRequest where
  "lane_request = \<lparr>lr_WorkspaceID = ''ws'', lr_Kinds = [KindRuntimeInput], lr_LeaseOwner = ''worker'',
     lr_MaxJobs = 4, lr_LeaseDuration = 30 * Second, lr_Now = 7000000\<rparr>"

definition lane_policy :: RetryPolicy where
  "lane_policy = normalizeRetryPolicy (\<lambda>n. 0) \<lparr>pol_BaseDelay = 0, pol_MaxDelay = 0, pol_MaxAttempts = 0,
     pol_RandomInt64 = None\<rparr>"

lemma lane_request_valid: "ValidateLeaseRequest lane_request = Inr ()"
  by (simp add: ValidateLeaseRequest_ok lane_request_def isKnownKind_def)

lemma lane_interrupt_eligible:
  "leaseEligibilityPredicate no_sessions 7000000 (jobs lane_db) (lane_row ''i'' KindRuntimeInput Interrupt 2)"
  by (simp add: lane_db_def leaseEligibilityPredicate_def lane_row_def session_admits_def no_sessions_def
      leased_thread_blocks_def pending_blocks_def pending_partition_precedes_def
      pending_session_precedes_def pending_thread_precedes_def kind_simps)

lemma lane_now: "Durable (lr_Now lane_request) = 7000000" "\<not> IsZero (lr_Now lane_request)"
  by (simp_all add: lane_request_def Durable_def IsZero_def zero_time_def)

lemma sample_tokens: "env_tokens sample_env n \<noteq> None"
  by (simp add: sample_env_def)

text \<open>C4: whenever some requested job is eligible, a valid lease request returns at least one
  job. Its first job is a row of the table that is itself requested and eligible, and no
  requested eligible row comes before it in the order of priority, availability, partition
  key and sequence.\<close>

theorem lease_serves_head:
  assumes "queue_inv db" and "text_collation coll" and "ValidateLeaseRequest request = Inr ()"
    and "\<not> IsZero (lr_Now request)" and "\<And>n. env_tokens env n \<noteq> None"
    and "r \<in> set (jobs db)" and "q_workspace r = lr_WorkspaceID request" and "q_kind r \<in> set (lr_Kinds request)"
    and "leaseEligibilityPredicate sess (Durable (lr_Now request)) (jobs db) r"
  shows "\<exists>db' j js c. Lease coll sess env policy request db = Inr (db', j # js) \<and> job_ID j = q_id c \<and>
    c \<in> set (jobs db) \<and> q_workspace c = lr_WorkspaceID request \<and> q_kind c \<in> set (lr_Kinds request) \<and>
    leaseEligibilityPredicate sess (Durable (lr_Now request)) (jobs db) c \<and>
    (\<forall>x\<in>set (jobs db). q_workspace x = lr_WorkspaceID request \<and> q_kind x \<in> set (lr_Kinds request) \<and>
       leaseEligibilityPredicate sess (Durable (lr_Now request)) (jobs db) x \<longrightarrow> lease_order coll c x)"
proof -
  have "lease_wanted sess request (jobs db) r" using assms(7-9) by (simp add: lease_wanted_def)
  from Lease_head [OF assms(1-6) this, where policy = policy] show ?thesis
    unfolding lease_least_def lease_wanted_def by blast
qed

lemma lane_interrupt_wanted:
  "lane_row ''i'' KindRuntimeInput Interrupt 2 \<in> set (jobs lane_db)"
  "lease_wanted no_sessions lane_request (jobs lane_db) (lane_row ''i'' KindRuntimeInput Interrupt 2)"
  using lane_interrupt_eligible unfolding lease_wanted_def lane_now(1)
  by (simp_all add: lane_db_def) (simp_all add: lane_request_def lane_row_def)

theorem lease_serves_head_witness:
  "\<exists>db' j js c. Lease go_string_le no_sessions sample_env lane_policy lane_request lane_db = Inr (db', j # js) \<and>
     c \<in> set (jobs lane_db) \<and> job_ID j = q_id c \<and>
     lease_order go_string_le c (lane_row ''i'' KindRuntimeInput Interrupt 2)"
  using lease_serves_head [OF lane_db_inv go_string.text_collation_axioms lane_request_valid lane_now(2)
      sample_tokens lane_interrupt_wanted(1), where policy = lane_policy and sess = no_sessions]
    lane_interrupt_wanted unfolding lease_wanted_def by blast

theorem lease_sound_witness:
  "\<exists>db' j js. Lease go_string_le no_sessions sample_env lane_policy lane_request lane_db = Inr (db', j # js) \<and>
     queue_inv db' \<and> (\<exists>r'\<in>set (jobs db'). q_status r' = Leased \<and> q_leased_by r' = Some ''worker'')"
proof -
  obtain db' j js where l: "Lease go_string_le no_sessions sample_env lane_policy lane_request lane_db = Inr (db', j # js)"
    using Lease_head [OF lane_db_inv go_string.text_collation_axioms lane_request_valid lane_now(2)
        sample_tokens lane_interrupt_wanted, where policy = lane_policy] by blast
  have "queue_inv db'" "\<exists>r'\<in>set (jobs db'). q_status r' = Leased \<and> q_leased_by r' = Some (lr_LeaseOwner lane_request)"
    using lease_sound [OF l lane_db_inv] by auto
  with l show ?thesis by (auto simp: lane_request_def)
qed

end
