(* ===== verification/Queue_Transition_Facts.thy ===== *)
theory Queue_Transition_Facts
  imports Queue_Transitions Queue_Eligibility
begin

section \<open>Facts about the transitions\<close>

text \<open>
  Each transition is interpreted in the contract of a row transition, which
  gives that it keeps the queue's invariant and every terminal row. On top of
  that: fencing by the lease token, the outcome of a retry, the bounds of the
  backoff, the exact refund of deferral and release, and the completeness of a
  reclaim.
\<close>

lemmas row_ok_unfold = row_ok_def table_checks_def delivery_authority_shape_def lease_shape_def
  previous_attempt_shape_def

lemmas set_defs = ack_set_def dead_letter_set_def pending_set_def failed_set_def heartbeat_set_def
  defer_set_def release_set_def reclaim_set_def cancel_set_def exhausted_set_def clear_lease_def

lemmas fence_defs = live_lease_def held_lease_def named_job_def

subsection \<open>Interpretations of the contract\<close>

interpretation heartbeat: row_transition "live_lease clock w i t" "heartbeat_set clk d"
  for clock w i t clk d
  by unfold_locales
    (auto simp: fence_defs heartbeat_set_def same_identity_def row_ok_unfold active_def split: option.splits)

interpretation ack: row_transition "live_lease clock w i t" "ack_set now"
  for clock w i t now
  by unfold_locales
    (auto simp: fence_defs set_defs same_identity_def row_ok_unfold active_def)

interpretation dead_letter: row_transition "live_lease clock w i t" "dead_letter_set now k m"
  for clock w i t now k m
  by unfold_locales
    (auto simp: fence_defs set_defs same_identity_def row_ok_unfold active_def)

interpretation retried: row_transition "live_lease clock w i t" "\<lambda>r. failed_set k m (pending_set a b c r)"
  for clock w i t k m a b c
  by unfold_locales
    (auto simp: fence_defs set_defs same_identity_def row_ok_unfold active_def)

interpretation deferred: row_transition "\<lambda>r. live_lease clock w i t r \<and> 1 \<le> q_attempts r" "defer_set a b c"
  for clock w i t a b c
  by unfold_locales
    (auto simp: fence_defs set_defs same_identity_def row_ok_unfold active_def)

interpretation released: row_transition "\<lambda>r. held_lease w i t r \<and> q_prev_attempts r \<noteq> None" "release_set a b"
  for w i t a b
  by unfold_locales
    (auto simp: fence_defs set_defs same_identity_def row_ok_unfold active_def)

interpretation reclaimed: row_transition "\<lambda>r. named_job w i r \<and> q_status r = Leased" "reclaim_set clk s k m"
  for w i clk s k m
  by unfold_locales
    (auto simp: fence_defs set_defs same_identity_def row_ok_unfold active_def)

interpretation cancelled: row_transition "\<lambda>r. P r \<and> q_status r = Pending" "cancel_set now"
  for P now
  by unfold_locales
    (auto simp: set_defs same_identity_def row_ok_unfold active_def split: option.splits)

interpretation exhausted: row_transition "\<lambda>r. P r \<and> q_status r = Pending" "exhausted_set now k m"
  for P now k m
  by unfold_locales
    (auto simp: set_defs same_identity_def row_ok_unfold active_def split: option.splits)

subsection \<open>Single statements\<close>

lemma upd_where_cong:
  "(\<And>r. r \<in> set rs \<Longrightarrow> P r = Q r) \<Longrightarrow> upd_where P f rs = upd_where Q f rs"
  by (auto simp: upd_where_def)

lemma exec_where_False: "exec_where guard upd db = (db', False) \<Longrightarrow> db' = db"
proof -
  assume "exec_where guard upd db = (db', False)"
  then have "\<forall>r\<in>set (jobs db). \<not> guard r" "db' = db\<lparr>jobs := upd_where guard upd (jobs db)\<rparr>"
    using count_where_pos_iff [of guard "jobs db"] by (auto simp: exec_where_def)
  then show ?thesis by (simp add: upd_where_none)
qed

lemma exec_where_True: "exec_where guard upd db = (db', True) \<Longrightarrow> \<exists>r\<in>set (jobs db). guard r \<and> upd r \<in> set (jobs db')"
  using count_where_pos_iff [of guard "jobs db"] by (force simp: exec_where_def set_upd_where)

lemma exec_where_others:
  "exec_where guard upd db = (db', b) \<Longrightarrow> r \<in> set (jobs db) \<Longrightarrow> \<not> guard r \<Longrightarrow> r \<in> set (jobs db')"
  by (force simp: exec_where_def set_upd_where)

lemma exec_where_frame:
  "exec_where guard upd db = (db', b) \<Longrightarrow> counters db' = counters db \<and> notifications db' = notifications db"
  by (auto simp: exec_where_def)

lemma exec_where_hit:
  "r \<in> set (jobs db) \<Longrightarrow> guard r \<Longrightarrow>
    exec_where guard upd db = (db\<lparr>jobs := upd_where guard upd (jobs db)\<rparr>, True) \<and>
    upd r \<in> set (upd_where guard upd (jobs db))"
  by (force simp: exec_where_def set_upd_where)

lemma same_job:
  "queue_inv db \<Longrightarrow> r \<in> set (jobs db) \<Longrightarrow> s \<in> set (jobs db) \<Longrightarrow> q_id r = q_id s \<Longrightarrow> r = s"
  using distinct_map_inj [of q_id "jobs db" r s] by (simp add: queue_inv_def jobs_inv_def)

lemma find_job:
  assumes "queue_inv db" "r \<in> set (jobs db)" "guard r" "\<And>x. guard x \<Longrightarrow> q_id x = q_id r"
  shows "find guard (jobs db) = Some r"
proof (cases "find guard (jobs db)")
  case None
  with assms(2,3) show ?thesis by (auto simp: find_None_iff)
next
  case (Some x)
  then have "x \<in> set (jobs db)" "guard x" by (auto simp: find_Some_iff)
  with Some assms(4) same_job [OF assms(1) _ assms(2)] show ?thesis by auto
qed

lemma find_job_SomeD: "find guard rs = Some r \<Longrightarrow> r \<in> set rs \<and> guard r"
  by (auto simp: find_Some_iff)

lemma exec_where_strengthen:
  assumes "queue_inv db" "row \<in> set (jobs db)" "\<And>x. guard x \<Longrightarrow> q_id x = q_id row" "P row"
  shows "exec_where guard upd db = exec_where (\<lambda>x. guard x \<and> P x) upd db"
proof -
  have *: "guard x = (guard x \<and> P x)" if x: "x \<in> set (jobs db)" for x
    using assms(3) [of x] same_job [OF assms(1) x assms(2)] assms(4) by auto
  show ?thesis
    using filter_cong [of "jobs db" "jobs db" guard "\<lambda>x. guard x \<and> P x"] *
      upd_where_cong [of "jobs db" guard "\<lambda>x. guard x \<and> P x"]
    by (auto simp: exec_where_def count_where_def)
qed

lemma row_transition_stronger:
  "row_transition guard upd \<Longrightarrow> row_transition (\<lambda>x. guard x \<and> P x) upd"
  by (simp add: row_transition_def)

lemma Durable_request_now: "\<not> IsZero now \<Longrightarrow> request_now env now = now"
  by (simp add: request_now_def)

subsection \<open>Token fencing\<close>

text \<open>The calls a lease holder makes with its token, and the token each carries.\<close>

datatype fenced_call =
    CallHeartbeat HeartbeatRequest
  | CallAck AckRequest
  | CallRetry RetryRequest
  | CallDefer DeferRequest
  | CallDeadLetter DeadLetterRequest
  | CallRelease ReleaseUnstartedJobRequest

fun run_fenced ::
    "casts \<Rightarrow> tx_env \<Rightarrow> RetryPolicy \<Rightarrow> fenced_call \<Rightarrow> queue_db \<Rightarrow> (queue_db \<times> bool) res" where
  "run_fenced pg env policy (CallHeartbeat q) db =
     andThen (Heartbeat env q db) (\<lambda>(db', result). Inr (db', hr_Updated result))"
| "run_fenced pg env policy (CallAck q) db = Ack env q db"
| "run_fenced pg env policy (CallRetry q) db = Retry pg env policy q db"
| "run_fenced pg env policy (CallDefer q) db = Defer env policy q db"
| "run_fenced pg env policy (CallDeadLetter q) db = DeadLetter env q db"
| "run_fenced pg env policy (CallRelease q) db = ReleaseUnstartedJob env q db"

fun holds_fence :: "fenced_call \<Rightarrow> queue_row \<Rightarrow> bool" where
  "holds_fence (CallHeartbeat q) = held_lease (hb_WorkspaceID q) (hb_JobID q) (hb_LeaseToken q)"
| "holds_fence (CallAck q) = held_lease (ak_WorkspaceID q) (ak_JobID q) (ak_LeaseToken q)"
| "holds_fence (CallRetry q) = held_lease (rt_WorkspaceID q) (rt_JobID q) (rt_LeaseToken q)"
| "holds_fence (CallDefer q) = held_lease (df_WorkspaceID q) (df_JobID q) (df_LeaseToken q)"
| "holds_fence (CallDeadLetter q) = held_lease (dl_WorkspaceID q) (dl_JobID q) (dl_LeaseToken q)"
| "holds_fence (CallRelease q) = held_lease (ru_WorkspaceID q) (ru_JobID q) (ru_LeaseToken q)"

text \<open>The lease had not expired at some reading of the database clock in the call.\<close>

definition unexpired :: "clock \<Rightarrow> queue_row \<Rightarrow> bool" where
  "unexpired clk r \<longleftrightarrow> (\<exists>s c until. q_leased_until r = Some until \<and> clk s c < until)"

definition fenced_by :: "tx_env \<Rightarrow> fenced_call \<Rightarrow> queue_row \<Rightarrow> bool" where
  "fenced_by env call r \<longleftrightarrow> holds_fence call r \<and> unexpired (env_clock env) r"

text \<open>What every fenced call does to the table: nothing, or one statement under a
  guard that implies the fence and an update that meets the contract.\<close>

definition fenced_effect :: "(queue_row \<Rightarrow> bool) \<Rightarrow> queue_db \<Rightarrow> queue_db \<Rightarrow> bool \<Rightarrow> bool" where
  "fenced_effect fence db db' b \<longleftrightarrow>
     (b = False \<and> db' = db) \<or>
     (\<exists>guard upd db1. row_transition guard upd \<and> (\<forall>r. guard r \<longrightarrow> fence r) \<and>
        exec_where guard upd db = (db1, b) \<and> jobs db' = jobs db1 \<and> counters db' = counters db1 \<and>
        (\<not> b \<longrightarrow> db' = db1))"

lemma fenced_effect_none: "fenced_effect fence db db False"
  by (simp add: fenced_effect_def)

lemma fenced_effectI:
  "row_transition guard upd \<Longrightarrow> (\<And>r. guard r \<Longrightarrow> fence r) \<Longrightarrow> exec_where guard upd db = (db', b) \<Longrightarrow>
    fenced_effect fence db db' b"
  unfolding fenced_effect_def by blast

lemma live_unexpired:
  "live_lease (clk s c) w i t r \<Longrightarrow> held_lease w i t r \<and> unexpired clk r"
  by (auto simp: live_lease_def unexpired_def split: option.splits)

lemma live_effectI:
  assumes "row_transition (live_lease (clk s c) w i t) upd" "exec_where (live_lease (clk s c) w i t) upd db = (db', b)"
  shows "fenced_effect (\<lambda>r. held_lease w i t r \<and> unexpired clk r) db db' b"
  using fenced_effectI [OF assms(1) live_unexpired assms(2)] .

lemma heartbeat_fenced:
  assumes "Heartbeat env q db = Inr (db', result)"
  shows "fenced_effect (fenced_by env (CallHeartbeat q)) db db' (hr_Updated result)"
proof -
  obtain b where "exec_where (live_lease (env_clock env 0 2) (hb_WorkspaceID q) (hb_JobID q) (hb_LeaseToken q))
      (heartbeat_set (env_clock env) (hb_LeaseDuration q)) db = (db', b)" "hr_Updated result = b"
    using assms by (auto simp: Heartbeat_def andThen_Inr_iff Let_def split: prod.splits)
  then show ?thesis
    using live_effectI [OF heartbeat.row_transition_axioms] by (simp add: fenced_by_def [abs_def])
qed

lemma ack_fenced: "Ack env q db = Inr (db', b) \<Longrightarrow> fenced_effect (fenced_by env (CallAck q)) db db' b"
  using live_effectI [OF ack.row_transition_axioms]
  by (auto simp: Ack_def AckTx_def andThen_Inr_iff fenced_by_def [abs_def])

lemma dead_letter_fenced:
  "DeadLetter env q db = Inr (db', b) \<Longrightarrow> fenced_effect (fenced_by env (CallDeadLetter q)) db db' b"
  using live_effectI [OF dead_letter.row_transition_axioms]
  by (auto simp: DeadLetter_def DeadLetterTx_def andThen_Inr_iff fenced_by_def [abs_def])

lemma retry_exec:
  assumes "Retry pg env policy q db = Inr (db', b)"
  shows "(b = False \<and> db' = db) \<or>
    (\<exists>st cl a r c. exec_where (live_lease (env_clock env st cl) (rt_WorkspaceID q) (rt_JobID q) (rt_LeaseToken q))
       (\<lambda>x. failed_set (rt_ErrorKind q) (rt_ErrorMessage q) (pending_set a r c x)) db = (db', b)) \<or>
    (\<exists>st cl now. exec_where (live_lease (env_clock env st cl) (rt_WorkspaceID q) (rt_JobID q) (rt_LeaseToken q))
       (dead_letter_set now (rt_ErrorKind q) (rt_ErrorMessage q)) db = (db', b))"
proof (cases "find (live_lease (env_clock env 0 0) (rt_WorkspaceID q) (rt_JobID q) (rt_LeaseToken q)) (jobs db)")
  case None
  with assms show ?thesis by (auto simp: Retry_def andThen_Inr_iff Let_def)
next
  case (Some row)
  then show ?thesis
    using assms unfolding Retry_def andThen_Inr_iff Let_def
    by (simp add: andThen_Inr_iff split: if_splits option.splits) blast+
qed

lemma retry_fenced:
  assumes "Retry pg env policy q db = Inr (db', b)"
  shows "fenced_effect (fenced_by env (CallRetry q)) db db' b"
  using retry_exec [OF assms] fenced_effect_none live_effectI [OF retried.row_transition_axioms]
    live_effectI [OF dead_letter.row_transition_axioms]
  unfolding fenced_by_def [abs_def] holds_fence.simps by (elim disjE exE) simp_all

lemma defer_exec:
  assumes "Defer env policy q db = Inr (db', b)" "queue_inv db"
  shows "(b = False \<and> db' = db) \<or>
    (\<exists>st cl a r c. exec_where (\<lambda>x. live_lease (env_clock env st cl) (df_WorkspaceID q) (df_JobID q) (df_LeaseToken q) x \<and>
       1 \<le> q_attempts x) (defer_set a r c) db = (db', b))"
proof -
  let ?g = "\<lambda>s c. live_lease (env_clock env s c) (df_WorkspaceID q) (df_JobID q) (df_LeaseToken q)"
  show ?thesis
  proof (cases "find (?g 0 0) (jobs db)")
    case None
    with assms(1) show ?thesis by (auto simp: Defer_def andThen_Inr_iff Let_def)
  next
    case (Some row)
    then obtain a r c where att: "1 \<le> q_attempts row" and e: "exec_where (?g 2 1) (defer_set a r c) db = (db', b)"
      using assms(1) by (auto simp: Defer_def andThen_Inr_iff Let_def split: option.splits if_splits)
    have row: "row \<in> set (jobs db)" "?g 0 0 row" using find_job_SomeD [OF Some] by auto
    then have "exec_where (?g 2 1) (defer_set a r c) db =
        exec_where (\<lambda>x. ?g 2 1 x \<and> 1 \<le> q_attempts x) (defer_set a r c) db"
      using att by (intro exec_where_strengthen [OF assms(2) row(1)]) (auto simp: fence_defs)
    with e show ?thesis by metis
  qed
qed

lemma defer_fenced:
  assumes "Defer env policy q db = Inr (db', b)" "queue_inv db"
  shows "fenced_effect (fenced_by env (CallDefer q)) db db' b"
  using defer_exec [OF assms]
proof (elim disjE exE)
  fix st cl a r c
  assume "exec_where (\<lambda>x. live_lease (env_clock env st cl) (df_WorkspaceID q) (df_JobID q) (df_LeaseToken q) x \<and>
    1 \<le> q_attempts x) (defer_set a r c) db = (db', b)"
  then show ?thesis
    by (rule fenced_effectI [OF deferred.row_transition_axioms, rotated]) (auto simp: fenced_by_def live_unexpired)
qed (simp add: fenced_effect_none)

lemma release_fenced:
  assumes "ReleaseUnstartedJob env q db = Inr (db', b)" "queue_inv db"
  shows "fenced_effect (fenced_by env (CallRelease q)) db db' b"
proof -
  let ?h = "held_lease (ru_WorkspaceID q) (ru_JobID q) (ru_LeaseToken q)"
  let ?g = "\<lambda>r. ?h r \<and> q_prev_attempts r \<noteq> None"
  let ?u = "release_set (env_clock env 2 0) (env_clock env 3 0)"
  have "(b = False \<and> db' = db) \<or> (\<exists>row until db1. find ?h (jobs db) = Some row \<and> q_leased_until row = Some until \<and>
      env_clock env 2 0 < until \<and> exec_where ?g ?u db = (db1, True) \<and> b \<and>
      db' = db1\<lparr>notifications := notifications db1 @ [(NotificationChannel, ConsumerClassJobRunner)]\<rparr>)"
    using assms(1)
    by (auto simp: ReleaseUnstartedJob_def andThen_Inr_iff Let_def split: option.splits if_splits prod.splits)
  then show ?thesis
  proof (elim disjE exE conjE)
    fix row until db1
    assume row: "find ?h (jobs db) = Some row" "q_leased_until row = Some until" "env_clock env 2 0 < until"
      and e: "exec_where ?g ?u db = (db1, True)" and b: "b"
      and db': "db' = db1\<lparr>notifications := notifications db1 @ [(NotificationChannel, ConsumerClassJobRunner)]\<rparr>"
    have mem: "row \<in> set (jobs db)" "?h row" using find_job_SomeD [OF row(1)] by auto
    have "unexpired (env_clock env) row" using row by (auto simp: unexpired_def)
    then have "exec_where ?g ?u db = exec_where (\<lambda>x. ?g x \<and> unexpired (env_clock env) x) ?u db"
      using mem(2) by (intro exec_where_strengthen [OF assms(2) mem(1)]) (auto simp: fence_defs)
    then have "fenced_effect (fenced_by env (CallRelease q)) db db1 True"
      using e by (intro fenced_effectI [OF row_transition_stronger [OF released.row_transition_axioms]])
        (auto simp: fenced_by_def)
    then show ?thesis using b db' by (auto simp: fenced_effect_def)
  qed (simp add: fenced_effect_none)
qed

lemma run_fenced_effect:
  "run_fenced pg env policy call db = Inr (db', b) \<Longrightarrow> queue_inv db \<Longrightarrow> fenced_effect (fenced_by env call) db db' b"
  by (cases call)
    (auto simp: andThen_Inr_iff intro: heartbeat_fenced ack_fenced retry_fenced
      defer_fenced dead_letter_fenced release_fenced)

lemma fenced_effect_facts:
  assumes "fenced_effect fence db db' b" "queue_inv db"
  shows "queue_inv db'" and "\<not> b \<Longrightarrow> db' = db" and "b \<Longrightarrow> \<exists>r\<in>set (jobs db). fence r"
    and "r \<in> set (jobs db) \<Longrightarrow> \<not> fence r \<Longrightarrow> r \<in> set (jobs db')"
    and "r \<in> set (jobs db) \<Longrightarrow> terminal (q_status r) \<Longrightarrow> r \<in> set (jobs db')"
proof -
  consider (none) "\<not> b" "db' = db"
    | (exec) guard upd db1 where "row_transition guard upd" "\<forall>r. guard r \<longrightarrow> fence r"
        "exec_where guard upd db = (db1, b)" "jobs db' = jobs db1" "counters db' = counters db1" "\<not> b \<longrightarrow> db' = db1"
    using assms(1) by (auto simp: fenced_effect_def)
  note cases = this
  show "queue_inv db'"
  proof (cases rule: cases)
    case exec
    then have "queue_inv db1" using row_transition.inv_kept [OF exec(1) assms(2)] by (auto simp: exec_where_def)
    with exec show ?thesis by (simp add: queue_inv_def)
  qed (use assms in simp)
  show "db' = db" if "\<not> b"
    by (cases rule: cases) (use that exec_where_False in auto)
  show "\<exists>r\<in>set (jobs db). fence r" if "b"
  proof (cases rule: cases)
    case exec
    with that exec_where_True [of guard upd db db1] show ?thesis by auto
  qed (use that in simp)
  show "r \<in> set (jobs db')" if "r \<in> set (jobs db)" "\<not> fence r"
  proof (cases rule: cases)
    case exec
    with that exec_where_others [OF exec(3) that(1)] show ?thesis by auto
  qed (use that in simp)
  show "r \<in> set (jobs db')" if "r \<in> set (jobs db)" "terminal (q_status r)"
  proof (cases rule: cases)
    case exec
    then show ?thesis using row_transition.terminal_kept [OF exec(1) that] by (auto simp: exec_where_def)
  qed (use that in simp)
qed

text \<open>C13: a call made with a lease token settles at most the row that holds exactly this token
  under a lease unexpired by the database clock: it reports success only if that row
  exists, a call that reports failure changes nothing, every other row keeps its state,
  and the queue's invariant survives.\<close>

theorem lease_token_fences:
  assumes "run_fenced pg env policy call db = Inr (db', b)" and "queue_inv db"
  shows "queue_inv db' \<and> (b \<longrightarrow> (\<exists>r\<in>set (jobs db). fenced_by env call r)) \<and> (\<not> b \<longrightarrow> db' = db) \<and>
    (\<forall>r\<in>set (jobs db). \<not> fenced_by env call r \<longrightarrow> r \<in> set (jobs db'))"
  using fenced_effect_facts [OF run_fenced_effect [OF assms] assms(2)] by blast

subsection \<open>A leased row\<close>

definition held_row :: queue_row where
  "held_row = (lane_row ''a'' KindRuntimeInput Ordinary 1)\<lparr>q_status := Leased, q_token := Some ''qlt_a'',
     q_leased_by := Some ''worker'', q_leased_at := Some 0, q_leased_until := Some 9000000,
     q_attempts := 3, q_prev_attempts := Some 2\<rparr>"

definition held_db :: queue_db where
  "held_db = \<lparr>jobs = [held_row], counters = [\<lparr>c_workspace = ''ws'', c_partition = ''session:ws:s'', c_last = 1,
     c_created_at = 0, c_updated_at = 0\<rparr>], notifications = []\<rparr>"

lemma held_row_ok: "row_ok held_row"
  by (simp add: row_ok_unfold delivery_ok_def held_row_def lane_row_def isKnownKind_def IsJobRunnerKind_def
      null_string_def kind_simps)

lemma held_db_inv: "queue_inv held_db"
  using held_row_ok
  by (simp add: queue_inv_def jobs_inv_def held_db_def active_dedupe_unique_def lease_exclusion_def
      counters_cover_def counter_key_def partition_key_of_def)
    (simp add: held_row_def lane_row_def)

definition held_ack :: AckRequest where
  "held_ack = \<lparr>ak_WorkspaceID = ''ws'', ak_JobID = ''a'', ak_LeaseToken = ''qlt_a'', ak_Now = 6000000\<rparr>"

definition sample_casts :: casts where
  "sample_casts = \<lparr>cast_jsonb = (\<lambda>s. Some (\<lambda>k. if k = ''input_kind'' then Some ''messages'' else None)),
     cast_bigint = (\<lambda>s. Some 0), cast_event_ids = (\<lambda>s. Some [])\<rparr>"

lemma held_live: "live_lease 5000000 ''ws'' ''a'' ''qlt_a'' held_row"
  by (simp add: fence_defs held_row_def lane_row_def)

lemma held_ack_run:
  "run_fenced sample_casts sample_env lane_policy (CallAck held_ack) held_db =
     Inr (held_db\<lparr>jobs := [ack_set 6000000 held_row]\<rparr>, True)"
  using held_live
  by (simp add: Ack_def AckTx_def held_ack_def validateFencedRequest_def request_now_def IsZero_def zero_time_def
      Durable_def exec_where_def sample_env_def held_db_def count_where_def)

theorem lease_token_fences_witness:
  "queue_inv (held_db\<lparr>jobs := [ack_set 6000000 held_row]\<rparr>) \<and> fenced_by sample_env (CallAck held_ack) held_row"
  using lease_token_fences [OF held_ack_run held_db_inv] by (simp add: held_db_def)

subsection \<open>Backoff\<close>

lemma retry_cap_min: "0 < c \<Longrightarrow> min (retry_cap M n a c) M = min M (c * 2 ^ nat (n - a))"
proof (induction M n a c rule: retry_cap.induct)
  case (1 M n a c)
  consider (stop) "\<not> (a < n \<and> c < M)" | (cap) "a < n" "c < M" "M div 2 < c" | (double) "a < n" "c < M" "\<not> M div 2 < c"
    by blast
  then show ?case
  proof cases
    case stop
    have "c * 1 \<le> c * 2 ^ nat (n - a)" using 1(2) by (intro mult_left_mono) auto
    with stop show ?thesis by (subst retry_cap.simps) (auto simp: min_def)
  next
    case cap
    then obtain k where k: "nat (n - a) = Suc k" by (cases "nat (n - a)") auto
    have "c * 2 * 1 \<le> c * 2 * 2 ^ k" using 1(2) by (intro mult_left_mono) auto
    moreover have "M < c * 2" using cap(3) by linarith
    ultimately have "M \<le> c * 2 ^ nat (n - a)" by (simp add: k mult.assoc)
    then show ?thesis using cap by (subst retry_cap.simps) (simp add: min_def)
  next
    case double
    then have "nat (n - a) = Suc (nat (n - (a + 1)))" by simp
    moreover have "min (retry_cap M n (a + 1) (c * 2)) M = min M (c * 2 * 2 ^ nat (n - (a + 1)))"
      using 1 double by simp
    ultimately show ?thesis using double by (subst retry_cap.simps) (simp add: mult.assoc)
  qed
qed

lemma int64_wrap_id: "- (2 ^ 63) \<le> i \<Longrightarrow> i < 2 ^ 63 \<Longrightarrow> int64_wrap i = i"
  by (simp add: int64_wrap_def)

text \<open>C15: with a generator that draws below its bound, the delay before a job's next attempt is
  never negative and at most the base delay doubled once per earlier attempt, capped at the
  policy's maximum; a normalised policy always yields one.\<close>

theorem retry_delay_bounds:
  assumes "p = normalizeRetryPolicy rng policy" and "pol_MaxDelay p < 2 ^ 63 - 1"
    and "\<And>f m. pol_RandomInt64 p = Some f \<Longrightarrow> 0 < m \<Longrightarrow> 0 \<le> f m \<and> f m < m"
  shows "\<exists>d. queueRetryDelay p n = Some d \<and> 0 \<le> d \<and>
    d \<le> min (pol_MaxDelay p) (pol_BaseDelay p * 2 ^ nat (n - 1))"
proof -
  let ?cap = "min (pol_MaxDelay p) (pol_BaseDelay p * 2 ^ nat (n - 1))"
  have pos: "0 < pol_BaseDelay p" "0 < pol_MaxDelay p" by (auto simp: assms(1) normalizeRetryPolicy_def)
  obtain f where f: "pol_RandomInt64 p = Some f"
    by (cases "pol_RandomInt64 policy") (auto simp: assms(1) normalizeRetryPolicy_def)
  have cap: "min (retry_cap (pol_MaxDelay p) n 1 (pol_BaseDelay p)) (pol_MaxDelay p) = ?cap"
    using retry_cap_min [OF pos(1)] by simp
  have "0 < ?cap" using pos by simp
  moreover have "?cap < 2 ^ 63 - 1" using assms(2) by linarith
  ultimately have "int64_wrap (?cap + 1) = ?cap + 1" by (intro int64_wrap_id) auto
  then have "queueRetryDelay p n = Some (f (?cap + 1))" by (simp add: queueRetryDelay_def f cap Let_def)
  moreover have "0 \<le> f (?cap + 1) \<and> f (?cap + 1) < ?cap + 1"
    using assms(3) [OF f, of "?cap + 1"] \<open>0 < ?cap\<close> by simp
  ultimately show ?thesis by auto
qed

theorem retry_delay_bounds_witness:
  "\<exists>d. queueRetryDelay lane_policy 4 = Some d \<and> 0 \<le> d \<and> d \<le> min (pol_MaxDelay lane_policy) (pol_BaseDelay lane_policy * 8)"
proof -
  have "pol_MaxDelay lane_policy < 2 ^ 63 - 1" by (simp add: lane_policy_def normalizeRetryPolicy_def)
  moreover have "0 \<le> f m \<and> f m < m" if "pol_RandomInt64 lane_policy = Some f" "0 < m" for f m
    using that by (auto simp: lane_policy_def normalizeRetryPolicy_def)
  ultimately show ?thesis using retry_delay_bounds [OF lane_policy_def, of 4] by simp
qed

subsection \<open>Outcome of a retry\<close>

lemma fenced_valid: "validateFencedRequest w i t = Inr () \<longleftrightarrow> w \<noteq> [] \<and> i \<noteq> [] \<and> t \<noteq> []"
  by (auto simp: validateFencedRequest_def andThen_Inr_iff)

text \<open>C14: a retry by the holder of a live lease settles the job by its attempt budget: a job
  whose attempts reached the budget is dead-lettered, unless it is an interrupt, agent mail
  or a Session cleanup, which is pending again at once; below the budget the job is pending
  after the drawn backoff. The attempts stay counted and the token is gone.\<close>

theorem retry_outcome:
  assumes "queue_inv db" and "r \<in> set (jobs db)"
    and "\<And>s c. live_lease (env_clock env s c) (rt_WorkspaceID q) (rt_JobID q) (rt_LeaseToken q) r"
    and "validateFencedRequest (rt_WorkspaceID q) (rt_JobID q) (rt_LeaseToken q) = Inr ()"
    and "\<not> IsZero (rt_Now q)"
    and "input_kind_is pg ''interrupt_control'' r = Inr interrupt" and "input_kind_is pg ''agent_mail'' r = Inr mail"
    and "queueRetryDelay policy (q_attempts r) = Some d"
  shows "\<exists>db' r'. Retry pg env policy q db = Inr (db', True) \<and> r' \<in> set (jobs db') \<and> same_identity r' r \<and>
    q_attempts r' = q_attempts r \<and> q_token r' = None \<and>
    (if q_attempts r < effective_budget (pol_MaxAttempts policy) r
     then q_status r' = Pending \<and> q_available_at r' = Durable (rt_Now q + d)
     else if interrupt \<or> mail \<or> q_kind r = KindCleanupSession
     then q_status r' = Pending \<and> q_available_at r' = Durable (rt_Now q)
     else q_status r' = DeadLettered \<and> q_dead_lettered_at r' = Some (Durable (rt_Now q)))"
proof -
  let ?g = "\<lambda>s c. live_lease (env_clock env s c) (rt_WorkspaceID q) (rt_JobID q) (rt_LeaseToken q)"
  have found: "find (?g 0 0) (jobs db) = Some r"
    using assms(3) [of 0 0] by (intro find_job [OF assms(1,2)]) (auto simp: fence_defs)
  have hit: "\<exists>db'. exec_where (?g s c) u db = (db', True) \<and> u r \<in> set (jobs db')" for s c u
    using exec_where_hit [of r db "?g s c" u] assms(2,3) by auto
  note unf = Retry_def assms(4) found assms(5-8) request_now_def effective_budget_def Let_def
  consider (below) "q_attempts r < effective_budget (pol_MaxAttempts policy) r"
    | (barrier) "\<not> q_attempts r < effective_budget (pol_MaxAttempts policy) r"
        "interrupt \<or> mail \<or> q_kind r = KindCleanupSession"
    | (dead) "\<not> q_attempts r < effective_budget (pol_MaxAttempts policy) r"
        "\<not> (interrupt \<or> mail \<or> q_kind r = KindCleanupSession)" by blast
  then show ?thesis
  proof cases
    case below
    let ?u = "\<lambda>r. failed_set (rt_ErrorKind q) (rt_ErrorMessage q) (pending_set (Durable (rt_Now q + d))
      (env_clock env 1 0 + Microseconds d * Microsecond) (Durable (rt_Now q)) r)"
    obtain db' where e: "exec_where (?g 1 1) ?u db = (db', True)" "?u r \<in> set (jobs db')" using hit by blast
    have "Retry pg env policy q db = Inr (db', True)" using below e(1) by (simp add: unf)
    then show ?thesis
      using e(2) below by (intro exI [of _ db'] exI [of _ "?u r"]) (simp add: set_defs same_identity_def)
  next
    case barrier
    let ?u = "\<lambda>r. failed_set (rt_ErrorKind q) (rt_ErrorMessage q) (pending_set (Durable (rt_Now q))
      (env_clock env 1 0) (Durable (rt_Now q)) r)"
    obtain db' where e: "exec_where (?g 1 1) ?u db = (db', True)" "?u r \<in> set (jobs db')" using hit by blast
    have "Retry pg env policy q db = Inr (db', True)" using barrier e(1) by (simp add: unf)
    then show ?thesis
      using e(2) barrier by (intro exI [of _ db'] exI [of _ "?u r"]) (simp add: set_defs same_identity_def)
  next
    case dead
    let ?u = "dead_letter_set (Durable (rt_Now q)) (rt_ErrorKind q) (rt_ErrorMessage q)"
    obtain db' where e: "exec_where (?g 1 0) ?u db = (db', True)" "?u r \<in> set (jobs db')" using hit by blast
    have "Retry pg env policy q db = Inr (db', True)" using dead e(1) by (simp add: unf)
    then show ?thesis
      using e(2) dead by (intro exI [of _ db'] exI [of _ "?u r"]) (simp add: set_defs same_identity_def)
  qed
qed

definition held_retry :: RetryRequest where
  "held_retry = \<lparr>rt_WorkspaceID = ''ws'', rt_JobID = ''a'', rt_LeaseToken = ''qlt_a'', rt_ErrorKind = ''timeout'',
     rt_ErrorMessage = [], rt_Now = 6000000\<rparr>"

theorem retry_outcome_witness:
  "\<exists>db' r'. Retry sample_casts sample_env lane_policy held_retry held_db = Inr (db', True) \<and>
     r' \<in> set (jobs db') \<and> q_attempts r' = 3 \<and> q_status r' = Pending \<and> q_available_at r' = 6000000"
proof -
  have mem: "held_row \<in> set (jobs held_db)" by (simp add: held_db_def)
  have d: "queueRetryDelay lane_policy (q_attempts held_row) = Some 0"
    by (simp add: queueRetryDelay_def lane_policy_def normalizeRetryPolicy_def Let_def)
  have b: "q_attempts held_row < effective_budget (pol_MaxAttempts lane_policy) held_row"
    by (simp add: effective_budget_def held_row_def lane_row_def)
  have i: "input_kind_is sample_casts ''interrupt_control'' held_row = Inr False"
    "input_kind_is sample_casts ''agent_mail'' held_row = Inr False"
    by (simp_all add: input_kind_is_def sample_casts_def held_row_def lane_row_def)
  have "live_lease (env_clock sample_env s c) (rt_WorkspaceID held_retry) (rt_JobID held_retry)
      (rt_LeaseToken held_retry) held_row" for s c
    using held_live by (simp add: sample_env_def held_retry_def)
  moreover have "validateFencedRequest (rt_WorkspaceID held_retry) (rt_JobID held_retry) (rt_LeaseToken held_retry) = Inr ()"
    "\<not> IsZero (rt_Now held_retry)"
    by (simp_all add: fenced_valid held_retry_def IsZero_def zero_time_def)
  ultimately obtain db' r' where "Retry sample_casts sample_env lane_policy held_retry held_db = Inr (db', True)"
    "r' \<in> set (jobs db')" "q_attempts r' = q_attempts held_row" "q_status r' = Pending"
    "q_available_at r' = Durable (rt_Now held_retry + 0)"
    using retry_outcome [OF held_db_inv mem _ _ _ i d] b by force
  then show ?thesis by (auto simp: held_row_def held_retry_def Durable_def)
qed

subsection \<open>Deferral and release give the attempt back\<close>

text \<open>A successful deferral makes a leased configuration update or environment build pending
  again with the attempt the lease counted taken back, one more deferral counted, and the
  recorded error kept.\<close>

theorem defer_refunds_attempt:
  assumes "Defer env policy q db = Inr (db', True)" and "queue_inv db"
  shows "\<exists>r r'. r \<in> set (jobs db) \<and> r' \<in> set (jobs db') \<and> held_lease (df_WorkspaceID q) (df_JobID q) (df_LeaseToken q) r \<and>
    same_identity r' r \<and> q_status r' = Pending \<and> q_attempts r' = q_attempts r - 1 \<and> 0 \<le> q_attempts r' \<and>
    q_defers r' = q_defers r + 1 \<and> q_token r' = None \<and> q_error_kind r' = q_error_kind r"
proof -
  obtain st cl a b c where e: "exec_where (\<lambda>x. live_lease (env_clock env st cl) (df_WorkspaceID q) (df_JobID q)
      (df_LeaseToken q) x \<and> 1 \<le> q_attempts x) (defer_set a b c) db = (db', True)"
    using defer_exec [OF assms] by auto
  obtain r where "r \<in> set (jobs db)" "live_lease (env_clock env st cl) (df_WorkspaceID q) (df_JobID q) (df_LeaseToken q) r"
    "1 \<le> q_attempts r" "defer_set a b c r \<in> set (jobs db')"
    using exec_where_True [OF e] by blast
  then show ?thesis
    by (intro exI [of _ r] exI [of _ "defer_set a b c r"]) (auto simp: set_defs same_identity_def live_lease_def)
qed

definition build_fields :: payload where
  "build_fields = [(''workspace_id'', JString ''ws''), (''environment_id'', JString ''e''), (''generation'', JString ''1'')]"

definition held_build :: queue_row where
  "held_build = (build_row ''b'' 1)\<lparr>q_status := Leased, q_token := Some ''qlt_b'', q_leased_by := Some ''builder'',
     q_leased_at := Some 0, q_leased_until := Some 9000000, q_attempts := 1,
     q_dedupe := Some ''environment_build:ws:e:1'', q_payload := Marshal (JObject build_fields)\<rparr>"

definition build_db :: queue_db where
  "build_db = \<lparr>jobs = [held_build], counters = [\<lparr>c_workspace = ''ws'', c_partition = ''environment:ws:e'', c_last = 1,
     c_created_at = 0, c_updated_at = 0\<rparr>], notifications = []\<rparr>"

definition build_defer :: DeferRequest where
  "build_defer = \<lparr>df_WorkspaceID = ''ws'', df_JobID = ''b'', df_LeaseToken = ''qlt_b'', df_Now = 6000000\<rparr>"

lemma held_build_fields [simp]:
  "q_kind held_build = KindEnvironmentBuild" "q_id held_build = ''b''" "q_workspace held_build = ''ws''"
  "q_partition held_build = ''environment:ws:e''" "q_dedupe held_build = Some ''environment_build:ws:e:1''"
  "q_payload held_build = Marshal (JObject build_fields)" "q_attempts held_build = 1" "q_status held_build = Leased"
  "q_token held_build = Some ''qlt_b''" "q_leased_until held_build = Some 9000000" "q_seq held_build = 1"
  by (simp_all add: held_build_def build_row_def lane_row_def del: Marshal.simps)

lemma build_db_inv: "queue_inv build_db"
proof -
  have "row_ok held_build"
    by (simp add: row_ok_unfold delivery_ok_def held_build_def build_row_def lane_row_def isKnownKind_def
        IsJobRunnerKind_def null_string_def kind_simps del: Marshal.simps)
  then show ?thesis
    by (simp add: queue_inv_def jobs_inv_def build_db_def active_dedupe_unique_def lease_exclusion_def
        counters_cover_def counter_key_def partition_key_of_def del: Marshal.simps)
qed

lemma build_shape: "validateCanonicalQueueShape (deferred_shape build_defer held_build) = Inr ()"
proof -
  have ok: "json_ok (JObject build_fields)" "json_depth (JObject build_fields) \<le> maxNestingDepth"
    by (simp_all add: build_fields_def maxNestingDepth_def) (code_simp+)?
  note dec = decode_Marshal(1) [OF ok]
  have "isKnownKind KindEnvironmentBuild" "\<not> IsSandboxJobKind KindEnvironmentBuild"
    by (simp_all add: isKnownKind_def IsSandboxJobKind_def kind_simps)
  then show ?thesis
    by (simp add: validateCanonicalQueueShape_def deferred_shape_def build_defer_def dec null_string_def
        payload_workspace_def Let_def del: Marshal.simps)
      (simp add: build_fields_def payloadTokens_def payloadToken_def shape_of_kind_def shape_environment_build_def
        validatePayloadKeys_def requiredPayloadTokens_def requiredPayloadToken_def requireCanonicalKeys_def
        kind_simps token_at_def Let_def
        FormatEnvironmentPartitionKey_def FormatPartitionKey_def FormatEnvironmentBuildDedupeKey_def
        formatQueueDedupeKey_def)
qed

lemma build_live: "live_lease 5000000 ''ws'' ''b'' ''qlt_b'' held_build"
  by (simp add: fence_defs)

lemma build_defer_fields [simp]:
  "df_WorkspaceID build_defer = ''ws''" "df_JobID build_defer = ''b''" "df_LeaseToken build_defer = ''qlt_b''"
  by (simp_all add: build_defer_def)

lemma build_defer_run: "\<exists>db'. Defer sample_env lane_policy build_defer build_db = Inr (db', True)"
  using build_live build_shape
  by (simp add: Defer_def validateFencedRequest_def build_db_def sample_env_def kind_simps exec_where_def
      count_where_def Let_def del: Marshal.simps)

theorem defer_refunds_attempt_witness:
  "\<exists>db' r'. Defer sample_env lane_policy build_defer build_db = Inr (db', True) \<and> r' \<in> set (jobs db') \<and>
     q_status r' = Pending \<and> q_attempts r' = 0"
proof -
  obtain db' where d: "Defer sample_env lane_policy build_defer build_db = Inr (db', True)"
    using build_defer_run by blast
  obtain r r' where "r \<in> set (jobs build_db)" "r' \<in> set (jobs db')" "q_status r' = Pending" "q_attempts r' = q_attempts r - 1"
    using defer_refunds_attempt [OF d build_db_inv] by blast
  with d show ?thesis by (auto simp: build_db_def)
qed

subsection \<open>Release\<close>

lemma release_row:
  assumes "ReleaseUnstartedJob env q db = Inr (db', True)"
  shows "\<exists>r n. r \<in> set (jobs db) \<and> held_lease (ru_WorkspaceID q) (ru_JobID q) (ru_LeaseToken q) r \<and>
    q_prev_attempts r = Some n \<and> release_set (env_clock env 2 0) (env_clock env 3 0) r \<in> set (jobs db') \<and>
    (NotificationChannel, ConsumerClassJobRunner) \<in> set (notifications db')"
proof -
  let ?h = "held_lease (ru_WorkspaceID q) (ru_JobID q) (ru_LeaseToken q)"
  obtain db1 where e: "exec_where (\<lambda>r. ?h r \<and> q_prev_attempts r \<noteq> None)
      (release_set (env_clock env 2 0) (env_clock env 3 0)) db = (db1, True)"
    and db': "db' = db1\<lparr>notifications := notifications db1 @ [(NotificationChannel, ConsumerClassJobRunner)]\<rparr>"
    using assms
    by (auto simp: ReleaseUnstartedJob_def andThen_Inr_iff Let_def split: option.splits if_splits prod.splits)
  show ?thesis using exec_where_True [OF e] db' by auto
qed

subsection \<open>Reclaiming\<close>

lemma reclaim_loop_facts:
  assumes "reclaim_loop clk s k m xs db n = (db', n')" "queue_inv db" "distinct (map q_id xs)"
    "set xs \<subseteq> set (jobs db)" "\<forall>x\<in>set xs. q_status x = Leased"
  shows "queue_inv db' \<and> n' = n + length xs \<and> (\<forall>x\<in>set xs. \<exists>s. reclaim_set clk s k m x \<in> set (jobs db')) \<and>
    (\<forall>r\<in>set (jobs db). r \<notin> set xs \<longrightarrow> r \<in> set (jobs db')) \<and> counters db' = counters db"
  using assms
proof (induction xs arbitrary: s db n)
  case (Cons x xs)
  let ?g = "\<lambda>r. named_job (q_workspace x) (q_id x) r \<and> q_status r = Leased"
  let ?u = "reclaim_set clk s k m"
  have x: "x \<in> set (jobs db)" "?g x" using Cons.prems by (auto simp: named_job_def)
  define db1 where "db1 = db\<lparr>jobs := upd_where ?g ?u (jobs db)\<rparr>"
  have e: "exec_where ?g ?u db = (db1, True)" and ux: "?u x \<in> set (jobs db1)"
    using exec_where_hit [of x db ?g ?u] x by (auto simp: db1_def)
  have inv: "queue_inv db1" unfolding db1_def by (rule reclaimed.inv_kept [OF Cons.prems(2)])
  have kept: "r \<in> set (jobs db1)" if "r \<in> set (jobs db)" "r \<noteq> x" for r
    using exec_where_others [OF e that(1)] same_job [OF Cons.prems(2) that(1) x(1)] that(2)
    by (auto simp: named_job_def)
  have "x \<notin> set xs" using Cons.prems(3) by auto
  then have sub: "set xs \<subseteq> set (jobs db1)" using Cons.prems(4) kept by auto
  have ih: "queue_inv db' \<and> n' = Suc n + length xs \<and> (\<forall>x\<in>set xs. \<exists>s. reclaim_set clk s k m x \<in> set (jobs db')) \<and>
      (\<forall>r\<in>set (jobs db1). r \<notin> set xs \<longrightarrow> r \<in> set (jobs db')) \<and> counters db' = counters db1"
    using Cons.IH [of "Suc s" db1 "Suc n"] Cons.prems(1,3,5) e inv sub by simp
  have "q_status (?u x) = Pending" by (simp add: set_defs)
  then have "?u x \<notin> set xs" using Cons.prems(5) by auto
  then have "?u x \<in> set (jobs db')" using ih ux by blast
  with ih kept show ?case by (auto simp: db1_def)
qed simp

definition expired_row :: "(bytes \<Rightarrow> bool) \<Rightarrow> clock \<Rightarrow> ReclaimExpiredLeasesRequest \<Rightarrow> nat \<Rightarrow> queue_row \<Rightarrow> bool" where
  "expired_row locked clk q i r \<longleftrightarrow> (re_WorkspaceID q = [] \<or> q_workspace r = re_WorkspaceID q) \<and>
     q_status r = Leased \<and> (case q_leased_until r of Some until \<Rightarrow> until \<le> clk 0 i | None \<Rightarrow> False) \<and>
     (re_Kind q = [] \<or> q_kind r = re_Kind q) \<and> \<not> locked (q_id r)"

lemma expired_leases_alt:
  "expired_leases coll locked clk q limit rs = take (nat limit) (sort_by (expired_order coll) (map snd
     (filter (\<lambda>(i, r). expired_row locked clk q i r) (enumerate 0 rs))))"
  by (simp add: expired_leases_def expired_row_def)

lemma expired_leases_sound:
  assumes "x \<in> set (expired_leases coll locked clk q limit rs)"
  shows "\<exists>i<length rs. x = rs ! i \<and> expired_row locked clk q i x"
  using in_set_takeD [OF assms [unfolded expired_leases_alt]]
  by (auto simp: in_set_enumerate_eq)

lemma length_filter_imp: "(\<And>x. P x \<Longrightarrow> Q x) \<Longrightarrow> length (filter P xs) \<le> length (filter Q xs)"
  by (induction xs) (auto simp: le_SucI)

lemma expired_leases_complete:
  assumes "i < length rs" "expired_row locked clk q i (rs ! i)"
    and "int (count_where (\<lambda>r. q_status r = Leased) rs) \<le> limit"
  shows "rs ! i \<in> set (expired_leases coll locked clk q limit rs)"
proof -
  let ?f = "filter (\<lambda>(i, r). expired_row locked clk q i r) (enumerate 0 rs)"
  have "length ?f \<le> length (filter (\<lambda>(i, r). q_status r = Leased) (enumerate 0 rs))"
    by (rule length_filter_imp) (auto simp: expired_row_def)
  also have "\<dots> = length (map snd (filter (\<lambda>(i, r). q_status r = Leased) (enumerate 0 rs)))" by simp
  also have "map snd (filter (\<lambda>(i, r). q_status r = Leased) (enumerate 0 rs)) =
      filter (\<lambda>r. q_status r = Leased) (map snd (enumerate 0 rs))"
    by (simp only: filter_map o_def case_prod_unfold)
  finally have "length ?f \<le> nat limit" using assms(3) by (simp add: count_where_def)
  moreover have "rs ! i \<in> snd ` set ?f"
    using assms(1,2) by (force simp: in_set_enumerate_eq)
  ultimately show ?thesis by (simp add: expired_leases_alt)
qed

lemma expired_leases_distinct:
  assumes "distinct (map q_id rs)"
  shows "distinct (map q_id (expired_leases coll locked clk q limit rs))"
proof -
  have "distinct (map q_id (map snd (enumerate 0 rs)))" using assms by simp
  then have "distinct (map (\<lambda>p. q_id (snd p)) (enumerate 0 rs))" unfolding map_map o_def .
  then have "distinct (map q_id (map snd (filter (\<lambda>(i, r). expired_row locked clk q i r) (enumerate 0 rs))))"
    using distinct_map_filter [of "\<lambda>p. q_id (snd p)" "enumerate 0 rs"] by (simp add: o_def)
  then have "distinct (map q_id (sort_by (expired_order coll) (map snd
      (filter (\<lambda>(i, r). expired_row locked clk q i r) (enumerate 0 rs)))))" by simp
  then show ?thesis unfolding expired_leases_alt take_map [symmetric] by (rule distinct_take)
qed

lemma reclaimed_gone:
  assumes "queue_inv db'" "reclaim_set clk s k m x \<in> set (jobs db')" "q_status x = Leased"
  shows "x \<notin> set (jobs db')"
proof
  assume "x \<in> set (jobs db')"
  moreover have "q_id (reclaim_set clk s k m x) = q_id x" by (simp add: set_defs)
  ultimately have "reclaim_set clk s k m x = x" using same_job [OF assms(1,2)] by blast
  moreover have "q_status (reclaim_set clk s k m x) = Pending" by (simp add: set_defs)
  ultimately show False using assms(3) by simp
qed

text \<open>C16: reclaiming keeps the queue's invariant and changes only leases that had expired by
  the database clock; each it takes is pending again with its attempts counted and no
  token, the result is their number, and a limit no smaller than the number of leases
  leaves no expired lease that another transaction has not locked.\<close>

theorem reclaim_recovers:
  assumes "ReclaimExpiredLeases coll locked env q db = Inr (db', n)" and "queue_inv db"
  defines "limit \<equiv> if re_Limit q = 0 then 100 else re_Limit q"
  shows "queue_inv db' \<and> n = card (set (jobs db) - set (jobs db')) \<and>
    (\<forall>r\<in>set (jobs db). r \<in> set (jobs db') \<or>
       ((\<exists>until s c. q_status r = Leased \<and> q_leased_until r = Some until \<and> until \<le> env_clock env s c) \<and>
        (\<exists>r'\<in>set (jobs db'). same_identity r' r \<and> q_status r' = Pending \<and> q_attempts r' = q_attempts r \<and> q_token r' = None))) \<and>
    (int (count_where (\<lambda>r. q_status r = Leased) (jobs db)) \<le> limit \<longrightarrow>
      (\<forall>i<length (jobs db). expired_row locked (env_clock env) q i (jobs db ! i) \<longrightarrow> jobs db ! i \<notin> set (jobs db')))"
proof -
  let ?k = "defaultString (re_ErrorKind q) ''lease_expired''"
  let ?m = "defaultString (re_ErrorMessage q) ''queue lease expired''"
  define xs where "xs = expired_leases coll locked (env_clock env) q limit (jobs db)"
  have loop: "reclaim_loop (env_clock env) 1 ?k ?m xs db 0 = (db', n)"
    using assms(1) by (auto simp: ReclaimExpiredLeases_def andThen_Inr_iff Let_def xs_def limit_def)
  have sound: "\<exists>i<length (jobs db). x = jobs db ! i \<and> expired_row locked (env_clock env) q i x" if "x \<in> set xs" for x
    using expired_leases_sound that unfolding xs_def by blast
  have dist: "distinct (map q_id xs)"
    using assms(2) expired_leases_distinct by (simp add: xs_def queue_inv_def jobs_inv_def)
  have old: "x \<in> set (jobs db) \<and> q_status x = Leased" if "x \<in> set xs" for x
    using sound [OF that] by (auto simp: expired_row_def)
  have facts: "queue_inv db'" "n = length xs" "\<forall>x\<in>set xs. \<exists>s. reclaim_set (env_clock env) s ?k ?m x \<in> set (jobs db')"
    "\<forall>r\<in>set (jobs db). r \<notin> set xs \<longrightarrow> r \<in> set (jobs db')"
    using reclaim_loop_facts [OF loop assms(2) dist] old by (auto simp: subset_iff)
  have gone: "x \<notin> set (jobs db')" if "x \<in> set xs" for x
    using reclaimed_gone [OF facts(1)] facts(3) old that by blast
  then have "set (jobs db) - set (jobs db') = set xs" using facts(4) old by blast
  then have "n = card (set (jobs db) - set (jobs db'))"
    using facts(2) distinct_card [of xs] dist by (simp add: distinct_map)
  moreover have "r \<in> set (jobs db') \<or>
       ((\<exists>until s c. q_status r = Leased \<and> q_leased_until r = Some until \<and> until \<le> env_clock env s c) \<and>
        (\<exists>r'\<in>set (jobs db'). same_identity r' r \<and> q_status r' = Pending \<and> q_attempts r' = q_attempts r \<and> q_token r' = None))"
    if r: "r \<in> set (jobs db)" for r
  proof (cases "r \<in> set xs")
    case True
    then obtain s where "reclaim_set (env_clock env) s ?k ?m r \<in> set (jobs db')" using facts by blast
    then have "\<exists>r'\<in>set (jobs db'). same_identity r' r \<and> q_status r' = Pending \<and> q_attempts r' = q_attempts r \<and> q_token r' = None"
      by (rule rev_bexI) (simp add: set_defs same_identity_def)
    with sound [OF True] show ?thesis by (auto simp: expired_row_def split: option.splits)
  qed (use facts r in blast)
  moreover have "jobs db ! i \<notin> set (jobs db')"
    if "int (count_where (\<lambda>r. q_status r = Leased) (jobs db)) \<le> limit" "i < length (jobs db)"
      "expired_row locked (env_clock env) q i (jobs db ! i)" for i
    using gone expired_leases_complete [OF that(2,3,1)] by (simp add: xs_def)
  ultimately show ?thesis using facts(1) by blast
qed

definition held_reclaim :: ReclaimExpiredLeasesRequest where
  "held_reclaim = \<lparr>re_WorkspaceID = [], re_Kind = [], re_Limit = 0, re_ErrorKind = [], re_ErrorMessage = []\<rparr>"

definition late_env :: tx_env where
  "late_env = sample_env\<lparr>env_clock := (\<lambda>s c. 9500000)\<rparr>"

theorem reclaim_recovers_witness:
  "\<exists>db' n. ReclaimExpiredLeases go_string_le (\<lambda>i. False) late_env held_reclaim held_db = Inr (db', n) \<and>
     queue_inv db' \<and> held_row \<notin> set (jobs db')"
proof -
  obtain db' n where r: "ReclaimExpiredLeases go_string_le (\<lambda>i. False) late_env held_reclaim held_db = Inr (db', n)"
    by (auto simp: ReclaimExpiredLeases_def validateReclaimExpiredLeasesRequest_def held_reclaim_def Let_def)
      (metis surj_pair)
  have "expired_row (\<lambda>i. False) (env_clock late_env) held_reclaim 0 held_row"
    by (simp add: expired_row_def held_reclaim_def late_env_def held_row_def)
  then show ?thesis
    using r reclaim_recovers [OF r held_db_inv] by (auto simp: held_db_def held_reclaim_def count_where_def)
qed

end
