(* ===== verification/Queue_Custody_Facts.thy ===== *)
theory Queue_Custody_Facts
  imports Queue_Custody Queue_Transition_Facts
begin

section \<open>Facts about Queue and Inbox custody\<close>

text \<open>
  Every custody transaction keeps the invariant of both tables, and the two
  tables change together: a fence cancels a message in both or in neither, a
  leased input is closed or requeued in both, and a malformed job is replaced
  by one canonical job of the same Inbox identity.
\<close>

definition custody_inv :: "custody_db \<Rightarrow> bool" where
  "custody_inv db \<longleftrightarrow> queue_inv (cu_queue db) \<and> inbox_inv (cu_inbox db)"

subsection \<open>The Inbox\<close>

lemma inbox_upd_where:
  assumes "inbox_inv inbox" "\<And>i. guard i \<Longrightarrow> inbox_key (upd i) = inbox_key i"
    and "\<And>i. i \<in> set inbox \<Longrightarrow> guard i \<Longrightarrow> inbox_checks i \<Longrightarrow> inbox_checks (upd i)"
  shows "inbox_inv (upd_where guard upd inbox)"
proof -
  have "map inbox_key (upd_where guard upd inbox) = map inbox_key inbox"
    by (rule upd_where_map_id) (rule assms(2))
  with assms show ?thesis by (auto simp: inbox_inv_def set_upd_where)
qed

lemma inbox_closed:
  assumes "inbox_inv inbox" "st = ''cancelled'' \<or> st = ''dead_lettered''"
  shows "inbox_inv (upd_where guard (inbox_status_set st now) inbox)"
proof (rule inbox_upd_where [OF assms(1)])
  fix i assume "inbox_checks i"
  then show "inbox_checks (inbox_status_set st now i)"
    using assms(2)
    by (auto simp: inbox_checks_def inbox_sequence_shape_def inbox_binding_shape_def inbox_status_set_def
        inbox_unbound_def inbox_bound_def)
qed (simp add: inbox_key_def inbox_status_set_def)

lemma inbox_requeued: "inbox_inv inbox \<Longrightarrow> inbox_inv (upd_where guard (inbox_requeue_set now) inbox)"
  by (rule inbox_upd_where)
    (auto simp: inbox_key_def inbox_requeue_set_def inbox_checks_def inbox_sequence_shape_def
      inbox_binding_shape_def inbox_unbound_def)

lemma same_inbox:
  "inbox_inv inbox \<Longrightarrow> i \<in> set inbox \<Longrightarrow> j \<in> set inbox \<Longrightarrow> inbox_key i = inbox_key j \<Longrightarrow> i = j"
  using distinct_map_inj [of inbox_key inbox i j] by (simp add: inbox_inv_def)

subsection \<open>Interpretations of the contract\<close>

interpretation cancelled_lease: row_transition "live_lease clock w i t" "cancel_leased_set now"
  for clock w i t now
  by unfold_locales
    (auto simp: fence_defs cancel_leased_set_def clear_lease_def same_identity_def row_ok_unfold active_def)

interpretation deferred_lease: row_transition "\<lambda>r. live_lease clock w i t r \<and> 0 < q_attempts r" "defer_leased_set now ready"
  for clock w i t now ready
  by unfold_locales
    (auto simp: fence_defs defer_leased_set_def set_defs same_identity_def row_ok_unfold active_def)

interpretation retired: row_transition "live_lease clock w i t" "retire_malformed_set now"
  for clock w i t now
  by unfold_locales
    (auto simp: fence_defs retire_malformed_set_def malformed_error_def set_defs same_identity_def
      row_ok_unfold active_def)

subsection \<open>The fence\<close>

lemma fenced_message_True:
  "fenced_message pg q r = Inr True \<Longrightarrow> q_workspace r = cn_WorkspaceID q \<and> q_status r = Pending \<and>
    q_partition r = FormatSessionPartitionKey (cn_WorkspaceID q) (cn_SessionID q) \<and> q_kind r = KindRuntimeInput"
  by (auto simp: fenced_message_def split: if_splits)

lemma candidate_queue_iff:
  "(j, x) \<in> set (candidate_queue pg q rs inbox) \<longleftrightarrow>
    (\<exists>r\<in>set rs. \<exists>i\<in>set inbox. j = q_id r \<and> x = ib_input i \<and> fenced_message pg q r = Inr True \<and>
      follower_inbox pg q r i)"
  by (auto simp: candidate_queue_def)

text \<open>The rows the fence takes: a message fenced by the cancellation with a cancellable Inbox.\<close>

definition fence_follower :: "casts \<Rightarrow> CancelRequest \<Rightarrow> inbox_row list \<Rightarrow> queue_row \<Rightarrow> bool" where
  "fence_follower pg q inbox r \<longleftrightarrow> fenced_message pg q r = Inr True \<and> (\<exists>i\<in>set inbox. follower_inbox pg q r i)"

lemma follower_ids:
  assumes "queue_inv db" "r \<in> set (jobs db)"
  shows "q_workspace r = cn_WorkspaceID q \<and> q_id r \<in> fst ` set (candidate_queue pg q (jobs db) inbox) \<longleftrightarrow>
    fence_follower pg q inbox r"
proof
  assume "q_workspace r = cn_WorkspaceID q \<and> q_id r \<in> fst ` set (candidate_queue pg q (jobs db) inbox)"
  then obtain s i where "s \<in> set (jobs db)" "q_id r = q_id s" "fenced_message pg q s = Inr True"
    "i \<in> set inbox" "follower_inbox pg q s i"
    by (force simp: candidate_queue_iff)
  with same_job [OF assms(1,2)] show "fence_follower pg q inbox r" by (auto simp: fence_follower_def)
next
  assume "fence_follower pg q inbox r"
  then show "q_workspace r = cn_WorkspaceID q \<and> q_id r \<in> fst ` set (candidate_queue pg q (jobs db) inbox)"
    using assms(2) fenced_message_True [of pg q r] unfolding fence_follower_def
    by (metis candidate_queue_iff fst_conv image_eqI)
qed

lemma fence_exec:
  assumes "CancelInterruptFencedMessagesTx pg env q db = Inr (db', b, n, ids)" "queue_inv (cu_queue db)"
  defines "c \<equiv> fence_cancel_request q"
  defines "follower \<equiv> fence_follower pg c (cu_inbox db)"
  defines "now \<equiv> Durable (request_now env (cn_Now c))"
  defines "inboxGuard \<equiv> \<lambda>i. ib_workspace i = cn_WorkspaceID c \<and> ib_session i = cn_SessionID c \<and>
    ib_thread i = cn_SessionThreadID c \<and> ib_input i \<in> snd ` set (candidate_queue pg c (jobs (cu_queue db)) (cu_inbox db))"
  shows "(b = False \<and> db' = db) \<or>
    (b \<and> AssertExactLeaseTx env (if_Lease q) (cu_queue db) = Inr True \<and>
     db' = db\<lparr>cu_queue := (cu_queue db)\<lparr>jobs := upd_where follower (cancel_set now) (jobs (cu_queue db))\<rparr>,
       cu_inbox := upd_where inboxGuard (inbox_status_set ''cancelled'' now) (cu_inbox db)\<rparr> \<and>
     n = count_where follower (jobs (cu_queue db)) \<and> n = count_where inboxGuard (cu_inbox db))"
proof -
  let ?rs = "jobs (cu_queue db)"
  let ?g = "\<lambda>r. q_workspace r = cn_WorkspaceID c \<and> q_id r \<in> fst ` set (candidate_queue pg c ?rs (cu_inbox db))"
  have eq: "upd_where ?g f ?rs = upd_where follower f ?rs" "count_where ?g ?rs = count_where follower ?rs" for f
    using upd_where_cong [of ?rs ?g follower f] filter_cong [of ?rs ?rs ?g follower]
      follower_ids [OF assms(2), of _ c pg "cu_inbox db"]
    by (auto simp: follower_def count_where_def)
  show ?thesis
    using assms(1) eq
    by (auto simp: CancelInterruptFencedMessagesTx_def Let_def andThen_Inr_iff c_def [symmetric]
        now_def [symmetric] inboxGuard_def [symmetric] split: if_splits)
qed

lemma inbox_guard_iff:
  assumes "inbox_inv inbox" "i \<in> set inbox"
  shows "ib_workspace i = cn_WorkspaceID c \<and> ib_session i = cn_SessionID c \<and> ib_thread i = cn_SessionThreadID c \<and>
      ib_input i \<in> snd ` set (candidate_queue pg c rs inbox) \<longleftrightarrow>
    (\<exists>r\<in>set rs. fenced_message pg c r = Inr True \<and> follower_inbox pg c r i)"
proof
  assume g: "ib_workspace i = cn_WorkspaceID c \<and> ib_session i = cn_SessionID c \<and> ib_thread i = cn_SessionThreadID c \<and>
      ib_input i \<in> snd ` set (candidate_queue pg c rs inbox)"
  then obtain r j where r: "r \<in> set rs" "fenced_message pg c r = Inr True" "j \<in> set inbox" "follower_inbox pg c r j"
    "ib_input i = ib_input j"
    by (force simp: candidate_queue_iff)
  then have "inbox_key i = inbox_key j"
    using g fenced_message_True [OF r(2)] by (auto simp: inbox_key_def follower_inbox_def)
  with same_inbox [OF assms r(3)] r show "\<exists>r\<in>set rs. fenced_message pg c r = Inr True \<and> follower_inbox pg c r i" by blast
next
  assume "\<exists>r\<in>set rs. fenced_message pg c r = Inr True \<and> follower_inbox pg c r i"
  then obtain r where r: "r \<in> set rs" "fenced_message pg c r = Inr True" "follower_inbox pg c r i" by blast
  then have "(q_id r, ib_input i) \<in> set (candidate_queue pg c rs inbox)"
    using assms(2) candidate_queue_iff by blast
  with r(3) fenced_message_True [OF r(2)]
  show "ib_workspace i = cn_WorkspaceID c \<and> ib_session i = cn_SessionID c \<and> ib_thread i = cn_SessionThreadID c \<and>
      ib_input i \<in> snd ` set (candidate_queue pg c rs inbox)"
    by (force simp: follower_inbox_def)
qed

lemma fence_inv:
  assumes "CancelInterruptFencedMessagesTx pg env q db = Inr (db', b, n, ids)" "custody_inv db"
  shows "custody_inv db'"
proof -
  have q: "queue_inv (cu_queue db)" and i: "inbox_inv (cu_inbox db)" using assms(2) by (auto simp: custody_inv_def)
  let ?f = "fence_follower pg (fence_cancel_request q) (cu_inbox db)"
  have "(\<lambda>r. ?f r \<and> q_status r = Pending) = ?f"
    by (rule ext) (auto simp: fence_follower_def dest: fenced_message_True)
  then have "queue_inv ((cu_queue db)\<lparr>jobs := upd_where ?f (cancel_set now) (jobs (cu_queue db))\<rparr>)" for now
    using cancelled.inv_kept [OF q, of ?f now] by simp
  then show ?thesis
    using fence_exec [OF assms(1) q] inbox_closed [OF i] assms(2) by (auto simp: custody_inv_def)
qed

lemma upd_where_split:
  assumes "r \<in> set rs" and "\<And>r. P r \<Longrightarrow> Q (f r) r"
  shows "if P r then \<exists>r'\<in>set (upd_where P f rs). Q r' r else r \<in> set (upd_where P f rs)"
  using assms by (force simp: set_upd_where)

lemma fence_inbox_split:
  assumes "inbox_inv inbox" "i \<in> set inbox"
    and "inbox' = upd_where (\<lambda>i. ib_workspace i = cn_WorkspaceID c \<and> ib_session i = cn_SessionID c \<and>
      ib_thread i = cn_SessionThreadID c \<and> ib_input i \<in> snd ` set (candidate_queue pg c rs inbox))
      (inbox_status_set ''cancelled'' now) inbox"
  shows "if \<exists>r\<in>set rs. fenced_message pg c r = Inr True \<and> follower_inbox pg c r i
    then \<exists>i'\<in>set inbox'. inbox_key i' = inbox_key i \<and> ib_status i' = ''cancelled''
    else i \<in> set inbox'"
  unfolding assms(3) inbox_guard_iff [OF assms(1,2), of c pg rs, symmetric]
  by (rule upd_where_split [OF assms(2), where Q = "\<lambda>i' i. inbox_key i' = inbox_key i \<and> ib_status i' = ''cancelled''"])
    (simp add: inbox_key_def inbox_status_set_def)

text \<open>C17: an interrupt fence that reports an active lease holds the exact live lease of its
  interrupt, and cancels precisely the pending messages of the Session's Thread below the
  fence whose Inbox rows are still cancellable, in the Queue and in the Inbox alike; every
  other row of both tables is as it was, and a fence without the lease changes nothing.\<close>

theorem interrupt_fence_cancels_both:
  assumes "CancelInterruptFencedMessagesTx pg env q db = Inr (db', b, n, ids)" and "custody_inv db"
    and "c = fence_cancel_request q"
  shows "custody_inv db' \<and> (\<not> b \<longrightarrow> db' = db) \<and>
    (b \<longrightarrow> AssertExactLeaseTx env (if_Lease q) (cu_queue db) = Inr True \<and>
      (\<forall>r\<in>set (jobs (cu_queue db)).
         if fence_follower pg c (cu_inbox db) r
         then \<exists>r'\<in>set (jobs (cu_queue db')). same_identity r' r \<and> q_status r' = Cancelled
         else r \<in> set (jobs (cu_queue db'))) \<and>
      (\<forall>i\<in>set (cu_inbox db).
         if \<exists>r\<in>set (jobs (cu_queue db)). fenced_message pg c r = Inr True \<and> follower_inbox pg c r i
         then \<exists>i'\<in>set (cu_inbox db'). inbox_key i' = inbox_key i \<and> ib_status i' = ''cancelled''
         else i \<in> set (cu_inbox db')) \<and>
      n = count_where (fence_follower pg c (cu_inbox db)) (jobs (cu_queue db)))"
proof (cases b)
  case False
  then show ?thesis
    using fence_exec [OF assms(1)] fence_inv [OF assms(1,2)] assms(2) by (auto simp: custody_inv_def)
next
  case True
  have qi: "queue_inv (cu_queue db)" and ii: "inbox_inv (cu_inbox db)" using assms(2) by (auto simp: custody_inv_def)
  let ?f = "fence_follower pg c (cu_inbox db)"
  let ?now = "Durable (request_now env (cn_Now c))"
  have ex: "AssertExactLeaseTx env (if_Lease q) (cu_queue db) = Inr True"
    "jobs (cu_queue db') = upd_where ?f (cancel_set ?now) (jobs (cu_queue db))"
    "cu_inbox db' = upd_where (\<lambda>i. ib_workspace i = cn_WorkspaceID c \<and> ib_session i = cn_SessionID c \<and>
      ib_thread i = cn_SessionThreadID c \<and> ib_input i \<in> snd ` set (candidate_queue pg c (jobs (cu_queue db)) (cu_inbox db)))
      (inbox_status_set ''cancelled'' ?now) (cu_inbox db)"
    "n = count_where ?f (jobs (cu_queue db))"
    using fence_exec [OF assms(1) qi] True by (auto simp: assms(3))
  have q: "if ?f r then \<exists>r'\<in>set (jobs (cu_queue db')). same_identity r' r \<and> q_status r' = Cancelled
      else r \<in> set (jobs (cu_queue db'))" if "r \<in> set (jobs (cu_queue db))" for r
    unfolding ex(2) using upd_where_split [OF that, where P = ?f and f = "cancel_set ?now"
        and Q = "\<lambda>r' r. same_identity r' r \<and> q_status r' = Cancelled"]
    by (simp add: cancel_set_def same_identity_def)
  show ?thesis
    using q fence_inbox_split [OF ii _ ex(3)] ex(1,4) True fence_inv [OF assms(1,2)] by blast
qed

subsection \<open>A concrete custody state\<close>

text \<open>PostgreSQL's casts, instantiated by the JSON of this development.\<close>

fun json_text :: "json \<Rightarrow> bytes option" where
  "json_text JNull = None"
| "json_text (JBool b) = Some (if b then ''true'' else ''false'')"
| "json_text (JNumber v) = Some v"
| "json_text (JString v) = Some v"
| "json_text v = Some (Marshal v)"

definition json_casts :: casts where
  "json_casts =
     \<lparr>cast_jsonb = (\<lambda>s. case decodePayloadObject s of
          Inl e \<Rightarrow> None
        | Inr kvs \<Rightarrow> Some (\<lambda>k. Option.bind (field kvs k) json_text)),
      cast_bigint = ParseInt,
      cast_event_ids = (\<lambda>s. case decodePayloadObject s of
          Inl e \<Rightarrow> None
        | Inr kvs \<Rightarrow> (case field kvs ''event_ids'' of
            None \<Rightarrow> Some []
          | Some (JArray vs) \<Rightarrow> Some (map json_text vs)
          | Some _ \<Rightarrow> None))\<rparr>"

definition input_payload :: "bytes \<Rightarrow> bytes list \<Rightarrow> int \<Rightarrow> int \<Rightarrow> bytes \<Rightarrow> payload" where
  "input_payload rid ids a b kind = replacement_payload ''ws'' ''s'' ''t'' rid ids a b kind"

definition fence_interrupt :: queue_row where
  "fence_interrupt = (lane_row ''i'' KindRuntimeInput Interrupt 2)\<lparr>q_status := Leased, q_token := Some ''qlt_i'',
     q_leased_by := Some ''worker'', q_leased_at := Some 0, q_leased_until := Some 9000000, q_attempts := 1,
     q_payload := Marshal (JObject (input_payload ''ri'' [''e9''] 9 9 ''interrupt_control''))\<rparr>"

definition fence_message :: queue_row where
  "fence_message = (lane_row ''m'' KindRuntimeInput Ordinary 1)
     \<lparr>q_payload := Marshal (JObject (input_payload ''rm'' [''e1''] 3 4 ''messages''))\<rparr>"

definition fence_inbox :: inbox_row where
  "fence_inbox = \<lparr>ib_workspace = ''ws'', ib_session = ''s'', ib_thread = ''t'', ib_input = ''rm'', ib_kind = ''messages'',
     ib_event_ids = ''[]'', ib_from = Some 3, ib_to = Some 4, ib_status = ''queued'', ib_binding = None,
     ib_generation = None, ib_pod = None, ib_updated_at = 0\<rparr>"

definition fence_db :: custody_db where
  "fence_db = \<lparr>cu_queue = \<lparr>jobs = [fence_message, fence_interrupt],
     counters = [\<lparr>c_workspace = ''ws'', c_partition = ''session:ws:s'', c_last = 2, c_created_at = 0,
       c_updated_at = 0\<rparr>], notifications = []\<rparr>, cu_inbox = [fence_inbox]\<rparr>"

definition fence_request :: InterruptFenceRequest where
  "fence_request = \<lparr>if_Lease = \<lparr>xl_WorkspaceID = ''ws'', xl_JobID = ''i'', xl_LeaseToken = ''qlt_i'',
       xl_Kind = KindRuntimeInput, xl_PartitionKey = ''session:ws:s'', xl_DedupeKey = ''i''\<rparr>,
     if_SessionID = ''s'', if_SessionThreadID = ''t'', if_InterruptFenceSequence = 9, if_Now = 6000000\<rparr>"

lemma strings_depth: "foldr max (map (json_depth \<circ> JString) ids) 0 \<le> 1"
  by (induction ids) auto

lemma replacement_decode:
  assumes "ValidString ws" "ValidString sid" "ValidString tid" "ValidString rid" "\<forall>x\<in>set ids. ValidString x"
    "ValidString kind"
  shows "decodePayloadObject (Marshal (JObject (replacement_payload ws sid tid rid ids a b kind))) =
    Inr (replacement_payload ws sid tid rid ids a b kind)"
proof (rule decode_Marshal(1))
  show "json_ok (JObject (replacement_payload ws sid tid rid ids a b kind))"
    using assms json_ok_FormatInt [of a] json_ok_FormatInt [of b]
    by (simp add: replacement_payload_def list_all_iff)
  show "json_depth (JObject (replacement_payload ws sid tid rid ids a b kind)) \<le> maxNestingDepth"
    using strings_depth [of ids] by (simp add: replacement_payload_def maxNestingDepth_def)
qed

lemma sample_valid:
  "ValidString ''ws''" "ValidString ''s''" "ValidString ''t''" "ValidString ''ri''" "ValidString ''rm''"
  "ValidString ''e1''" "ValidString ''e9''" "ValidString ''messages''" "ValidString ''interrupt_control''"
  by (auto intro!: ValidString_ascii)

lemma fence_payloads:
  "decodePayloadObject (q_payload fence_interrupt) = Inr (input_payload ''ri'' [''e9''] 9 9 ''interrupt_control'')"
  "decodePayloadObject (q_payload fence_message) = Inr (input_payload ''rm'' [''e1''] 3 4 ''messages'')"
  using sample_valid
  by (simp_all add: fence_interrupt_def fence_message_def input_payload_def replacement_decode del: Marshal.simps)

lemma fence_row_fields [simp]:
  "q_workspace fence_interrupt = ''ws''" "q_id fence_interrupt = ''i''" "q_kind fence_interrupt = KindRuntimeInput"
  "q_partition fence_interrupt = ''session:ws:s''" "q_status fence_interrupt = Leased"
  "q_token fence_interrupt = Some ''qlt_i''" "q_leased_until fence_interrupt = Some 9000000"
  "q_dedupe fence_interrupt = Some ''i''" "q_seq fence_interrupt = 2"
  "q_workspace fence_message = ''ws''" "q_id fence_message = ''m''" "q_kind fence_message = KindRuntimeInput"
  "q_partition fence_message = ''session:ws:s''" "q_status fence_message = Pending"
  "q_dedupe fence_message = Some ''m''" "q_token fence_message = None" "q_seq fence_message = 1"
  by (simp_all add: fence_interrupt_def fence_message_def lane_row_def del: Marshal.simps)

lemma fence_db_inv: "custody_inv fence_db"
proof -
  have "row_ok fence_message" "row_ok fence_interrupt"
    by (simp_all add: row_ok_unfold delivery_ok_def fence_message_def fence_interrupt_def lane_row_def isKnownKind_def
        null_string_def del: Marshal.simps)
  moreover have "inbox_inv [fence_inbox]"
    by (simp add: inbox_inv_def inbox_checks_def inbox_sequence_shape_def inbox_binding_shape_def inbox_unbound_def
        fence_inbox_def isRuntimeInputKind_def)
  ultimately show ?thesis
    by (simp add: custody_inv_def fence_db_def queue_inv_def jobs_inv_def active_dedupe_unique_def lease_exclusion_def
        counters_cover_def counter_key_def partition_key_of_def dedupe_key_of_def active_def)
qed

lemma fence_members:
  "cast_jsonb json_casts (q_payload fence_interrupt) =
     Some (\<lambda>k. Option.bind (field (input_payload ''ri'' [''e9''] 9 9 ''interrupt_control'') k) json_text)"
  "cast_jsonb json_casts (q_payload fence_message) =
     Some (\<lambda>k. Option.bind (field (input_payload ''rm'' [''e1''] 3 4 ''messages'') k) json_text)"
  "cast_event_ids json_casts (q_payload fence_message) = Some [Some ''e1'']"
  by (simp_all add: json_casts_def fence_payloads) (simp add: input_payload_def replacement_payload_def)

lemma fence_numbers: "cast_bigint json_casts (FormatInt 9) = Some 9" "cast_bigint json_casts (FormatInt 4) = Some 4"
  by (simp_all add: json_casts_def ParseInt_FormatInt in_int64_def int64_min_def int64_max_def)

lemma fence_lookups:
  "fenced_message json_casts (fence_cancel_request fence_request) fence_message = Inr True"
  "fenced_message json_casts (fence_cancel_request fence_request) fence_interrupt = Inr False"
  "follower_inbox json_casts (fence_cancel_request fence_request) fence_message fence_inbox"
  by (simp_all add: fenced_message_def fence_cancel_request_def fence_request_def fence_members fence_numbers
      FormatSessionPartitionKey_def FormatPartitionKey_def follower_inbox_def member_text_def)
    (simp_all add: input_payload_def replacement_payload_def fence_inbox_def fence_numbers)

lemma fence_lease: "AssertExactLeaseTx sample_env (if_Lease fence_request) (cu_queue fence_db) = Inr True"
  by (simp add: AssertExactLeaseTx_def validateFencedRequest_def lease_active_def held_lease_def named_job_def
      fence_request_def fence_db_def sample_env_def kind_simps)

lemma fence_locked: "locked_row (if_Lease fence_request) (cu_queue fence_db) = Inr fence_interrupt"
  by (simp add: locked_row_def named_job_def fence_request_def fence_db_def)

lemma fence_candidates:
  "candidate_queue json_casts (fence_cancel_request fence_request) [fence_message, fence_interrupt] [fence_inbox] =
     [(''m'', ''rm'')]"
  using fence_lookups by (simp add: candidate_queue_def fence_inbox_def)

lemma fence_run: "\<exists>db'. CancelInterruptFencedMessagesTx json_casts sample_env fence_request fence_db = Inr (db', True, 1, [''e1''])"
proof -
  let ?c = "fence_cancel_request fence_request"
  have valid: "validateCancelRequest ?c = Inr ()"
    by (simp add: validateCancelRequest_def fence_cancel_request_def fence_request_def)
  have lease: "xl_Kind (if_Lease fence_request) = KindRuntimeInput"
    "xl_PartitionKey (if_Lease fence_request) =
      FormatSessionPartitionKey (xl_WorkspaceID (if_Lease fence_request)) (if_SessionID fence_request)"
    by (simp_all add: fence_request_def FormatSessionPartitionKey_def FormatPartitionKey_def)
  have members: "payload_member json_casts ''session_id'' fence_interrupt = Inr (if_SessionID fence_request)"
    "payload_member json_casts ''session_thread_id'' fence_interrupt = Inr (if_SessionThreadID fence_request)"
    "payload_member json_casts ''input_kind'' fence_interrupt = Inr ''interrupt_control''"
    "payload_bigint json_casts ''sequence_to'' fence_interrupt = Inr (if_InterruptFenceSequence fence_request)"
    by (simp_all add: payload_bigint_def payload_member_def fence_members)
      (simp_all add: input_payload_def replacement_payload_def fence_request_def fence_numbers)
  have rs: "jobs (cu_queue fence_db) = [fence_message, fence_interrupt]" "cu_inbox fence_db = [fence_inbox]"
    by (simp_all add: fence_db_def)
  have coords: "cn_WorkspaceID ?c = ''ws''" "cn_SessionID ?c = ''s''" "cn_SessionThreadID ?c = ''t''"
    by (simp_all add: fence_cancel_request_def fence_request_def)
  have inbox: "ib_workspace fence_inbox = ''ws''" "ib_session fence_inbox = ''s''" "ib_thread fence_inbox = ''t''"
    "ib_input fence_inbox = ''rm''"
    by (simp_all add: fence_inbox_def)
  show ?thesis
    unfolding CancelInterruptFencedMessagesTx_def Let_def
    by (simp add: valid lease fence_lease fence_locked members rs fence_lookups fence_candidates coords inbox
        fence_members count_where_def null_string_def)
qed

theorem interrupt_fence_cancels_both_witness:
  "\<exists>db' n ids. CancelInterruptFencedMessagesTx json_casts sample_env fence_request fence_db = Inr (db', True, n, ids) \<and>
     (\<exists>r'\<in>set (jobs (cu_queue db')). q_id r' = ''m'' \<and> q_status r' = Cancelled) \<and>
     (\<exists>i'\<in>set (cu_inbox db'). ib_input i' = ''rm'' \<and> ib_status i' = ''cancelled'')"
proof -
  let ?c = "fence_cancel_request fence_request"
  obtain db' where run: "CancelInterruptFencedMessagesTx json_casts sample_env fence_request fence_db = Inr (db', True, 1, [''e1''])"
    using fence_run by blast
  have rs: "jobs (cu_queue fence_db) = [fence_message, fence_interrupt]" "cu_inbox fence_db = [fence_inbox]"
    by (simp_all add: fence_db_def)
  have "fence_follower json_casts ?c (cu_inbox fence_db) fence_message"
    using fence_lookups by (simp add: fence_follower_def rs)
  then obtain r' where "r' \<in> set (jobs (cu_queue db'))" "same_identity r' fence_message" "q_status r' = Cancelled"
    using interrupt_fence_cancels_both [OF run fence_db_inv refl] rs by (auto split: if_splits)
  moreover obtain i' where "i' \<in> set (cu_inbox db')" "inbox_key i' = inbox_key fence_inbox" "ib_status i' = ''cancelled''"
    using interrupt_fence_cancels_both [OF run fence_db_inv refl] rs fence_lookups by (auto split: if_splits)
  ultimately have "\<exists>r'\<in>set (jobs (cu_queue db')). q_id r' = ''m'' \<and> q_status r' = Cancelled"
    "\<exists>i'\<in>set (cu_inbox db'). ib_input i' = ''rm'' \<and> ib_status i' = ''cancelled''"
    by (auto simp: same_identity_def inbox_key_def fence_inbox_def)
  with run show ?thesis by blast
qed

subsection \<open>One leased runtime input\<close>

lemma cancel_leased_exec:
  assumes "CancelLeasedRuntimeInputCustodyTx pg env q db = Inr (db', b)"
  defines "lease \<equiv> cl_Lease q" and "now \<equiv> Durable (request_now env (cl_Now q))"
  defines "custody \<equiv> inbox_custody (xl_WorkspaceID lease) (cl_SessionID q) (cl_RuntimeInputID q) (cl_InputKind q)
    [''queued'', ''delivering'', ''accepted'']"
  shows "(b = False \<and> db' = db) \<or>
    (b \<and> (\<exists>queue'. exec_where (live_lease (env_clock env 4 0) (xl_WorkspaceID lease) (xl_JobID lease)
         (xl_LeaseToken lease)) (cancel_leased_set now) (cu_queue db) = (queue', True) \<and>
       (\<exists>i\<in>set (cu_inbox db). custody i) \<and>
       db' = \<lparr>cu_queue = queue', cu_inbox = upd_where custody (inbox_status_set ''cancelled'' now) (cu_inbox db)\<rparr>))"
  using assms(1)
  by (auto simp: CancelLeasedRuntimeInputCustodyTx_def Let_def andThen_Inr_iff lease_def [symmetric]
      now_def [symmetric] custody_def [symmetric] split: if_splits prod.splits)

lemma defer_leased_exec:
  assumes "DeferLeasedRuntimeInputCustodyTx pg env q db = Inr (db', b)"
  defines "lease \<equiv> dr_Lease q" and "now \<equiv> Durable (request_now env (dr_Now q))"
  defines "custody \<equiv> inbox_custody (xl_WorkspaceID lease) (dr_SessionID q) (dr_RuntimeInputID q) (dr_InputKind q)
    [''queued'', ''delivering'']"
  defines "live \<equiv> \<lambda>r. live_lease (env_clock env 3 (Suc 0)) (xl_WorkspaceID lease) (xl_JobID lease) (xl_LeaseToken lease) r \<and>
    0 < q_attempts r"
  shows "(b = False \<and> db' = db) \<or>
    (b \<and> (\<exists>r\<in>set (jobs (cu_queue db)). live r) \<and> (\<exists>i\<in>set (cu_inbox db). custody i) \<and>
       db' = \<lparr>cu_queue = (cu_queue db)\<lparr>jobs := upd_where live (defer_leased_set now (env_clock env 3 0)) (jobs (cu_queue db))\<rparr>,
         cu_inbox = upd_where custody (inbox_requeue_set now) (cu_inbox db)\<rparr>)"
proof -
  have pos: "count_where live (jobs (cu_queue db)) = 1 \<Longrightarrow> \<exists>r\<in>set (jobs (cu_queue db)). live r"
    "count_where custody (cu_inbox db) = 1 \<Longrightarrow> \<exists>i\<in>set (cu_inbox db). custody i"
    using count_where_pos_iff [of live "jobs (cu_queue db)"] count_where_pos_iff [of custody "cu_inbox db"] by auto
  show ?thesis
    using assms(1) pos
    by (auto simp: DeferLeasedRuntimeInputCustodyTx_def Let_def andThen_Inr_iff lease_def [symmetric]
        now_def [symmetric] custody_def [symmetric] live_def [symmetric] split: if_splits)
qed

lemma cancel_leased_inv:
  assumes "CancelLeasedRuntimeInputCustodyTx pg env q db = Inr (db', b)" "custody_inv db"
  shows "custody_inv db'"
  using cancel_leased_exec [OF assms(1)] cancelled_lease.inv_kept assms(2) inbox_closed
  by (auto simp: custody_inv_def exec_where_def)

lemma defer_leased_inv:
  assumes "DeferLeasedRuntimeInputCustodyTx pg env q db = Inr (db', b)" "custody_inv db"
  shows "custody_inv db'"
  using defer_leased_exec [OF assms(1)] deferred_lease.inv_kept assms(2) inbox_requeued
  by (auto simp: custody_inv_def)

lemma cancel_leased_rows:
  assumes run: "CancelLeasedRuntimeInputCustodyTx pg env q db = Inr (db', True)"
  shows "\<exists>r'\<in>set (jobs (cu_queue db')). named_job (xl_WorkspaceID (cl_Lease q)) (xl_JobID (cl_Lease q)) r' \<and> q_status r' = Cancelled"
    and "\<exists>i'\<in>set (cu_inbox db'). inbox_key i' = (xl_WorkspaceID (cl_Lease q), cl_RuntimeInputID q) \<and> ib_status i' = ''cancelled''"
proof -
  let ?c = "inbox_custody (xl_WorkspaceID (cl_Lease q)) (cl_SessionID q) (cl_RuntimeInputID q) (cl_InputKind q)
    [''queued'', ''delivering'', ''accepted'']"
  let ?now = "Durable (request_now env (cl_Now q))"
  let ?l = "live_lease (env_clock env 4 0) (xl_WorkspaceID (cl_Lease q)) (xl_JobID (cl_Lease q)) (xl_LeaseToken (cl_Lease q))"
  obtain queue' i where e: "exec_where ?l (cancel_leased_set ?now) (cu_queue db) = (queue', True)"
    and i: "i \<in> set (cu_inbox db)" "?c i"
    and db': "cu_queue db' = queue'" "cu_inbox db' = upd_where ?c (inbox_status_set ''cancelled'' ?now) (cu_inbox db)"
    using cancel_leased_exec [OF run] by auto
  obtain r where "?l r" "cancel_leased_set ?now r \<in> set (jobs queue')" using exec_where_True [OF e] by blast
  then show "\<exists>r'\<in>set (jobs (cu_queue db')). named_job (xl_WorkspaceID (cl_Lease q)) (xl_JobID (cl_Lease q)) r' \<and> q_status r' = Cancelled"
    by (auto simp: db' fence_defs cancel_leased_set_def clear_lease_def intro!: rev_bexI)
  have "inbox_status_set ''cancelled'' ?now i \<in> set (cu_inbox db')" using i by (force simp: db' set_upd_where)
  then show "\<exists>i'\<in>set (cu_inbox db'). inbox_key i' = (xl_WorkspaceID (cl_Lease q), cl_RuntimeInputID q) \<and> ib_status i' = ''cancelled''"
    by (rule rev_bexI) (use i in \<open>simp add: inbox_key_def inbox_status_set_def inbox_custody_def\<close>)
qed

lemma defer_leased_rows:
  assumes run: "DeferLeasedRuntimeInputCustodyTx pg env d db = Inr (db', True)"
  shows "\<exists>r\<in>set (jobs (cu_queue db)). \<exists>r'\<in>set (jobs (cu_queue db')).
      held_lease (xl_WorkspaceID (dr_Lease d)) (xl_JobID (dr_Lease d)) (xl_LeaseToken (dr_Lease d)) r \<and>
      same_identity r' r \<and> q_status r' = Pending \<and> q_attempts r' = q_attempts r - 1 \<and> 0 \<le> q_attempts r'"
    and "\<exists>i'\<in>set (cu_inbox db'). inbox_key i' = (xl_WorkspaceID (dr_Lease d), dr_RuntimeInputID d) \<and>
      ib_status i' = ''queued'' \<and> inbox_unbound i'"
proof -
  let ?c = "inbox_custody (xl_WorkspaceID (dr_Lease d)) (dr_SessionID d) (dr_RuntimeInputID d) (dr_InputKind d)
    [''queued'', ''delivering'']"
  let ?now = "Durable (request_now env (dr_Now d))"
  let ?l = "\<lambda>r. live_lease (env_clock env 3 (Suc 0)) (xl_WorkspaceID (dr_Lease d)) (xl_JobID (dr_Lease d)) (xl_LeaseToken (dr_Lease d)) r \<and>
    0 < q_attempts r"
  let ?u = "defer_leased_set ?now (env_clock env 3 0)"
  obtain r i where r: "r \<in> set (jobs (cu_queue db))" "?l r" and i: "i \<in> set (cu_inbox db)" "?c i"
    and db': "jobs (cu_queue db') = upd_where ?l ?u (jobs (cu_queue db))"
      "cu_inbox db' = upd_where ?c (inbox_requeue_set ?now) (cu_inbox db)"
    using defer_leased_exec [OF run] by auto
  have "?u r \<in> set (jobs (cu_queue db'))" using r by (force simp: db' set_upd_where)
  moreover have "held_lease (xl_WorkspaceID (dr_Lease d)) (xl_JobID (dr_Lease d)) (xl_LeaseToken (dr_Lease d)) r"
    using r(2) by (simp add: live_lease_def)
  moreover have "same_identity (?u r) r" "q_status (?u r) = Pending" "q_attempts (?u r) = q_attempts r - 1" "0 \<le> q_attempts (?u r)"
    using r(2) by (simp_all add: defer_leased_set_def set_defs same_identity_def)
  ultimately show "\<exists>r\<in>set (jobs (cu_queue db)). \<exists>r'\<in>set (jobs (cu_queue db')).
      held_lease (xl_WorkspaceID (dr_Lease d)) (xl_JobID (dr_Lease d)) (xl_LeaseToken (dr_Lease d)) r \<and>
      same_identity r' r \<and> q_status r' = Pending \<and> q_attempts r' = q_attempts r - 1 \<and> 0 \<le> q_attempts r'"
    using r(1) by blast
  have "inbox_requeue_set ?now i \<in> set (cu_inbox db')" using i by (force simp: db' set_upd_where)
  then show "\<exists>i'\<in>set (cu_inbox db'). inbox_key i' = (xl_WorkspaceID (dr_Lease d), dr_RuntimeInputID d) \<and>
      ib_status i' = ''queued'' \<and> inbox_unbound i'"
    by (rule rev_bexI) (use i in \<open>simp add: inbox_key_def inbox_requeue_set_def inbox_custody_def inbox_unbound_def\<close>)
qed

text \<open>Every job but the leased one and every Inbox row but the input's are as they were.\<close>

definition others_kept :: "ExactLeaseRequest \<Rightarrow> bytes \<Rightarrow> custody_db \<Rightarrow> custody_db \<Rightarrow> bool" where
  "others_kept lease input db db' \<longleftrightarrow>
     (\<forall>r\<in>set (jobs (cu_queue db)). \<not> held_lease (xl_WorkspaceID lease) (xl_JobID lease) (xl_LeaseToken lease) r \<longrightarrow>
        r \<in> set (jobs (cu_queue db'))) \<and>
     (\<forall>i\<in>set (cu_inbox db). inbox_key i \<noteq> (xl_WorkspaceID lease, input) \<longrightarrow> i \<in> set (cu_inbox db'))"

lemma upd_where_kept: "r \<in> set rs \<Longrightarrow> \<not> guard r \<Longrightarrow> r \<in> set (upd_where guard upd rs)"
  by (force simp: set_upd_where)

lemma cancel_leased_others:
  assumes "CancelLeasedRuntimeInputCustodyTx pg env q db = Inr (db', b)"
  shows "others_kept (cl_Lease q) (cl_RuntimeInputID q) db db'"
  using cancel_leased_exec [OF assms]
  by (auto simp: others_kept_def exec_where_def live_lease_def inbox_custody_def inbox_key_def intro!: upd_where_kept)

lemma defer_leased_others:
  assumes "DeferLeasedRuntimeInputCustodyTx pg env d db = Inr (db', b)"
  shows "others_kept (dr_Lease d) (dr_RuntimeInputID d) db db'"
  using defer_leased_exec [OF assms]
  by (auto simp: others_kept_def live_lease_def inbox_custody_def inbox_key_def intro!: upd_where_kept)

text \<open>C18: a barrier decision that cancels a leased runtime input moves both tables or neither:
  it succeeds only when the lease is live and the Inbox row active, and then leaves the job
  and its Inbox row cancelled; every other row of both tables is as it was, and an
  inactive lease changes nothing.\<close>

theorem barrier_cancels_both:
  assumes "CancelLeasedRuntimeInputCustodyTx pg env q db = Inr (db', b)" and "custody_inv db"
  shows "custody_inv db' \<and> (\<not> b \<longrightarrow> db' = db) \<and>
    (b \<longrightarrow> (\<exists>r'\<in>set (jobs (cu_queue db')). named_job (xl_WorkspaceID (cl_Lease q)) (xl_JobID (cl_Lease q)) r' \<and> q_status r' = Cancelled) \<and>
      (\<exists>i'\<in>set (cu_inbox db'). inbox_key i' = (xl_WorkspaceID (cl_Lease q), cl_RuntimeInputID q) \<and> ib_status i' = ''cancelled'')) \<and>
    others_kept (cl_Lease q) (cl_RuntimeInputID q) db db'"
proof (cases b)
  case True
  then have run: "CancelLeasedRuntimeInputCustodyTx pg env q db = Inr (db', True)" using assms(1) by simp
  show ?thesis using cancel_leased_inv [OF assms] cancel_leased_rows [OF run] cancel_leased_others [OF assms(1)] True by blast
next
  case False
  then show ?thesis
    using cancel_leased_inv [OF assms] cancel_leased_exec [OF assms(1)] cancel_leased_others [OF assms(1)] by simp
qed

text \<open>C19: a barrier decision that defers a leased runtime input takes back the attempt of the
  lease and makes the job pending exactly when it puts the Inbox row back to queued and
  unbound; every other row of both tables is as it was, and an inactive lease changes
  nothing.\<close>

theorem barrier_defers_both:
  assumes "DeferLeasedRuntimeInputCustodyTx pg env d db = Inr (db', b)" and "custody_inv db"
  shows "custody_inv db' \<and> (\<not> b \<longrightarrow> db' = db) \<and>
    (b \<longrightarrow> (\<exists>r\<in>set (jobs (cu_queue db)). \<exists>r'\<in>set (jobs (cu_queue db')).
        held_lease (xl_WorkspaceID (dr_Lease d)) (xl_JobID (dr_Lease d)) (xl_LeaseToken (dr_Lease d)) r \<and>
        same_identity r' r \<and> q_status r' = Pending \<and> q_attempts r' = q_attempts r - 1 \<and> 0 \<le> q_attempts r') \<and>
      (\<exists>i'\<in>set (cu_inbox db'). inbox_key i' = (xl_WorkspaceID (dr_Lease d), dr_RuntimeInputID d) \<and>
        ib_status i' = ''queued'' \<and> inbox_unbound i')) \<and>
    others_kept (dr_Lease d) (dr_RuntimeInputID d) db db'"
proof (cases b)
  case True
  then have run: "DeferLeasedRuntimeInputCustodyTx pg env d db = Inr (db', True)" using assms(1) by simp
  show ?thesis using defer_leased_inv [OF assms] defer_leased_rows [OF run] defer_leased_others [OF assms(1)] True by blast
next
  case False
  then show ?thesis
    using defer_leased_inv [OF assms] defer_leased_exec [OF assms(1)] defer_leased_others [OF assms(1)] by simp
qed

definition single_db :: "queue_row \<Rightarrow> inbox_row \<Rightarrow> custody_db" where
  "single_db r i = \<lparr>cu_queue = \<lparr>jobs = [r], counters = [\<lparr>c_workspace = ''ws'', c_partition = ''session:ws:s'', c_last = 2,
     c_created_at = 0, c_updated_at = 0\<rparr>], notifications = []\<rparr>, cu_inbox = [i]\<rparr>"

lemma single_db_inv:
  assumes "row_ok r" "inbox_checks i" "q_workspace r = ''ws''" "q_partition r = ''session:ws:s''" "q_seq r \<le> 2"
  shows "custody_inv (single_db r i)"
  using assms
  by (simp add: custody_inv_def single_db_def queue_inv_def jobs_inv_def active_dedupe_unique_def lease_exclusion_def
      counters_cover_def counter_key_def partition_key_of_def inbox_inv_def)

definition exact_lease :: "queue_row \<Rightarrow> ExactLeaseRequest" where
  "exact_lease r = \<lparr>xl_WorkspaceID = q_workspace r, xl_JobID = q_id r, xl_LeaseToken = null_string (q_token r),
     xl_Kind = q_kind r, xl_PartitionKey = q_partition r, xl_DedupeKey = null_string (q_dedupe r)\<rparr>"

lemma single_lease:
  assumes "q_status r = Leased" "q_workspace r \<noteq> []" "q_id r \<noteq> []" "q_kind r \<noteq> []" "q_partition r \<noteq> []"
    and "q_token r = Some t" "t \<noteq> []" "q_dedupe r = Some d" "d \<noteq> []" "q_leased_until r = Some until" "5000000 < until"
  shows "AssertExactLeaseTx sample_env (exact_lease r) (cu_queue (single_db r i)) = Inr True"
    and "locked_row (exact_lease r) (cu_queue (single_db r i)) = Inr r"
    and "live_lease (env_clock sample_env s c) (xl_WorkspaceID (exact_lease r)) (xl_JobID (exact_lease r))
      (xl_LeaseToken (exact_lease r)) r"
  using assms
  by (simp_all add: AssertExactLeaseTx_def validateFencedRequest_def lease_active_def fence_defs locked_row_def
      exact_lease_def single_db_def sample_env_def null_string_def)

definition leased_message :: queue_row where
  "leased_message = fence_message\<lparr>q_status := Leased, q_token := Some ''qlt_m'', q_leased_by := Some ''worker'',
     q_leased_at := Some 0, q_leased_until := Some 9000000, q_attempts := 1\<rparr>"

lemma leased_message_fields [simp]:
  "q_workspace leased_message = ''ws''" "q_id leased_message = ''m''" "q_kind leased_message = KindRuntimeInput"
  "q_partition leased_message = ''session:ws:s''" "q_status leased_message = Leased" "q_seq leased_message = 1"
  "q_token leased_message = Some ''qlt_m''" "q_leased_until leased_message = Some 9000000"
  "q_dedupe leased_message = Some ''m''" "q_payload leased_message = q_payload fence_message" "q_attempts leased_message = 1"
  by (simp_all add: leased_message_def)

lemma leased_message_inv: "custody_inv (single_db leased_message fence_inbox)"
  by (rule single_db_inv)
    (simp_all add: row_ok_unfold delivery_ok_def leased_message_def fence_message_def lane_row_def isKnownKind_def
      null_string_def inbox_checks_def inbox_sequence_shape_def inbox_binding_shape_def inbox_unbound_def
      fence_inbox_def isRuntimeInputKind_def del: Marshal.simps)

lemma leased_message_lease:
  "AssertExactLeaseTx sample_env (exact_lease leased_message) (cu_queue (single_db leased_message i)) = Inr True"
  "locked_row (exact_lease leased_message) (cu_queue (single_db leased_message i)) = Inr leased_message"
  "live_lease (env_clock sample_env s c) (xl_WorkspaceID (exact_lease leased_message)) (xl_JobID (exact_lease leased_message))
    (xl_LeaseToken (exact_lease leased_message)) leased_message"
  by (rule single_lease [where t = "''qlt_m''" and d = "''m''" and until = 9000000]; simp add: kind_simps)+

lemma leased_message_identity: "payload_identity json_casts leased_message = Inr (''s'', ''rm'', ''messages'')"
  by (simp add: payload_identity_def payload_member_def fence_members)
    (simp add: input_payload_def replacement_payload_def)

lemma message_custody: "''queued'' \<in> set sts \<Longrightarrow> inbox_custody ''ws'' ''s'' ''rm'' ''messages'' sts fence_inbox"
  by (simp add: inbox_custody_def fence_inbox_def)

lemma exact_lease_fields:
  "xl_WorkspaceID (exact_lease leased_message) = ''ws''" "xl_Kind (exact_lease leased_message) = KindRuntimeInput"
  by (simp_all add: exact_lease_def)

definition message_cancel :: CancelLeasedRuntimeInputRequest where
  "message_cancel = \<lparr>cl_Lease = exact_lease leased_message, cl_SessionID = ''s'', cl_RuntimeInputID = ''rm'',
     cl_InputKind = ''messages'', cl_Now = 6000000\<rparr>"

definition message_defer :: DeferLeasedRuntimeInputRequest where
  "message_defer = \<lparr>dr_Lease = exact_lease leased_message, dr_SessionID = ''s'', dr_RuntimeInputID = ''rm'',
     dr_InputKind = ''messages'', dr_Now = 6000000\<rparr>"

lemma single_db_jobs [simp]: "jobs (cu_queue (single_db r i)) = [r]" "cu_inbox (single_db r i) = [i]"
  by (simp_all add: single_db_def)

lemma message_cancel_run:
  "\<exists>db'. CancelLeasedRuntimeInputCustodyTx json_casts sample_env message_cancel (single_db leased_message fence_inbox) = Inr (db', True)"
  using leased_message_lease leased_message_identity message_custody [of "[''queued'', ''delivering'', ''accepted'']"]
  by (simp add: CancelLeasedRuntimeInputCustodyTx_def message_cancel_def exact_lease_fields exec_where_def count_where_def
      Let_def split: prod.splits)

lemma message_defer_run:
  "\<exists>db'. DeferLeasedRuntimeInputCustodyTx json_casts sample_env message_defer (single_db leased_message fence_inbox) = Inr (db', True)"
  using leased_message_lease leased_message_identity message_custody [of "[''queued'', ''delivering'']"]
  by (simp add: DeferLeasedRuntimeInputCustodyTx_def message_defer_def exact_lease_fields count_where_def Let_def)

theorem barrier_cancels_both_witness:
  "\<exists>db'. CancelLeasedRuntimeInputCustodyTx json_casts sample_env message_cancel (single_db leased_message fence_inbox) = Inr (db', True) \<and>
     (\<exists>i'\<in>set (cu_inbox db'). ib_status i' = ''cancelled'')"
  using message_cancel_run barrier_cancels_both [OF _ leased_message_inv] by metis

theorem barrier_defers_both_witness:
  "\<exists>db'. DeferLeasedRuntimeInputCustodyTx json_casts sample_env message_defer (single_db leased_message fence_inbox) = Inr (db', True) \<and>
     (\<exists>r'\<in>set (jobs (cu_queue db')). q_status r' = Pending \<and> 0 \<le> q_attempts r')"
  using message_defer_run barrier_defers_both [OF _ leased_message_inv] by metis

end
