(* ===== verification/Queue_Replacement_Facts.thy ===== *)
theory Queue_Replacement_Facts
  imports Queue_Custody_Facts
begin

section \<open>Replacement of malformed inputs\<close>

text \<open>
  \<open>ReplaceMalformedRuntimeInputCustody\<close> retires a leased malformed job and puts one
  canonical job of the same Inbox identity in its place; the request it builds passes
  admission. The last part shows the refund of a barrier deferral after a clamped
  lease.
\<close>

lemma EnqueueTx_ok:
  assumes "EnqueueTx env q db = Inr (db', job)" "env_ok env" "queue_inv db"
  shows "queue_inv db'" and "\<exists>new. jobs db' = jobs db @ new"
    and "\<exists>r\<in>set (jobs db'). job = Some (scanJob r) \<and> serves q r"
proof -
  obtain js where b: "EnqueueBatchTx env [q] db = Inr (db', js)" "job = hd js"
    using assms(1) by (auto simp: EnqueueTx_def andThen_Inr_iff)
  note ok = EnqueueBatchTx_ok [OF b(1) assms(2,3)]
  then have "length js = 1" by simp
  then have "hd js = js ! 0" by (cases js) auto
  with ok b(2) show "queue_inv db'" "\<exists>new. jobs db' = jobs db @ new"
    "\<exists>r\<in>set (jobs db'). job = Some (scanJob r) \<and> serves q r" by auto
qed

lemma env_ok_later: "env_ok env \<Longrightarrow> env_ok (later_env n env)"
  by (simp add: env_ok_def later_env_def)

lemma replacement_keys:
  assumes "canonicalRuntimeInputReplacement rnd ws sid rid tid kind ids a b now = Inr q"
  shows "er_WorkspaceID q = ws" "er_DedupeKey q = FormatRuntimeInputDedupeKey ws sid rid" "er_Kind q = KindRuntimeInput"
  using assms
  by (auto simp: canonicalRuntimeInputReplacement_def andThen_Inr_iff split: option.splits)

lemma settle_malformed_cases:
  assumes "settle_malformed_inbox env q now i db = Inr (db', res)"
  defines "guard \<equiv> \<lambda>i. ib_workspace i = rm_WorkspaceID q \<and> ib_session i = rm_SessionID q \<and>
    ib_input i = rm_RuntimeInputID q \<and> ib_status i \<in> {''delivering'', ''accepted''}"
  obtains (closed) "db' = db\<lparr>cu_inbox := upd_where guard (inbox_status_set ''dead_lettered'' (Durable now)) (cu_inbox db)\<rparr>"
      "rr_DeadLettered res" "\<not> rr_Replaced res"
    | (other) "db' = db" "rr_DeadLettered res" "\<not> rr_Replaced res"
    | (enqueued) enq queue' job where "canonicalRuntimeInputReplacement (env_ids env 0) (rm_WorkspaceID q) (rm_SessionID q)
        (rm_RuntimeInputID q) (ib_thread i) (ib_kind i) (ib_event_ids i) (ib_from i) (ib_to i) now = Inr enq"
      "EnqueueTx (later_env 3 env) enq (cu_queue db) = Inr (queue', job)" "db' = db\<lparr>cu_queue := queue'\<rparr>" "rr_DeadLettered res"
proof -
  note run = assms(1) [unfolded settle_malformed_inbox_def Let_def guard_def [symmetric]]
  consider "ib_status i = ''delivering'' \<or> ib_status i = ''accepted''"
    | "\<not> (ib_status i = ''delivering'' \<or> ib_status i = ''accepted'')" "ib_status i \<noteq> ''queued''"
    | "ib_status i = ''queued''" by fastforce
  then show ?thesis
  proof cases
    case 1
    with run have "db' = db\<lparr>cu_inbox := upd_where guard (inbox_status_set ''dead_lettered'' (Durable now)) (cu_inbox db)\<rparr>"
      "res = \<lparr>rr_DeadLettered = True, rr_Replaced = False\<rparr>"
      by (simp_all add: andThen_Inr_iff)
    then show ?thesis by (intro closed) simp_all
  next
    case 2
    with run have "db' = db" "res = \<lparr>rr_DeadLettered = True, rr_Replaced = False\<rparr>" by simp_all
    then show ?thesis by (intro other) simp_all
  next
    case 3
    with run obtain enq queue' job where "canonicalRuntimeInputReplacement (env_ids env 0) (rm_WorkspaceID q) (rm_SessionID q)
        (rm_RuntimeInputID q) (ib_thread i) (ib_kind i) (ib_event_ids i) (ib_from i) (ib_to i) now = Inr enq"
      "EnqueueTx (later_env 3 env) enq (cu_queue db) = Inr (queue', job)"
      "db\<lparr>cu_queue := queue'\<rparr> = db'" "\<lparr>rr_DeadLettered = True, rr_Replaced = job \<noteq> None\<rparr> = res"
      by (simp add: andThen_Inr_iff) blast
    then show ?thesis by (intro enqueued [of enq queue' job]) auto
  qed
qed

lemma settle_malformed_facts:
  assumes "settle_malformed_inbox env q now i db = Inr (db', res)" "custody_inv db" "env_ok env"
  shows "custody_inv db' \<and> set (jobs (cu_queue db)) \<subseteq> set (jobs (cu_queue db')) \<and> rr_DeadLettered res \<and>
    (rr_Replaced res \<longrightarrow> (\<exists>r\<in>set (jobs (cu_queue db')). q_workspace r = rm_WorkspaceID q \<and> active (q_status r) \<and>
      q_dedupe r = Some (FormatRuntimeInputDedupeKey (rm_WorkspaceID q) (rm_SessionID q) (rm_RuntimeInputID q))))"
proof -
  have qi: "queue_inv (cu_queue db)" and ii: "inbox_inv (cu_inbox db)" using assms(2) by (auto simp: custody_inv_def)
  show ?thesis
    using assms(1)
  proof (cases rule: settle_malformed_cases)
    case closed
    then show ?thesis using inbox_closed [OF ii] qi by (simp add: custody_inv_def)
  next
    case other
    then show ?thesis using assms(2) by simp
  next
    case (enqueued enq queue' job)
    note ok = EnqueueTx_ok [OF enqueued(2) env_ok_later [OF assms(3)] qi]
    then show ?thesis
      using enqueued(3,4) ii replacement_keys [OF enqueued(1)] by (auto simp: custody_inv_def serves_def)
  qed
qed

lemma replace_malformed_cases:
  assumes "ReplaceMalformedRuntimeInputCustody env q db = Inr (db', res)"
  defines "l \<equiv> live_lease (env_clock env 2 0) (rm_WorkspaceID q) (rm_JobID q) (rm_LeaseToken q)"
    and "u \<equiv> retire_malformed_set (Durable (request_now env (rm_Now q)))"
  obtains (none) "db' = db" "\<not> rr_DeadLettered res" "\<not> rr_Replaced res"
    | (gone) queue' where "exec_where l u (cu_queue db) = (queue', True)" "db' = db\<lparr>cu_queue := queue'\<rparr>"
        "rr_DeadLettered res" "\<not> rr_Replaced res"
    | (settled) queue' i where "exec_where l u (cu_queue db) = (queue', True)"
        "settle_malformed_inbox env q (request_now env (rm_Now q)) i (db\<lparr>cu_queue := queue'\<rparr>) = Inr (db', res)"
proof -
  let ?none = "Inr (db, \<lparr>rr_DeadLettered = False, rr_Replaced = False\<rparr>) = (Inr (db', res) :: (custody_db \<times> ReplaceMalformedRuntimeInputCustodyResult) res)"
  let ?inbox = "find (\<lambda>i. ib_workspace i = rm_WorkspaceID q \<and> ib_session i = rm_SessionID q \<and> ib_input i = rm_RuntimeInputID q) (cu_inbox db)"
  obtain queue' updated where e: "exec_where l u (cu_queue db) = (queue', updated)" by fastforce
  have "?none \<or> (updated \<and> (case ?inbox of
      None \<Rightarrow> Inr (db\<lparr>cu_queue := queue'\<rparr>, \<lparr>rr_DeadLettered = True, rr_Replaced = False\<rparr>)
    | Some i \<Rightarrow> settle_malformed_inbox env q (request_now env (rm_Now q)) i (db\<lparr>cu_queue := queue'\<rparr>)) = Inr (db', res))"
    using assms(1) unfolding ReplaceMalformedRuntimeInputCustody_def Let_def l_def [symmetric] u_def [symmetric] e
    by (simp add: andThen_Inr_iff split: option.splits if_splits)
  then show ?thesis
  proof
    assume ?none
    then show ?thesis by (intro none) auto
  next
    assume s: "updated \<and> (case ?inbox of
      None \<Rightarrow> Inr (db\<lparr>cu_queue := queue'\<rparr>, \<lparr>rr_DeadLettered = True, rr_Replaced = False\<rparr>)
    | Some i \<Rightarrow> settle_malformed_inbox env q (request_now env (rm_Now q)) i (db\<lparr>cu_queue := queue'\<rparr>)) = Inr (db', res)"
    show ?thesis
    proof (cases ?inbox)
      case None
      with s e show ?thesis by (intro gone [of queue']) auto
    next
      case (Some i)
      with s e show ?thesis by (intro settled [of queue' i]) auto
    qed
  qed
qed

lemma retired_row:
  assumes "exec_where (live_lease clock w i t) (retire_malformed_set now) db = (db', True)"
  shows "\<exists>r\<in>set (jobs db). \<exists>r'\<in>set (jobs db'). held_lease w i t r \<and> same_identity r' r \<and> q_status r' = DeadLettered"
proof -
  let ?u = "retire_malformed_set now"
  obtain r where r: "r \<in> set (jobs db)" "live_lease clock w i t r" "?u r \<in> set (jobs db')"
    using exec_where_True [OF assms] by blast
  moreover have "same_identity (?u r) r" "q_status (?u r) = DeadLettered"
    by (simp_all add: retire_malformed_set_def malformed_error_def set_defs same_identity_def)
  moreover have "held_lease w i t r" using r(2) by (simp add: live_lease_def)
  ultimately show ?thesis by blast
qed

lemma active_job_unique:
  assumes "queue_inv db" "r \<in> set (jobs db)" "s \<in> set (jobs db)" "active (q_status r)" "active (q_status s)"
    "q_workspace r = q_workspace s" "q_dedupe r = q_dedupe s"
  shows "r = s"
  using assms active_dedupe_inj [of "jobs db" r s] by (simp add: queue_inv_def dedupe_key_of_def)

text \<open>C20: replacing a malformed runtime input keeps the invariant of both tables. It either
  leaves everything as it was, or the job that held the live lease is dead-lettered; and
  when it reports a replacement, exactly one active job carries the canonical dedupe key of
  the Inbox identity.\<close>

theorem malformed_job_replaced:
  assumes "ReplaceMalformedRuntimeInputCustody env q db = Inr (db', res)" and "custody_inv db" and "env_ok env"
  shows "custody_inv db' \<and> (\<not> rr_DeadLettered res \<longrightarrow> db' = db) \<and>
    (rr_DeadLettered res \<longrightarrow> (\<exists>r\<in>set (jobs (cu_queue db)). \<exists>r'\<in>set (jobs (cu_queue db')).
       held_lease (rm_WorkspaceID q) (rm_JobID q) (rm_LeaseToken q) r \<and> same_identity r' r \<and> q_status r' = DeadLettered)) \<and>
    (rr_Replaced res \<longrightarrow> rr_DeadLettered res \<and>
      (\<exists>!r. r \<in> set (jobs (cu_queue db')) \<and> active (q_status r) \<and> q_workspace r = rm_WorkspaceID q \<and>
         q_dedupe r = Some (FormatRuntimeInputDedupeKey (rm_WorkspaceID q) (rm_SessionID q) (rm_RuntimeInputID q))))"
  using assms(1)
proof (cases rule: replace_malformed_cases)
  case none
  then show ?thesis using assms(2) by simp
next
  case (gone queue')
  then have "queue_inv queue'" using retired.inv_kept [of "cu_queue db"] assms(2) by (auto simp: custody_inv_def exec_where_def)
  with gone retired_row [OF gone(1)] assms(2) show ?thesis by (simp add: custody_inv_def)
next
  case (settled queue' i)
  then have "queue_inv queue'" using retired.inv_kept [of "cu_queue db"] assms(2) by (auto simp: custody_inv_def exec_where_def)
  then have "custody_inv (db\<lparr>cu_queue := queue'\<rparr>)" using assms(2) by (simp add: custody_inv_def)
  note f = settle_malformed_facts [OF settled(2) this assms(3)]
  then have inv: "queue_inv (cu_queue db')" by (simp add: custody_inv_def)
  have "\<exists>r\<in>set (jobs (cu_queue db)). \<exists>r'\<in>set (jobs (cu_queue db')).
      held_lease (rm_WorkspaceID q) (rm_JobID q) (rm_LeaseToken q) r \<and> same_identity r' r \<and> q_status r' = DeadLettered"
    using retired_row [OF settled(1)] f by (simp add: subset_iff) blast
  moreover have "\<exists>!r. r \<in> set (jobs (cu_queue db')) \<and> active (q_status r) \<and> q_workspace r = rm_WorkspaceID q \<and>
      q_dedupe r = Some (FormatRuntimeInputDedupeKey (rm_WorkspaceID q) (rm_SessionID q) (rm_RuntimeInputID q))"
    if "rr_Replaced res"
    using f that active_job_unique [OF inv] by metis
  ultimately show ?thesis using f by blast
qed

subsection \<open>The replacement passes admission\<close>

lemma json_strings_map: "json_strings (JArray (map JString ids)) = Some (Some ids)"
  by (simp add: list_all_iff o_def)

lemma replacement_tokens:
  assumes "ws \<noteq> []" "sid \<noteq> []" "tid \<noteq> []" "rid \<noteq> []" "kind \<noteq> []" "in_int64 a" "in_int64 b"
  shows "payloadTokens (replacement_payload ws sid tid rid ids a b kind) ''workspace_id'' = Some ws"
    "payloadTokens (replacement_payload ws sid tid rid ids a b kind) ''session_id'' = Some sid"
    "payloadTokens (replacement_payload ws sid tid rid ids a b kind) ''session_thread_id'' = Some tid"
    "payloadTokens (replacement_payload ws sid tid rid ids a b kind) ''runtime_input_id'' = Some rid"
    "payloadTokens (replacement_payload ws sid tid rid ids a b kind) ''sequence_from'' = Some (FormatInt a)"
    "payloadTokens (replacement_payload ws sid tid rid ids a b kind) ''sequence_to'' = Some (FormatInt b)"
    "payloadTokens (replacement_payload ws sid tid rid ids a b kind) ''input_kind'' = Some kind"
  using assms FormatInt_not_Nil [of a] FormatInt_not_Nil [of b]
  by (simp_all add: payloadTokens_def replacement_payload_def payloadToken_def)

text \<open>The references the replacement carries for its kind.\<close>

definition refs_ok :: "bytes \<Rightarrow> bytes list \<Rightarrow> int \<Rightarrow> int \<Rightarrow> bool" where
  "refs_ok kind ids a b \<longleftrightarrow> isRuntimeInputKind kind \<and> in_int64 a \<and> in_int64 b \<and> [] \<notin> set ids \<and>
     length ids \<le> MaxRuntimeInputEventRefsPerJob \<and>
     (if kind = ''agent_mail'' \<or> kind = ''task_notification'' \<or> IsNonStartingRuntimeInputKind kind
      then ids = [] \<and> a = 0 \<and> b = 0 else ids \<noteq> [])"

lemma replacement_refs:
  assumes "ws \<noteq> []" "sid \<noteq> []" "tid \<noteq> []" "rid \<noteq> []" "refs_ok kind ids a b"
  shows "runtime_input_events (replacement_payload ws sid tid rid ids a b kind)
    (payloadTokens (replacement_payload ws sid tid rid ids a b kind)) kind = Inr ids"
proof -
  have ne: "kind \<noteq> []" using assms(5) by (auto simp: refs_ok_def isRuntimeInputKind_def kind_simps)
  have ab: "in_int64 a" "in_int64 b" using assms(5) by (auto simp: refs_ok_def)
  note t = replacement_tokens [OF assms(1-4) ne ab]
  have f: "field (replacement_payload ws sid tid rid ids a b kind) ''event_ids'' = Some (JArray (map JString ids))"
    by (simp add: replacement_payload_def)
  have arr: "payloadStringArray (replacement_payload ws sid tid rid ids a b kind) ''event_ids'' e = Inr ids" if "e \<or> ids \<noteq> []" for e
    using that assms(5) by (auto simp: payloadStringArray_def f json_strings_map refs_ok_def Let_def simp del: json_strings.simps)
  have p: "parsePayloadInt64 (FormatInt a) k = Inr a" "parsePayloadInt64 (FormatInt b) k = Inr b" for k
    using ab by (simp_all add: parsePayloadInt64_def ParseInt_FormatInt)
  show ?thesis
    using assms(5) arr p t
    by (auto simp: runtime_input_events_def requiredPayloadStringArray_def requiredPayloadInt64_def
        requiredPayloadToken_def token_at_def refs_ok_def split: if_splits)
qed

lemma replacement_shape:
  assumes "ws \<noteq> []" "sid \<noteq> []" "tid \<noteq> []" "rid \<noteq> []" "refs_ok kind ids a b" "er_WorkspaceID q = ws"
    and "er_PartitionKey q = FormatSessionPartitionKey ws sid"
    and "er_DedupeKey q = FormatRuntimeInputDedupeKey ws sid rid"
  shows "shape_runtime_input q (replacement_payload ws sid tid rid ids a b kind)
    (payloadTokens (replacement_payload ws sid tid rid ids a b kind)) = Inr ()"
proof -
  have ne: "kind \<noteq> []" using assms(5) by (auto simp: refs_ok_def isRuntimeInputKind_def kind_simps)
  have ab: "in_int64 a" "in_int64 b" using assms(5) by (auto simp: refs_ok_def)
  have "validatePayloadKeys (replacement_payload ws sid tid rid ids a b kind)
      [''workspace_id'', ''session_id'', ''session_thread_id'', ''runtime_input_id'', ''event_ids'',
        ''sequence_from'', ''sequence_to'', ''input_kind''] = Inr ()"
    by (simp add: validatePayloadKeys_def replacement_payload_def)
  moreover have "isRuntimeInputKind kind" "length ids \<le> MaxRuntimeInputEventRefsPerJob"
    "\<not> ((kind = ''agent_mail'' \<or> IsNonStartingRuntimeInputKind kind) \<and>
       (ids \<noteq> [] \<or> FormatInt a \<noteq> ''0'' \<or> FormatInt b \<noteq> ''0''))"
    using assms(5) by (auto simp: refs_ok_def split: if_splits)
  ultimately show ?thesis
    using replacement_tokens [OF assms(1-4) ne ab, of ids] replacement_refs [OF assms(1-5)] assms(1-4,6-) ne
    by (simp add: shape_runtime_input_def requiredPayloadTokens_def requiredPayloadToken_def token_at_def)
qed

lemma requireCanonicalKeys_refl:
  "er_PartitionKey q = p \<Longrightarrow> er_DedupeKey q = d \<Longrightarrow> requireCanonicalKeys q p d = Inr ()"
  by (simp add: requireCanonicalKeys_def)

definition replacement_class :: "bytes \<Rightarrow> control_class" where
  "replacement_class kind =
     (if kind = ''interrupt_control'' then Interrupt else if kind = ''agent_mail'' then AgentMail else Ordinary)"

lemma replacement_normalize:
  assumes "length rnd = 8" "ws \<noteq> []" "length ws \<le> MaxWorkspaceIDBytes" "ValidString ws"
    and ids: "request_id_ok sid" "request_id_ok tid" "request_id_ok rid"
    and refs: "refs_ok kind evs a b" "\<forall>x\<in>set evs. ValidString x" "0 \<le> m"
    and len: "length (Marshal (JObject (replacement_payload ws sid tid rid evs a b kind))) \<le> MaxQueueJobPayloadBytes"
    and q: "q = (runtime_request rnd ws KindRuntimeInput (FormatSessionPartitionKey ws sid)
      (FormatRuntimeInputDedupeKey ws sid rid) (JObject (replacement_payload ws sid tid rid evs a b kind)) now)
      \<lparr>er_Priority := p, er_MaxAttempts := m\<rparr>"
  shows "NormalizeEnqueueRequest rnd' wall q =
    Inr (redeliver sid (Some ScopeThread) tid (Some (replacement_class kind)) (admission_defaults rnd' wall q))"
proof -
  define d where "d = admission_defaults rnd' wall q"
  let ?p = "replacement_payload ws sid tid rid evs a b kind"
  note ne = assms(2) ids [unfolded request_id_ok_def]
  have kne: "kind \<noteq> []" and vk: "ValidString kind" and ab: "in_int64 a" "in_int64 b"
    using refs by (auto simp: refs_ok_def isRuntimeInputKind_def kind_simps intro!: ValidString_ascii)
  have kind: "KindRuntimeInput \<noteq> []" "KindRuntimeInput \<noteq> KindRuntimeRecovery" "IsJobRunnerKind KindRuntimeInput"
    "isKnownKind KindRuntimeInput" "\<not> IsSandboxJobKind KindRuntimeInput"
    by (simp_all add: kind_simps isKnownKind_def IsSandboxJobKind_def IsJobRunnerKind_def)
  have dk: "FormatRuntimeInputDedupeKey ws sid rid \<noteq> []"
    "length (FormatRuntimeInputDedupeKey ws sid rid) \<le> MaxQueueDedupeKeyBytes"
    using ne assms(3) by (auto simp: FormatRuntimeInputDedupeKey_def bound_defs)
  have fields: "er_Kind d = KindRuntimeInput" "er_WorkspaceID d = ws" "er_DedupeKey d = FormatRuntimeInputDedupeKey ws sid rid"
    "er_PartitionKey d = FormatSessionPartitionKey ws sid" "er_PayloadJSON d = Marshal (JObject ?p)"
    by (simp_all add: d_def q admission_defaults_def Let_def del: Marshal.simps)
  have dec: "decodePayloadObject (Marshal (JObject ?p)) = Inr ?p"
    using ne assms(4) refs(2) vk by (intro replacement_decode) auto
  note tok = replacement_tokens [OF assms(2) _ _ _ kne ab, of sid tid rid evs]
  have "shape_runtime_input d ?p (payloadTokens ?p) = Inr ()"
    using ne refs(1) fields by (intro replacement_shape) auto
  then have "validateCanonicalQueueShape d = Inr ()"
    using dk kind ne tok
    by (simp add: validateCanonicalQueueShape_def fields dec payload_workspace_def token_at_def shape_of_kind_def
        Let_def del: Marshal.simps)
  moreover have "deriveQueueDeliveryAuthority d = Inr (redeliver sid (Some ScopeThread) tid (Some (replacement_class kind)) d)"
    using ne kind tok
    by (simp add: deriveQueueDeliveryAuthority_def fields dec runtime_control_class_def requiredPayloadToken_def
        token_at_def replacement_class_def Let_def del: Marshal.simps)
  moreover have "admission_bounds q = Inr ()"
    using assms(1-3) kind(1) session_partition_key_bound [OF assms(2,3) ids(1)] dk len
    by (simp add: admission_bounds_def q runtime_request_def length_NewJobID)
  moreover have "0 \<le> er_PayloadVersion d" "0 \<le> er_MaxAttempts d"
    using refs(3) by (simp_all add: d_def q admission_defaults_def runtime_request_def Let_def)
  ultimately show ?thesis by (simp add: NormalizeEnqueueRequest_def Let_def flip: d_def)
qed

text \<open>The replacement built from a queued Inbox row always passes admission as a
  Thread-scoped job of the row's Session and Thread, with the control class its input kind
  calls for, provided the identities are within the bounds, the event references are
  non-empty valid strings, at most 512, and the payload fits its fuse.\<close>

theorem replacement_admitted:
  assumes "canonicalRuntimeInputReplacement rnd ws sid rid tid kind idsJSON a b now = Inr q"
    and "length rnd = 8" and "ws \<noteq> []" and "length ws \<le> MaxWorkspaceIDBytes" and "ValidString ws"
    and "request_id_ok sid" and "request_id_ok tid" and "request_id_ok rid"
    and "Option.bind (Unmarshal idsJSON) json_strings = Some (Some evs)"
    and "[] \<notin> set evs" and "\<forall>x\<in>set evs. ValidString x" and "length evs \<le> MaxRuntimeInputEventRefsPerJob"
    and "\<forall>x. a = Some x \<or> b = Some x \<longrightarrow> in_int64 x"
    and "length (er_PayloadJSON q) \<le> MaxQueueJobPayloadBytes"
  shows "NormalizeEnqueueRequest rnd' wall q =
    Inr (redeliver sid (Some ScopeThread) tid (Some (replacement_class kind)) (admission_defaults rnd' wall q))"
proof -
  obtain evs' s e m where ev: "replacement_events rid kind evs a b = Inr (evs', s, e, m)"
    and kind: "isRuntimeInputKind kind"
    and q: "q = (runtime_request rnd ws KindRuntimeInput (FormatSessionPartitionKey ws sid)
      (FormatRuntimeInputDedupeKey ws sid rid) (JObject (replacement_payload ws sid tid rid evs' s e kind)) now)
      \<lparr>er_Priority := (if kind = ''interrupt_control'' then 100 else 0), er_MaxAttempts := m\<rparr>"
    using assms(1,9) by (auto simp: canonicalRuntimeInputReplacement_def andThen_Inr_iff)
  have zero: "in_int64 0" by (simp add: in_int64_def int64_min_def int64_max_def)
  have "refs_ok kind evs' s e \<and> (evs' = [] \<or> evs' = evs) \<and> 0 \<le> m"
    using ev kind zero assms(10,12,13)
    by (auto simp: replacement_events_def refs_ok_def IsNonStartingRuntimeInputKind_def NonStartingRuntimeInputKinds_def
        DefaultMaxAttempts_def split: if_splits option.splits)
  moreover have "length (Marshal (JObject (replacement_payload ws sid tid rid evs' s e kind))) \<le> MaxQueueJobPayloadBytes"
    using assms(14) by (simp add: q del: Marshal.simps)
  ultimately show ?thesis
    using assms(11) by (intro replacement_normalize [OF assms(2-8) _ _ _ _ q]) auto
qed

definition event_refs :: bytes where
  "event_refs = Marshal (JArray [JString ''e1''])"

lemma event_refs_decode: "Option.bind (Unmarshal event_refs) json_strings = Some (Some [''e1''])"
proof -
  have "Unmarshal event_refs = Some (JArray [JString ''e1''])"
    unfolding event_refs_def using sample_valid
    by (intro Unmarshal_Marshal) (simp_all add: maxNestingDepth_def)
  then show ?thesis by simp
qed

definition message_replacement :: EnqueueRequest where
  "message_replacement = (runtime_request ''abcdefgh'' ''ws'' KindRuntimeInput (FormatSessionPartitionKey ''ws'' ''s'')
     (FormatRuntimeInputDedupeKey ''ws'' ''s'' ''rm'')
     (JObject (replacement_payload ''ws'' ''s'' ''t'' ''rm'' [''e1''] 3 4 ''messages'')) 6000000)
     \<lparr>er_Priority := 0, er_MaxAttempts := 0\<rparr>"

lemma message_replacement_built:
  "canonicalRuntimeInputReplacement ''abcdefgh'' ''ws'' ''s'' ''rm'' ''t'' ''messages'' event_refs (Some 3) (Some 4) 6000000 =
     Inr message_replacement"
proof -
  have "replacement_events ''rm'' ''messages'' [''e1''] (Some 3) (Some 4) = Inr ([''e1''], 3, 4, 0)"
    by (simp add: replacement_events_def RuntimeInputKindMachineMessage_def)
  then show ?thesis
    by (simp add: canonicalRuntimeInputReplacement_def event_refs_decode isRuntimeInputKind_def message_replacement_def
        del: Marshal.simps)
qed

lemma message_ids: "request_id_ok ''s''" "request_id_ok ''t''" "request_id_ok ''rm''"
  using sample_valid by (simp_all add: request_id_ok_def)

lemma message_payload_fits: "length (er_PayloadJSON message_replacement) \<le> MaxQueueJobPayloadBytes"
  using length_quote [of "''ws''"] length_quote [of "''s''"] length_quote [of "''t''"] length_quote [of "''rm''"]
    length_quote [of "''workspace_id''"] length_quote [of "''session_id''"] length_quote [of "''e1''"]
    length_quote [of "''session_thread_id''"] length_quote [of "''runtime_input_id''"]
    length_quote [of "''event_ids''"] length_quote [of "''sequence_from''"]
    length_quote [of "''sequence_to''"] length_quote [of "''input_kind''"] length_quote [of "''messages''"]
  by (simp add: message_replacement_def replacement_payload_def bound_defs FormatInt_def dec_digits.simps)

theorem replacement_admitted_witness:
  "NormalizeEnqueueRequest ''12345678'' 0 message_replacement =
     Inr (redeliver ''s'' (Some ScopeThread) ''t'' (Some (replacement_class ''messages''))
       (admission_defaults ''12345678'' 0 message_replacement))"
  using sample_valid
  by (intro replacement_admitted [OF message_replacement_built _ _ _ _ message_ids(1,2,3) event_refs_decode
        _ _ _ _ message_payload_fits])
    (auto simp: bound_defs MaxRuntimeInputEventRefsPerJob_def in_int64_def int64_min_def int64_max_def)

subsection \<open>A replaced message\<close>

definition refs_inbox :: inbox_row where
  "refs_inbox = fence_inbox\<lparr>ib_event_ids := event_refs\<rparr>"

definition message_replace :: ReplaceMalformedRuntimeInputCustodyRequest where
  "message_replace = \<lparr>rm_WorkspaceID = ''ws'', rm_SessionID = ''s'', rm_RuntimeInputID = ''rm'', rm_JobID = ''m'',
     rm_LeaseToken = ''qlt_m'', rm_Now = 6000000\<rparr>"

lemma refs_db_inv: "custody_inv (single_db leased_message refs_inbox)"
  using leased_message_inv
  by (simp add: custody_inv_def single_db_def inbox_inv_def inbox_checks_def inbox_sequence_shape_def
      inbox_binding_shape_def inbox_unbound_def inbox_bound_def refs_inbox_def)

definition retired_queue :: queue_db where
  "retired_queue = (cu_queue (single_db leased_message refs_inbox))\<lparr>jobs := [retire_malformed_set 6000000 leased_message]\<rparr>"

lemma message_live: "live_lease 5000000 ''ws'' ''m'' ''qlt_m'' leased_message"
  by (simp add: fence_defs)

lemma retired_exec:
  "exec_where (live_lease 5000000 ''ws'' ''m'' ''qlt_m'') (retire_malformed_set 6000000) (cu_queue (single_db leased_message refs_inbox)) =
     (retired_queue, True)"
  using message_live by (simp add: exec_where_def retired_queue_def count_where_def)

lemma retired_queue_inv: "queue_inv retired_queue"
  using retired.inv_kept [of "cu_queue (single_db leased_message refs_inbox)" 5000000 "''ws''" "''m''" "''qlt_m''" 6000000]
    refs_db_inv message_live by (simp add: custody_inv_def retired_queue_def)

lemma replacement_enqueued:
  "\<exists>queue' job. EnqueueTx (later_env 3 sample_env) message_replacement retired_queue = Inr (queue', Some job)"
proof -
  let ?env = "later_env 3 sample_env"
  let ?n = "redeliver ''s'' (Some ScopeThread) ''t'' (Some (replacement_class ''messages''))
    (admission_defaults (env_ids ?env 0) (env_wall ?env 0) message_replacement)"
  have "refs_ok ''messages'' [''e1''] 3 4"
    by (simp add: refs_ok_def isRuntimeInputKind_def IsNonStartingRuntimeInputKind_def NonStartingRuntimeInputKinds_def
        RuntimeInputKindMachineMessage_def MaxRuntimeInputEventRefsPerJob_def in_int64_def int64_min_def int64_max_def)
  then have "NormalizeEnqueueRequest (env_ids ?env 0) (env_wall ?env 0) message_replacement = Inr ?n"
    using sample_valid message_payload_fits
    by (intro replacement_normalize [OF _ _ _ _ message_ids _ _ _ _ message_replacement_def])
      (simp_all add: bound_defs message_replacement_def del: Marshal.simps)
  moreover have "env_ok ?env" using sample_env_ok by (rule env_ok_later)
  moreover have "er_ID ?n \<notin> q_id ` set (jobs retired_queue)"
    by (simp add: admission_defaults_def message_replacement_def runtime_request_def retired_queue_def
        retire_malformed_set_def malformed_error_def set_defs NewJobID_def id_New_def JobIDPrefix_def Let_def)
  ultimately show ?thesis
    using retired_queue_inv
    by (intro EnqueueTx_succeeds [where n = ?n])
      (simp_all add: admission_defaults_def message_replacement_def runtime_request_def in_int32_def Let_def del: Marshal.simps)
qed

lemma message_replace_run:
  "\<exists>db'. ReplaceMalformedRuntimeInputCustody sample_env message_replace (single_db leased_message refs_inbox) =
     Inr (db', \<lparr>rr_DeadLettered = True, rr_Replaced = True\<rparr>)"
proof -
  obtain queue' job where enq: "EnqueueTx (later_env 3 sample_env) message_replacement retired_queue = Inr (queue', Some job)"
    using replacement_enqueued by blast
  have inbox: "ib_workspace refs_inbox = ''ws''" "ib_session refs_inbox = ''s''" "ib_input refs_inbox = ''rm''"
    "ib_status refs_inbox = ''queued''" "ib_thread refs_inbox = ''t''" "ib_kind refs_inbox = ''messages''"
    "ib_event_ids refs_inbox = event_refs" "ib_from refs_inbox = Some 3" "ib_to refs_inbox = Some 4"
    by (simp_all add: refs_inbox_def fence_inbox_def)
  have env: "env_clock sample_env s c = 5000000" "env_ids sample_env n = ''abcdefgh''" for s c n
    by (simp_all add: sample_env_def)
  have req: "rm_WorkspaceID message_replace = ''ws''" "rm_SessionID message_replace = ''s''"
    "rm_RuntimeInputID message_replace = ''rm''" "rm_JobID message_replace = ''m''" "rm_LeaseToken message_replace = ''qlt_m''"
    "request_now sample_env (rm_Now message_replace) = 6000000" "Durable 6000000 = 6000000"
    by (simp_all add: message_replace_def request_now_def IsZero_def zero_time_def Durable_def)
  have "q_session leased_message = Some ''s''"
    by (simp add: leased_message_def fence_message_def lane_row_def del: Marshal.simps)
  then show ?thesis
    by (simp add: ReplaceMalformedRuntimeInputCustody_def req env inbox retired_exec named_job_def null_string_def
        settle_malformed_inbox_def message_replacement_built enq Let_def)
qed

theorem malformed_job_replaced_witness:
  "\<exists>db' res. ReplaceMalformedRuntimeInputCustody sample_env message_replace (single_db leased_message refs_inbox) = Inr (db', res) \<and>
     (\<exists>!r. r \<in> set (jobs (cu_queue db')) \<and> active (q_status r) \<and> q_workspace r = ''ws'' \<and>
       q_dedupe r = Some (FormatRuntimeInputDedupeKey ''ws'' ''s'' ''rm''))"
proof -
  obtain db' where run: "ReplaceMalformedRuntimeInputCustody sample_env message_replace (single_db leased_message refs_inbox) =
      Inr (db', \<lparr>rr_DeadLettered = True, rr_Replaced = True\<rparr>)"
    using message_replace_run by blast
  then show ?thesis
    using malformed_job_replaced [OF run refs_db_inv sample_env_ok] by (simp add: message_replace_def)
qed

subsection \<open>A refund without an attempt\<close>

definition spent_interrupt :: queue_row where
  "spent_interrupt = (lane_row ''i'' KindRuntimeInput Interrupt 2)\<lparr>q_attempts := 10,
     q_payload := Marshal (JObject (input_payload ''rm'' [''e9''] 9 9 ''interrupt_control''))\<rparr>"

definition spent_leased :: queue_row where
  "spent_leased = lease_set (\<lambda>s c. 5000000) 1 ''worker'' ''qlt_i'' (30 * Second) 10 spent_interrupt"

definition interrupt_inbox :: inbox_row where
  "interrupt_inbox = fence_inbox\<lparr>ib_kind := ''interrupt_control''\<rparr>"

definition interrupt_defer :: DeferLeasedRuntimeInputRequest where
  "interrupt_defer = \<lparr>dr_Lease = exact_lease spent_leased, dr_SessionID = ''s'', dr_RuntimeInputID = ''rm'',
     dr_InputKind = ''interrupt_control'', dr_Now = 6000000\<rparr>"

lemma spent_leased_fields:
  "q_workspace spent_leased = ''ws''" "q_id spent_leased = ''i''" "q_kind spent_leased = KindRuntimeInput"
  "q_partition spent_leased = ''session:ws:s''" "q_status spent_leased = Leased" "q_token spent_leased = Some ''qlt_i''"
  "q_dedupe spent_leased = Some ''i''" "q_leased_until spent_leased = Some 30005000000" "q_attempts spent_leased = 10"
  "q_payload spent_leased = Marshal (JObject (input_payload ''rm'' [''e9''] 9 9 ''interrupt_control''))"
  by (simp_all add: spent_leased_def spent_interrupt_def lane_row_def lease_set_def leaseAttemptCountExpression_def
      effective_budget_def Milliseconds_def del: Marshal.simps)

lemma spent_identity: "payload_identity json_casts spent_leased = Inr (''s'', ''rm'', ''interrupt_control'')"
proof -
  have "decodePayloadObject (q_payload spent_leased) = Inr (input_payload ''rm'' [''e9''] 9 9 ''interrupt_control'')"
    using sample_valid by (simp add: spent_leased_fields input_payload_def replacement_decode del: Marshal.simps)
  then show ?thesis
    by (simp add: payload_identity_def payload_member_def json_casts_def)
      (simp add: input_payload_def replacement_payload_def)
qed

text \<open>C21: an interrupt whose attempts reached its budget is leased without counting an attempt,
  yet a barrier deferral of that lease takes one back: the job returns with one attempt
  fewer than it had before the lease.\<close>

theorem barrier_refunds_clamped_lease:
  "q_attempts spent_leased = q_attempts spent_interrupt \<and>
   (\<exists>db'. DeferLeasedRuntimeInputCustodyTx json_casts sample_env interrupt_defer (single_db spent_leased interrupt_inbox) =
       Inr (db', True) \<and>
     map (\<lambda>r. (q_id r, q_attempts r)) (jobs (cu_queue db')) = [(q_id spent_interrupt, q_attempts spent_interrupt - 1)])"
proof -
  note f = spent_leased_fields
  have lease: "AssertExactLeaseTx sample_env (exact_lease spent_leased) (cu_queue (single_db spent_leased i)) = Inr True"
    "locked_row (exact_lease spent_leased) (cu_queue (single_db spent_leased i)) = Inr spent_leased"
    "live_lease (env_clock sample_env s c) (xl_WorkspaceID (exact_lease spent_leased)) (xl_JobID (exact_lease spent_leased))
      (xl_LeaseToken (exact_lease spent_leased)) spent_leased" for i s c
    by (rule single_lease [where t = "''qlt_i''" and d = "''i''" and until = 30005000000]; simp add: f kind_simps)+
  have custody: "inbox_custody ''ws'' ''s'' ''rm'' ''interrupt_control'' [''queued'', ''delivering''] interrupt_inbox"
    by (simp add: inbox_custody_def interrupt_inbox_def fence_inbox_def)
  have ex: "xl_WorkspaceID (exact_lease spent_leased) = ''ws''" "xl_Kind (exact_lease spent_leased) = KindRuntimeInput"
    by (simp_all add: exact_lease_def f)
  have "q_attempts spent_interrupt = 10" "q_id spent_interrupt = ''i''"
    by (simp_all add: spent_interrupt_def lane_row_def)
  then show ?thesis
    using lease custody spent_identity f
    by (simp add: DeferLeasedRuntimeInputCustodyTx_def interrupt_defer_def ex count_where_def Let_def
        defer_leased_set_def set_defs)
qed

end
