(* ===== verification/Queue_Maintenance.thy ===== *)
theory Queue_Maintenance
  imports Queue_Transitions
begin

section \<open>Maintenance of the queue tables\<close>

text \<open>
  The operations of \<open>internal/queue/postgresql_store.go\<close> that run without a lease:
  the list of Sandbox jobs whose budget is spent, the deletion of old terminal
  rows of the Sandbox and of the Job Runner, the deletion of partition counters no
  job uses, and the metrics. The database function that deletes Job Runner rows is
  the one \<open>internal/storage/postgresql_retention_schema.go\<close> creates. Rows another
  transaction holds locked (\<open>locked\<close>) are skipped where the statement says so.
\<close>

subsection \<open>Requests and results\<close>

record ListPendingAtOrOverBudgetRequest =
  lb_Limit :: int

record PendingAtOrOverBudgetJob =
  pb_WorkspaceID :: bytes
  pb_JobID :: bytes
  pb_Kind :: bytes
  pb_PartitionKey :: bytes
  pb_DedupeKey :: bytes
  pb_PayloadJSON :: bytes
  pb_AttemptCount :: int
  pb_MaxAttempts :: int

record SandboxTerminalSweepRequest =
  sw_Now :: time
  sw_Limit :: int

record EmptyPartitionCounterSweepRequest =
  ec_Limit :: int

record JobRunnerTerminalRetentionRequest =
  tr_Now :: time

record JobRunnerTerminalRetentionResult =
  tr_Deleted :: int
  tr_Malformed :: int
  tr_ExhaustedStates :: int

definition sandboxMaintenanceLimit :: "int \<Rightarrow> int" where
  "sandboxMaintenanceLimit limit =
     (if limit \<le> 0 \<or> limit > SandboxMaintenanceBatchLimit then SandboxMaintenanceBatchLimit else limit)"

subsection \<open>Spent budgets\<close>

definition over_budget :: "queue_row \<Rightarrow> bool" where
  "over_budget r \<longleftrightarrow> IsSandboxJobKind (q_kind r) \<and> q_status r = Pending \<and> 0 < q_max_attempts r \<and>
     q_max_attempts r \<le> q_attempts r"

definition budget_order :: "collation \<Rightarrow> queue_row \<Rightarrow> queue_row \<Rightarrow> bool" where
  "budget_order coll a b =
     (if q_updated_at a \<noteq> q_updated_at b then q_updated_at a < q_updated_at b else coll (q_id a) (q_id b))"

definition scan_over_budget :: "queue_row \<Rightarrow> PendingAtOrOverBudgetJob res" where
  "scan_over_budget r =
     (case q_dedupe r of
        None \<Rightarrow> Inl scan_error
      | Some dedupeKey \<Rightarrow> Inr
          \<lparr>pb_WorkspaceID = q_workspace r, pb_JobID = q_id r, pb_Kind = q_kind r, pb_PartitionKey = q_partition r,
           pb_DedupeKey = dedupeKey, pb_PayloadJSON = q_payload r, pb_AttemptCount = q_attempts r,
           pb_MaxAttempts = q_max_attempts r\<rparr>)"

definition ListPendingAtOrOverBudget ::
    "collation \<Rightarrow> ListPendingAtOrOverBudgetRequest \<Rightarrow> queue_db \<Rightarrow> PendingAtOrOverBudgetJob list res" where
  "ListPendingAtOrOverBudget coll request db =
     andThen (ensure (0 \<le> lb_Limit request) (ValidationError ''limit must not be negative'')) (\<lambda>_.
     andThen (ensure (\<not> (\<exists>r\<in>set (jobs db). IsSandboxJobKind (q_kind r) \<and> q_status r = Pending \<and> q_max_attempts r = 0))
       (IntegrityError ''sandbox queue job is missing its explicit attempt budget'')) (\<lambda>_.
     map_result scan_over_budget (take (nat (sandboxMaintenanceLimit (lb_Limit request)))
       (sort_by (budget_order coll) (filter over_budget (jobs db))))))"

subsection \<open>Old terminal Sandbox jobs\<close>

text \<open>The timestamp column of a terminal status; a comparison with \<open>NULL\<close> is not true.\<close>

fun terminal_at :: "status \<Rightarrow> queue_row \<Rightarrow> time option" where
  "terminal_at Acknowledged r = q_acknowledged_at r"
| "terminal_at Cancelled r = q_cancelled_at r"
| "terminal_at DeadLettered r = q_dead_lettered_at r"
| "terminal_at _ r = None"

definition at_or_before :: "time option \<Rightarrow> time \<Rightarrow> bool" where
  "at_or_before t cutoff \<longleftrightarrow> (case t of Some t \<Rightarrow> t \<le> cutoff | None \<Rightarrow> False)"

definition sandbox_expired :: "time \<Rightarrow> queue_row \<Rightarrow> bool" where
  "sandbox_expired cutoff r \<longleftrightarrow> IsSandboxJobKind (q_kind r) \<and>
     (q_status r = Acknowledged \<and> at_or_before (q_acknowledged_at r) cutoff \<or>
      q_status r = Cancelled \<and> at_or_before (q_cancelled_at r) cutoff \<or>
      q_status r = DeadLettered \<and> at_or_before (q_dead_lettered_at r) cutoff)"

definition sandbox_unstamped :: "queue_row \<Rightarrow> bool" where
  "sandbox_unstamped r \<longleftrightarrow> IsSandboxJobKind (q_kind r) \<and>
     (q_status r = Acknowledged \<and> q_acknowledged_at r = None \<or>
      q_status r = Cancelled \<and> q_cancelled_at r = None \<or>
      q_status r = DeadLettered \<and> q_dead_lettered_at r = None)"

text \<open>\<open>COALESCE(acknowledged_at, cancelled_at, dead_lettered_at)\<close> in ascending order,
  \<open>NULL\<close> last, then the id.\<close>

definition coalesced_at :: "queue_row \<Rightarrow> time option" where
  "coalesced_at r =
     (case q_acknowledged_at r of Some t \<Rightarrow> Some t
      | None \<Rightarrow> (case q_cancelled_at r of Some t \<Rightarrow> Some t | None \<Rightarrow> q_dead_lettered_at r))"

definition stamp_order :: "(queue_row \<Rightarrow> time option) \<Rightarrow> collation \<Rightarrow> queue_row \<Rightarrow> queue_row \<Rightarrow> bool" where
  "stamp_order stamp coll a b =
     (if stamp a \<noteq> stamp b
      then (case (stamp a, stamp b) of
              (Some s, Some t) \<Rightarrow> s < t | (Some _, None) \<Rightarrow> True | _ \<Rightarrow> False)
      else coll (q_id a) (q_id b))"

text \<open>The result is committed before the missing timestamp is reported, so the sweep
  returns its count together with an error.\<close>

definition SweepSandboxTerminalJobs ::
    "collation \<Rightarrow> (bytes \<Rightarrow> bool) \<Rightarrow> tx_env \<Rightarrow> SandboxTerminalSweepRequest \<Rightarrow> queue_db \<Rightarrow>
     (queue_db \<times> nat \<times> error option) res" where
  "SweepSandboxTerminalJobs coll locked env request db =
     andThen (ensure (0 \<le> sw_Limit request) (ValidationError ''limit must not be negative'')) (\<lambda>_.
     let cutoff = Durable (request_now env (sw_Now request) - SandboxTerminalRetentionAge);
         invalidTerminalTimestamp = (\<exists>r\<in>set (jobs db). sandbox_unstamped r);
         candidates = take (nat (sandboxMaintenanceLimit (sw_Limit request)))
           (sort_by (stamp_order coalesced_at coll)
             (filter (\<lambda>r. sandbox_expired cutoff r \<and> \<not> locked (q_id r)) (jobs db)));
         doomed = (\<lambda>r. (q_workspace r, q_id r) \<in> (\<lambda>c. (q_workspace c, q_id c)) ` set candidates)
     in Inr (db\<lparr>jobs := filter (\<lambda>r. \<not> doomed r) (jobs db)\<rparr>, count_where doomed (jobs db),
          if invalidTerminalTimestamp
          then Some (IntegrityError ''sandbox terminal queue job is missing its status timestamp'') else None))"

subsection \<open>Old terminal Job Runner jobs\<close>

text \<open>The branch of \<open>tetral_prune_job_runner_jobs\<close> for one status; \<open>clock\<close> is its
  \<open>clock_timestamp()\<close>.\<close>

definition runner_expired :: "status \<Rightarrow> time \<Rightarrow> queue_row \<Rightarrow> bool" where
  "runner_expired st cutoff r \<longleftrightarrow> q_status r = st \<and> IsJobRunnerKind (q_kind r) \<and> at_or_before (terminal_at st r) cutoff"

definition pruneJobRunnerTerminalState ::
    "collation \<Rightarrow> (bytes \<Rightarrow> bool) \<Rightarrow> time \<Rightarrow> status \<Rightarrow> duration \<Rightarrow> time \<Rightarrow> int \<Rightarrow> queue_db \<Rightarrow>
     queue_db \<times> int \<times> int \<times> bool" where
  "pruneJobRunnerTerminalState coll locked clock st retention cutoff0 page_limit db =
     (let cutoff = min cutoff0 (clock - retention);
          candidates = take (nat page_limit) (sort_by (stamp_order (terminal_at st) coll)
            (filter (\<lambda>r. runner_expired st cutoff r \<and> \<not> locked (q_id r)) (jobs db)));
          doomed = (\<lambda>r. q_id r \<in> q_id ` set candidates \<and> runner_expired st cutoff r);
          db' = db\<lparr>jobs := filter (\<lambda>r. \<not> doomed r) (jobs db)\<rparr>;
          malformed = count_where (\<lambda>r. q_status r = st \<and> IsJobRunnerKind (q_kind r) \<and> terminal_at st r = None) (jobs db')
      in (db', int (count_where doomed (jobs db)), int (min 256 malformed),
          \<exists>r\<in>set (jobs db'). runner_expired st cutoff r))"

definition tetral_prune_job_runner_jobs ::
    "collation \<Rightarrow> (bytes \<Rightarrow> bool) \<Rightarrow> time \<Rightarrow> bytes \<Rightarrow> time \<Rightarrow> int \<Rightarrow> queue_db \<Rightarrow>
     (queue_db \<times> int \<times> int \<times> bool) res" where
  "tetral_prune_job_runner_jobs coll locked clock state cutoff limit db =
     (let page_limit = min (max limit 0) 256
      in if state = ''acknowledged''
         then Inr (pruneJobRunnerTerminalState coll locked clock Acknowledged (24 * Hour) cutoff page_limit db)
         else if state = ''cancelled''
         then Inr (pruneJobRunnerTerminalState coll locked clock Cancelled (24 * Hour) cutoff page_limit db)
         else if state = ''dead_lettered''
         then Inr (pruneJobRunnerTerminalState coll locked clock DeadLettered (168 * Hour) cutoff page_limit db)
         else Inl (DatabaseError ''22023''))"

text \<open>
  One transaction per status. \<open>ctxErr n\<close> is the cancellation seen before the \<open>n\<close>-th
  transaction, \<open>fault n\<close> the failure of that transaction to run, \<open>clk n\<close> its clock;
  the errors are joined.
\<close>

record prune_env =
  pe_ctxErr :: "nat \<Rightarrow> error option"
  pe_fault :: "nat \<Rightarrow> error option"
  pe_clock :: "nat \<Rightarrow> time"

fun prune_states ::
    "collation \<Rightarrow> (bytes \<Rightarrow> bool) \<Rightarrow> prune_env \<Rightarrow> time \<Rightarrow> nat \<Rightarrow> status list \<Rightarrow> queue_db \<Rightarrow>
     JobRunnerTerminalRetentionResult \<Rightarrow> queue_db \<times> JobRunnerTerminalRetentionResult \<times> error list" where
  "prune_states coll locked pe now n [] db result = (db, result, [])"
| "prune_states coll locked pe now n (state # states) db result =
     (case pe_ctxErr pe n of
        Some e \<Rightarrow> (db, result, [e])
      | None \<Rightarrow>
          let age = (if state = DeadLettered then JobRunnerDeadLetterRetentionAge else JobRunnerTerminalRetentionAge);
              run = (case pe_fault pe n of
                Some e \<Rightarrow> Inl e
              | None \<Rightarrow> tetral_prune_job_runner_jobs coll locked (pe_clock pe n) (status_text state)
                  (Durable (now - age)) JobRunnerRetentionStateLimit db)
          in case run of
               Inl e \<Rightarrow>
                 (case prune_states coll locked pe now (Suc n) states db result of
                    (db', result', errs) \<Rightarrow> (db', result', e # errs))
             | Inr (db', deleted, malformed, moreRemaining) \<Rightarrow>
                 prune_states coll locked pe now (Suc n) states db'
                   \<lparr>tr_Deleted = tr_Deleted result + deleted, tr_Malformed = tr_Malformed result + malformed,
                    tr_ExhaustedStates = tr_ExhaustedStates result +
                      (if deleted \<ge> JobRunnerRetentionStateLimit \<and> moreRemaining then 1 else 0)\<rparr>)"

definition PruneJobRunnerTerminalJobs ::
    "collation \<Rightarrow> (bytes \<Rightarrow> bool) \<Rightarrow> tx_env \<Rightarrow> prune_env \<Rightarrow> JobRunnerTerminalRetentionRequest \<Rightarrow> queue_db \<Rightarrow>
     queue_db \<times> JobRunnerTerminalRetentionResult \<times> error list" where
  "PruneJobRunnerTerminalJobs coll locked env pe request db =
     prune_states coll locked pe (request_now env (tr_Now request)) 0 JobRunnerTerminalStates db
       \<lparr>tr_Deleted = 0, tr_Malformed = 0, tr_ExhaustedStates = 0\<rparr>"

subsection \<open>Unused partition counters\<close>

text \<open>
  The sweep is one transaction at read committed: between its statements other
  transactions commit. \<open>others n\<close> is what they do to the tables before the \<open>n\<close>-th
  statement after the selection.
\<close>

definition counter_unused :: "queue_row list \<Rightarrow> bytes \<times> bytes \<Rightarrow> bool" where
  "counter_unused rs key \<longleftrightarrow> \<not> (\<exists>r\<in>set rs. partition_key_of r = key)"

definition counter_order :: "collation \<Rightarrow> counter_row \<Rightarrow> counter_row \<Rightarrow> bool" where
  "counter_order coll a b =
     (if c_workspace a \<noteq> c_workspace b then coll (c_workspace a) (c_workspace b)
      else coll (c_partition a) (c_partition b))"

definition unused_counters :: "collation \<Rightarrow> int \<Rightarrow> queue_db \<Rightarrow> (bytes \<times> bytes) list" where
  "unused_counters coll limit db =
     map counter_key (take (nat limit) (sort_by (counter_order coll)
       (filter (\<lambda>c. counter_unused (jobs db) (counter_key c)) (counters db))))"

fun sweep_counters ::
    "(nat \<Rightarrow> queue_db \<Rightarrow> queue_db) \<Rightarrow> nat \<Rightarrow> (bytes \<times> bytes) list \<Rightarrow> queue_db \<Rightarrow> nat \<Rightarrow> queue_db \<times> nat" where
  "sweep_counters others n [] db deleted = (db, deleted)"
| "sweep_counters others n (key # keys) db deleted =
     (let db1 = others n db
      in if key \<notin> counter_key ` set (counters db1)
         then sweep_counters others (Suc n) keys db1 deleted
         else
           let db2 = others (Suc n) db1;
               doomed = (\<lambda>c. counter_key c = key \<and> counter_unused (jobs db2) key)
           in sweep_counters others (Suc (Suc n)) keys
                (db2\<lparr>counters := filter (\<lambda>c. \<not> doomed c) (counters db2)\<rparr>)
                (deleted + count_where doomed (counters db2)))"

definition SweepEmptyPartitionCounters ::
    "collation \<Rightarrow> (nat \<Rightarrow> queue_db \<Rightarrow> queue_db) \<Rightarrow> EmptyPartitionCounterSweepRequest \<Rightarrow> queue_db \<Rightarrow>
     (queue_db \<times> nat) res" where
  "SweepEmptyPartitionCounters coll others request db =
     andThen (ensure (0 \<le> ec_Limit request) (ValidationError ''limit must not be negative'')) (\<lambda>_.
     Inr (sweep_counters others 0 (unused_counters coll (sandboxMaintenanceLimit (ec_Limit request)) db) db 0))"

subsection \<open>Metrics\<close>

text \<open>\<open>ms_ReadyLag\<close> is \<open>ReadyLagSeconds\<close> in nanoseconds, before its conversion to a
  floating-point number of seconds. \<open>clock_timestamp()\<close> is read anew for every row.\<close>

record MetricsSnapshot =
  ms_Kind :: bytes
  ms_PendingJobs :: nat
  ms_ReadyJobs :: nat
  ms_LeasedJobs :: nat
  ms_RetryPendingJobs :: nat
  ms_DeadLetteredJobs :: nat
  ms_ReadyLag :: duration

definition metrics_visible :: "queue_row \<Rightarrow> bool" where
  "metrics_visible r \<longleftrightarrow> q_status r = Pending \<or> q_status r = Leased \<or> q_status r = DeadLettered"

definition metrics_group :: "clock \<Rightarrow> time \<Rightarrow> queue_row list \<Rightarrow> bytes \<Rightarrow> MetricsSnapshot" where
  "metrics_group clk now rs kind =
     (let grp = filter (\<lambda>r. metrics_visible r \<and> q_kind r = kind) rs;
          lag = (\<lambda>(i, r). if q_status r = Pending \<and> q_available_at r \<le> now then clk 0 i - q_ready_at r else 0)
      in \<lparr>ms_Kind = kind,
          ms_PendingJobs = count_where (\<lambda>r. q_status r = Pending) grp,
          ms_ReadyJobs = count_where (\<lambda>r. q_status r = Pending \<and> q_available_at r \<le> now) grp,
          ms_LeasedJobs = count_where (\<lambda>r. q_status r = Leased) grp,
          ms_RetryPendingJobs = count_where (\<lambda>r. q_status r = Pending \<and> 0 < q_attempts r) grp,
          ms_DeadLetteredJobs = count_where (\<lambda>r. q_status r = DeadLettered) grp,
          ms_ReadyLag = Max (lag ` set (filter (\<lambda>(i, r). metrics_visible r \<and> q_kind r = kind) (enumerate 0 rs)))\<rparr>)"

definition Metrics :: "collation \<Rightarrow> tx_env \<Rightarrow> time \<Rightarrow> queue_db \<Rightarrow> MetricsSnapshot list" where
  "Metrics coll env now0 db =
     (let now = Durable (request_now env now0)
      in map (metrics_group (env_clock env) now (jobs db))
           (sort_by coll (remdups (map q_kind (filter metrics_visible (jobs db))))))"

end
