(* ===== verification/Queue_Maintenance_Facts.thy ===== *)
theory Queue_Maintenance_Facts
  imports Queue_Maintenance Queue_Replacement_Facts
begin

section \<open>What maintenance keeps\<close>

text \<open>
  The deletions keep the queue's invariant and remove only what has expired: the
  Sandbox sweep and the Job Runner retention remove old terminal rows of their own
  kinds, the counter sweep removes no counter a job still needs, whatever other
  transactions commit between its statements. The jobs the budget list names can
  be dead-lettered.
\<close>

subsection \<open>Pages of candidates\<close>

lemma queue_inv_filter: "queue_inv db \<Longrightarrow> queue_inv (db\<lparr>jobs := filter P (jobs db)\<rparr>)"
  by (simp add: queue_inv_def jobs_inv_filter counters_cover_filter)

lemma id_in_page:
  assumes "distinct (map q_id rs)" "set page \<subseteq> set rs" "r \<in> set rs"
  shows "q_id r \<in> q_id ` set page \<longleftrightarrow> r \<in> set page"
    and "(q_workspace r, q_id r) \<in> (\<lambda>c. (q_workspace c, q_id c)) ` set page \<longleftrightarrow> r \<in> set page"
proof -
  have "r = c" if "c \<in> set page" "q_id r = q_id c" for c
    using distinct_map_inj [OF assms(1,3)] that assms(2) by blast
  then show "q_id r \<in> q_id ` set page \<longleftrightarrow> r \<in> set page"
    and "(q_workspace r, q_id r) \<in> (\<lambda>c. (q_workspace c, q_id c)) ` set page \<longleftrightarrow> r \<in> set page"
    by (auto simp: image_iff)
qed

text \<open>Deleting a page of rows by id: what goes was on the page, and its number is the
  page's length.\<close>

lemma deleted_page:
  assumes "distinct (map q_id rs)" and "page = take n (sort_by le (filter P rs))"
  shows "set rs - set (filter (\<lambda>r. q_id r \<notin> q_id ` set page) rs) = set page"
    and "count_where (\<lambda>r. q_id r \<in> q_id ` set page) rs = length page"
proof -
  have sub: "set page \<subseteq> {r \<in> set rs. P r}" using set_take_subset [of n "sort_by le (filter P rs)"] by (auto simp: assms(2))
  have mem: "q_id r \<in> q_id ` set page \<longleftrightarrow> r \<in> set page" if "r \<in> set rs" for r
    using id_in_page(1) [OF assms(1) _ that] sub by blast
  then show "set rs - set (filter (\<lambda>r. q_id r \<notin> q_id ` set page) rs) = set page" using sub by auto
  have "set (filter (\<lambda>r. q_id r \<in> q_id ` set page) rs) = set page" using mem sub by auto
  moreover have "distinct rs" using assms(1) by (simp add: distinct_map)
  moreover have "distinct page" using \<open>distinct rs\<close> by (simp add: assms(2))
  ultimately show "count_where (\<lambda>r. q_id r \<in> q_id ` set page) rs = length page"
    by (metis count_where_def distinct_card distinct_filter)
qed

lemma page_members: "r \<in> set (take n (sort_by le (filter P rs))) \<Longrightarrow> r \<in> set rs \<and> P r"
  by (auto dest!: in_set_takeD)

lemma page_complete:
  "r \<in> set rs \<Longrightarrow> P r \<Longrightarrow> count_where P rs \<le> n \<Longrightarrow> r \<in> set (take n (sort_by le (filter P rs)))"
  by (simp add: count_where_def)

lemma maintenance_limit: "0 < sandboxMaintenanceLimit l" "sandboxMaintenanceLimit l \<le> SandboxMaintenanceBatchLimit"
  by (auto simp: sandboxMaintenanceLimit_def SandboxMaintenanceBatchLimit_def)

subsection \<open>The Sandbox sweep\<close>

lemma inv_unstamped: "queue_inv db \<Longrightarrow> r \<in> set (jobs db) \<Longrightarrow> \<not> sandbox_unstamped r"
  by (auto simp: queue_inv_def jobs_inv_def row_ok_def sandbox_unstamped_def)

text \<open>When a terminal row ended: the column of its status.\<close>

definition ended_by :: "time \<Rightarrow> queue_row \<Rightarrow> bool" where
  "ended_by cutoff r \<longleftrightarrow> terminal (q_status r) \<and> (\<exists>t. terminal_at (q_status r) r = Some t \<and> t \<le> cutoff)"

lemma sandbox_expired_ended: "sandbox_expired cutoff r \<longleftrightarrow> IsSandboxJobKind (q_kind r) \<and> ended_by cutoff r"
  by (cases "q_status r")
    (auto simp: sandbox_expired_def ended_by_def at_or_before_def terminal_iff_not_active active_def split: option.splits)

lemma sandbox_unstamped_terminal:
  "sandbox_unstamped r \<longleftrightarrow> IsSandboxJobKind (q_kind r) \<and> terminal (q_status r) \<and> terminal_at (q_status r) r = None"
  by (cases "q_status r") (auto simp: sandbox_unstamped_def terminal_iff_not_active active_def)

text \<open>C22: the Sandbox sweep keeps the queue's invariant and deletes only rows of Sandbox kinds
  that no other transaction has locked and that are terminal since at least a day before the
  request's time, by the timestamp column of their status. It deletes no more than its limit,
  counts what it deletes, and leaves such a row only when it has deleted its full limit.
  Whatever it deletes, it reports an error exactly when some terminal Sandbox row has no
  timestamp.\<close>

theorem sandbox_sweep_safe:
  assumes "SweepSandboxTerminalJobs coll locked env q db = Inr (db', n, err)" and "distinct (map q_id (jobs db))"
  defines "cutoff \<equiv> Durable (request_now env (sw_Now q) - 24 * Hour)"
  defines "gone \<equiv> set (jobs db) - set (jobs db')"
  shows "(queue_inv db \<longrightarrow> queue_inv db') \<and> set (jobs db') \<subseteq> set (jobs db) \<and>
    (\<forall>r\<in>gone. IsSandboxJobKind (q_kind r) \<and> ended_by cutoff r \<and> \<not> locked (q_id r)) \<and>
    n = card gone \<and> int n \<le> SandboxMaintenanceBatchLimit \<and> (0 < sw_Limit q \<longrightarrow> int n \<le> sw_Limit q) \<and>
    ((\<exists>r\<in>set (jobs db'). IsSandboxJobKind (q_kind r) \<and> ended_by cutoff r \<and> \<not> locked (q_id r)) \<longrightarrow>
       int n = sandboxMaintenanceLimit (sw_Limit q)) \<and>
    (err \<noteq> None \<longleftrightarrow>
       (\<exists>r\<in>set (jobs db). IsSandboxJobKind (q_kind r) \<and> terminal (q_status r) \<and> terminal_at (q_status r) r = None))"
proof -
  let ?P = "\<lambda>r. sandbox_expired cutoff r \<and> \<not> locked (q_id r)"
  define lim where "lim = nat (sandboxMaintenanceLimit (sw_Limit q))"
  define page where "page = take lim (sort_by (stamp_order coalesced_at coll) (filter ?P (jobs db)))"
  have sub: "r \<in> set (jobs db) \<and> ?P r" if "r \<in> set page" for r using page_members that unfolding page_def by fast
  have key: "(q_workspace r, q_id r) \<in> (\<lambda>c. (q_workspace c, q_id c)) ` set page \<longleftrightarrow> q_id r \<in> q_id ` set page"
    if "r \<in> set (jobs db)" for r
    using id_in_page [OF assms(2) _ that, of page] sub by blast
  then have filt: "filter (\<lambda>r. (q_workspace r, q_id r) \<in> (\<lambda>c. (q_workspace c, q_id c)) ` set page) (jobs db) =
      filter (\<lambda>r. q_id r \<in> q_id ` set page) (jobs db)"
    "filter (\<lambda>r. (q_workspace r, q_id r) \<notin> (\<lambda>c. (q_workspace c, q_id c)) ` set page) (jobs db) =
      filter (\<lambda>r. q_id r \<notin> q_id ` set page) (jobs db)"
    by (simp_all cong: filter_cong)
  have "db' = db\<lparr>jobs := filter (\<lambda>r. q_id r \<notin> q_id ` set page) (jobs db)\<rparr> \<and>
      n = count_where (\<lambda>r. q_id r \<in> q_id ` set page) (jobs db) \<and>
      err = (if \<exists>r\<in>set (jobs db). sandbox_unstamped r
        then Some (IntegrityError ''sandbox terminal queue job is missing its status timestamp'') else None)"
    using assms(1) [unfolded SweepSandboxTerminalJobs_def Let_def SandboxTerminalRetentionAge_def, folded cutoff_def lim_def,
        folded page_def]
    by (simp add: andThen_Inr_iff count_where_def filt del: image_iff)
  then have db': "db' = db\<lparr>jobs := filter (\<lambda>r. q_id r \<notin> q_id ` set page) (jobs db)\<rparr>"
    and n: "n = count_where (\<lambda>r. q_id r \<in> q_id ` set page) (jobs db)"
    and err: "err \<noteq> None \<longleftrightarrow> (\<exists>r\<in>set (jobs db). sandbox_unstamped r)" by simp_all
  note page = deleted_page [OF assms(2) page_def]
  have gone: "gone = set page" using page(1) by (simp add: gone_def db')
  have "distinct page" using assms(2) by (auto simp: page_def distinct_map)
  then have "n = card gone" using page(2) by (simp add: n gone distinct_card)
  moreover have "length page \<le> lim" by (simp add: page_def)
  then have "int n \<le> sandboxMaintenanceLimit (sw_Limit q)" using page(2) maintenance_limit [of "sw_Limit q"] by (simp add: n lim_def)
  moreover have "int n = sandboxMaintenanceLimit (sw_Limit q)" if "r \<in> set (jobs db')" "?P r" for r
  proof (rule ccontr)
    assume "int n \<noteq> sandboxMaintenanceLimit (sw_Limit q)"
    then have "count_where ?P (jobs db) \<le> lim" using page(2) \<open>length page \<le> lim\<close> maintenance_limit [of "sw_Limit q"]
      by (auto simp: n page_def count_where_def lim_def)
    then show False
      using that page_complete [of r "jobs db" ?P lim "stamp_order coalesced_at coll"] by (auto simp: db' page_def)
  qed
  moreover have "sandboxMaintenanceLimit l \<le> SandboxMaintenanceBatchLimit" "0 < l \<longrightarrow> sandboxMaintenanceLimit l \<le> l" for l
    by (auto simp: sandboxMaintenanceLimit_def)
  moreover have "set (jobs db') \<subseteq> set (jobs db)" "queue_inv db \<longrightarrow> queue_inv db'" using queue_inv_filter by (auto simp: db')
  moreover have "\<forall>r\<in>gone. ?P r" using sub by (simp add: gone)
  ultimately show ?thesis
    unfolding sandbox_expired_ended sandbox_unstamped_terminal [symmetric] using err by (meson order_trans)
qed

text \<open>A Sandbox row that ended two days before the sweep.\<close>

definition sandbox_row :: "bytes \<Rightarrow> status \<Rightarrow> queue_row" where
  "sandbox_row i st = (lane_row i KindSandboxRelease Ordinary 1)
     \<lparr>q_scope := ScopePartition, q_session := None, q_thread := None, q_partition := ''sandbox:ws:x'', q_status := st,
      q_cancelled_at := (if st = Cancelled then Some 0 else None), q_attempts := 3, q_max_attempts := 3\<rparr>"

definition sandbox_db :: "queue_row \<Rightarrow> queue_db" where
  "sandbox_db r = \<lparr>jobs = [r], counters = [\<lparr>c_workspace = ''ws'', c_partition = ''sandbox:ws:x'', c_last = 1,
     c_created_at = 0, c_updated_at = 0\<rparr>], notifications = []\<rparr>"

lemma sandbox_db_inv:
  assumes "st \<in> {Pending, Cancelled}"
  shows "queue_inv (sandbox_db (sandbox_row i st))"
proof -
  have "row_ok (sandbox_row i st)"
    using assms
    by (auto simp: row_ok_unfold delivery_ok_def sandbox_row_def lane_row_def isKnownKind_def
        IsJobRunnerKind_def null_string_def kind_simps)
  then show ?thesis
    by (simp add: queue_inv_def jobs_inv_def sandbox_db_def active_dedupe_unique_def lease_exclusion_def
        counters_cover_def counter_key_def partition_key_of_def sandbox_row_def lane_row_def)
qed

text \<open>A sweep that deletes one row and finds another without its timestamp.\<close>

definition swept_db :: queue_db where
  "swept_db = (sandbox_db (sandbox_row ''x'' Cancelled))\<lparr>jobs := [sandbox_row ''x'' Cancelled, sandbox_row ''y'' Acknowledged]\<rparr>"

theorem sandbox_sweep_safe_witness:
  "\<exists>db' n err. SweepSandboxTerminalJobs go_string_le (\<lambda>i. False) sample_env
       \<lparr>sw_Now = 48 * Hour, sw_Limit = 2\<rparr> swept_db = Inr (db', n, err) \<and>
     n = 1 \<and> err \<noteq> None \<and> sandbox_row ''x'' Cancelled \<notin> set (jobs db')"
proof -
  let ?q = "\<lparr>sw_Now = 48 * Hour, sw_Limit = 2\<rparr>" and ?x = "sandbox_row ''x'' Cancelled" and ?y = "sandbox_row ''y'' Acknowledged"
  obtain db' n err where run: "SweepSandboxTerminalJobs go_string_le (\<lambda>i. False) sample_env ?q swept_db = Inr (db', n, err)"
    by (simp add: SweepSandboxTerminalJobs_def Let_def)
  have ids: "distinct (map q_id (jobs swept_db))" by (simp add: swept_db_def sandbox_row_def lane_row_def)
  have x: "IsSandboxJobKind (q_kind ?x)" "ended_by (Durable (request_now sample_env (sw_Now ?q) - 24 * Hour)) ?x"
    by (simp_all add: ended_by_def sandbox_row_def IsSandboxJobKind_def lane_row_def terminal_iff_not_active active_def
        request_now_def IsZero_def zero_time_def Durable_def)
  have y: "IsSandboxJobKind (q_kind ?y)" "terminal (q_status ?y)" "terminal_at (q_status ?y) ?y = None"
    by (simp_all add: sandbox_row_def IsSandboxJobKind_def lane_row_def terminal_iff_not_active active_def)
  have sweep: "\<forall>r\<in>set (jobs swept_db) - set (jobs db'). ended_by (Durable (request_now sample_env (sw_Now ?q) - 24 * Hour)) r"
      "n = card (set (jobs swept_db) - set (jobs db'))" "int n = sandboxMaintenanceLimit (sw_Limit ?q) \<or> ?x \<notin> set (jobs db')" "err \<noteq> None"
    using sandbox_sweep_safe [OF run ids] x y by (blast, blast, blast, auto simp: swept_db_def)
  have "?y \<notin> set (jobs swept_db) - set (jobs db')" by (rule notI) (drule bspec [OF sweep(1)], simp add: ended_by_def y(3))
  then have gone: "set (jobs swept_db) - set (jobs db') = (if ?x \<in> set (jobs db') then {} else {?x})" by (auto simp: swept_db_def)
  have "?x \<notin> set (jobs db')"
  proof
    assume x': "?x \<in> set (jobs db')"
    have "n = 0" unfolding sweep(2) gone using x' by simp
    moreover have "int n = 2" using sweep(3) x' by (simp add: sandboxMaintenanceLimit_def SandboxMaintenanceBatchLimit_def)
    ultimately show False by simp
  qed
  moreover from this have "n = 1" using sweep(2) gone by simp
  ultimately show ?thesis using run sweep(4) by blast
qed

subsection \<open>Spent budgets\<close>

lemma scan_over_budget_fields:
  "scan_over_budget r = Inr j \<Longrightarrow>
     pb_WorkspaceID j = q_workspace r \<and> pb_JobID j = q_id r \<and> pb_AttemptCount j = q_attempts r"
  by (auto simp: scan_over_budget_def split: option.splits)

lemma over_budget_listed:
  assumes "ListPendingAtOrOverBudget coll q db = Inr js" "j \<in> set js"
  obtains r where "r \<in> set (jobs db)" "over_budget r" "pb_WorkspaceID j = q_workspace r" "pb_JobID j = q_id r"
    "pb_AttemptCount j = q_attempts r"
proof -
  obtain r where "r \<in> set (jobs db)" "over_budget r" "scan_over_budget r = Inr j"
    using assms by (auto simp: ListPendingAtOrOverBudget_def andThen_Inr_iff dest!: map_result_Inr_set page_members)
  then show thesis using that scan_over_budget_fields by blast
qed

text \<open>Every Sandbox job the budget list names can be closed as it was observed: dead-lettering
  it with the observed attempt count succeeds, keeps the queue's invariant, and the next
  list no longer names it.\<close>

theorem over_budget_closes:
  assumes "ListPendingAtOrOverBudget coll q db = Inr js" and "j \<in> set js" and "queue_inv db"
    and "pb_WorkspaceID j \<noteq> []" and "pb_JobID j \<noteq> []"
    and "d = \<lparr>de_WorkspaceID = pb_WorkspaceID j, de_JobID = pb_JobID j, de_ObservedAttemptCount = pb_AttemptCount j,
      de_ErrorKind = k, de_ErrorMessage = m, de_Now = t\<rparr>"
  shows "\<exists>db'. DeadLetterExhaustedTx env d db = Inr (db', True) \<and> queue_inv db' \<and>
    (\<forall>js'. ListPendingAtOrOverBudget coll q' db' = Inr js' \<longrightarrow> pb_JobID j \<notin> pb_JobID ` set js')"
proof -
  obtain r where r: "r \<in> set (jobs db)" "over_budget r" and f: "pb_WorkspaceID j = q_workspace r" "pb_JobID j = q_id r"
    "pb_AttemptCount j = q_attempts r"
    using over_budget_listed [OF assms(1,2)] .
  define P where "P = (\<lambda>x. named_job (de_WorkspaceID d) (de_JobID d) x \<and> q_attempts x = de_ObservedAttemptCount d \<and>
    0 < q_max_attempts x \<and> q_max_attempts x \<le> q_attempts x)"
  let ?u = "exhausted_set (Durable (request_now env (de_Now d))) (de_ErrorKind d) (de_ErrorMessage d)"
  let ?g = "\<lambda>x. P x \<and> q_status x = Pending"
  have g: "?g r" using r(2) by (simp add: P_def assms(6) f named_job_def over_budget_def)
  define db' where "db' = db\<lparr>jobs := upd_where ?g ?u (jobs db)\<rparr>"
  have "0 < de_ObservedAttemptCount d" using r(2) by (simp add: assms(6) f over_budget_def)
  then have run: "DeadLetterExhaustedTx env d db = Inr (exec_where ?g ?u db)"
    using assms(4,5) by (simp add: DeadLetterExhaustedTx_def assms(6) P_def conj_ac)
  have hit: "exec_where ?g ?u db = (db', True)" and mem: "?u r \<in> set (jobs db')"
    using exec_where_hit [of r db ?g ?u] r(1) g by (auto simp: db'_def)
  have inv: "queue_inv db'" unfolding db'_def by (rule exhausted.inv_kept [OF assms(3)])
  have "pb_JobID j \<notin> pb_JobID ` set js'" if l: "ListPendingAtOrOverBudget coll q' db' = Inr js'" for js'
  proof
    assume "pb_JobID j \<in> pb_JobID ` set js'"
    then obtain j' where "j' \<in> set js'" "pb_JobID j' = pb_JobID j" by (metis imageE)
    then obtain r' where r': "r' \<in> set (jobs db')" "over_budget r'" "q_id r' = q_id r"
      using over_budget_listed [OF l, of j'] f(2) by metis
    have "q_id (?u r) = q_id r" by (simp add: exhausted_set_def)
    then have "r' = ?u r" using same_job [OF inv r'(1) mem] r'(3) by simp
    then show False using r'(2) by (simp add: over_budget_def exhausted_set_def)
  qed
  then show ?thesis using run hit inv by auto
qed

theorem over_budget_closes_witness:
  "\<exists>js j db'. ListPendingAtOrOverBudget go_string_le \<lparr>lb_Limit = 0\<rparr> (sandbox_db (sandbox_row ''x'' Pending)) = Inr js \<and>
     j \<in> set js \<and> DeadLetterExhaustedTx sample_env
       \<lparr>de_WorkspaceID = pb_WorkspaceID j, de_JobID = pb_JobID j, de_ObservedAttemptCount = pb_AttemptCount j,
        de_ErrorKind = ''k'', de_ErrorMessage = ''m'', de_Now = 0\<rparr> (sandbox_db (sandbox_row ''x'' Pending)) = Inr (db', True) \<and>
     queue_inv db'"
proof -
  let ?r = "sandbox_row ''x'' Pending"
  obtain j where j: "scan_over_budget ?r = Inr j" "pb_WorkspaceID j = ''ws''" "pb_JobID j = ''x''"
    by (simp add: scan_over_budget_def sandbox_row_def lane_row_def)
  have "over_budget ?r" by (simp add: over_budget_def sandbox_row_def IsSandboxJobKind_def lane_row_def)
  then have run: "ListPendingAtOrOverBudget go_string_le \<lparr>lb_Limit = 0\<rparr> (sandbox_db ?r) = Inr [j]"
    using j(1) by (simp add: ListPendingAtOrOverBudget_def sandbox_db_def sandboxMaintenanceLimit_def
        SandboxMaintenanceBatchLimit_def over_budget_def)
  have "j \<in> set [j]" "queue_inv (sandbox_db ?r)" using sandbox_db_inv [of Pending] by auto
  from over_budget_closes [OF run this] j(2,3) run show ?thesis by fastforce
qed

subsection \<open>Job Runner retention\<close>

definition retention_age :: "status \<Rightarrow> duration" where
  "retention_age st = (if st = DeadLettered then 168 * Hour else 24 * Hour)"

text \<open>The ages the caller subtracts are the ages the database function enforces.\<close>

lemma retention_age_of:
  "(if st = DeadLettered then JobRunnerDeadLetterRetentionAge else JobRunnerTerminalRetentionAge) = retention_age st"
  by (simp add: retention_age_def JobRunnerDeadLetterRetentionAge_def JobRunnerTerminalRetentionAge_def)

definition outlived :: "prune_env \<Rightarrow> time \<Rightarrow> queue_row \<Rightarrow> bool" where
  "outlived pe now r \<longleftrightarrow> IsJobRunnerKind (q_kind r) \<and> terminal (q_status r) \<and>
     (\<exists>n t. terminal_at (q_status r) r = Some t \<and> t + retention_age (q_status r) \<le> pe_clock pe n \<and>
       t \<le> Durable (now - retention_age (q_status r)))"

lemma runner_expired_outlived:
  "runner_expired st (min (Durable (now - retention_age st)) (pe_clock pe n - retention_age st)) r \<Longrightarrow> terminal st \<Longrightarrow>
    outlived pe now r"
  by (auto simp: runner_expired_def outlived_def at_or_before_def split: option.splits intro!: exI [of _ n])

lemma inv_stamped:
  "queue_inv db \<Longrightarrow> r \<in> set (jobs db) \<Longrightarrow> q_status r = st \<Longrightarrow> terminal st \<Longrightarrow> terminal_at st r \<noteq> None"
  by (cases st) (auto simp: queue_inv_def jobs_inv_def row_ok_def terminal_iff_not_active active_def)

lemma prune_state_facts:
  assumes "pruneJobRunnerTerminalState coll locked clock st retention cutoff lim db = (db', d, m, rest)"
    and "queue_inv db" and "terminal st"
  shows "queue_inv db' \<and> set (jobs db') \<subseteq> set (jobs db) \<and> counters db' = counters db \<and> m = 0 \<and>
    d = int (card (set (jobs db) - set (jobs db'))) \<and> d \<le> max 0 lim \<and>
    (\<forall>r\<in>set (jobs db) - set (jobs db'). runner_expired st (min cutoff (clock - retention)) r \<and> \<not> locked (q_id r))"
proof -
  let ?P = "\<lambda>r. runner_expired st (min cutoff (clock - retention)) r \<and> \<not> locked (q_id r)"
  define page where "page = take (nat lim) (sort_by (stamp_order (terminal_at st) coll) (filter ?P (jobs db)))"
  have ids: "distinct (map q_id (jobs db))" using assms(2) by (simp add: queue_inv_def jobs_inv_def)
  have sub: "r \<in> set (jobs db) \<and> ?P r" if "r \<in> set page" for r using page_members that unfolding page_def by fast
  have doomed: "q_id r \<in> q_id ` set page \<and> runner_expired st (min cutoff (clock - retention)) r \<longleftrightarrow> q_id r \<in> q_id ` set page"
    if "r \<in> set (jobs db)" for r
    using id_in_page(1) [OF ids _ that, of page] sub by blast
  have keep: "q_id r \<in> q_id ` set page \<longrightarrow> \<not> runner_expired st (min cutoff (clock - retention)) r \<longleftrightarrow> q_id r \<notin> q_id ` set page"
    if "r \<in> set (jobs db)" for r
    using doomed [OF that] by blast
  have db': "db' = db\<lparr>jobs := filter (\<lambda>r. q_id r \<notin> q_id ` set page) (jobs db)\<rparr>"
    and d: "d = int (count_where (\<lambda>r. q_id r \<in> q_id ` set page) (jobs db))"
    and m: "m = int (min 256 (count_where (\<lambda>r. q_status r = st \<and> IsJobRunnerKind (q_kind r) \<and> terminal_at st r = None) (jobs db')))"
    using assms(1)
    by (auto simp: pruneJobRunnerTerminalState_def Let_def page_def [symmetric] count_where_def doomed keep
        simp del: image_iff cong: filter_cong)
  note page = deleted_page [OF ids page_def]
  have inv: "queue_inv db'" using queue_inv_filter [OF assms(2)] by (simp add: db')
  have "m = 0" using inv_stamped [OF inv _ _ assms(3)] by (auto simp: m count_where_def filter_empty_conv)
  moreover have "distinct page" using ids by (auto simp: page_def distinct_map)
  moreover have "length page \<le> nat lim" by (simp add: page_def)
  ultimately show ?thesis using inv page sub by (auto simp: db' d distinct_card)
qed

lemma prune_known_state:
  "terminal st \<Longrightarrow> tetral_prune_job_runner_jobs coll locked clock (status_text st) cutoff lim db =
     Inr (pruneJobRunnerTerminalState coll locked clock st (retention_age st) cutoff (min (max lim 0) 256) db)"
  by (cases st) (simp_all add: tetral_prune_job_runner_jobs_def retention_age_def terminal_iff_not_active active_def)

definition pruned :: "prune_env \<Rightarrow> (bytes \<Rightarrow> bool) \<Rightarrow> time \<Rightarrow> queue_db \<Rightarrow> queue_db \<Rightarrow> int \<Rightarrow> bool" where
  "pruned pe locked now db db' d \<longleftrightarrow> queue_inv db' \<and> set (jobs db') \<subseteq> set (jobs db) \<and> counters db' = counters db \<and>
     d = int (card (set (jobs db) - set (jobs db'))) \<and>
     (\<forall>r\<in>set (jobs db) - set (jobs db'). outlived pe now r \<and> \<not> locked (q_id r))"

lemma pruned_refl: "queue_inv db \<Longrightarrow> pruned pe locked now db db 0"
  by (simp add: pruned_def)

lemma pruned_trans:
  assumes "pruned pe locked now db db1 d" "pruned pe locked now db1 db' d'"
  shows "pruned pe locked now db db' (d + d')"
proof -
  have "set (jobs db) - set (jobs db') = (set (jobs db) - set (jobs db1)) \<union> (set (jobs db1) - set (jobs db'))"
    using assms by (auto simp: pruned_def)
  moreover have "card ((set (jobs db) - set (jobs db1)) \<union> (set (jobs db1) - set (jobs db'))) =
      card (set (jobs db) - set (jobs db1)) + card (set (jobs db1) - set (jobs db'))"
    by (rule card_Un_disjoint) auto
  ultimately show ?thesis using assms by (auto simp: pruned_def)
qed

lemma prune_step:
  assumes "tetral_prune_job_runner_jobs coll locked (pe_clock pe n) (status_text st) (Durable (now - retention_age st)) lim db =
      Inr (db', d, m, rest)"
    and "queue_inv db" and "terminal st"
  shows "pruned pe locked now db db' d" and "m = 0"
proof -
  have "pruneJobRunnerTerminalState coll locked (pe_clock pe n) st (retention_age st) (Durable (now - retention_age st))
      (min (max lim 0) 256) db = (db', d, m, rest)"
    using assms(1) by (simp add: prune_known_state [OF assms(3)])
  from prune_state_facts [OF this assms(2,3)] show "pruned pe locked now db db' d" "m = 0"
    using runner_expired_outlived [OF _ assms(3), of now pe n] unfolding pruned_def by blast+
qed

lemma prune_states_facts:
  assumes "prune_states coll locked pe now n states db res = (db', res', errs)" "queue_inv db"
    "\<forall>st\<in>set states. terminal st"
  shows "pruned pe locked now db db' (tr_Deleted res' - tr_Deleted res) \<and> tr_Malformed res' = tr_Malformed res \<and>
    ((\<forall>i. pe_ctxErr pe i = None) \<longrightarrow> errs = List.map_filter (pe_fault pe) [n..<n + length states])"
  using assms
proof (induction states arbitrary: n db res errs)
  case Nil
  then show ?case by (auto simp: pruned_refl List.map_filter_def)
next
  case (Cons st states)
  have up: "List.map_filter (pe_fault pe) [n..<n + length (st # states)] =
      (case pe_fault pe n of None \<Rightarrow> [] | Some e \<Rightarrow> [e]) @ List.map_filter (pe_fault pe) [Suc n..<Suc n + length states]"
    by (subst upt_rec) (auto simp: List.map_filter_simps split: option.splits)
  let ?cutoff = "Durable (now - retention_age st)"
  let ?prune = "tetral_prune_job_runner_jobs coll locked (pe_clock pe n) (status_text st) ?cutoff JobRunnerRetentionStateLimit db"
  consider (ctx) e where "pe_ctxErr pe n = Some e"
    | (fault) e where "pe_ctxErr pe n = None" "pe_fault pe n = Some e"
    | (run) db1 d m rest where "pe_ctxErr pe n = None" "pe_fault pe n = None" "?prune = Inr (db1, d, m, rest)"
    using prune_known_state [of st] Cons.prems(3) by (cases "pe_ctxErr pe n"; cases "pe_fault pe n") (auto, metis prod_cases4)
  then show ?case
  proof cases
    case ctx
    then show ?thesis using Cons.prems by (auto simp: pruned_refl)
  next
    case fault
    then obtain errs' where "prune_states coll locked pe now (Suc n) states db res = (db', res', errs')" "errs = e # errs'"
      using Cons.prems(1) by (auto simp: Let_def split: prod.splits)
    then show ?thesis
      using Cons.IH [of "Suc n" db res errs'] Cons.prems(2,3) fault unfolding up by (simp del: upt_Suc)
  next
    case run
    define res1 where "res1 = \<lparr>tr_Deleted = tr_Deleted res + d, tr_Malformed = tr_Malformed res + m,
      tr_ExhaustedStates = tr_ExhaustedStates res + (if d \<ge> JobRunnerRetentionStateLimit \<and> rest then 1 else 0)\<rparr>"
    have rec: "prune_states coll locked pe now (Suc n) states db1 res1 = (db', res', errs)"
      using Cons.prems(1) run by (simp add: Let_def res1_def retention_age_of)
    have "pruned pe locked now db db1 d" "m = 0" using prune_step [OF run(3) Cons.prems(2)] Cons.prems(3) by auto
    moreover from this have "queue_inv db1" by (simp add: pruned_def)
    ultimately show ?thesis
      using Cons.IH [OF rec] Cons.prems(3) run pruned_trans [of pe locked now db db1 d db' "tr_Deleted res' - tr_Deleted res1"]
      unfolding up by (simp add: res1_def algebra_simps del: upt_Suc)
  qed
qed

text \<open>C23: Job Runner retention keeps the queue's invariant and its counters, and deletes only
  terminal rows of Job Runner kinds that no other transaction has locked and that ended at
  least their retention age (a week for dead letters, a day otherwise) before both the
  database clock and the request's time: neither clock alone lets a row go. It counts what it
  deletes and finds no row without its timestamp. A failing status is reported and does not
  stop the others.\<close>

theorem runner_retention_safe:
  assumes "PruneJobRunnerTerminalJobs coll locked env pe q db = (db', res, errs)" and "queue_inv db"
  shows "queue_inv db' \<and> counters db' = counters db \<and> set (jobs db') \<subseteq> set (jobs db) \<and>
    (\<forall>r\<in>set (jobs db) - set (jobs db'). outlived pe (request_now env (tr_Now q)) r \<and> \<not> locked (q_id r)) \<and>
    tr_Deleted res = int (card (set (jobs db) - set (jobs db'))) \<and> tr_Malformed res = 0 \<and>
    ((\<forall>i. pe_ctxErr pe i = None) \<longrightarrow> errs = List.map_filter (pe_fault pe) [0, 1, 2])"
proof -
  have "\<forall>st\<in>set JobRunnerTerminalStates. terminal st"
    by (simp add: JobRunnerTerminalStates_def terminal_iff_not_active active_def)
  moreover have "length JobRunnerTerminalStates = 3" "[0..<3] = [0, 1, 2::nat]"
    by (simp_all add: JobRunnerTerminalStates_def upt_rec)
  ultimately show ?thesis
    using prune_states_facts [OF assms(1) [unfolded PruneJobRunnerTerminalJobs_def] assms(2)]
    by (simp add: pruned_def)
qed

definition ended_row :: queue_row where
  "ended_row = held_row\<lparr>q_status := Acknowledged, q_acknowledged_at := Some 0, q_token := None, q_leased_by := None,
     q_leased_at := None, q_leased_until := None, q_prev_attempts := None\<rparr>"

definition ended_db :: queue_db where
  "ended_db = held_db\<lparr>jobs := [ended_row]\<rparr>"

lemma ended_db_inv: "queue_inv ended_db"
proof -
  have "row_ok ended_row"
    by (simp add: row_ok_unfold delivery_ok_def ended_row_def held_row_def lane_row_def isKnownKind_def
        IsJobRunnerKind_def null_string_def kind_simps)
  then show ?thesis
    by (simp add: queue_inv_def jobs_inv_def ended_db_def held_db_def active_dedupe_unique_def lease_exclusion_def
        counters_cover_def counter_key_def partition_key_of_def ended_row_def held_row_def lane_row_def)
qed

theorem runner_retention_safe_witness:
  "\<exists>db' res errs. PruneJobRunnerTerminalJobs go_string_le (\<lambda>i. False) sample_env
       \<lparr>pe_ctxErr = (\<lambda>n. None), pe_fault = (\<lambda>n. if n = 1 then Some ErrNoRows else None), pe_clock = (\<lambda>n. 48 * Hour)\<rparr>
       \<lparr>tr_Now = 1000 * Hour\<rparr> ended_db = (db', res, errs) \<and>
     queue_inv db' \<and> errs = [ErrNoRows] \<and> tr_Malformed res = 0"
proof -
  let ?pe = "\<lparr>pe_ctxErr = (\<lambda>n. None), pe_fault = (\<lambda>n. if n = 1 then Some ErrNoRows else None), pe_clock = (\<lambda>n. 48 * Hour)\<rparr>"
  obtain db' res errs where run: "PruneJobRunnerTerminalJobs go_string_le (\<lambda>i. False) sample_env ?pe
      \<lparr>tr_Now = 1000 * Hour\<rparr> ended_db = (db', res, errs)"
    by (metis prod_cases3)
  then show ?thesis
    using runner_retention_safe [OF run ended_db_inv] by (simp add: List.map_filter_simps)
qed

subsection \<open>Unused counters\<close>

lemma counter_delete_inv:
  assumes "queue_inv db"
  shows "queue_inv (db\<lparr>counters := filter (\<lambda>c. \<not> (counter_key c = key \<and> counter_unused (jobs db) key)) (counters db)\<rparr>)"
proof -
  have "\<exists>c\<in>set (counters db). counter_key c = partition_key_of r \<and> q_seq r \<le> c_last c \<and>
      \<not> (counter_key c = key \<and> counter_unused (jobs db) key)" if "r \<in> set (jobs db)" for r
    using assms that by (fastforce simp: queue_inv_def counters_cover_def counter_unused_def)
  then show ?thesis
    using assms by (fastforce simp: queue_inv_def counters_cover_def intro: distinct_map_filter)
qed

lemma sweep_counters_inv:
  assumes "\<And>k d. queue_inv d \<Longrightarrow> queue_inv (others k d)"
  shows "queue_inv db \<Longrightarrow> queue_inv (fst (sweep_counters others n keys db deleted))"
proof (induction keys arbitrary: n db deleted)
  case (Cons key keys)
  have "queue_inv (others n db)" "queue_inv (others (Suc n) (others n db))" using Cons.prems assms by auto
  then show ?case using Cons.IH counter_delete_inv by (simp add: Let_def)
qed simp

lemma sweep_counters_quiet:
  assumes "distinct keys" "set keys \<subseteq> counter_key ` set (counters db)"
    "\<forall>key\<in>set keys. counter_unused (jobs db) key" "distinct (map counter_key (counters db))"
  shows "sweep_counters (\<lambda>k d. d) n keys db deleted =
    (db\<lparr>counters := filter (\<lambda>c. counter_key c \<notin> set keys) (counters db)\<rparr>, deleted + length keys)"
  using assms
proof (induction keys arbitrary: n db deleted)
  case Nil
  then show ?case by (simp add: queue_db.surjective)
next
  case (Cons key keys)
  have key: "key \<in> counter_key ` set (counters db)" "counter_unused (jobs db) key" using Cons.prems by auto
  let ?db = "db\<lparr>counters := filter (\<lambda>c. counter_key c \<noteq> key) (counters db)\<rparr>"
  have "count_where (\<lambda>c. counter_key c = key) (counters db) \<le> 1"
    using Cons.prems(4) by (rule count_where_unique) simp
  moreover have "0 < count_where (\<lambda>c. counter_key c = key) (counters db)" using key(1) by auto
  ultimately have one: "count_where (\<lambda>c. counter_key c = key) (counters db) = 1" by linarith
  have "set keys \<subseteq> counter_key ` set (counters ?db)"
  proof
    fix k assume "k \<in> set keys"
    then have "k \<noteq> key" "k \<in> counter_key ` set (counters db)" using Cons.prems(1,2) by auto
    then show "k \<in> counter_key ` set (counters ?db)" by auto
  qed
  then have "sweep_counters (\<lambda>k d. d) (Suc (Suc n)) keys ?db (Suc deleted) =
      (?db\<lparr>counters := filter (\<lambda>c. counter_key c \<notin> set keys) (counters ?db)\<rparr>, Suc deleted + length keys)"
    using Cons.prems by (intro Cons.IH) (auto intro: distinct_map_filter)
  then show ?case using key one by (simp add: Let_def conj_commute)
qed

text \<open>C24: whatever other transactions commit between its statements, as long as they keep the
  queue's invariant, sweeping counters keeps it too: no counter that a job needs is lost.
  Left alone, the sweep touches no job, deletes only counters no job uses, counts them, and
  leaves none when they fit its limit.\<close>

theorem counter_sweep_safe:
  assumes "SweepEmptyPartitionCounters coll others q db = Inr (db', n)" and "queue_inv db"
    and "\<And>k d. queue_inv d \<Longrightarrow> queue_inv (others k d)"
  defines "unused \<equiv> \<lambda>c. counter_unused (jobs db) (counter_key c)"
  shows "queue_inv db' \<and>
    ((\<forall>k d. others k d = d) \<longrightarrow> jobs db' = jobs db \<and> set (counters db') \<subseteq> set (counters db) \<and>
       (\<forall>c\<in>set (counters db) - set (counters db'). unused c) \<and> n + length (counters db') = length (counters db) \<and>
       (int (count_where unused (counters db)) \<le> sandboxMaintenanceLimit (ec_Limit q) \<longrightarrow>
         (\<forall>c\<in>set (counters db'). \<not> unused c)))"
proof -
  define lim where "lim = nat (sandboxMaintenanceLimit (ec_Limit q))"
  define page where "page = take lim (sort_by (counter_order coll) (filter unused (counters db)))"
  have run: "sweep_counters others 0 (map counter_key page) db 0 = (db', n)"
    using assms(1)
    by (simp add: SweepEmptyPartitionCounters_def andThen_Inr_iff unused_counters_def page_def lim_def unused_def)
  have inv: "queue_inv db'" 
    using sweep_counters_inv [where others = others and n = 0 and keys = "map counter_key page" and deleted = 0, OF assms(3,2)]
    by (simp add: run)
  have keys: "distinct (map counter_key (counters db))" using assms(2) by (simp add: queue_inv_def counters_cover_def)
  have dist: "distinct (map counter_key page)"
    using distinct_take [of "map counter_key (sort_by (counter_order coll) (filter unused (counters db)))" lim]
      distinct_map_filter [OF keys, of unused] by (simp add: page_def take_map)
  have sub: "c \<in> set (counters db) \<and> unused c" if "c \<in> set page" for c
    using that by (auto simp: page_def dest!: in_set_takeD)
  have key: "counter_key c \<in> counter_key ` set page \<longleftrightarrow> c \<in> set page" if "c \<in> set (counters db)" for c
    using that sub distinct_map_inj [OF keys that] by (metis image_iff)
  have "jobs db' = jobs db \<and> set (counters db') \<subseteq> set (counters db) \<and>
       (\<forall>c\<in>set (counters db) - set (counters db'). unused c) \<and> n + length (counters db') = length (counters db) \<and>
       (int (count_where unused (counters db)) \<le> sandboxMaintenanceLimit (ec_Limit q) \<longrightarrow>
         (\<forall>c\<in>set (counters db'). \<not> unused c))" if "\<forall>k d. others k d = d"
  proof -
    have "others = (\<lambda>k d. d)" using that by blast
    then have "sweep_counters others 0 (map counter_key page) db 0 =
        (db\<lparr>counters := filter (\<lambda>c. counter_key c \<notin> counter_key ` set page) (counters db)\<rparr>, length page)"
      using sweep_counters_quiet [of "map counter_key page" db 0 0] dist keys sub by (auto simp: unused_def)
    then have db': "db' = db\<lparr>counters := filter (\<lambda>c. c \<notin> set page) (counters db)\<rparr>" and n: "n = length page"
      using run key by (simp_all cong: filter_cong)
    have "set (filter (\<lambda>c. c \<in> set page) (counters db)) = set page" using sub by auto
    moreover have "distinct (counters db)" "distinct page" using keys dist by (auto simp: distinct_map)
    ultimately have "length (filter (\<lambda>c. c \<in> set page) (counters db)) = length page"
      by (metis distinct_card distinct_filter)
    then have "n + length (counters db') = length (counters db)"
      using sum_length_filter_compl [of "\<lambda>c. c \<in> set page" "counters db"] by (simp add: db' n)
    moreover have "c \<in> set page" if "int (count_where unused (counters db)) \<le> sandboxMaintenanceLimit (ec_Limit q)"
      "c \<in> set (counters db)" "unused c" for c
      using that by (simp add: page_def lim_def count_where_def)
    ultimately show ?thesis using sub by (auto simp: db')
  qed
  with inv show ?thesis by blast
qed

text \<open>A sweep that loses the race: the counter it selected gets a job before it is deleted.\<close>

definition racing :: "nat \<Rightarrow> queue_db \<Rightarrow> queue_db" where
  "racing k d = (if k = 0 then (case EnqueueTx sample_env sample_request d of Inr (d', job) \<Rightarrow> d' | Inl e \<Rightarrow> d) else d)"

lemma racing_inv: "queue_inv d \<Longrightarrow> queue_inv (racing k d)"
  using EnqueueTx_ok(1) [OF _ sample_env_ok] by (auto simp: racing_def split: sum.splits)

definition idle_db :: queue_db where
  "idle_db = \<lparr>jobs = [], counters = [\<lparr>c_workspace = ''ws'', c_partition = ''session:ws:sess'', c_last = 7,
     c_created_at = 0, c_updated_at = 0\<rparr>], notifications = []\<rparr>"

lemma idle_db_inv: "queue_inv idle_db"
  by (simp add: queue_inv_def idle_db_def jobs_inv_def active_dedupe_unique_def lease_exclusion_def counters_cover_def)

theorem counter_sweep_safe_witness:
  "\<exists>db' n. SweepEmptyPartitionCounters go_string_le racing \<lparr>ec_Limit = 0\<rparr> idle_db = Inr (db', n) \<and> queue_inv db'"
proof -
  obtain db' n where run: "SweepEmptyPartitionCounters go_string_le racing \<lparr>ec_Limit = 0\<rparr> idle_db = Inr (db', n)"
    by (auto simp: SweepEmptyPartitionCounters_def) (metis surj_pair)
  then show ?thesis using counter_sweep_safe [OF run idle_db_inv racing_inv] by blast
qed

end
