(* ===== verification/Runner_Discovery.thy ===== *)
theory Runner_Discovery
  imports Queue_Transitions "HOL-Library.Word"
begin

section \<open>Discovery and exact leases of the Job Runner\<close>

text \<open>
  The database side of \<open>internal/queue/job_runner_lease.go\<close>: the read-only
  statements by which direct Job Runner leasing finds tenants and candidates, the
  limits of a unit of database work, and the transaction that leases one exact
  candidate. The input \<open>io\<close> of a unit of work says what the world does with it:
  the time left to the call's deadline, a failure of the transaction, whether the
  context is done after it, the readings of the database clock, whether the
  advisory lock or the row is held by another transaction, and the random bytes of
  the token.
\<close>

record runner_io =
  io_until :: duration
  io_fault :: "error option"
  io_done :: bool
  io_clock :: clock
  io_session_held :: bool
  io_row_held :: bool
  io_token :: "bytes option"

subsection \<open>Limits\<close>

definition jobRunnerCallBudget :: duration where "jobRunnerCallBudget = 1000 * Millisecond"
definition jobRunnerCallTurns :: int where "jobRunnerCallTurns = 16"
definition jobRunnerCallRawCandidates :: int where "jobRunnerCallRawCandidates = 128"
definition jobRunnerCallLeaseTransactions :: int where "jobRunnerCallLeaseTransactions = 16"
definition jobRunnerTenantWindow :: int where "jobRunnerTenantWindow = 32"
definition jobRunnerStatementTimeout :: duration where "jobRunnerStatementTimeout = 40 * Millisecond"
definition jobRunnerLockTimeout :: duration where "jobRunnerLockTimeout = 10 * Millisecond"
definition jobRunnerActiveRetryAfter :: duration where "jobRunnerActiveRetryAfter = 100 * Millisecond"
definition jobRunnerIdleRetryAfter :: duration where "jobRunnerIdleRetryAfter = 1000 * Millisecond"
definition jobRunnerCleanupKeys :: nat where "jobRunnerCleanupKeys = 128"
definition jobRunnerCleanupTimeout :: duration where "jobRunnerCleanupTimeout = 200 * Millisecond"

lemmas runner_limits =
  jobRunnerCallBudget_def jobRunnerCallTurns_def jobRunnerCallRawCandidates_def jobRunnerCallLeaseTransactions_def
  jobRunnerTenantWindow_def jobRunnerStatementTimeout_def jobRunnerLockTimeout_def jobRunnerActiveRetryAfter_def
  jobRunnerIdleRetryAfter_def jobRunnerCleanupKeys_def jobRunnerCleanupTimeout_def

text \<open>\<open>Duration.Truncate\<close> rounds toward zero.\<close>

definition Truncate :: "duration \<Rightarrow> duration \<Rightarrow> duration" where
  "Truncate d m = (if 0 \<le> d then d div m * m else - ((- d) div m * m))"

text \<open>The statement and the lock limit as the settings' texts; \<open>until\<close> is the time to
  the deadline, if the context has one.\<close>

definition jobRunnerTimeouts :: "duration option \<Rightarrow> duration \<Rightarrow> duration \<Rightarrow> (bytes \<times> bytes) option" where
  "jobRunnerTimeouts until statementLimit lockLimit =
     (let lock = min lockLimit statementLimit
      in case until of
           None \<Rightarrow> Some (FormatInt (Milliseconds statementLimit), FormatInt (Milliseconds lock))
         | Some d \<Rightarrow>
             let remaining = Truncate d Millisecond
             in if remaining < Millisecond then None
                else Some (FormatInt (Milliseconds (min statementLimit remaining)),
                  FormatInt (Milliseconds (min lock remaining))))"

definition jobRunnerTimeoutKind :: "error \<Rightarrow> bytes" where
  "jobRunnerTimeoutKind err =
     (case err of
        DatabaseError code \<Rightarrow>
          if code = ''55P03'' then ''lock_timeout''
          else if code = ''57014'' then ''statement_timeout'' else []
      | _ \<Rightarrow> [])"

text \<open>What stops a call: \<open>errJobRunnerBudgetSpent\<close>, a \<open>jobRunnerDiscoveryTimeout\<close> with its
  operation and kind, or any other error.\<close>

datatype runner_error = BudgetSpent | DiscoveryTimeout bytes bytes error | Failed error

definition withJobRunnerDiscoveryTx ::
    "runner_io \<Rightarrow> duration \<Rightarrow> bytes \<Rightarrow> duration \<Rightarrow> 'a \<Rightarrow> runner_error + 'a" where
  "withJobRunnerDiscoveryTx io lockTimeout operation statementLimit found =
     (case jobRunnerTimeouts (Some (io_until io)) statementLimit lockTimeout of
        None \<Rightarrow> Inl BudgetSpent
      | Some _ \<Rightarrow>
          (case io_fault io of
             None \<Rightarrow> Inr found
           | Some err \<Rightarrow>
               let kind = jobRunnerTimeoutKind err
               in if kind \<noteq> [] then Inl (DiscoveryTimeout operation kind err) else Inl (Failed err)))"

subsection \<open>The scan key\<close>

record jobRunnerKey =
  jk_negativePriority :: int
  jk_availableAt :: time
  jk_partitionKey :: bytes
  jk_partitionSequence :: int
  jk_id :: bytes

text \<open>SQL compares rows of columns lexicographically.\<close>

definition key_le :: "collation \<Rightarrow> jobRunnerKey \<Rightarrow> jobRunnerKey \<Rightarrow> bool" where
  "key_le coll a b =
     (if jk_negativePriority a \<noteq> jk_negativePriority b then jk_negativePriority a < jk_negativePriority b
      else if jk_availableAt a \<noteq> jk_availableAt b then jk_availableAt a < jk_availableAt b
      else if jk_partitionKey a \<noteq> jk_partitionKey b then coll (jk_partitionKey a) (jk_partitionKey b)
      else if jk_partitionSequence a \<noteq> jk_partitionSequence b then jk_partitionSequence a < jk_partitionSequence b
      else coll (jk_id a) (jk_id b))"

definition key_less :: "collation \<Rightarrow> jobRunnerKey \<Rightarrow> jobRunnerKey \<Rightarrow> bool" where
  "key_less coll a b \<longleftrightarrow> key_le coll a b \<and> a \<noteq> b"

definition row_key :: "queue_row \<Rightarrow> jobRunnerKey" where
  "row_key r = \<lparr>jk_negativePriority = - q_priority r, jk_availableAt = q_available_at r, jk_partitionKey = q_partition r,
     jk_partitionSequence = q_seq r, jk_id = q_id r\<rparr>"

record jobRunnerCandidate =
  jc_key :: jobRunnerKey
  jc_kind :: bytes
  jc_causalSessionID :: bytes
  jc_createdAt :: time

definition scan_candidate :: "queue_row \<Rightarrow> jobRunnerCandidate" where
  "scan_candidate r = \<lparr>jc_key = row_key r, jc_kind = q_kind r, jc_causalSessionID = null_string (q_session r),
     jc_createdAt = q_created_at r\<rparr>"

text \<open>One tenant's continuation; \<open>zero_pass\<close> is the zero value.\<close>

record jobRunnerPass =
  jp_started :: bool
  jp_upper :: jobRunnerKey
  jp_hasAfter :: bool
  jp_after :: jobRunnerKey
  jp_passNow :: time
  jp_examined :: int
  jp_busy :: bool
  jp_generation :: "64 word"

definition zero_key :: jobRunnerKey where
  "zero_key = \<lparr>jk_negativePriority = 0, jk_availableAt = zero_time, jk_partitionKey = [], jk_partitionSequence = 0, jk_id = []\<rparr>"

definition zero_pass :: jobRunnerPass where
  "zero_pass = \<lparr>jp_started = False, jp_upper = zero_key, jp_hasAfter = False, jp_after = zero_key,
     jp_passNow = zero_time, jp_examined = 0, jp_busy = False, jp_generation = 0\<rparr>"

subsection \<open>Discovery statements\<close>

text \<open>\<open>jobRunnerPendingPredicate\<close>\<close>

definition runner_pending :: "queue_row \<Rightarrow> bool" where
  "runner_pending r \<longleftrightarrow> q_status r = Pending \<and> IsJobRunnerKind (q_kind r)"

definition next_tenant :: "collation \<Rightarrow> bytes \<Rightarrow> queue_row list \<Rightarrow> bytes option" where
  "next_tenant coll lastWorkspace rs =
     (case sort_by coll (map q_workspace (filter (\<lambda>r. runner_pending r \<and> coll lastWorkspace (q_workspace r) \<and>
          q_workspace r \<noteq> lastWorkspace) rs)) of
        [] \<Rightarrow> None | tenant # _ \<Rightarrow> Some tenant)"

definition first_tenant :: "collation \<Rightarrow> queue_row list \<Rightarrow> bytes option" where
  "first_tenant coll rs =
     (case sort_by coll (map q_workspace (filter runner_pending rs)) of [] \<Rightarrow> None | tenant # _ \<Rightarrow> Some tenant)"

definition jobRunnerSeekTenant :: "collation \<Rightarrow> bytes \<Rightarrow> queue_row list \<Rightarrow> bytes \<times> bool" where
  "jobRunnerSeekTenant coll lastWorkspace rs =
     (case (if lastWorkspace \<noteq> [] then next_tenant coll lastWorkspace rs else None) of
        Some tenant \<Rightarrow> (tenant, False)
      | None \<Rightarrow>
          (case first_tenant coll rs of
             None \<Rightarrow> ([], False)
           | Some tenant \<Rightarrow> (tenant, lastWorkspace \<noteq> [])))"

definition jobRunnerStartPass :: "collation \<Rightarrow> time \<Rightarrow> bytes \<Rightarrow> queue_row list \<Rightarrow> (jobRunnerKey \<times> time) option" where
  "jobRunnerStartPass coll clock tenant rs =
     (case sort_by (\<lambda>a b. key_le coll b a) (map row_key (filter (\<lambda>r. runner_pending r \<and> q_workspace r = tenant) rs)) of
        [] \<Rightarrow> None | upper # _ \<Rightarrow> Some (upper, clock))"

definition in_window :: "collation \<Rightarrow> bytes \<Rightarrow> jobRunnerPass \<Rightarrow> queue_row \<Rightarrow> bool" where
  "in_window coll tenant pass r \<longleftrightarrow> runner_pending r \<and> q_workspace r = tenant \<and>
     key_le coll (row_key r) (jp_upper pass) \<and> (jp_hasAfter pass \<longrightarrow> key_less coll (jp_after pass) (row_key r))"

definition jobRunnerWindow ::
    "collation \<Rightarrow> bytes \<Rightarrow> jobRunnerPass \<Rightarrow> int \<Rightarrow> queue_row list \<Rightarrow> jobRunnerCandidate list" where
  "jobRunnerWindow coll tenant pass limit rs =
     map scan_candidate (take (nat limit) (sort_by (\<lambda>a b. key_le coll (row_key a) (row_key b))
       (filter (in_window coll tenant pass) rs)))"

definition future_order :: "collation \<Rightarrow> queue_row \<Rightarrow> queue_row \<Rightarrow> bool" where
  "future_order coll a b =
     (if q_available_at a \<noteq> q_available_at b then q_available_at a < q_available_at b else coll (q_id a) (q_id b))"

text \<open>\<open>statement_timestamp()\<close> is one reading per statement.\<close>

definition jobRunnerNextFutureJob :: "collation \<Rightarrow> time \<Rightarrow> queue_row list \<Rightarrow> (time \<times> time) option" where
  "jobRunnerNextFutureJob coll stamp rs =
     (case sort_by (future_order coll) (filter (\<lambda>r. runner_pending r \<and> stamp < q_available_at r) rs) of
        [] \<Rightarrow> None | r # _ \<Rightarrow> Some (q_available_at r, stamp))"

definition jobRunnerAbsentTenants :: "bytes list \<Rightarrow> queue_row list \<Rightarrow> bytes list" where
  "jobRunnerAbsentTenants tenants rs =
     filter (\<lambda>tenant. \<not> (\<exists>r\<in>set rs. runner_pending r \<and> q_workspace r = tenant)) tenants"

subsection \<open>The exact lease\<close>

datatype jobRunnerLeaseOutcome =
    LeaseCommitted | LeaseIneligible | LeaseContended | LeaseLockTimeout | LeaseStatementTimeout

text \<open>The eligibility predicate with \<open>clock_timestamp()\<close> in place of a fixed time: the
  clock is read for the candidate and anew for every other row.\<close>

definition eligible_now :: "session_lookup \<Rightarrow> (nat \<Rightarrow> time) \<Rightarrow> queue_row list \<Rightarrow> queue_row \<Rightarrow> bool" where
  "eligible_now sess clock rs candidate \<longleftrightarrow>
     q_status candidate = Pending \<and> q_available_at candidate \<le> clock 0 \<and>
     session_admits sess candidate \<and>
     (q_scope candidate \<noteq> ScopePartition \<or> \<not> (\<exists>l\<in>set rs. leased_partition_blocks candidate l)) \<and>
     (q_scope candidate \<noteq> ScopeThread \<or> \<not> (\<exists>l\<in>set rs. leased_thread_blocks candidate l)) \<and>
     (q_scope candidate \<noteq> ScopeSession \<or> \<not> (\<exists>l\<in>set rs. leased_session_blocks candidate l)) \<and>
     \<not> (\<exists>(i, p)\<in>set (enumerate 1 rs). pending_blocks (clock i) candidate p)"

lemma enumerate_ex: "(\<exists>(i, p)\<in>set (enumerate n rs). P p) \<longleftrightarrow> (\<exists>p\<in>set rs. P p)"
proof -
  have "set rs = snd ` set (enumerate n rs)" by (metis map_snd_enumerate set_map)
  then show ?thesis by force
qed

lemma eligible_now_fixed: "eligible_now sess (\<lambda>i. now) rs candidate = leaseEligibilityPredicate sess now rs candidate"
  by (simp add: eligible_now_def leaseEligibilityPredicate_def enumerate_ex)

definition direct_lease_set :: "clock \<Rightarrow> bytes \<Rightarrow> bytes \<Rightarrow> duration \<Rightarrow> int \<Rightarrow> queue_row \<Rightarrow> queue_row" where
  "direct_lease_set clk owner leaseToken leaseDuration defaultMaxAttempts r =
     (lease_set clk 0 owner leaseToken leaseDuration defaultMaxAttempts r)\<lparr>q_prev_attempts := Some (q_attempts r)\<rparr>"

definition direct_guard :: "session_lookup \<Rightarrow> (nat \<Rightarrow> time) \<Rightarrow> bytes \<Rightarrow> bytes \<Rightarrow> queue_row list \<Rightarrow> queue_row \<Rightarrow> bool" where
  "direct_guard sess clock tenant jobID rs r \<longleftrightarrow>
     named_job tenant jobID r \<and> IsJobRunnerKind (q_kind r) \<and> eligible_now sess clock rs r"

text \<open>\<open>io_clock io 0\<close> are the readings of the update's values, \<open>io_clock io 1\<close> those of its
  condition. The context's error is reported as such when the context is done. A transaction
  that fails has changed nothing: a commit the database carried out although the connection
  reported an error is left out, its lease would run until it expires.\<close>

definition leaseJobRunnerCandidate ::
    "session_lookup \<Rightarrow> runner_io \<Rightarrow> duration \<Rightarrow> duration \<Rightarrow> int \<Rightarrow> bytes \<Rightarrow> jobRunnerCandidate \<Rightarrow>
     LeaseJobRunnerJobsRequest \<Rightarrow> queue_row list \<Rightarrow> runner_error + (queue_row list \<times> Job option \<times> jobRunnerLeaseOutcome)" where
  "leaseJobRunnerCandidate sess io statementTimeout lockTimeout defaultMaxAttempts tenant candidate request rs =
     (case jobRunnerTimeouts (Some (io_until io)) statementTimeout lockTimeout of
        None \<Rightarrow> Inl BudgetSpent
      | Some _ \<Rightarrow>
          (case NewLeaseToken (io_token io) of
             Inl err \<Rightarrow> Inl (Failed err)
           | Inr leaseToken \<Rightarrow>
               (case io_fault io of
                  Some err \<Rightarrow>
                    if io_done io then Inl (Failed (OtherError ''context deadline exceeded''))
                    else if jobRunnerTimeoutKind err = ''lock_timeout'' then Inr (rs, None, LeaseLockTimeout)
                    else if jobRunnerTimeoutKind err = ''statement_timeout'' then Inr (rs, None, LeaseStatementTimeout)
                    else Inl (Failed err)
                | None \<Rightarrow>
                    let jobID = jk_id (jc_key candidate);
                        guard = direct_guard sess (io_clock io 1) tenant jobID rs;
                        upd = direct_lease_set (io_clock io) (jr_LeaseOwner request) leaseToken
                          (jr_LeaseDuration request) defaultMaxAttempts
                    in if jc_causalSessionID candidate \<noteq> [] \<and> io_session_held io then Inr (rs, None, LeaseContended)
                       else if io_row_held io \<or> find (named_job tenant jobID) rs = None
                       then Inr (rs, None, LeaseContended)
                       else case find guard rs of
                         None \<Rightarrow> Inr (rs, None, LeaseIneligible)
                       | Some r \<Rightarrow>
                           let leased = scanJob (upd r)
                           in Inr (upd_where guard upd rs,
                                Some (if job_MaxAttempts leased = 0
                                  then leased\<lparr>job_MaxAttempts := defaultMaxAttempts\<rparr> else leased),
                                LeaseCommitted))))"

end
