(* ===== verification/Runner_Scheduler.thy ===== *)
theory Runner_Scheduler
  imports Runner_Discovery "HOL-Library.AList"
begin

section \<open>The Job Runner scheduler\<close>

text \<open>
  The process side of \<open>internal/queue/job_runner_lease.go\<close>. Calls of
  \<open>LeaseJobRunnerJobs\<close> run concurrently: a call is cut into its atomic units, the
  critical sections under the scheduler's mutex and the units of database work,
  and \<open>call_step\<close> performs the unit its program counter names. Passes are objects
  the code compares by pointer: \<open>sc_passes\<close> maps a tenant to an address and
  \<open>sc_heap\<close> an address to its pass. The test hooks \<open>afterTenantSeek\<close> and
  \<open>joiningCalls\<close>, which production leaves nil, have no counterpart, and
  \<open>callBudget\<close> shows only in the deadlines of the units of database work.
\<close>

subsection \<open>State\<close>

record jobRunnerScheduler =
  sc_statementTimeout :: duration
  sc_lockTimeout :: duration
  sc_lastWorkspace :: bytes
  sc_generation :: "64 word"
  sc_passes :: "(bytes \<times> nat) list"
  sc_heap :: "nat \<Rightarrow> jobRunnerPass"
  sc_next :: nat
  sc_cleanupAfter :: bytes
  sc_leasesSinceWrap :: int
  sc_idle :: bool
  sc_closed :: bool
  sc_calls :: nat

definition newJobRunnerScheduler :: jobRunnerScheduler where
  "newJobRunnerScheduler =
     \<lparr>sc_statementTimeout = jobRunnerStatementTimeout, sc_lockTimeout = jobRunnerLockTimeout, sc_lastWorkspace = [],
      sc_generation = 0, sc_passes = [], sc_heap = (\<lambda>a. zero_pass), sc_next = 0, sc_cleanupAfter = [],
      sc_leasesSinceWrap = 0, sc_idle = False, sc_closed = False, sc_calls = 0\<rparr>"

record jobRunnerCall =
  ca_request :: LeaseJobRunnerJobsRequest
  ca_visited :: "bytes list"
  ca_turns :: int
  ca_rawCandidates :: int
  ca_leaseTransactions :: int
  ca_jobs :: "Job list"
  ca_budgetStopped :: bool
  ca_contended :: bool
  ca_lockTimeouts :: int
  ca_statementTimeouts :: int
  ca_discoveryTimeout :: "(bytes \<times> bytes) option"

definition newJobRunnerCall :: "LeaseJobRunnerJobsRequest \<Rightarrow> jobRunnerCall" where
  "newJobRunnerCall request =
     \<lparr>ca_request = request, ca_visited = [], ca_turns = jobRunnerCallTurns,
      ca_rawCandidates = jobRunnerCallRawCandidates, ca_leaseTransactions = jobRunnerCallLeaseTransactions,
      ca_jobs = [], ca_budgetStopped = False, ca_contended = False, ca_lockTimeouts = 0, ca_statementTimeouts = 0,
      ca_discoveryTimeout = None\<rparr>"

record LeaseJobRunnerJobsResult =
  jl_Jobs :: "Job list"
  jl_RetryAfter :: duration
  jl_LockTimeouts :: int
  jl_StatementTimeouts :: int
  jl_DiscoveryTimeoutOperation :: bytes
  jl_DiscoveryTimeoutKind :: bytes
  jl_StopFailure :: "error option"

definition lease_result :: "jobRunnerCall \<Rightarrow> LeaseJobRunnerJobsResult" where
  "lease_result call =
     \<lparr>jl_Jobs = ca_jobs call, jl_RetryAfter = 0, jl_LockTimeouts = ca_lockTimeouts call,
      jl_StatementTimeouts = ca_statementTimeouts call,
      jl_DiscoveryTimeoutOperation = (case ca_discoveryTimeout call of Some (operation, kind) \<Rightarrow> operation | None \<Rightarrow> []),
      jl_DiscoveryTimeoutKind = (case ca_discoveryTimeout call of Some (operation, kind) \<Rightarrow> kind | None \<Rightarrow> []),
      jl_StopFailure = None\<rparr>"

text \<open>
  Where a call is: at the head of its loop; with a snapshot of the cursor before the
  tenant seek; before the cursor commit; holding the reservation of a tenant's pass
  (at the start of the turn, before the window, before a candidate, after a committed
  lease, at the release); or computing its result.
\<close>

datatype call_pc =
    AtLoop
  | AtSeek bytes "64 word"
  | AtCommit bytes bool "64 word"
  | AtTurn bytes nat jobRunnerPass
  | AtWindow bytes nat jobRunnerPass
  | AtExamine bytes nat jobRunnerPass "jobRunnerCandidate list" int nat
  | AtRecord bytes nat jobRunnerPass "jobRunnerCandidate list" int nat
  | AtRelease bytes nat jobRunnerPass bool "runner_error option"
  | AtRetry
  | AtFuture
  | AtDone "LeaseJobRunnerJobsResult res"
  | AtReturned "LeaseJobRunnerJobsResult res"

subsection \<open>The loop of a call\<close>

definition lease_head :: "runner_io \<Rightarrow> jobRunnerScheduler \<Rightarrow> jobRunnerCall \<Rightarrow> jobRunnerCall \<times> call_pc" where
  "lease_head io s call =
     (if \<not> int (length (ca_jobs call)) < jr_MaxJobs (ca_request call) then (call, AtRetry)
      else if ca_turns call = 0 \<or> ca_rawCandidates call = 0 \<or> ca_leaseTransactions call = 0 \<or> io_done io
      then (call\<lparr>ca_budgetStopped := True\<rparr>, AtRetry)
      else (call\<lparr>ca_turns := ca_turns call - 1\<rparr>, AtSeek (sc_lastWorkspace s) (sc_generation s)))"

text \<open>A turn's error: a spent budget and a discovery timeout end the call with what it
  committed, any other error is its failure.\<close>

definition lease_stop :: "runner_io \<Rightarrow> jobRunnerCall \<Rightarrow> runner_error \<Rightarrow> jobRunnerCall \<times> call_pc" where
  "lease_stop io call err =
     (if io_done io then (call\<lparr>ca_budgetStopped := True\<rparr>, AtRetry)
      else case err of
        BudgetSpent \<Rightarrow> (call\<lparr>ca_budgetStopped := True\<rparr>, AtRetry)
      | DiscoveryTimeout operation kind _ \<Rightarrow> (call\<lparr>ca_discoveryTimeout := Some (operation, kind)\<rparr>, AtRetry)
      | Failed failure \<Rightarrow>
          (call, AtDone (if ca_jobs call = [] then Inl failure
             else Inr ((lease_result call)\<lparr>jl_RetryAfter := jobRunnerActiveRetryAfter, jl_StopFailure := Some failure\<rparr>))))"

definition retryAfter_hint :: "runner_io \<Rightarrow> jobRunnerScheduler \<Rightarrow> jobRunnerCall \<Rightarrow> duration option" where
  "retryAfter_hint io s call =
     (if ca_discoveryTimeout call \<noteq> None then Some jobRunnerActiveRetryAfter
      else if (ca_budgetStopped call \<or> ca_contended call) \<and> \<not> sc_idle s then Some jobRunnerActiveRetryAfter
      else if io_done io then Some jobRunnerIdleRetryAfter
      else None)"

definition retryAfter_future :: "collation \<Rightarrow> runner_io \<Rightarrow> jobRunnerScheduler \<Rightarrow> queue_db \<Rightarrow> duration" where
  "retryAfter_future coll io s db =
     (case withJobRunnerDiscoveryTx io (sc_lockTimeout s) ''queue.job_runner_future_hint'' (sc_statementTimeout s)
         (jobRunnerNextFutureJob coll (io_clock io 0 0) (jobs db)) of
        Inr (Some (availableAt, now)) \<Rightarrow>
          min (max (Sub availableAt now) jobRunnerActiveRetryAfter) jobRunnerIdleRetryAfter
      | _ \<Rightarrow> jobRunnerIdleRetryAfter)"

subsection \<open>A tenant turn\<close>

definition turn_seek ::
    "collation \<Rightarrow> runner_io \<Rightarrow> jobRunnerScheduler \<Rightarrow> queue_db \<Rightarrow> jobRunnerCall \<Rightarrow> bytes \<Rightarrow> 64 word \<Rightarrow>
     jobRunnerCall \<times> call_pc" where
  "turn_seek coll io s db call lastWorkspace generation =
     (case withJobRunnerDiscoveryTx io (sc_lockTimeout s) ''queue.job_runner_tenant_seek'' (sc_statementTimeout s)
         (jobRunnerSeekTenant coll lastWorkspace (jobs db)) of
        Inl err \<Rightarrow> lease_stop io call err
      | Inr (tenant, wrapped) \<Rightarrow> (call, AtCommit tenant wrapped generation))"

definition turn_commit ::
    "jobRunnerScheduler \<Rightarrow> jobRunnerCall \<Rightarrow> bytes \<Rightarrow> bool \<Rightarrow> 64 word \<Rightarrow>
     jobRunnerScheduler \<times> jobRunnerCall \<times> call_pc" where
  "turn_commit s call tenant wrapped generation =
     (if sc_generation s \<noteq> generation then (s, call, AtLoop)
      else if tenant = [] \<or> tenant \<in> set (ca_visited call) then (s, call, AtRetry)
      else
        let call' = call\<lparr>ca_visited := tenant # ca_visited call\<rparr>;
            s1 = s\<lparr>sc_lastWorkspace := tenant, sc_generation := sc_generation s + 1\<rparr>;
            s2 = (if wrapped then s1\<lparr>sc_idle := (sc_leasesSinceWrap s1 = 0), sc_leasesSinceWrap := 0\<rparr> else s1)
        in case map_of (sc_passes s2) tenant of
             Some a \<Rightarrow>
               if jp_busy (sc_heap s2 a) then (s2, call', AtLoop)
               else
                 let pass = (sc_heap s2 a)\<lparr>jp_busy := True\<rparr>
                 in (s2\<lparr>sc_heap := (sc_heap s2)(a := pass)\<rparr>, call', AtTurn tenant a pass)
           | None \<Rightarrow>
               let a = sc_next s2; pass = zero_pass\<lparr>jp_busy := True\<rparr>
               in (s2\<lparr>sc_passes := AList.update tenant a (sc_passes s2), sc_heap := (sc_heap s2)(a := pass),
                      sc_next := Suc a\<rparr>, call', AtTurn tenant a pass))"

definition tenant_start ::
    "collation \<Rightarrow> runner_io \<Rightarrow> jobRunnerScheduler \<Rightarrow> queue_db \<Rightarrow> bytes \<Rightarrow> nat \<Rightarrow> jobRunnerPass \<Rightarrow> call_pc" where
  "tenant_start coll io s db tenant a pass =
     (if jp_started pass then AtWindow tenant a pass
      else case withJobRunnerDiscoveryTx io (sc_lockTimeout s) ''queue.job_runner_pass_start'' (sc_statementTimeout s)
          (jobRunnerStartPass coll (io_clock io 0 0) tenant (jobs db)) of
        Inl err \<Rightarrow> AtRelease tenant a pass False (Some err)
      | Inr None \<Rightarrow> AtRelease tenant a pass True None
      | Inr (Some (upper, passNow)) \<Rightarrow>
          AtWindow tenant a (zero_pass\<lparr>jp_started := True, jp_upper := upper, jp_passNow := passNow\<rparr>))"

definition tenant_window ::
    "collation \<Rightarrow> runner_io \<Rightarrow> jobRunnerScheduler \<Rightarrow> queue_db \<Rightarrow> jobRunnerCall \<Rightarrow> bytes \<Rightarrow> nat \<Rightarrow> jobRunnerPass \<Rightarrow>
     jobRunnerCall \<times> call_pc" where
  "tenant_window coll io s db call tenant a pass =
     (let limit = min jobRunnerTenantWindow (ca_rawCandidates call)
      in case withJobRunnerDiscoveryTx io (sc_lockTimeout s) ''queue.job_runner_window'' (sc_statementTimeout s)
          (jobRunnerWindow coll tenant pass limit (jobs db)) of
        Inl err \<Rightarrow> (call, AtRelease tenant a pass False (Some err))
      | Inr window \<Rightarrow>
          (call\<lparr>ca_rawCandidates := ca_rawCandidates call - int (length window)\<rparr>, AtExamine tenant a pass window limit 0))"

text \<open>The end of the window's loop: the pass is complete when every row of the window was
  examined and no row can follow it.\<close>

definition tenant_finish :: "bytes \<Rightarrow> nat \<Rightarrow> jobRunnerPass \<Rightarrow> jobRunnerCandidate list \<Rightarrow> int \<Rightarrow> nat \<Rightarrow> call_pc" where
  "tenant_finish tenant a pass window limit examined =
     AtRelease tenant a (pass\<lparr>jp_examined := jp_examined pass + int examined\<rparr>)
       (examined = length window \<and> (int (length window) < limit \<or> (jp_hasAfter pass \<and> jp_after pass = jp_upper pass)))
       None"

definition pass_after :: "jobRunnerCandidate \<Rightarrow> jobRunnerPass \<Rightarrow> jobRunnerPass" where
  "pass_after candidate pass = pass\<lparr>jp_hasAfter := True, jp_after := jc_key candidate\<rparr>"

definition candidate_due :: "jobRunnerPass \<Rightarrow> jobRunnerCandidate \<Rightarrow> bool" where
  "candidate_due pass candidate \<longleftrightarrow>
     \<not> jp_passNow pass < jk_availableAt (jc_key candidate) \<and> \<not> jp_passNow pass < jc_createdAt candidate"

fun count_outcome :: "jobRunnerLeaseOutcome \<Rightarrow> Job option \<Rightarrow> jobRunnerCall \<Rightarrow> jobRunnerCall" where
  "count_outcome LeaseCommitted job call = call\<lparr>ca_jobs := ca_jobs call @ (case job of Some j \<Rightarrow> [j] | None \<Rightarrow> [])\<rparr>"
| "count_outcome LeaseContended job call = call\<lparr>ca_contended := True\<rparr>"
| "count_outcome LeaseLockTimeout job call =
     call\<lparr>ca_contended := True, ca_lockTimeouts := ca_lockTimeouts call + 1\<rparr>"
| "count_outcome LeaseStatementTimeout job call =
     call\<lparr>ca_contended := True, ca_statementTimeouts := ca_statementTimeouts call + 1\<rparr>"
| "count_outcome LeaseIneligible job call = call"

definition tenant_examine ::
    "session_lookup \<Rightarrow> int \<Rightarrow> runner_io \<Rightarrow> jobRunnerScheduler \<Rightarrow> queue_db \<Rightarrow> jobRunnerCall \<Rightarrow> bytes \<Rightarrow> nat \<Rightarrow> jobRunnerPass \<Rightarrow>
     jobRunnerCandidate list \<Rightarrow> int \<Rightarrow> nat \<Rightarrow> queue_db \<times> jobRunnerCall \<times> call_pc" where
  "tenant_examine sess defaultMaxAttempts io s db call tenant a pass window limit examined =
     (if \<not> examined < length window \<or> int (length (ca_jobs call)) \<ge> jr_MaxJobs (ca_request call) \<or>
         ca_leaseTransactions call = 0 \<or> io_done io
      then (db, call, tenant_finish tenant a pass window limit examined)
      else
        let candidate = window ! examined
        in if \<not> candidate_due pass candidate
           then (db, call, AtExamine tenant a (pass_after candidate pass) window limit (Suc examined))
           else
             let call' = call\<lparr>ca_leaseTransactions := ca_leaseTransactions call - 1\<rparr>
             in case leaseJobRunnerCandidate sess io (sc_statementTimeout s) (sc_lockTimeout s) defaultMaxAttempts
                    tenant candidate (ca_request call) (jobs db) of
                  Inl err \<Rightarrow>
                    (db, call', AtRelease tenant a (pass\<lparr>jp_examined := jp_examined pass + int examined\<rparr>) False (Some err))
                | Inr (rs, job, outcome) \<Rightarrow>
                    (db\<lparr>jobs := rs\<rparr>, count_outcome outcome job call',
                     if outcome = LeaseCommitted then AtRecord tenant a pass window limit examined
                     else AtExamine tenant a (pass_after candidate pass) window limit (Suc examined)))"

definition recordLease :: "jobRunnerScheduler \<Rightarrow> jobRunnerScheduler" where
  "recordLease s = s\<lparr>sc_leasesSinceWrap := sc_leasesSinceWrap s + 1, sc_idle := False\<rparr>"

text \<open>The deferred release of the reservation.\<close>

definition turn_release ::
    "jobRunnerScheduler \<Rightarrow> bytes \<Rightarrow> nat \<Rightarrow> jobRunnerPass \<Rightarrow> bool \<Rightarrow> jobRunnerScheduler" where
  "turn_release s tenant a state complete =
     (let pass = (sc_heap s a)\<lparr>jp_busy := False\<rparr>;
          s1 = s\<lparr>sc_heap := (sc_heap s)(a := pass)\<rparr>
      in if map_of (sc_passes s1) tenant \<noteq> Some a then s1
         else if complete then s1\<lparr>sc_passes := AList.delete tenant (sc_passes s1)\<rparr>
         else s1\<lparr>sc_heap := (sc_heap s1)(a := state\<lparr>jp_busy := False, jp_generation := jp_generation pass + 1\<rparr>)\<rparr>)"

subsection \<open>Steps of a call\<close>

fun call_step ::
    "collation \<Rightarrow> session_lookup \<Rightarrow> int \<Rightarrow> runner_io \<Rightarrow> jobRunnerScheduler \<Rightarrow> queue_db \<Rightarrow> jobRunnerCall \<Rightarrow> call_pc \<Rightarrow>
     jobRunnerScheduler \<times> queue_db \<times> jobRunnerCall \<times> call_pc" where
  "call_step coll sess d io s db call AtLoop = (s, db, lease_head io s call)"
| "call_step coll sess d io s db call (AtSeek lastWorkspace generation) =
     (s, db, turn_seek coll io s db call lastWorkspace generation)"
| "call_step coll sess d io s db call (AtCommit tenant wrapped generation) =
     (case turn_commit s call tenant wrapped generation of (s', call', pc) \<Rightarrow> (s', db, call', pc))"
| "call_step coll sess d io s db call (AtTurn tenant a pass) = (s, db, call, tenant_start coll io s db tenant a pass)"
| "call_step coll sess d io s db call (AtWindow tenant a pass) = (s, db, tenant_window coll io s db call tenant a pass)"
| "call_step coll sess d io s db call (AtExamine tenant a pass window limit examined) =
     (s, tenant_examine sess d io s db call tenant a pass window limit examined)"
| "call_step coll sess d io s db call (AtRecord tenant a pass window limit examined) =
     (recordLease s, db, call,
      tenant_finish tenant a (pass_after (window ! examined) pass) window limit (Suc examined))"
| "call_step coll sess d io s db call (AtRelease tenant a state complete err) =
     (turn_release s tenant a state complete, db,
      case err of None \<Rightarrow> (call, AtLoop) | Some e \<Rightarrow> lease_stop io call e)"
| "call_step coll sess d io s db call AtRetry =
     (s, db, call,
      case retryAfter_hint io s call of
        Some hint \<Rightarrow> AtDone (Inr ((lease_result call)\<lparr>jl_RetryAfter := hint\<rparr>))
      | None \<Rightarrow> AtFuture)"
| "call_step coll sess d io s db call AtFuture =
     (s, db, call, AtDone (Inr ((lease_result call)\<lparr>jl_RetryAfter := retryAfter_future coll io s db\<rparr>)))"
| "call_step coll sess d io s db call (AtDone result) = (s\<lparr>sc_calls := sc_calls s - 1\<rparr>, db, call, AtReturned result)"
| "call_step coll sess d io s db call (AtReturned result) = (s, db, call, AtReturned result)"

text \<open>The units of one call in order; \<open>others n\<close> is what the rest of the system does to the
  scheduler and the tables before the \<open>n\<close>-th of them.\<close>

fun call_run ::
    "collation \<Rightarrow> session_lookup \<Rightarrow> int \<Rightarrow> (nat \<Rightarrow> runner_io) \<Rightarrow>
     (nat \<Rightarrow> jobRunnerScheduler \<times> queue_db \<Rightarrow> jobRunnerScheduler \<times> queue_db) \<Rightarrow> nat \<Rightarrow> nat \<Rightarrow>
     jobRunnerScheduler \<times> queue_db \<times> jobRunnerCall \<times> call_pc \<Rightarrow>
     jobRunnerScheduler \<times> queue_db \<times> jobRunnerCall \<times> call_pc" where
  "call_run coll sess d ios others n 0 st = st"
| "call_run coll sess d ios others n (Suc k) (s, db, call, pc) =
     (case others n (s, db) of
        (s', db') \<Rightarrow> call_run coll sess d ios others (Suc n) k (call_step coll sess d (ios n) s' db' call pc))"

definition admit :: "jobRunnerScheduler \<Rightarrow> jobRunnerScheduler option" where
  "admit s = (if sc_closed s then None else Some (s\<lparr>sc_calls := Suc (sc_calls s)\<rparr>))"

definition call_fuel :: nat where
  "call_fuel = 1604"

text \<open>The whole call. \<open>call_fuel\<close> units are enough for it to return; the last case is for
  a call that has not.\<close>

definition LeaseJobRunnerJobs ::
    "collation \<Rightarrow> session_lookup \<Rightarrow> int \<Rightarrow> (nat \<Rightarrow> runner_io) \<Rightarrow>
     (nat \<Rightarrow> jobRunnerScheduler \<times> queue_db \<Rightarrow> jobRunnerScheduler \<times> queue_db) \<Rightarrow> LeaseJobRunnerJobsRequest \<Rightarrow>
     jobRunnerScheduler \<times> queue_db \<Rightarrow> ((jobRunnerScheduler \<times> queue_db) \<times> LeaseJobRunnerJobsResult res) option" where
  "LeaseJobRunnerJobs coll sess d ios others request st =
     (case ValidateLeaseJobRunnerJobsRequest request of
        Inl e \<Rightarrow> Some (st, Inl e)
      | Inr _ \<Rightarrow>
          (case admit (fst st) of
             None \<Rightarrow> Some (st, Inl ErrJobRunnerSchedulerClosed)
           | Some s \<Rightarrow>
               (case call_run coll sess d ios others 0 call_fuel (s, snd st, newJobRunnerCall request, AtLoop) of
                  (s', db', call, AtReturned result) \<Rightarrow> Some ((s', db'), result)
                | _ \<Rightarrow> None)))"

subsection \<open>The cleanup worker\<close>

text \<open>The keys one tick probes: at most \<open>jobRunnerCleanupKeys\<close>, round-robin after the last
  probed key, each with the pass and generation seen.\<close>

definition cleanup_start :: "bytes list \<Rightarrow> bytes \<Rightarrow> nat" where
  "cleanup_start keys after =
     (let start = length (takeWhile (\<lambda>k. k < after) keys)
      in if start < length keys \<and> keys ! start = after then Suc start else start)"

definition cleanup_select ::
    "jobRunnerScheduler \<Rightarrow> (jobRunnerScheduler \<times> (bytes \<times> nat \<times> 64 word) list) option" where
  "cleanup_select s =
     (let keys = sort_by go_string_le (map fst (sc_passes s)); n = length keys;
          selected = map (\<lambda>offset. keys ! ((cleanup_start keys (sc_cleanupAfter s) + offset) mod n))
            [0..<min n jobRunnerCleanupKeys]
      in if keys = [] then None
         else Some (s\<lparr>sc_cleanupAfter := last selected\<rparr>,
           map (\<lambda>key. let a = the (map_of (sc_passes s) key) in (key, a, jp_generation (sc_heap s a))) selected))"

definition cleanup_probe ::
    "runner_io \<Rightarrow> jobRunnerScheduler \<Rightarrow> (bytes \<times> nat \<times> 64 word) list \<Rightarrow> queue_db \<Rightarrow> runner_error + bytes list" where
  "cleanup_probe io s probes db =
     withJobRunnerDiscoveryTx io (sc_lockTimeout s) ''queue.job_runner_pass_cleanup'' jobRunnerCleanupTimeout
       (jobRunnerAbsentTenants (map fst probes) (jobs db))"

definition cleanup_key :: "(bytes \<times> nat \<times> 64 word) list \<Rightarrow> bytes \<Rightarrow> jobRunnerScheduler \<Rightarrow> jobRunnerScheduler" where
  "cleanup_key probes key s =
     (case (map_of probes key, map_of (sc_passes s) key) of
        (Some (a, generation), Some current) \<Rightarrow>
          if current \<noteq> a \<or> jp_generation (sc_heap s current) \<noteq> generation \<or> jp_busy (sc_heap s current) then s
          else s\<lparr>sc_passes := AList.delete key (sc_passes s)\<rparr>
      | _ \<Rightarrow> s)"

definition cleanup_delete ::
    "(bytes \<times> nat \<times> 64 word) list \<Rightarrow> bytes list \<Rightarrow> jobRunnerScheduler \<Rightarrow> jobRunnerScheduler" where
  "cleanup_delete probes absent s = fold (cleanup_key probes) absent s"

definition quiesce_close :: "jobRunnerScheduler \<Rightarrow> jobRunnerScheduler" where
  "quiesce_close s = s\<lparr>sc_closed := True\<rparr>"

definition quiesce_clear :: "jobRunnerScheduler \<Rightarrow> jobRunnerScheduler" where
  "quiesce_clear s = s\<lparr>sc_passes := []\<rparr>"

end
