(* ===== verification/Runner_Lease_Facts.thy ===== *)
theory Runner_Lease_Facts
  imports Runner_Scheduler Queue_Replacement_Facts
begin

section \<open>Direct leases\<close>

text \<open>
  One exact lease of the Job Runner keeps the queue's invariant and takes only a row
  that is eligible by the database clock; releasing it before dispatch gives back
  exactly the row that was leased, its attempts included.
\<close>

lemma eligible_now_unblocked: "eligible_now sess clock rs r \<Longrightarrow> unblocked rs r"
  by (auto simp: eligible_now_def unblocked_def)

lemma direct_lease_set_ok:
  "row_ok r \<Longrightarrow> q_status r = Pending \<Longrightarrow> IsJobRunnerKind (q_kind r) \<Longrightarrow>
     row_ok (direct_lease_set clk owner tok dur d r)"
  using attempt_count_nonneg [of r d]
  by (auto simp: row_ok_def table_checks_def lease_shape_def previous_attempt_shape_def lease_set_def direct_lease_set_def
      delivery_authority_shape_def split: option.splits)

lemma direct_lease_set_fields [simp]:
  "same_identity (direct_lease_set clk owner tok dur d r) r"
  "q_id (direct_lease_set clk owner tok dur d r) = q_id r"
  "q_status (direct_lease_set clk owner tok dur d r) = Leased"
  "q_token (direct_lease_set clk owner tok dur d r) = Some tok"
  "q_leased_by (direct_lease_set clk owner tok dur d r) = Some owner"
  "q_prev_attempts (direct_lease_set clk owner tok dur d r) = Some (q_attempts r)"
  by (simp_all add: direct_lease_set_def same_identity_def lease_set_def)

lemma direct_lease_exec:
  assumes "leaseJobRunnerCandidate sess io st lk d tenant cand q rs = Inr (rs', job, outcome)"
  defines "guard \<equiv> direct_guard sess (io_clock io (Suc 0)) tenant (jk_id (jc_key cand)) rs"
  defines "upd \<equiv> \<lambda>tok. direct_lease_set (io_clock io) (jr_LeaseOwner q) tok (jr_LeaseDuration q) d"
  shows "(outcome \<noteq> LeaseCommitted \<and> rs' = rs \<and> job = None) \<or>
    (outcome = LeaseCommitted \<and> (\<exists>tok r. NewLeaseToken (io_token io) = Inr tok \<and> find guard rs = Some r \<and>
       rs' = upd_where guard (upd tok) rs \<and> job = Some (leased_job d (upd tok r))))"
proof -
  obtain limits where limits: "jobRunnerTimeouts (Some (io_until io)) st lk = Some limits"
    using assms(1) by (cases "jobRunnerTimeouts (Some (io_until io)) st lk") (auto simp: leaseJobRunnerCandidate_def)
  obtain tok where tok: "NewLeaseToken (io_token io) = Inr tok"
    using assms(1) limits by (cases "NewLeaseToken (io_token io)") (auto simp: leaseJobRunnerCandidate_def)
  note run = assms(1) [unfolded leaseJobRunnerCandidate_def limits tok, simplified, folded guard_def]
  show ?thesis
  proof (cases "io_fault io")
    case None
    then show ?thesis
      using run tok
      by (cases "find guard rs")
        (auto simp: Let_def leased_job_def guard_def [symmetric] upd_def split: if_splits)
  next
    case (Some err)
    then show ?thesis using run by (auto split: if_splits)
  qed
qed

lemma direct_lease_cases:
  assumes "leaseJobRunnerCandidate sess io st lk d tenant cand q rs = Inr (rs', job, outcome)"
  obtains (none) "outcome \<noteq> LeaseCommitted" "rs' = rs" "job = None"
  | (committed) tok r where "outcome = LeaseCommitted" "NewLeaseToken (io_token io) = Inr tok"
      "find (direct_guard sess (io_clock io (Suc 0)) tenant (jk_id (jc_key cand)) rs) rs = Some r"
      "rs' = upd_where (direct_guard sess (io_clock io (Suc 0)) tenant (jk_id (jc_key cand)) rs)
        (direct_lease_set (io_clock io) (jr_LeaseOwner q) tok (jr_LeaseDuration q) d) rs"
      "job = Some (leased_job d (direct_lease_set (io_clock io) (jr_LeaseOwner q) tok (jr_LeaseDuration q) d r))"
  using direct_lease_exec [OF assms] by blast

lemma direct_guard_unique:
  assumes "distinct (map q_id rs)" "r \<in> set rs" "direct_guard sess clock tenant jobID rs r" "x \<in> set rs"
  shows "direct_guard sess clock tenant jobID rs x \<longleftrightarrow> q_id x = q_id r"
  using assms distinct_map_inj [OF assms(1,4,2)] by (auto simp: direct_guard_def named_job_def)

lemma direct_lease_rows:
  assumes "jobs_inv rs" "find (direct_guard sess clock tenant jobID rs) rs = Some r"
  shows "r \<in> set rs" "direct_guard sess clock tenant jobID rs r"
    and "upd_where (direct_guard sess clock tenant jobID rs) u rs = upd_where (\<lambda>x. q_id x = q_id r) u rs"
proof -
  show r: "r \<in> set rs" "direct_guard sess clock tenant jobID rs r" using assms(2) by (auto simp: find_Some_iff)
  have "distinct (map q_id rs)" using assms(1) by (simp add: jobs_inv_def)
  from direct_guard_unique [OF this r]
  show "upd_where (direct_guard sess clock tenant jobID rs) u rs = upd_where (\<lambda>x. q_id x = q_id r) u rs"
    by (rule upd_where_cong)
qed

lemma direct_lease_inv:
  assumes "leaseJobRunnerCandidate sess io st lk d tenant cand q (jobs db) = Inr (rs, job, outcome)" "queue_inv db"
  shows "queue_inv (db\<lparr>jobs := rs\<rparr>)"
  using assms(1)
proof (cases rule: direct_lease_cases)
  case none
  then show ?thesis using assms(2) by (simp add: queue_db.surjective)
next
  case (committed tok r)
  have inv: "jobs_inv (jobs db)" using assms(2) by (simp add: queue_inv_def)
  note r = direct_lease_rows [OF inv committed(3)]
  let ?u = "direct_lease_set (io_clock io) (jr_LeaseOwner q) tok (jr_LeaseDuration q) d"
  have "row_ok r" using inv r(1) by (simp add: jobs_inv_def)
  then have "jobs_inv (upd_where (\<lambda>x. q_id x = q_id r) ?u (jobs db))"
    using r(1,2)
    by (intro lease_row_inv [OF inv r(1)])
      (auto simp: direct_guard_def eligible_now_def intro: eligible_now_unblocked direct_lease_set_ok)
  moreover have "counters_cover (upd_where (\<lambda>x. q_id x = q_id r) ?u (jobs db)) (counters db)"
    unfolding upd_where_def using assms(2) by (intro counters_cover_image) (auto simp: queue_inv_def)
  ultimately show ?thesis unfolding queue_inv_def committed(4) r(3) by simp
qed

text \<open>C25: an exact direct lease keeps the queue's invariant. It commits only the row with the
  candidate's id, which is a pending row of a Job Runner kind of its tenant and eligible by
  the database clock. It leaves that row leased to the caller under a token that is not
  empty, with the attempts it had recorded beside the new count, and no other row changes;
  every other outcome changes nothing and returns no job.\<close>

theorem direct_lease_sound:
  assumes "leaseJobRunnerCandidate sess io st lk d tenant cand q (jobs db) = Inr (rs, job, outcome)" and "queue_inv db"
  shows "queue_inv (db\<lparr>jobs := rs\<rparr>) \<and>
    (if outcome = LeaseCommitted
     then \<exists>r r'. r \<in> set (jobs db) \<and> r' \<in> set rs \<and> same_identity r' r \<and> q_workspace r = tenant \<and>
       q_id r = jk_id (jc_key cand) \<and> q_status r = Pending \<and> IsJobRunnerKind (q_kind r) \<and> eligible_now sess (io_clock io 1) (jobs db) r \<and>
       q_status r' = Leased \<and> q_leased_by r' = Some (jr_LeaseOwner q) \<and> (\<exists>tok. q_token r' = Some tok \<and> tok \<noteq> []) \<and>
       q_prev_attempts r' = Some (q_attempts r) \<and>
       q_attempts r \<le> q_attempts r' \<and> job = Some (leased_job d r') \<and> (\<forall>x\<in>set (jobs db). x \<noteq> r \<longrightarrow> x \<in> set rs)
     else rs = jobs db \<and> job = None)"
  using assms(1)
proof (cases rule: direct_lease_cases)
  case none
  then show ?thesis using assms(2) by (simp add: queue_db.surjective)
next
  case (committed tok r)
  have inv: "jobs_inv (jobs db)" using assms(2) by (simp add: queue_inv_def)
  note r = direct_lease_rows [OF inv committed(3)]
  let ?u = "direct_lease_set (io_clock io) (jr_LeaseOwner q) tok (jr_LeaseDuration q) d"
  have "?u r \<in> set rs"
    unfolding committed(4) r(3) set_upd_where using r(1) by (rule rev_image_eqI) simp
  moreover have "x \<in> set rs" if "x \<in> set (jobs db)" "x \<noteq> r" for x
    unfolding committed(4) r(3) using same_job [OF assms(2) that(1) r(1)] that by (intro upd_where_kept) auto
  moreover have "q_attempts r \<le> q_attempts (?u r)"
    using attempt_count_grows [of r d] by (simp add: direct_lease_set_def)
  ultimately have "\<exists>r r'. r \<in> set (jobs db) \<and> r' \<in> set rs \<and> same_identity r' r \<and> q_workspace r = tenant \<and>
       q_id r = jk_id (jc_key cand) \<and> q_status r = Pending \<and> IsJobRunnerKind (q_kind r) \<and> eligible_now sess (io_clock io 1) (jobs db) r \<and>
       q_status r' = Leased \<and> q_leased_by r' = Some (jr_LeaseOwner q) \<and> (\<exists>tok. q_token r' = Some tok \<and> tok \<noteq> []) \<and>
       q_prev_attempts r' = Some (q_attempts r) \<and>
       q_attempts r \<le> q_attempts r' \<and> job = Some (leased_job d r') \<and> (\<forall>x\<in>set (jobs db). x \<noteq> r \<longrightarrow> x \<in> set rs)"
    using r(1,2) committed(5) NewLeaseToken_not_Nil [OF committed(2)]
    by (intro exI [of _ r] exI [of _ "?u r"]) (auto simp: direct_guard_def named_job_def eligible_now_def)
  then show ?thesis using direct_lease_inv [OF assms] committed(1) by simp
qed

subsection \<open>Release before dispatch\<close>

text \<open>A released row is the leased one with its pending columns back.\<close>

lemma release_direct_lease:
  assumes "row_ok r" "q_status r = Pending"
  shows "release_set now readyAt (direct_lease_set clk owner tok dur d r) =
    r\<lparr>q_available_at := now, q_ready_at := readyAt, q_updated_at := now\<rparr>"
proof -
  have "q_prev_attempts r = None"
    using assms by (cases "q_prev_attempts r") (auto simp: row_ok_def table_checks_def previous_attempt_shape_def)
  moreover have "q_token r = None" "q_leased_by r = None" "q_leased_at r = None" "q_leased_until r = None"
    using assms by (auto simp: row_ok_def)
  ultimately show ?thesis
    using assms(2)
    by (intro queue_row.equality) (simp_all add: release_set_def pending_set_def clear_lease_def direct_lease_set_def lease_set_def)
qed

lemma release_exec:
  assumes "queue_inv db" "r \<in> set (jobs db)" "held_lease ws i tok r" "q_leased_until r = Some until"
    "\<And>s c. env_clock env s c < until" "IsJobRunnerKind (q_kind r)" "q_prev_attempts r = Some n"
    "validateFencedRequest ws i tok = Inr ()"
  shows "ReleaseUnstartedJob env \<lparr>ru_WorkspaceID = ws, ru_JobID = i, ru_LeaseToken = tok\<rparr> db =
    Inr (db\<lparr>jobs := upd_where (\<lambda>x. held_lease ws i tok x \<and> q_prev_attempts x \<noteq> None)
        (release_set (env_clock env 2 0) (env_clock env 3 0)) (jobs db),
      notifications := notifications db @ [(NotificationChannel, ConsumerClassJobRunner)]\<rparr>, True)"
proof -
  have "find (named_job ws i) (jobs db) = Some r" "find (held_lease ws i tok) (jobs db) = Some r"
    using assms(3) by (auto intro!: find_job [OF assms(1,2)] simp: fence_defs)
  moreover have "\<exists>x\<in>set (jobs db). held_lease ws i tok x \<and> q_prev_attempts x \<noteq> None" using assms(2,3,7) by blast
  ultimately show ?thesis
    using assms(4-8) by (simp add: ReleaseUnstartedJob_def exec_where_def Let_def)
qed

text \<open>C26: releasing a direct lease before dispatch undoes it. While the lease is live, a release
  with the token the lease returned succeeds, and the table is the one before the lease but
  for the row's availability, readiness and update times: its attempt count, also one the
  lease did not raise, its payload, order, deferrals and errors are as they were.\<close>

theorem direct_release_restores:
  assumes "leaseJobRunnerCandidate sess io st lk d tenant cand q (jobs db) = Inr (rs, Some j, LeaseCommitted)"
    and "queue_inv db"
    and "validateFencedRequest tenant (job_ID j) (job_LeaseToken j) = Inr ()"
    and "\<And>s c until. job_LeasedUntil j = Some until \<Longrightarrow> env_clock env s c < until"
  shows "\<exists>db' r. ReleaseUnstartedJob env \<lparr>ru_WorkspaceID = tenant, ru_JobID = job_ID j, ru_LeaseToken = job_LeaseToken j\<rparr>
      (db\<lparr>jobs := rs\<rparr>) = Inr (db', True) \<and> r \<in> set (jobs db) \<and> q_id r = job_ID j \<and>
    jobs db' = map (\<lambda>x. if x = r then r\<lparr>q_available_at := env_clock env 2 0, q_ready_at := env_clock env 3 0,
      q_updated_at := env_clock env 2 0\<rparr> else x) (jobs db)"
  using assms(1)
proof (cases rule: direct_lease_cases)
  case (committed tok r)
  have inv: "jobs_inv (jobs db)" using assms(2) by (simp add: queue_inv_def)
  note r = direct_lease_rows [OF inv committed(3)]
  let ?u = "direct_lease_set (io_clock io) (jr_LeaseOwner q) tok (jr_LeaseDuration q) d"
  let ?v = "release_set (env_clock env 2 0) (env_clock env 3 0)"
  let ?h = "held_lease tenant (q_id r) tok"
  have rs: "rs = upd_where (\<lambda>x. q_id x = q_id r) ?u (jobs db)" unfolding committed(4) r(3) ..
  have ok: "row_ok r" "q_status r = Pending" "q_workspace r = tenant" "IsJobRunnerKind (q_kind r)"
    using inv r(1,2) by (auto simp: jobs_inv_def direct_guard_def eligible_now_def named_job_def)
  have j: "job_ID j = q_id r" "job_LeaseToken j = tok" "job_LeasedUntil j = q_leased_until (?u r)"
    using committed(5) by (simp_all add: leased_job_def scanJob_def Let_def null_string_def)
  have mem: "?u r \<in> set rs" unfolding rs set_upd_where using r(1) by (rule rev_image_eqI) simp
  have held: "?h (?u r)" using ok(3) by (simp add: held_lease_def named_job_def direct_lease_set_def lease_set_def)
  obtain until where until: "q_leased_until (?u r) = Some until" by (simp add: direct_lease_set_def lease_set_def)
  have kind: "IsJobRunnerKind (q_kind (?u r))" using ok(4) by (simp add: direct_lease_set_def lease_set_def)
  have release: "ReleaseUnstartedJob env \<lparr>ru_WorkspaceID = tenant, ru_JobID = q_id r, ru_LeaseToken = tok\<rparr> (db\<lparr>jobs := rs\<rparr>) =
      Inr (db\<lparr>jobs := upd_where (\<lambda>x. ?h x \<and> q_prev_attempts x \<noteq> None) ?v rs,
        notifications := notifications db @ [(NotificationChannel, ConsumerClassJobRunner)]\<rparr>, True)"
    using release_exec [of "db\<lparr>jobs := rs\<rparr>" "?u r" tenant "q_id r" tok until env "q_attempts r"]
      direct_lease_inv [OF assms(1,2)] mem held until kind assms(3,4) j by simp
  have "upd_where (\<lambda>x. ?h x \<and> q_prev_attempts x \<noteq> None) ?v rs =
      map (\<lambda>x. if x = r then ?v (?u r) else x) (jobs db)"
    unfolding rs upd_where_def map_map
  proof (rule map_cong)
    fix x assume "x \<in> set (jobs db)"
    then have "q_id x = q_id r \<longleftrightarrow> x = r" using same_job [OF assms(2) _ r(1)] by blast
    then show "((\<lambda>x. if ?h x \<and> q_prev_attempts x \<noteq> None then ?v x else x) \<circ> (\<lambda>x. if q_id x = q_id r then ?u x else x)) x =
        (if x = r then ?v (?u r) else x)"
      using held by (auto simp: held_lease_def named_job_def)
  qed simp
  then show ?thesis
    using release r(1) j by (intro exI) (auto simp: release_direct_lease [OF ok(1,2)])
qed simp

subsection \<open>An interrupt at its budget\<close>

definition direct_io :: runner_io where
  "direct_io = \<lparr>io_until = 500 * Millisecond, io_fault = None, io_done = False, io_clock = (\<lambda>s c. 5000000),
     io_session_held = False, io_row_held = False, io_token = Some ''0123456789abcdef''\<rparr>"

definition direct_request :: LeaseJobRunnerJobsRequest where
  "direct_request = \<lparr>jr_LeaseOwner = ''runner'', jr_MaxJobs = 4, jr_LeaseDuration = 30 * Second\<rparr>"

definition direct_db :: queue_db where
  "direct_db = cu_queue (single_db spent_interrupt interrupt_inbox)"

lemma spent_fields:
  "q_id spent_interrupt = ''i''" "q_workspace spent_interrupt = ''ws''" "q_kind spent_interrupt = KindRuntimeInput"
  "q_partition spent_interrupt = ''session:ws:s''" "q_seq spent_interrupt = 2" "q_session spent_interrupt = Some ''s''"
  "q_scope spent_interrupt = ScopeThread" "q_class spent_interrupt = Interrupt" "q_status spent_interrupt = Pending"
  "q_available_at spent_interrupt = 0" "q_max_attempts spent_interrupt = 10" "q_attempts spent_interrupt = 10"
  by (simp_all add: spent_interrupt_def lane_row_def)

lemma direct_db_jobs: "jobs direct_db = [spent_interrupt]"
  by (simp add: direct_db_def single_db_def)

lemma direct_db_inv: "queue_inv direct_db"
proof -
  have "row_ok spent_interrupt"
    using lane_row_ok [of KindRuntimeInput Interrupt 2 "''i''"]
    by (simp add: spent_interrupt_def row_ok_def table_checks_def delivery_authority_shape_def lease_shape_def
        previous_attempt_shape_def lane_row_def del: Marshal.simps)
  moreover have "inbox_checks interrupt_inbox"
    by (simp add: inbox_checks_def interrupt_inbox_def fence_inbox_def inbox_sequence_shape_def inbox_binding_shape_def
        inbox_unbound_def isRuntimeInputKind_def)
  ultimately show ?thesis
    using single_db_inv [of spent_interrupt interrupt_inbox] by (simp add: direct_db_def custody_inv_def spent_fields)
qed

lemma direct_guard_sample: "direct_guard no_sessions (io_clock direct_io (Suc 0)) ''ws'' ''i'' [spent_interrupt] spent_interrupt"
  by (simp add: direct_guard_def named_job_def spent_fields IsJobRunnerKind_def eligible_now_def direct_io_def
      session_admits_def no_sessions_def leased_thread_blocks_def pending_blocks_def kind_simps)

definition direct_tok :: bytes where
  "direct_tok = ''qlt_'' @ EncodeToString ''0123456789abcdef''"

lemma direct_lease_run:
  "leaseJobRunnerCandidate no_sessions direct_io jobRunnerStatementTimeout jobRunnerLockTimeout 10 ''ws''
     (scan_candidate spent_interrupt) direct_request (jobs direct_db) =
   Inr ([direct_lease_set (io_clock direct_io) ''runner'' direct_tok (30 * Second) 10 spent_interrupt],
     Some (leased_job 10 (direct_lease_set (io_clock direct_io) ''runner'' direct_tok (30 * Second) 10 spent_interrupt)), LeaseCommitted)"
proof -
  have io: "io_until direct_io = 500 * Millisecond" "io_fault direct_io = None" "io_session_held direct_io = False"
    "io_row_held direct_io = False" "NewLeaseToken (io_token direct_io) = Inr direct_tok"
    by (simp_all add: direct_io_def NewLeaseToken_def direct_tok_def)
  have "jobRunnerTimeouts (Some (500 * Millisecond)) jobRunnerStatementTimeout jobRunnerLockTimeout \<noteq> None"
    by (simp add: jobRunnerTimeouts_def Truncate_def)
  then obtain limits where "jobRunnerTimeouts (Some (500 * Millisecond)) jobRunnerStatementTimeout jobRunnerLockTimeout = Some limits"
    by blast
  moreover have "jk_id (jc_key (scan_candidate spent_interrupt)) = ''i''" by (simp add: scan_candidate_def row_key_def spent_fields)
  moreover have "jr_LeaseOwner direct_request = ''runner''" "jr_LeaseDuration direct_request = 30 * Second"
    by (simp_all add: direct_request_def)
  ultimately show ?thesis
    using direct_guard_sample
    by (simp add: leaseJobRunnerCandidate_def io direct_db_jobs named_job_def spent_fields leased_job_def Let_def)
qed

theorem direct_lease_sound_witness:
  "\<exists>rs job. leaseJobRunnerCandidate no_sessions direct_io jobRunnerStatementTimeout jobRunnerLockTimeout 10 ''ws''
     (scan_candidate spent_interrupt) direct_request (jobs direct_db) = Inr (rs, job, LeaseCommitted) \<and>
   queue_inv (direct_db\<lparr>jobs := rs\<rparr>)"
  using direct_lease_sound [OF direct_lease_run direct_db_inv] direct_lease_run by blast

theorem direct_release_restores_witness:
  "\<exists>rs j db' r. leaseJobRunnerCandidate no_sessions direct_io jobRunnerStatementTimeout jobRunnerLockTimeout 10 ''ws''
       (scan_candidate spent_interrupt) direct_request (jobs direct_db) = Inr (rs, Some j, LeaseCommitted) \<and>
     ReleaseUnstartedJob sample_env \<lparr>ru_WorkspaceID = ''ws'', ru_JobID = job_ID j, ru_LeaseToken = job_LeaseToken j\<rparr>
       (direct_db\<lparr>jobs := rs\<rparr>) = Inr (db', True) \<and> r \<in> set (jobs db') \<and> q_attempts r = 10"
proof -
  let ?u = "direct_lease_set (io_clock direct_io) ''runner'' direct_tok (30 * Second) 10 spent_interrupt"
  let ?j = "leased_job 10 ?u"
  have "job_ID ?j = ''i''" "job_LeaseToken ?j = direct_tok" "job_LeasedUntil ?j = Some (5000000 + 30 * Second)"
    by (simp_all add: leased_job_def scanJob_def Let_def null_string_def direct_lease_set_def lease_set_def spent_fields
        direct_io_def Milliseconds_def)
  moreover have "direct_tok \<noteq> []" by (simp add: direct_tok_def)
  ultimately have "validateFencedRequest ''ws'' (job_ID ?j) (job_LeaseToken ?j) = Inr ()"
    and "\<And>s c until. job_LeasedUntil ?j = Some until \<Longrightarrow> env_clock sample_env s c < until"
    by (auto simp: validateFencedRequest_def sample_env_def)
  from direct_release_restores [OF direct_lease_run direct_db_inv this]
  obtain db' where release: "ReleaseUnstartedJob sample_env \<lparr>ru_WorkspaceID = ''ws'', ru_JobID = job_ID ?j, ru_LeaseToken = job_LeaseToken ?j\<rparr>
      (direct_db\<lparr>jobs := [?u]\<rparr>) = Inr (db', True)"
    and "jobs db' = [spent_interrupt\<lparr>q_available_at := env_clock sample_env 2 0, q_ready_at := env_clock sample_env 3 0,
      q_updated_at := env_clock sample_env 2 0\<rparr>]"
    by (auto simp: direct_db_jobs)
  then have "\<exists>r\<in>set (jobs db'). q_attempts r = 10" by (simp add: spent_fields)
  then show ?thesis using direct_lease_run release by blast
qed

end
