(* ===== verification/Runner_Call_Facts.thy ===== *)
theory Runner_Call_Facts
  imports Runner_Lease_Facts
begin

section \<open>One call of the Job Runner\<close>

text \<open>
  Whatever the rest of the system does between its units of work, a call stays
  within its budgets, leases at most one job per tenant, and returns after at most
  \<open>call_fuel\<close> units with every job it leased.
\<close>

subsection \<open>What a call keeps\<close>

definition answers :: "jobRunnerCall \<Rightarrow> LeaseJobRunnerJobsResult res \<Rightarrow> bool" where
  "answers call result \<longleftrightarrow>
     (case result of
        Inl e \<Rightarrow> ca_jobs call = []
      | Inr r \<Rightarrow> jl_Jobs r = ca_jobs call \<and> jobRunnerActiveRetryAfter \<le> jl_RetryAfter r \<and>
          jl_RetryAfter r \<le> jobRunnerIdleRetryAfter)"

definition fresh_tenant :: "jobRunnerCall \<Rightarrow> bytes \<Rightarrow> bool" where
  "fresh_tenant call tenant \<longleftrightarrow> tenant \<in> set (ca_visited call) \<and>
     (\<forall>j\<in>set (ca_jobs call). job_WorkspaceID j \<noteq> tenant)"

fun pc_ok :: "jobRunnerCall \<Rightarrow> call_pc \<Rightarrow> bool" where
  "pc_ok call (AtTurn tenant a pass) = fresh_tenant call tenant"
| "pc_ok call (AtWindow tenant a pass) = fresh_tenant call tenant"
| "pc_ok call (AtExamine tenant a pass window limit examined) =
     (fresh_tenant call tenant \<and> int (length window) \<le> jobRunnerTenantWindow)"
| "pc_ok call (AtRecord tenant a pass window limit examined) = (int (length window) \<le> jobRunnerTenantWindow)"
| "pc_ok call (AtDone result) = answers call result"
| "pc_ok call (AtReturned result) = answers call result"
| "pc_ok call pc = True"

definition call_ok :: "jobRunnerCall \<Rightarrow> call_pc \<Rightarrow> bool" where
  "call_ok call pc \<longleftrightarrow> 0 \<le> ca_turns call \<and> 0 \<le> ca_rawCandidates call \<and> 0 \<le> ca_leaseTransactions call \<and>
     int (length (ca_jobs call)) + ca_leaseTransactions call \<le> jobRunnerCallLeaseTransactions \<and>
     int (length (ca_jobs call)) \<le> max 0 (jr_MaxJobs (ca_request call)) \<and>
     distinct (map job_WorkspaceID (ca_jobs call)) \<and>
     (\<forall>j\<in>set (ca_jobs call). job_WorkspaceID j \<in> set (ca_visited call)) \<and> pc_ok call pc"

lemma new_call_ok: "call_ok (newJobRunnerCall request) AtLoop"
  by (simp add: call_ok_def newJobRunnerCall_def runner_limits)

lemma active_le_idle: "jobRunnerActiveRetryAfter \<le> jobRunnerIdleRetryAfter"
  by (simp add: runner_limits)

lemma lease_stop_ok:
  assumes "call_ok call pc" "lease_stop io call err = (call', pc')"
  shows "call_ok call' pc'"
  using assms active_le_idle
  by (auto simp: lease_stop_def call_ok_def answers_def lease_result_def split: runner_error.splits if_splits)

lemma lease_head_ok:
  assumes "call_ok call pc" "lease_head io s call = (call', pc')"
  shows "call_ok call' pc'"
  using assms by (auto simp: lease_head_def call_ok_def split: if_splits)

lemma turn_seek_ok:
  assumes "call_ok call pc" "turn_seek coll io s db call w g = (call', pc')"
  shows "call_ok call' pc'"
  using assms lease_stop_ok [OF assms(1)]
  by (auto simp: turn_seek_def call_ok_def split: sum.splits prod.splits)

lemma turn_commit_ok:
  assumes "call_ok call pc" "turn_commit s call tenant wrapped g = (s', call', pc')"
  shows "call_ok call' pc'"
  using assms
  by (auto simp: turn_commit_def Let_def call_ok_def fresh_tenant_def split: if_splits option.splits)

lemma window_length: "int (length (jobRunnerWindow coll tenant pass limit rs)) \<le> max 0 limit"
  by (simp add: jobRunnerWindow_def)

lemma tenant_window_ok:
  assumes "call_ok call (AtWindow tenant a pass)" "tenant_window coll io s db call tenant a pass = (call', pc')"
  shows "call_ok call' pc'"
  using assms window_length [of coll tenant pass "min jobRunnerTenantWindow (ca_rawCandidates call)" "jobs db"]
  by (auto simp: tenant_window_def Let_def call_ok_def fresh_tenant_def withJobRunnerDiscoveryTx_def jobRunnerTenantWindow_def
      split: sum.splits option.splits if_splits)

lemma leased_job_workspace:
  assumes "leaseJobRunnerCandidate sess io st lk d tenant cand q rs = Inr (rs', job, LeaseCommitted)"
  shows "\<exists>j. job = Some j \<and> job_WorkspaceID j = tenant"
  using assms
proof (cases rule: direct_lease_cases)
  case (committed tok r)
  then have "q_workspace r = tenant" by (auto simp: find_Some_iff direct_guard_def named_job_def)
  then show ?thesis
    using committed(5) by (simp add: leased_job_def scanJob_def Let_def direct_lease_set_def lease_set_def)
qed simp

lemma tenant_examine_ok:
  assumes "call_ok call (AtExamine tenant a pass window limit examined)"
    "tenant_examine sess d io s db call tenant a pass window limit examined = (db', call', pc')"
  shows "call_ok call' pc'"
proof (cases "\<not> examined < length window \<or> int (length (ca_jobs call)) \<ge> jr_MaxJobs (ca_request call) \<or>
    ca_leaseTransactions call = 0 \<or> io_done io \<or> \<not> candidate_due pass (window ! examined)")
  case True
  then show ?thesis
    using assms by (auto simp: tenant_examine_def tenant_finish_def call_ok_def fresh_tenant_def Let_def split: if_splits)
next
  case False
  let ?l = "leaseJobRunnerCandidate sess io (sc_statementTimeout s) (sc_lockTimeout s) d tenant (window ! examined)
    (ca_request call) (jobs db)"
  show ?thesis
  proof (cases ?l)
    case (Inl err)
    then show ?thesis using False assms by (auto simp: tenant_examine_def call_ok_def Let_def)
  next
    case (Inr p)
    obtain rs job outcome where p: "?l = Inr (rs, job, outcome)" using Inr by (cases p) auto
    show ?thesis
    proof (cases "outcome = LeaseCommitted")
      case True
      then obtain j where "job = Some j" "job_WorkspaceID j = tenant" using leased_job_workspace p by blast
      then show ?thesis
        using True False assms p by (auto simp: tenant_examine_def call_ok_def fresh_tenant_def Let_def) blast
    next
      case other: False
      then show ?thesis
        using False assms p
        by (cases outcome) (auto simp: tenant_examine_def call_ok_def fresh_tenant_def Let_def)
    qed
  qed
qed

lemma retryAfter_future_bounds:
  "jobRunnerActiveRetryAfter \<le> retryAfter_future coll io s db \<and> retryAfter_future coll io s db \<le> jobRunnerIdleRetryAfter"
  using active_le_idle
  by (auto simp: retryAfter_future_def split: sum.splits option.splits)

lemma retryAfter_hint_bounds:
  "retryAfter_hint io s call = Some h \<Longrightarrow> jobRunnerActiveRetryAfter \<le> h \<and> h \<le> jobRunnerIdleRetryAfter"
  using active_le_idle by (auto simp: retryAfter_hint_def split: if_splits)

lemma tenant_finish_ok: "call_ok call (AtRecord tenant a pass window limit examined) \<Longrightarrow>
    call_ok call (tenant_finish t b p w l e)"
  by (simp add: call_ok_def tenant_finish_def)

lemma tenant_start_ok:
  "call_ok call (AtTurn tenant a pass) \<Longrightarrow> call_ok call (tenant_start coll io s db tenant a pass)"
  by (auto simp: tenant_start_def call_ok_def split: sum.splits option.splits)

lemma call_step_ok:
  assumes "call_ok call pc" "call_step coll sess d io s db call pc = (s', db', call', pc')"
  shows "call_ok call' pc'"
proof (cases pc)
  case AtLoop
  then show ?thesis using assms lease_head_ok by auto
next
  case (AtSeek w g)
  then show ?thesis using assms turn_seek_ok by auto
next
  case (AtCommit t w g)
  then show ?thesis using assms turn_commit_ok by (auto split: prod.splits)
next
  case (AtTurn t a p)
  then show ?thesis using assms tenant_start_ok by auto
next
  case (AtWindow t a p)
  then show ?thesis using assms tenant_window_ok by auto
next
  case (AtExamine t a p w l e)
  then show ?thesis using assms tenant_examine_ok by auto
next
  case (AtRecord t a p w l e)
  then show ?thesis using assms tenant_finish_ok by auto
next
  case (AtRelease t a p c err)
  then show ?thesis using assms lease_stop_ok [OF assms(1)] by (auto simp: call_ok_def split: option.splits)
next
  case AtRetry
  then show ?thesis
    using assms retryAfter_hint_bounds by (auto simp: call_ok_def answers_def lease_result_def split: option.splits)
next
  case AtFuture
  then show ?thesis using assms retryAfter_future_bounds by (auto simp: call_ok_def answers_def lease_result_def)
next
  case (AtDone r)
  then show ?thesis using assms by (auto simp: call_ok_def)
next
  case (AtReturned r)
  then show ?thesis using assms by auto
qed

lemma call_step_request:
  assumes "call_step coll sess d io s db call pc = (s', db', call', pc')"
  shows "ca_request call' = ca_request call"
proof -
  have count: "ca_request (count_outcome outcome job c) = ca_request c" for outcome job c by (cases outcome) simp_all
  have stop: "ca_request c' = ca_request call" if "lease_stop io call err = (c', p')" for err c' p'
    using that by (auto simp: lease_stop_def split: runner_error.splits if_splits)
  show ?thesis
    using assms stop
    by (cases pc)
      (auto simp: lease_head_def turn_seek_def turn_commit_def tenant_window_def tenant_examine_def count Let_def
        split: if_splits sum.splits option.splits prod.splits)
qed

subsection \<open>A call returns\<close>

text \<open>The units a call can still perform: at most 49 in a turn, 100 counted.\<close>

fun call_measure :: "jobRunnerCall \<Rightarrow> call_pc \<Rightarrow> nat" where
  "call_measure call AtLoop = 100 * nat (ca_turns call) + 4"
| "call_measure call (AtSeek w g) = 100 * nat (ca_turns call) + 53"
| "call_measure call (AtCommit t w g) = 100 * nat (ca_turns call) + 52"
| "call_measure call (AtTurn t a p) = 100 * nat (ca_turns call) + 51"
| "call_measure call (AtWindow t a p) = 100 * nat (ca_turns call) + 50"
| "call_measure call (AtExamine t a p w l e) = 100 * nat (ca_turns call) + 8 + (length w - e)"
| "call_measure call (AtRecord t a p w l e) = 100 * nat (ca_turns call) + 7"
| "call_measure call (AtRelease t a p c e) = 100 * nat (ca_turns call) + 6"
| "call_measure call AtRetry = 3"
| "call_measure call AtFuture = 2"
| "call_measure call (AtDone r) = 1"
| "call_measure call (AtReturned r) = 0"

lemma lease_stop_measure: "lease_stop io call err = (call', pc') \<Longrightarrow> call_measure call' pc' \<le> 3"
  by (auto simp: lease_stop_def split: runner_error.splits if_splits)

lemma tenant_examine_measure:
  assumes "call_ok call (AtExamine t a p w l e)" "tenant_examine sess d io s db call t a p w l e = (db', call', pc')"
  shows "call_measure call' pc' < call_measure call (AtExamine t a p w l e)"
proof -
  have turns: "ca_turns (count_outcome outcome job c) = ca_turns c" for outcome job c by (cases outcome) simp_all
  show ?thesis
    using assms(2)
    by (auto simp: tenant_examine_def tenant_finish_def Let_def turns split: if_splits sum.splits prod.splits)
qed

lemma tenant_window_measure:
  assumes "call_ok call (AtWindow t a p)" "tenant_window coll io s db call t a p = (call', pc')"
  shows "call_measure call' pc' < call_measure call (AtWindow t a p)"
proof -
  have "length (jobRunnerWindow coll t p (min jobRunnerTenantWindow (ca_rawCandidates call)) (jobs db)) \<le> 32"
    using window_length [of coll t p "min jobRunnerTenantWindow (ca_rawCandidates call)" "jobs db"]
    by (simp add: jobRunnerTenantWindow_def)
  then show ?thesis
    using assms(2)
    by (auto simp: tenant_window_def Let_def withJobRunnerDiscoveryTx_def split: sum.splits option.splits if_splits)
qed

lemma call_step_measure:
  assumes "call_ok call pc" "call_step coll sess d io s db call pc = (s', db', call', pc')"
  shows "call_measure call' pc' < call_measure call pc \<or> (\<exists>r. pc = AtReturned r)"
proof (cases pc)
  case AtLoop
  then show ?thesis using assms by (auto simp: lease_head_def call_ok_def nat_diff_distrib split: if_splits)
next
  case (AtSeek w g)
  then show ?thesis
    using assms(2) lease_stop_measure [of io call _ call' pc']
    by (fastforce simp: turn_seek_def split: sum.splits prod.splits)
next
  case (AtCommit t w g)
  then show ?thesis
    using assms(2) by (auto simp: turn_commit_def Let_def split: if_splits option.splits)
next
  case (AtTurn t a p)
  then show ?thesis using assms(2) by (auto simp: tenant_start_def split: if_splits sum.splits option.splits)
next
  case (AtWindow t a p)
  then show ?thesis using assms tenant_window_measure by auto
next
  case (AtExamine t a p w l e)
  then show ?thesis using assms tenant_examine_measure by auto
next
  case (AtRelease t a p c err)
  then show ?thesis
    using assms(2) lease_stop_measure [of io call _ call' pc'] by (fastforce split: option.splits)
qed (use assms(2) in \<open>auto simp: tenant_finish_def split: option.splits\<close>)

lemma call_run_returns:
  assumes "call_ok call pc" "call_measure call pc \<le> k"
  shows "\<exists>s' db' call' result. call_run coll sess d ios others n k (s, db, call, pc) = (s', db', call', AtReturned result) \<and>
    call_ok call' (AtReturned result) \<and> ca_request call' = ca_request call"
  using assms
proof (induction k arbitrary: n s db call pc)
  case 0
  then obtain r where "pc = AtReturned r" by (cases pc) auto
  with 0 show ?case by auto
next
  case (Suc k)
  obtain s1 db1 where o: "others n (s, db) = (s1, db1)" by fastforce
  obtain s2 db2 call' pc' where st: "call_step coll sess d (ios n) s1 db1 call pc = (s2, db2, call', pc')" by (metis prod_cases4)
  have "call_measure call' pc' \<le> k" using call_step_measure [OF Suc.prems(1) st] Suc.prems(2) st by auto
  moreover have "ca_request call' = ca_request call" using call_step_request [OF st] .
  ultimately show ?case
    using Suc.IH [OF call_step_ok [OF Suc.prems(1) st], of "Suc n" s2 db2] o st by simp
qed

text \<open>C27: a call of direct leasing returns after at most \<open>call_fuel\<close> units of work, whatever its
  statements meet and whatever other calls and transactions do in between. It leases at
  most one job of each tenant, at most 16 and at most as many as it was asked for, asks the
  caller back after between 100 ms and 1 s, and a failure never hides a lease: an error is
  returned only when no job was leased, and otherwise every leased job is.\<close>

theorem runner_call_returns:
  "\<exists>s' db' call result.
     call_run coll sess d ios others 0 call_fuel (s, db, newJobRunnerCall request, AtLoop) = (s', db', call, AtReturned result) \<and>
     distinct (map job_WorkspaceID (ca_jobs call)) \<and> length (ca_jobs call) \<le> 16 \<and>
     int (length (ca_jobs call)) \<le> max 0 (jr_MaxJobs request) \<and> answers call result"
proof -
  have "call_measure (newJobRunnerCall request) AtLoop \<le> call_fuel"
    by (simp add: newJobRunnerCall_def call_fuel_def jobRunnerCallTurns_def)
  from call_run_returns [OF new_call_ok this, of coll sess d ios others 0 s db]
  obtain s' db' call result where "call_run coll sess d ios others 0 call_fuel (s, db, newJobRunnerCall request, AtLoop) =
      (s', db', call, AtReturned result)" "call_ok call (AtReturned result)" "ca_request call = request"
    by (auto simp: newJobRunnerCall_def)
  then show ?thesis by (auto simp: call_ok_def jobRunnerCallLeaseTransactions_def)
qed

subsection \<open>A call keeps the queue\<close>

lemma call_step_inv:
  assumes "call_step coll sess d io s db call pc = (s', db', call', pc')" "queue_inv db"
  shows "queue_inv db'"
proof (cases pc)
  case (AtExamine t a p w l e)
  then show ?thesis
    using assms direct_lease_inv [of sess io "sc_statementTimeout s" "sc_lockTimeout s" d t "w ! e" "ca_request call" db]
    by (auto simp: tenant_examine_def Let_def split: if_splits sum.splits prod.splits)
qed (use assms in \<open>auto split: prod.splits option.splits\<close>)

lemma call_run_inv:
  assumes "\<And>n s db. queue_inv db \<Longrightarrow> queue_inv (snd (others n (s, db)))"
    and "call_run coll sess d ios others n k (s, db, call, pc) = (s', db', call', pc')" "queue_inv db"
  shows "queue_inv db'"
  using assms(2,3)
proof (induction k arbitrary: n s db call pc)
  case (Suc k)
  obtain s1 db1 where o: "others n (s, db) = (s1, db1)" by fastforce
  then have "queue_inv db1" using assms(1) [OF Suc.prems(2), of n s] by simp
  moreover obtain s2 db2 call2 pc2 where st: "call_step coll sess d (ios n) s1 db1 call pc = (s2, db2, call2, pc2)" by (metis prod_cases4)
  ultimately have "queue_inv db2" using call_step_inv by blast
  then show ?case using Suc.IH [of "Suc n" s2 db2 call2 pc2] Suc.prems(1) o st by simp
qed simp

text \<open>C28: \<open>LeaseJobRunnerJobs\<close> always returns, and keeps the queue's invariant as long as
  everything that happens between its units of work does: leases it takes never exclude one
  another or a lease taken meanwhile.\<close>

theorem runner_call_keeps_queue:
  assumes "\<And>n s db. queue_inv db \<Longrightarrow> queue_inv (snd (others n (s, db)))" and "queue_inv (snd st)"
  shows "\<exists>s' db' result. LeaseJobRunnerJobs coll sess d ios others request st = Some ((s', db'), result) \<and> queue_inv db'"
proof (cases "ValidateLeaseJobRunnerJobsRequest request")
  case (Inl e)
  then show ?thesis using assms(2) by (cases st) (simp add: LeaseJobRunnerJobs_def)
next
  case (Inr u)
  show ?thesis
  proof (cases "admit (fst st)")
    case None
    then show ?thesis using Inr assms(2) by (cases st) (simp add: LeaseJobRunnerJobs_def)
  next
    case (Some s)
    have "call_measure (newJobRunnerCall request) AtLoop \<le> call_fuel"
      by (simp add: newJobRunnerCall_def call_fuel_def jobRunnerCallTurns_def)
    from call_run_returns [OF new_call_ok this, of coll sess d ios others 0 s "snd st"]
    obtain s' db' call result where run: "call_run coll sess d ios others 0 call_fuel (s, snd st, newJobRunnerCall request, AtLoop) =
        (s', db', call, AtReturned result)"
      by blast
    moreover have "queue_inv db'" using call_run_inv [OF assms(1) run assms(2)] .
    ultimately show ?thesis using Inr Some by (simp add: LeaseJobRunnerJobs_def)
  qed
qed

definition racing_world :: "nat \<Rightarrow> jobRunnerScheduler \<times> queue_db \<Rightarrow> jobRunnerScheduler \<times> queue_db" where
  "racing_world n st = (fst st, case EnqueueTx sample_env sample_request (snd st) of Inr (db, job) \<Rightarrow> db | Inl e \<Rightarrow> snd st)"

theorem runner_call_keeps_queue_witness:
  "\<exists>s' db' result. LeaseJobRunnerJobs go_string_le no_sessions 10 (\<lambda>n. direct_io) racing_world direct_request
     (newJobRunnerScheduler, direct_db) = Some ((s', db'), result) \<and> queue_inv db'"
proof -
  have keeps: "queue_inv db \<Longrightarrow> queue_inv (snd (racing_world n (s, db)))" for n s db
    using EnqueueTx_ok(1) [OF _ sample_env_ok] by (auto simp: racing_world_def split: sum.splits)
  have "queue_inv (snd (newJobRunnerScheduler, direct_db))" using direct_db_inv by simp
  from runner_call_keeps_queue [of racing_world, OF keeps this] show ?thesis .
qed

end
