(* ===== verification/Runner_System.thy ===== *)
theory Runner_System
  imports Runner_Call_Facts
begin

section \<open>Concurrent calls\<close>

text \<open>
  The scheduler with any number of calls in flight, its cleanup worker, shutdown and
  the other transactions of the database: every step is one unit of one of them.
  Along every run a tenant's pass is worked on by at most one call, and a
  reservation belongs to a call that will release it.
\<close>

subsection \<open>The system\<close>

record runner_system =
  sy_sched :: jobRunnerScheduler
  sy_db :: queue_db
  sy_calls :: "(jobRunnerCall \<times> call_pc) list"
  sy_probe :: "(bytes \<times> nat \<times> 64 word) list option"

definition runner_initial :: "runner_system \<Rightarrow> bool" where
  "runner_initial sys \<longleftrightarrow> sy_sched sys = newJobRunnerScheduler \<and> queue_inv (sy_db sys) \<and> sy_calls sys = [] \<and>
     sy_probe sys = None"

inductive runner_step :: "collation \<Rightarrow> session_lookup \<Rightarrow> int \<Rightarrow> runner_system \<Rightarrow> runner_system \<Rightarrow> bool"
  for coll sess d where
  step_admit: "ValidateLeaseJobRunnerJobsRequest request = Inr () \<Longrightarrow> admit (sy_sched sys) = Some s \<Longrightarrow>
    runner_step coll sess d sys
      (sys\<lparr>sy_sched := s, sy_calls := sy_calls sys @ [(newJobRunnerCall request, AtLoop)]\<rparr>)"
| step_call: "i < length (sy_calls sys) \<Longrightarrow> sy_calls sys ! i = (call, pc) \<Longrightarrow>
    call_step coll sess d io (sy_sched sys) (sy_db sys) call pc = (s, db, call', pc') \<Longrightarrow>
    runner_step coll sess d sys (sys\<lparr>sy_sched := s, sy_db := db, sy_calls := (sy_calls sys)[i := (call', pc')]\<rparr>)"
| step_select: "sy_probe sys = None \<Longrightarrow> cleanup_select (sy_sched sys) = Some (s, probes) \<Longrightarrow>
    runner_step coll sess d sys (sys\<lparr>sy_sched := s, sy_probe := Some probes\<rparr>)"
| step_delete: "sy_probe sys = Some probes \<Longrightarrow> cleanup_probe io (sy_sched sys) probes probed = Inr absent \<Longrightarrow>
    runner_step coll sess d sys (sys\<lparr>sy_sched := cleanup_delete probes absent (sy_sched sys), sy_probe := None\<rparr>)"
| step_abandon: "sy_probe sys = Some probes \<Longrightarrow> cleanup_probe io (sy_sched sys) probes probed = Inl err \<Longrightarrow>
    runner_step coll sess d sys (sys\<lparr>sy_probe := None\<rparr>)"
| step_close: "runner_step coll sess d sys (sys\<lparr>sy_sched := quiesce_close (sy_sched sys)\<rparr>)"
| step_clear: "sc_closed (sy_sched sys) \<Longrightarrow> sc_calls (sy_sched sys) = 0 \<Longrightarrow> sy_probe sys = None \<Longrightarrow>
    runner_step coll sess d sys (sys\<lparr>sy_sched := quiesce_clear (sy_sched sys)\<rparr>)"
| step_other: "queue_inv db \<Longrightarrow> runner_step coll sess d sys (sys\<lparr>sy_db := db\<rparr>)"

inductive_cases runner_stepE: "runner_step coll sess d sys sys'"

subsection \<open>Reservations\<close>

fun holds :: "call_pc \<Rightarrow> (bytes \<times> nat) option" where
  "holds (AtTurn t a p) = Some (t, a)"
| "holds (AtWindow t a p) = Some (t, a)"
| "holds (AtExamine t a p w l e) = Some (t, a)"
| "holds (AtRecord t a p w l e) = Some (t, a)"
| "holds (AtRelease t a p c e) = Some (t, a)"
| "holds pc = None"

fun returned :: "call_pc \<Rightarrow> bool" where
  "returned (AtReturned r) = True"
| "returned pc = False"

text \<open>
  The calls' holdings \<open>hs\<close> are exactly the busy passes, each held once; tenants and
  addresses of the passes correspond one to one.
\<close>

definition reserved :: "jobRunnerScheduler \<Rightarrow> (bytes \<times> nat) option list \<Rightarrow> bool" where
  "reserved s hs \<longleftrightarrow>
     distinct (map fst (sc_passes s)) \<and> distinct (map snd (sc_passes s)) \<and> (\<forall>p\<in>set (sc_passes s). snd p < sc_next s) \<and>
     (\<forall>p\<in>set (sc_passes s). jp_busy (sc_heap s (snd p)) \<longrightarrow> Some p \<in> set hs) \<and>
     (\<forall>p. Some p \<in> set hs \<longrightarrow> p \<in> set (sc_passes s) \<and> jp_busy (sc_heap s (snd p))) \<and>
     distinct (filter (\<lambda>h. h \<noteq> None) hs)"

declare split_paired_All [simp del] split_paired_Ex [simp del]

lemma reserved_frame:
  "reserved s hs \<Longrightarrow> sc_passes s' = sc_passes s \<Longrightarrow> sc_heap s' = sc_heap s \<Longrightarrow> sc_next s' = sc_next s \<Longrightarrow> reserved s' hs"
  by (simp add: reserved_def)

lemma reserved_address:
  "reserved s hs \<Longrightarrow> p \<in> set (sc_passes s) \<Longrightarrow> q \<in> set (sc_passes s) \<Longrightarrow> snd p = snd q \<Longrightarrow> p = q"
  using distinct_map_inj [of snd "sc_passes s" p q] by (simp add: reserved_def)

lemma reservedI:
  assumes "distinct (map fst (sc_passes s))" "distinct (map snd (sc_passes s))" "\<forall>q\<in>set (sc_passes s). snd q < sc_next s"
    "\<And>q. q \<in> set (sc_passes s) \<Longrightarrow> jp_busy (sc_heap s (snd q)) \<Longrightarrow> Some q \<in> set hs"
    "\<And>q. Some q \<in> set hs \<Longrightarrow> q \<in> set (sc_passes s) \<and> jp_busy (sc_heap s (snd q))" "distinct (filter (\<lambda>h. h \<noteq> None) hs)"
  shows "reserved s hs"
  unfolding reserved_def using assms by blast

lemma reserved_busy: "reserved s hs \<Longrightarrow> q \<in> set (sc_passes s) \<Longrightarrow> jp_busy (sc_heap s (snd q)) \<Longrightarrow> Some q \<in> set hs"
  unfolding reserved_def by blast

lemma reserved_held: "reserved s hs \<Longrightarrow> Some q \<in> set hs \<Longrightarrow> q \<in> set (sc_passes s) \<and> jp_busy (sc_heap s (snd q))"
  unfolding reserved_def by blast

lemma reserved_keys:
  "reserved s hs \<Longrightarrow> distinct (map fst (sc_passes s)) \<and> distinct (map snd (sc_passes s)) \<and>
     (\<forall>q\<in>set (sc_passes s). snd q < sc_next s) \<and> distinct (filter (\<lambda>h. h \<noteq> None) hs)"
  unfolding reserved_def by blast

lemma list_update_split:
  assumes "i < length xs"
  obtains as bs where "xs = as @ xs ! i # bs" "xs[i := y] = as @ y # bs"
  using assms id_take_nth_drop [OF assms] upd_conv_take_nth_drop [OF assms] by blast

lemma reserved_take:
  assumes "reserved s hs" "i < length hs" "hs ! i = None" "(t, a) \<in> set (sc_passes s)" "\<not> jp_busy (sc_heap s a)"
    "jp_busy p"
  shows "reserved (s\<lparr>sc_heap := (sc_heap s)(a := p)\<rparr>) (hs[i := Some (t, a)])" (is "reserved ?s _")
proof -
  obtain as bs where hs: "hs = as @ None # bs" "hs[i := Some (t, a)] = as @ Some (t, a) # bs"
    using list_update_split [OF assms(2)] assms(3) by metis
  have addr: "q = (t, a)" if "q \<in> set (sc_passes s)" "snd q = a" for q
    using reserved_address [OF assms(1) that(1) assms(4)] that(2) by simp
  have free: "Some (t, a) \<notin> set hs" using reserved_held [OF assms(1), of "(t, a)"] assms(5) by auto
  have n1: "Some q \<in> set (as @ Some (t, a) # bs)" if "q \<in> set (sc_passes ?s)" "jp_busy (sc_heap ?s (snd q))" for q
    using that addr [of q] reserved_busy [OF assms(1), of q] by (cases "snd q = a") (auto simp: hs(1))
  have n2: "q \<in> set (sc_passes ?s) \<and> jp_busy (sc_heap ?s (snd q))" if "Some q \<in> set (as @ Some (t, a) # bs)" for q
    using that reserved_held [OF assms(1), of q] assms(4,6) by (cases "q = (t, a)") (auto simp: hs(1))
  have n3: "distinct (filter (\<lambda>h. h \<noteq> None) (as @ Some (t, a) # bs))"
    using reserved_keys [OF assms(1)] free by (auto simp: hs(1))
  show ?thesis unfolding hs(2) using reserved_keys [OF assms(1)] by (intro reservedI [OF _ _ _ n1 n2 n3]) simp_all
qed

lemma update_new: "k \<notin> fst ` set al \<Longrightarrow> AList.update k v al = al @ [(k, v)]"
  by (induction al) auto

lemma reserved_create:
  assumes "reserved s hs" "map_of (sc_passes s) t = None" "a = sc_next s" "\<not> jp_busy p"
  shows "reserved (s\<lparr>sc_passes := AList.update t a (sc_passes s), sc_heap := (sc_heap s)(a := p), sc_next := Suc a\<rparr>) hs" (is "reserved ?s _")
proof -
  have new: "t \<notin> fst ` set (sc_passes s)" using assms(2) by (simp add: map_of_eq_None_iff)
  then have upd: "AList.update t a (sc_passes s) = sc_passes s @ [(t, a)]" by (rule update_new)
  have old: "snd q \<noteq> a" if "q \<in> set (sc_passes s)" for q using reserved_keys [OF assms(1)] assms(3) that by auto
  then have "a \<notin> snd ` set (sc_passes s)" by auto
  then have keys: "distinct (map fst (sc_passes s @ [(t, a)]))" "distinct (map snd (sc_passes s @ [(t, a)]))"
    using reserved_keys [OF assms(1)] new by auto
  have n1: "Some q \<in> set hs" if "q \<in> set (sc_passes ?s)" "jp_busy (sc_heap ?s (snd q))" for q
    using that upd old [of q] reserved_busy [OF assms(1), of q] assms(4) by (cases "q = (t, a)") auto
  have n2: "q \<in> set (sc_passes ?s) \<and> jp_busy (sc_heap ?s (snd q))" if "Some q \<in> set hs" for q
    using reserved_held [OF assms(1) that] upd old [of q] by auto
  have n3: "\<forall>q\<in>set (sc_passes s @ [(t, a)]). snd q < Suc a" using reserved_keys [OF assms(1)] assms(3) by auto
  show ?thesis using reserved_keys [OF assms(1)] keys n3 upd by (intro reservedI [OF _ _ _ n1 n2]) simp_all
qed

lemma reserved_drop:
  assumes "reserved s hs" "i < length hs" "hs ! i = Some (t, a)"
    "sc_passes s' = sc_passes s \<and> sc_heap s' = (sc_heap s)(a := p) \<and> \<not> jp_busy p \<or>
     sc_passes s' = AList.delete t (sc_passes s) \<and> sc_heap s' = (sc_heap s)(a := p)" "sc_next s' = sc_next s"
  shows "reserved s' (hs[i := None])"
proof -
  obtain as bs where hs: "hs = as @ Some (t, a) # bs" "hs[i := None] = as @ None # bs"
    using list_update_split [OF assms(2)] assms(3) by metis
  have mem: "(t, a) \<in> set (sc_passes s)" using reserved_held [OF assms(1), of "(t, a)"] by (simp add: hs(1))
  have free: "Some (t, a) \<notin> set as \<union> set bs" using reserved_keys [OF assms(1)] by (auto simp: hs(1))
  have addr: "q = (t, a) \<longleftrightarrow> snd q = a" if "q \<in> set (sc_passes s)" for q
    using reserved_address [OF assms(1) that mem] by auto
  have tenant: "q = (t, a) \<longleftrightarrow> fst q = t" if "q \<in> set (sc_passes s)" for q
    using distinct_map_inj [of fst "sc_passes s" q "(t, a)"] reserved_keys [OF assms(1)] that mem by auto
  have del: "AList.delete t (sc_passes s) = filter (\<lambda>q. fst q \<noteq> t) (sc_passes s)"
    by (simp add: AList.delete_eq case_prod_unfold eq_commute)
  have heap: "sc_heap s' (snd q) = (if snd q = a then p else sc_heap s (snd q))" for q using assms(4) by auto
  have pass: "q \<in> set (sc_passes s') \<and> jp_busy (sc_heap s' (snd q)) \<longleftrightarrow>
      q \<in> set (sc_passes s) \<and> jp_busy (sc_heap s (snd q)) \<and> q \<noteq> (t, a)" for q
  proof (cases "q \<in> set (sc_passes s)")
    case True
    then show ?thesis using assms(4) addr [OF True] tenant [OF True] unfolding heap del by auto
  next
    case False
    then show ?thesis using assms(4) unfolding del by auto
  qed
  have held: "Some q \<in> set (as @ None # bs) \<longleftrightarrow> Some q \<in> set hs \<and> q \<noteq> (t, a)" for q using free by (auto simp: hs(1))
  have "sc_passes s' = sc_passes s \<or> sc_passes s' = filter (\<lambda>q. fst q \<noteq> t) (sc_passes s)"
    using assms(4) unfolding del by blast
  then have keys: "distinct (map fst (sc_passes s'))" "distinct (map snd (sc_passes s'))" "set (sc_passes s') \<subseteq> set (sc_passes s)"
    using reserved_keys [OF assms(1)] by (auto simp: distinct_map_filter)
  have n1: "Some q \<in> set (as @ None # bs)" if "q \<in> set (sc_passes s')" "jp_busy (sc_heap s' (snd q))" for q
  proof -
    have "q \<in> set (sc_passes s)" "jp_busy (sc_heap s (snd q))" "q \<noteq> (t, a)" using pass [of q] that by simp_all
    then show ?thesis using held [of q] reserved_busy [OF assms(1), of q] by simp
  qed
  have n2: "q \<in> set (sc_passes s') \<and> jp_busy (sc_heap s' (snd q))" if "Some q \<in> set (as @ None # bs)" for q
  proof -
    have "Some q \<in> set hs" "q \<noteq> (t, a)" using held [of q] that by simp_all
    then show ?thesis using pass [of q] reserved_held [OF assms(1), of q] by simp
  qed
  have n3: "\<forall>q\<in>set (sc_passes s'). snd q < sc_next s'" using keys(3) reserved_keys [OF assms(1)] assms(5) by auto
  have n4: "distinct (filter (\<lambda>h. h \<noteq> None) (as @ None # bs))" using reserved_keys [OF assms(1)] by (simp add: hs(1))
  show ?thesis unfolding hs(2) by (rule reservedI [OF keys(1,2) n3 n1 n2 n4])
qed

lemma reserved_forget:
  assumes "reserved s hs" "map_of (sc_passes s) t = Some a" "\<not> jp_busy (sc_heap s a)"
  shows "reserved (s\<lparr>sc_passes := AList.delete t (sc_passes s)\<rparr>) hs"
proof (rule reservedI)
  have del: "AList.delete t (sc_passes s) = filter (\<lambda>q. fst q \<noteq> t) (sc_passes s)"
    by (simp add: AList.delete_eq case_prod_unfold eq_commute)
  show "distinct (map fst (sc_passes (s\<lparr>sc_passes := AList.delete t (sc_passes s)\<rparr>)))"
    "distinct (map snd (sc_passes (s\<lparr>sc_passes := AList.delete t (sc_passes s)\<rparr>)))"
    "\<forall>q\<in>set (sc_passes (s\<lparr>sc_passes := AList.delete t (sc_passes s)\<rparr>)). snd q < sc_next (s\<lparr>sc_passes := AList.delete t (sc_passes s)\<rparr>)"
    "distinct (filter (\<lambda>h. h \<noteq> None) hs)"
    using reserved_keys [OF assms(1)] by (auto simp: del distinct_map_filter)
  show "Some q \<in> set hs" if "q \<in> set (sc_passes (s\<lparr>sc_passes := AList.delete t (sc_passes s)\<rparr>))"
    "jp_busy (sc_heap (s\<lparr>sc_passes := AList.delete t (sc_passes s)\<rparr>) (snd q))" for q
    using reserved_busy [OF assms(1), of q] that by (simp add: del)
  show "q \<in> set (sc_passes (s\<lparr>sc_passes := AList.delete t (sc_passes s)\<rparr>)) \<and>
      jp_busy (sc_heap (s\<lparr>sc_passes := AList.delete t (sc_passes s)\<rparr>) (snd q))" if "Some q \<in> set hs" for q
  proof -
    have q: "q \<in> set (sc_passes s)" "jp_busy (sc_heap s (snd q))" using reserved_held [OF assms(1) that] by simp_all
    then have "map_of (sc_passes s) (fst q) = Some (snd q)" using reserved_keys [OF assms(1)] map_of_is_SomeI [of "sc_passes s" "fst q" "snd q"] by simp
    then have "fst q \<noteq> t" using q(2) assms(2,3) by auto
    then show ?thesis using q by (simp add: del)
  qed
qed

subsection \<open>Every step keeps the reservations\<close>

lemma turn_commit_reserved:
  assumes "reserved s hs" "i < length hs" "hs ! i = None" "turn_commit s call t w g = (s', call', pc')"
  shows "reserved s' (hs[i := holds pc'])"
proof -
  define s2 where "s2 = (let s1 = s\<lparr>sc_lastWorkspace := t, sc_generation := sc_generation s + 1\<rparr>
    in if w then s1\<lparr>sc_idle := (sc_leasesSinceWrap s1 = 0), sc_leasesSinceWrap := 0\<rparr> else s1)"
  have same: "sc_passes s2 = sc_passes s" "sc_heap s2 = sc_heap s" "sc_next s2 = sc_next s" by (simp_all add: s2_def Let_def)
  have res2: "reserved s2 hs" using reserved_frame [OF assms(1) same] .
  have id: "hs[i := None] = hs" using assms(2,3) list_update_id [of hs i] by simp
  show ?thesis
  proof (cases "sc_generation s \<noteq> g \<or> t = [] \<or> t \<in> set (ca_visited call)")
    case True
    then show ?thesis using assms(1,4) id by (auto simp: turn_commit_def split: if_splits)
  next
    case False
    note commit = assms(4) [unfolded turn_commit_def Let_def, folded s2_def [unfolded Let_def]]
    show ?thesis
    proof (cases "map_of (sc_passes s2) t")
      case None
      have "reserved (s2\<lparr>sc_passes := AList.update t (sc_next s2) (sc_passes s2), sc_heap := (sc_heap s2)(sc_next s2 := zero_pass),
          sc_next := Suc (sc_next s2)\<rparr>) hs" (is "reserved ?c hs")
        using reserved_create [OF res2 None refl, of zero_pass] by (simp add: zero_pass_def)
      moreover have "(t, sc_next s2) \<in> set (sc_passes ?c)"
        using update_new [of t "sc_passes s2" "sc_next s2"] None by (simp add: map_of_eq_None_iff)
      moreover have "\<not> jp_busy (sc_heap ?c (sc_next s2))" by (simp add: zero_pass_def)
      ultimately have "reserved (?c\<lparr>sc_heap := (sc_heap ?c)(sc_next s2 := zero_pass\<lparr>jp_busy := True\<rparr>)\<rparr>) (hs[i := Some (t, sc_next s2)])"
        using reserved_take [OF _ assms(2,3), of ?c t "sc_next s2" "zero_pass\<lparr>jp_busy := True\<rparr>"] by simp
      from reserved_frame [OF this, of s'] show ?thesis using commit False None by auto
    next
      case (Some a)
      then have mem: "(t, a) \<in> set (sc_passes s2)" by (rule map_of_SomeD)
      show ?thesis
        using commit False Some id res2 reserved_take [OF res2 assms(2,3) mem, of "(sc_heap s2 a)\<lparr>jp_busy := True\<rparr>"]
        by (cases "jp_busy (sc_heap s2 a)") auto
    qed
  qed
qed

lemma turn_release_reserved:
  assumes "reserved s hs" "i < length hs" "hs ! i = Some (t, a)"
  shows "reserved (turn_release s t a state complete) (hs[i := None])"
proof -
  have "Some (t, a) \<in> set hs" using assms(2,3) nth_mem by metis
  then have "map_of (sc_passes s) t = Some a"
    using reserved_held [OF assms(1), of "(t, a)"] reserved_keys [OF assms(1)] by simp
  then show ?thesis
    by (intro reserved_drop [OF assms, where p = "if complete then (sc_heap s a)\<lparr>jp_busy := False\<rparr>
          else state\<lparr>jp_busy := False, jp_generation := jp_generation (sc_heap s a) + 1\<rparr>"])
      (auto simp: turn_release_def Let_def)
qed

lemma call_step_holds:
  assumes "call_step coll sess d io s db call pc = (s', db', call', pc')" "\<And>t w g. pc \<noteq> AtCommit t w g"
    "\<And>t a p c e. pc \<noteq> AtRelease t a p c e"
  shows "holds pc' = holds pc \<and> sc_passes s' = sc_passes s \<and> sc_heap s' = sc_heap s \<and> sc_next s' = sc_next s"
proof -
  have stop: "holds p' = None" if "lease_stop io call err = (c', p')" for err c' p'
    using that by (auto simp: lease_stop_def split: runner_error.splits if_splits)
  show ?thesis
  proof (cases pc)
    case (AtCommit t w g)
    then show ?thesis using assms(2) by blast
  next
    case (AtRelease t a p c e)
    then show ?thesis using assms(3) by blast
  qed (use assms(1) stop in \<open>auto simp: lease_head_def turn_seek_def tenant_start_def tenant_window_def tenant_examine_def
      tenant_finish_def recordLease_def Let_def split: if_splits sum.splits option.splits prod.splits\<close>)
qed

lemma call_step_reserved:
  assumes "reserved s hs" "i < length hs" "hs ! i = holds pc" "call_step coll sess d io s db call pc = (s', db', call', pc')"
  shows "reserved s' (hs[i := holds pc'])"
proof (cases pc)
  case (AtCommit t w g)
  then show ?thesis using assms turn_commit_reserved [OF assms(1,2), of call t w g] by (auto split: prod.splits)
next
  case (AtRelease t a p c e)
  have "holds pc' = None" using AtRelease assms(4) by (auto simp: lease_stop_def split: option.splits runner_error.splits if_splits)
  then show ?thesis using AtRelease assms turn_release_reserved [OF assms(1,2), of t a p c] by simp
qed (use assms call_step_holds [OF assms(4)] reserved_frame [OF assms(1), of s'] list_update_id [of hs i] in auto)

lemma call_step_calls:
  assumes "call_step coll sess d io s db call pc = (s', db', call', pc')"
  shows "sc_calls s' = sc_calls s - (if returned pc' \<and> \<not> returned pc then 1 else 0) \<and> (returned pc \<longrightarrow> returned pc')"
proof -
  have stop: "\<not> returned p'" if "lease_stop io call err = (c', p')" for err c' p'
    using that by (auto simp: lease_stop_def split: runner_error.splits if_splits)
  show ?thesis
    using assms stop
    by (cases pc)
      (auto simp: lease_head_def turn_seek_def turn_commit_def tenant_start_def tenant_window_def tenant_examine_def
        tenant_finish_def recordLease_def turn_release_def Let_def split: if_splits sum.splits option.splits prod.splits)
qed

lemma cleanup_delete_reserved: "reserved s hs \<Longrightarrow> reserved (cleanup_delete probes absent s) hs"
proof -
  have key: "reserved (cleanup_key probes k s) hs" if "reserved s hs" for k s
    using reserved_forget [OF that, of k] that
    by (auto simp: cleanup_key_def split: option.splits)
  show "reserved s hs \<Longrightarrow> reserved (cleanup_delete probes absent s) hs"
    unfolding cleanup_delete_def by (induction absent arbitrary: s) (auto intro: key)
qed

lemma cleanup_delete_calls: "sc_calls (cleanup_delete probes absent s) = sc_calls s"
  unfolding cleanup_delete_def
  by (induction absent arbitrary: s) (auto simp: cleanup_key_def split: option.splits prod.splits)

lemma reserved_idle: "reserved s hs \<Longrightarrow> reserved s (hs @ [None])"
  unfolding reserved_def set_append by simp

lemma reserved_clear:
  assumes "reserved s hs" "\<forall>h\<in>set hs. h = None"
  shows "reserved (s\<lparr>sc_passes := []\<rparr>) hs"
  using assms(2) reserved_keys [OF assms(1)] by (intro reservedI) auto

subsection \<open>The invariant of the system\<close>

definition in_flight :: "(jobRunnerCall \<times> call_pc) list \<Rightarrow> nat" where
  "in_flight calls = length (filter (\<lambda>c. \<not> returned (snd c)) calls)"

definition holdings :: "(jobRunnerCall \<times> call_pc) list \<Rightarrow> (bytes \<times> nat) option list" where
  "holdings calls = map (\<lambda>c. holds (snd c)) calls"

definition runner_inv :: "runner_system \<Rightarrow> bool" where
  "runner_inv sys \<longleftrightarrow> reserved (sy_sched sys) (holdings (sy_calls sys)) \<and>
     sc_calls (sy_sched sys) = in_flight (sy_calls sys) \<and> queue_inv (sy_db sys) \<and>
     (\<forall>c\<in>set (sy_calls sys). call_ok (fst c) (snd c))"

lemma in_flight_update:
  assumes "i < length calls"
  shows "in_flight (calls[i := c]) + (if returned (snd (calls ! i)) then 0 else 1) =
    in_flight calls + (if returned (snd c) then 0 else 1)"
proof -
  obtain as bs where split: "calls = as @ calls ! i # bs" "calls[i := c] = as @ c # bs" using list_update_split [OF assms] .
  have mid: "in_flight (as @ x # bs) = in_flight as + (if returned (snd x) then 0 else 1) + in_flight bs" for x
    by (simp add: in_flight_def)
  have "in_flight calls = in_flight (as @ calls ! i # bs)" using split(1) by (rule arg_cong)
  then show ?thesis unfolding split(2) mid by simp
qed

lemma runner_initial_inv: "runner_initial sys \<Longrightarrow> runner_inv sys"
  by (auto simp: runner_initial_def runner_inv_def reserved_def holdings_def in_flight_def newJobRunnerScheduler_def)

lemma all_returned: "in_flight calls = 0 \<Longrightarrow> \<forall>h\<in>set (holdings calls). h = None"
proof -
  have "holds pc = None" if "returned pc" for pc using that by (cases pc) simp_all
  then show "in_flight calls = 0 \<Longrightarrow> \<forall>h\<in>set (holdings calls). h = None"
    by (auto simp: in_flight_def holdings_def filter_empty_conv)
qed

lemma runner_call_inv:
  assumes "runner_inv sys" "i < length (sy_calls sys)" "sy_calls sys ! i = (call, pc)"
    "call_step coll sess d io (sy_sched sys) (sy_db sys) call pc = (s, db, call', pc')"
  shows "runner_inv (sys\<lparr>sy_sched := s, sy_db := db, sy_calls := (sy_calls sys)[i := (call', pc')]\<rparr>)"
proof -
  let ?hs = "holdings (sy_calls sys)"
  have "i < length ?hs" "?hs ! i = holds pc" using assms(2,3) by (simp_all add: holdings_def)
  then have "reserved s (?hs[i := holds pc'])"
    using call_step_reserved [OF _ _ _ assms(4)] assms(1) by (auto simp: runner_inv_def)
  moreover have "holdings ((sy_calls sys)[i := (call', pc')]) = ?hs[i := holds pc']" by (simp add: holdings_def map_update)
  moreover have "queue_inv db" using call_step_inv [OF assms(4)] assms(1) by (simp add: runner_inv_def)
  moreover have "call_ok call pc" using assms(1-3) nth_mem by (fastforce simp: runner_inv_def)
  then have "call_ok call' pc'" using call_step_ok assms(4) by blast
  then have "\<forall>c\<in>set ((sy_calls sys)[i := (call', pc')]). call_ok (fst c) (snd c)"
    using assms(1) set_update_subset_insert [of "sy_calls sys" i "(call', pc')"] by (auto simp: runner_inv_def)
  moreover have "sc_calls s = in_flight ((sy_calls sys)[i := (call', pc')])"
    using call_step_calls [OF assms(4)] in_flight_update [OF assms(2), of "(call', pc')"] assms(1,3)
    by (auto simp: runner_inv_def split: if_splits)
  ultimately show ?thesis by (simp add: runner_inv_def)
qed

lemma runner_step_inv: "runner_step coll sess d sys sys' \<Longrightarrow> runner_inv sys \<Longrightarrow> runner_inv sys'"
proof (induction rule: runner_step.induct)
  case (step_admit request sys s)
  have hs: "holdings (sy_calls sys @ [(newJobRunnerCall request, AtLoop)]) = holdings (sy_calls sys) @ [None]"
    by (simp add: holdings_def)
  have res: "reserved (sy_sched sys) (holdings (sy_calls sys))" using step_admit.prems by (simp add: runner_inv_def)
  have "reserved s (holdings (sy_calls sys))"
    using reserved_frame [OF res, of s] step_admit.hyps(2) by (auto simp: admit_def split: if_splits)
  then have "reserved s (holdings (sy_calls sys) @ [None])" by (rule reserved_idle)
  moreover have "sc_calls s = Suc (sc_calls (sy_sched sys))" using step_admit.hyps(2) by (auto simp: admit_def split: if_splits)
  ultimately show ?case
    using step_admit.prems hs new_call_ok by (auto simp: runner_inv_def in_flight_def)
next
  case (step_call i sys call pc io s db call' pc')
  then show ?case using runner_call_inv by blast
next
  case (step_select sys s probes)
  then have "sc_passes s = sc_passes (sy_sched sys) \<and> sc_heap s = sc_heap (sy_sched sys) \<and> sc_next s = sc_next (sy_sched sys) \<and>
      sc_calls s = sc_calls (sy_sched sys)"
    by (auto simp: cleanup_select_def Let_def split: if_splits)
  then show ?case using step_select.prems reserved_frame [of "sy_sched sys" _ s] by (auto simp: runner_inv_def)
next
  case (step_delete sys probes io probed absent)
  then show ?case by (simp add: runner_inv_def cleanup_delete_reserved cleanup_delete_calls)
next
  case (step_close sys)
  then show ?case
    using reserved_frame [of "sy_sched sys" "holdings (sy_calls sys)" "quiesce_close (sy_sched sys)"]
    by (simp add: runner_inv_def quiesce_close_def)
next
  case (step_clear sys)
  then have "reserved (quiesce_clear (sy_sched sys)) (holdings (sy_calls sys))"
    using reserved_clear [OF _ all_returned] by (simp add: runner_inv_def quiesce_clear_def)
  then show ?case using step_clear.prems by (simp add: runner_inv_def quiesce_clear_def)
qed (simp_all add: runner_inv_def)

interpretation runner: invariant_system runner_initial "runner_step coll sess d" runner_inv for coll sess d
  by (rule invariant_system.intro) (fact runner_initial_inv, fact runner_step_inv)

lemma distinct_holdings:
  "distinct (filter (\<lambda>h. h \<noteq> None) hs) \<Longrightarrow> i < length hs \<Longrightarrow> j < length hs \<Longrightarrow> hs ! i = Some x \<Longrightarrow> hs ! j = Some x \<Longrightarrow> i = j"
proof (induction hs arbitrary: i j)
  case (Cons h hs)
  have "Some x \<in> set hs" if "hs ! k = Some x" "k < length hs" for k using that nth_mem by metis
  then show ?case using Cons by (cases i; cases j) (auto split: if_splits)
qed simp

text \<open>C29: however calls of direct leasing, the cleanup worker, shutdown and other transactions
  interleave: two different calls never work on the same tenant at once, a pass that is
  marked busy is held by a call that has not returned (so no tenant stays reserved after its
  call), the number of admitted calls is the number of calls in flight, which shutdown waits
  for, and the queue keeps its invariant.\<close>

theorem runner_reservations:
  assumes "runner_initial sys0" "(runner_step coll sess d)\<^sup>*\<^sup>* sys0 sys"
  shows "(\<forall>i j t a b. i < length (sy_calls sys) \<longrightarrow> j < length (sy_calls sys) \<longrightarrow>
      holds (snd (sy_calls sys ! i)) = Some (t, a) \<longrightarrow> holds (snd (sy_calls sys ! j)) = Some (t, b) \<longrightarrow> i = j) \<and>
    (\<forall>t a. map_of (sc_passes (sy_sched sys)) t = Some a \<and> jp_busy (sc_heap (sy_sched sys) a) \<longrightarrow>
      (\<exists>c\<in>set (sy_calls sys). holds (snd c) = Some (t, a) \<and> \<not> returned (snd c))) \<and>
    sc_calls (sy_sched sys) = in_flight (sy_calls sys) \<and> queue_inv (sy_db sys)"
proof (intro conjI allI impI)
  let ?s = "sy_sched sys" and ?hs = "holdings (sy_calls sys)"
  have inv: "runner_inv sys" using runner.reachable_inv [OF assms] .
  then have res: "reserved ?s ?hs" and "sc_calls ?s = in_flight (sy_calls sys)" "queue_inv (sy_db sys)"
    by (simp_all add: runner_inv_def)
  then show "sc_calls ?s = in_flight (sy_calls sys)" "queue_inv (sy_db sys)" by simp_all
  fix i j t a b assume ij: "i < length (sy_calls sys)" "j < length (sy_calls sys)"
    "holds (snd (sy_calls sys ! i)) = Some (t, a)" "holds (snd (sy_calls sys ! j)) = Some (t, b)"
  then have at: "?hs ! i = Some (t, a)" "?hs ! j = Some (t, b)" "i < length ?hs" "j < length ?hs" by (simp_all add: holdings_def)
  then have "Some (t, a) \<in> set ?hs" "Some (t, b) \<in> set ?hs" using nth_mem by metis+
  then have "map_of (sc_passes ?s) t = Some a" "map_of (sc_passes ?s) t = Some b"
    using reserved_held [OF res] reserved_keys [OF res] by simp_all
  then show "i = j" using distinct_holdings [of ?hs i j "(t, a)"] reserved_keys [OF res] at by simp
next
  fix t a assume "map_of (sc_passes (sy_sched sys)) t = Some a \<and> jp_busy (sc_heap (sy_sched sys) a)"
  moreover have "reserved (sy_sched sys) (holdings (sy_calls sys))"
    using runner.reachable_inv [OF assms] by (simp add: runner_inv_def)
  ultimately have "Some (t, a) \<in> set (holdings (sy_calls sys))" using reserved_busy map_of_SomeD by fastforce
  then obtain c where "c \<in> set (sy_calls sys)" "holds (snd c) = Some (t, a)" by (auto simp: holdings_def)
  moreover from this(2) have "\<not> returned (snd c)" by (cases "snd c") simp_all
  ultimately show "\<exists>c\<in>set (sy_calls sys). holds (snd c) = Some (t, a) \<and> \<not> returned (snd c)" by blast
qed

subsection \<open>Two calls on one tenant\<close>

definition move :: "nat \<Rightarrow> runner_system \<Rightarrow> runner_system" where
  "move i sys = (case sy_calls sys ! i of (call, pc) \<Rightarrow>
     case call_step go_string_le no_sessions 10 direct_io (sy_sched sys) (sy_db sys) call pc of
       (s, db, call', pc') \<Rightarrow> sys\<lparr>sy_sched := s, sy_db := db, sy_calls := (sy_calls sys)[i := (call', pc')]\<rparr>)"

lemma move_step: "i < length (sy_calls sys) \<Longrightarrow> runner_step go_string_le no_sessions 10 sys (move i sys)"
  by (cases "sy_calls sys ! i") (auto simp: move_def split: prod.splits intro!: step_call)

lemma move_length: "length (sy_calls (move i sys)) = length (sy_calls sys)"
  by (auto simp: move_def split: prod.splits)

lemma moves_run:
  "\<forall>i\<in>set is. i < length (sy_calls sys) \<Longrightarrow> (runner_step go_string_le no_sessions 10)\<^sup>*\<^sup>* sys (fold move is sys)"
proof (induction "is" arbitrary: sys)
  case (Cons i "is")
  then have "(runner_step go_string_le no_sessions 10)\<^sup>*\<^sup>* (move i sys) (fold move is (move i sys))" by (simp add: move_length)
  moreover have "runner_step go_string_le no_sessions 10 sys (move i sys)" using Cons.prems move_step by simp
  ultimately show ?case by (simp add: converse_rtranclp_into_rtranclp)
qed simp

definition opened :: runner_system where
  "opened = \<lparr>sy_sched = newJobRunnerScheduler, sy_db = direct_db, sy_calls = [], sy_probe = None\<rparr>"

definition admitted :: runner_system where
  "admitted = opened\<lparr>sy_sched := newJobRunnerScheduler\<lparr>sc_calls := 2\<rparr>,
     sy_calls := [(newJobRunnerCall direct_request, AtLoop), (newJobRunnerCall direct_request, AtLoop)]\<rparr>"

lemma direct_request_valid: "ValidateLeaseJobRunnerJobsRequest direct_request = Inr ()"
  by (simp add: ValidateLeaseJobRunnerJobsRequest_def ValidateLeaseOwner_def ValidateJobRunnerLeaseBatchSize_def
      ValidateJobRunnerLeaseDuration_def MaxJobRunnerLeaseJobs_def allowance_eval bound_defs MinJobRunnerLeaseDuration_def
      MaxJobRunnerLeaseDuration_def direct_request_def)

lemma admitted_run: "(runner_step go_string_le no_sessions 10)\<^sup>*\<^sup>* opened admitted"
proof -
  let ?one = "opened\<lparr>sy_sched := newJobRunnerScheduler\<lparr>sc_calls := Suc 0\<rparr>, sy_calls := [(newJobRunnerCall direct_request, AtLoop)]\<rparr>"
  have fresh: "\<not> sc_closed newJobRunnerScheduler" "sc_calls newJobRunnerScheduler = 0" by (simp_all add: newJobRunnerScheduler_def)
  have "(runner_step go_string_le no_sessions 10)\<^sup>*\<^sup>* opened ?one"
    using step_admit [OF direct_request_valid, of opened "newJobRunnerScheduler\<lparr>sc_calls := Suc 0\<rparr>"] fresh
    by (intro r_into_rtranclp) (simp add: opened_def admit_def)
  also have "runner_step go_string_le no_sessions 10 ?one admitted"
    using step_admit [OF direct_request_valid, of ?one "newJobRunnerScheduler\<lparr>sc_calls := 2\<rparr>"] fresh
    by (simp add: opened_def admitted_def admit_def numeral_2_eq_2)
  finally show ?thesis .
qed

lemma direct_seek:
  "jobRunnerSeekTenant go_string_le [] (jobs direct_db) = (''ws'', False)"
  "jobRunnerSeekTenant go_string_le ''ws'' (jobs direct_db) = (''ws'', True)"
  by (simp_all add: jobRunnerSeekTenant_def next_tenant_def first_tenant_def direct_db_jobs runner_pending_def spent_fields
      IsJobRunnerKind_def kind_simps)

lemma direct_discovery:
  "withJobRunnerDiscoveryTx direct_io lock operation statement found = Inr found" "\<not> io_done direct_io"
  by (simp_all add: withJobRunnerDiscoveryTx_def jobRunnerTimeouts_def Truncate_def direct_io_def Let_def)

theorem runner_reservations_witness:
  "\<exists>sys. (runner_step go_string_le no_sessions 10)\<^sup>*\<^sup>* opened sys \<and> holds (snd (sy_calls sys ! 0)) = Some (''ws'', 0) \<and>
     snd (sy_calls sys ! 1) = AtLoop \<and> sc_calls (sy_sched sys) = in_flight (sy_calls sys) \<and> queue_inv (sy_db sys)"
proof -
  let ?sys = "fold move [0, 0, 0, 1, 1, 1] admitted"
  have "(runner_step go_string_le no_sessions 10)\<^sup>*\<^sup>* admitted ?sys" by (rule moves_run) (simp add: admitted_def)
  then have run: "(runner_step go_string_le no_sessions 10)\<^sup>*\<^sup>* opened ?sys" using admitted_run by (rule rtranclp_trans [rotated])
  moreover have "runner_initial opened" using direct_db_inv by (simp add: runner_initial_def opened_def)
  ultimately have "sc_calls (sy_sched ?sys) = in_flight (sy_calls ?sys)" "queue_inv (sy_db ?sys)"
    using runner_reservations [of opened go_string_le no_sessions 10 ?sys] by blast+
  moreover have "holds (snd (sy_calls ?sys ! 0)) = Some (''ws'', 0) \<and> snd (sy_calls ?sys ! 1) = AtLoop"
    by (simp add: move_def admitted_def opened_def newJobRunnerCall_def newJobRunnerScheduler_def lease_head_def
      direct_request_def jobRunnerCallTurns_def jobRunnerCallRawCandidates_def jobRunnerCallLeaseTransactions_def turn_seek_def turn_commit_def direct_seek direct_discovery Let_def)
  ultimately show ?thesis using run by blast
qed

end
