(* ===== verification/Wakeup.thy ===== *)
theory Wakeup
  imports Queue_Enqueue "HOL-Library.Word"
begin

section \<open>Wake signals and the notification listener\<close>

text \<open>
  \<open>internal/queue/wakeup.go\<close> and \<open>internal/pollbackoff/backoff.go\<close>: the broadcast hint by
  which a consumer learns of enqueued work, the loop that keeps one \<open>LISTEN\<close> connection
  alive, and the delays between its reconnections. A channel is named by a number, in the
  order in which channels are made; closing a closed channel panics, which is \<open>None\<close>.
  What a connection delivers before it drops, and whether the context is cancelled, are
  inputs.
\<close>

subsection \<open>Backoff\<close>

text \<open>A product of 64-bit durations wraps around.\<close>

definition wrap64 :: "int \<Rightarrow> duration" where
  "wrap64 d = sint (word_of_int d :: 64 word)"

record Backoff =
  bo_initial :: duration
  bo_maximum :: duration
  bo_next :: duration

definition New :: "duration \<Rightarrow> duration \<Rightarrow> Backoff" where
  "New initial0 maximum0 =
     (let initial = (if initial0 \<le> 0 then Second else initial0);
          maximum = (if maximum0 < initial then initial else maximum0)
      in \<lparr>bo_initial = initial, bo_maximum = maximum, bo_next = initial\<rparr>)"

definition Next :: "bool \<Rightarrow> Backoff \<Rightarrow> Backoff \<times> duration" where
  "Next hadWork b =
     (if hadWork then (b\<lparr>bo_next := bo_initial b\<rparr>, bo_initial b)
      else
        let current = (if bo_next b \<le> 0 then bo_initial b else bo_next b)
        in if current < bo_maximum b
           then
             let doubled = wrap64 (current * 2)
             in (b\<lparr>bo_next := if doubled < current \<or> doubled > bo_maximum b then bo_maximum b else doubled\<rparr>, current)
           else (b, current))"

subsection \<open>Wake signals\<close>

record WakeSignal =
  ws_generation :: "64 word"
  ws_ready :: nat
  ws_closed :: "nat \<Rightarrow> bool"
  ws_next :: nat

record WakeSnapshot =
  sn_generation :: "64 word"
  sn_ready :: "nat option"

definition NewWakeSignal :: WakeSignal where
  "NewWakeSignal = \<lparr>ws_generation = 0, ws_ready = 0, ws_closed = (\<lambda>c. False), ws_next = 1\<rparr>"

text \<open>\<open>Snapshot\<close> of a nil signal is the zero snapshot.\<close>

definition Snapshot :: "WakeSignal option \<Rightarrow> WakeSnapshot" where
  "Snapshot s =
     (case s of
        None \<Rightarrow> \<lparr>sn_generation = 0, sn_ready = None\<rparr>
      | Some s \<Rightarrow> \<lparr>sn_generation = ws_generation s, sn_ready = Some (ws_ready s)\<rparr>)"

definition Broadcast :: "WakeSignal \<Rightarrow> WakeSignal option" where
  "Broadcast s =
     (if ws_closed s (ws_ready s) then None
      else Some (s\<lparr>ws_closed := (ws_closed s)(ws_ready s := True), ws_generation := ws_generation s + 1,
        ws_ready := ws_next s, ws_next := Suc (ws_next s)\<rparr>))"

text \<open>
  The check of \<open>wait\<close> under the mutex: it returns at once, or selects on a channel.
  \<open>later\<close> is the signal at the second, separate \<open>Snapshot\<close> that a zero snapshot needs.
\<close>

datatype wait_check = WakeNow | SelectOn "nat option"

definition wait_begin :: "WakeSignal option \<Rightarrow> WakeSignal \<Rightarrow> WakeSnapshot \<Rightarrow> wait_check" where
  "wait_begin s later snapshot =
     (case s of
        None \<Rightarrow> SelectOn None
      | Some s \<Rightarrow>
          if sn_generation snapshot \<noteq> ws_generation s then WakeNow
          else SelectOn (case sn_ready snapshot of
            Some ready \<Rightarrow> Some ready
          | None \<Rightarrow> sn_ready (Snapshot (Some later))))"

text \<open>What the \<open>select\<close> can return: the context's error, or \<open>None\<close> for a wake. It blocks
  while no case is ready; a nil channel never is.\<close>

definition wait_select :: "error option \<Rightarrow> bool \<Rightarrow> WakeSignal \<Rightarrow> nat option \<Rightarrow> error option list" where
  "wait_select ctxErr timerFired s ready =
     (case ctxErr of Some e \<Rightarrow> [Some e] | None \<Rightarrow> []) @
     (if (case ready of Some c \<Rightarrow> ws_closed s c | None \<Rightarrow> False) then [None] else []) @
     (if timerFired then [None] else [])"

definition wait_outcomes ::
    "error option \<Rightarrow> bool \<Rightarrow> WakeSignal option \<Rightarrow> WakeSignal \<Rightarrow> WakeSignal \<Rightarrow> WakeSnapshot \<Rightarrow> error option list" where
  "wait_outcomes ctxErr timerFired s later now snapshot =
     (case wait_begin s later snapshot of
        WakeNow \<Rightarrow> [None]
      | SelectOn ready \<Rightarrow> wait_select ctxErr timerFired now ready)"

subsection \<open>The listener\<close>

definition listenerReconnectBase :: duration where "listenerReconnectBase = 100 * Millisecond"
definition listenerReconnectMaximum :: duration where "listenerReconnectMaximum = 10 * Second"

text \<open>One connection: whether \<open>LISTEN\<close> succeeded, the payloads it delivered, the error that
  ended it, whether the context was cancelled by then, and whether it is cancelled during
  the wait before the next connection.\<close>

record connection =
  cn_ready :: bool
  cn_payloads :: "bytes list"
  cn_err :: "error option"
  cn_cancelled :: bool
  cn_wait_cancelled :: bool

definition deliver :: "('s \<Rightarrow> 's option) \<Rightarrow> (bytes \<Rightarrow> 's \<Rightarrow> 's option) \<Rightarrow> connection \<Rightarrow> 's \<Rightarrow> 's option" where
  "deliver onReady onPayload c st =
     fold (\<lambda>payload st. Option.bind st (onPayload payload)) (cn_payloads c) (if cn_ready c then onReady st else Some st)"

text \<open>The loop for at most \<open>fuel\<close> connections: the state the callbacks leave, the delays
  waited, and whether the loop returned (always without an error: the wait fails only when
  the context is done).\<close>

fun RunListener ::
    "('s \<Rightarrow> 's option) \<Rightarrow> (bytes \<Rightarrow> 's \<Rightarrow> 's option) \<Rightarrow> (nat \<Rightarrow> connection) \<Rightarrow> nat \<Rightarrow> nat \<Rightarrow> Backoff \<Rightarrow> 's \<Rightarrow>
     ('s \<times> duration list \<times> bool) option" where
  "RunListener onReady onPayload conns n 0 backoff st = Some (st, [], False)"
| "RunListener onReady onPayload conns n (Suc fuel) backoff st =
     Option.bind (deliver onReady onPayload (conns n) st) (\<lambda>st'.
       if cn_cancelled (conns n) then Some (st', [], True)
       else
         let (backoff1, delay1) = Next False backoff;
             (backoff2, delay) = (if cn_err (conns n) = None then Next True backoff1 else (backoff1, delay1))
         in if cn_wait_cancelled (conns n) then Some (st', [delay], True)
            else Option.bind (RunListener onReady onPayload conns (Suc n) fuel backoff2 st')
              (\<lambda>(st'', delays, returned). Some (st'', delay # delays, returned)))"

text \<open>The consumer's signal and how often each of the further signals was called.\<close>

record listener_state =
  ls_wake :: WakeSignal
  ls_called :: "bytes \<Rightarrow> nat"

definition wake_broadcast :: "listener_state \<Rightarrow> listener_state option" where
  "wake_broadcast st = map_option (\<lambda>w. st\<lparr>ls_wake := w\<rparr>) (Broadcast (ls_wake st))"

definition call_signal :: "bytes \<Rightarrow> listener_state \<Rightarrow> listener_state" where
  "call_signal c st = st\<lparr>ls_called := (ls_called st)(c := Suc (ls_called st c))\<rparr>"

definition on_ready :: "bytes list \<Rightarrow> listener_state \<Rightarrow> listener_state option" where
  "on_ready signals st = map_option (fold call_signal signals) (wake_broadcast st)"

definition on_payload :: "bytes \<Rightarrow> bytes list \<Rightarrow> bytes \<Rightarrow> listener_state \<Rightarrow> listener_state option" where
  "on_payload consumerClass signals payload st =
     (if payload = consumerClass then wake_broadcast st
      else if payload \<in> set signals then Some (call_signal payload st)
      else Some st)"

text \<open>\<open>signals\<close> are the keys of the map, each with a signal.\<close>

definition RunNotificationListenerWithSignals ::
    "bytes \<Rightarrow> bytes list \<Rightarrow> (nat \<Rightarrow> connection) \<Rightarrow> nat \<Rightarrow> listener_state \<Rightarrow>
     error + (listener_state \<times> duration list \<times> bool) option" where
  "RunNotificationListenerWithSignals consumerClass signals conns fuel st =
     (if consumerClass \<noteq> ConsumerClassJobRunner \<and> consumerClass \<noteq> ConsumerClassSandbox
      then Inl (OtherError ''queue notification consumer class is invalid'')
      else if \<exists>c\<in>set signals. c = [] \<or> c = consumerClass
      then Inl (OtherError ''queue notification signal class is invalid'')
      else Inr (RunListener (on_ready signals) (on_payload consumerClass signals) conns 0 fuel
        (New listenerReconnectBase listenerReconnectMaximum) st))"

subsection \<open>Classification of a dropped connection\<close>

text \<open>What \<open>errors.As\<close> finds in the error's chain: the kind of a \<open>DiagnosticError\<close>, the code of a
  \<open>PgError\<close>, and whether a \<open>net.Error\<close> is a timeout.\<close>

record listener_failure =
  lf_diagnostic :: "bytes option"
  lf_pgCode :: "bytes option"
  lf_netTimeout :: bool

definition classify_diagnostic :: "bytes \<Rightarrow> (bytes \<times> bool) option" where
  "classify_diagnostic kind =
     (if kind = ''authentication_failed'' then Some (''authentication'', False)
      else if kind = ''permission_denied'' \<or> kind = ''runtime_role_invalid'' then Some (''permission'', False)
      else if kind = ''endpoint_unreachable'' \<or> kind = ''tls_failed'' then Some (''endpoint_transport'', True)
      else if kind = ''timeout'' then Some (''timeout'', True)
      else None)"

definition classify_code :: "bytes \<Rightarrow> (bytes \<times> bool) option" where
  "classify_code code =
     (if 2 \<le> length code \<and> take 2 code = ''28'' then Some (''authentication'', False)
      else if code = ''42501'' then Some (''permission'', False)
      else if 2 \<le> length code \<and> take 2 code = ''08'' \<or> code = ''57P01'' then Some (''endpoint_transport'', True)
      else if code = ''57014'' then Some (''timeout'', True)
      else None)"

definition classifyNotificationListenerFailure :: "listener_failure \<Rightarrow> bytes \<times> bool" where
  "classifyNotificationListenerFailure err =
     (case Option.bind (lf_diagnostic err) classify_diagnostic of
        Some failure \<Rightarrow> failure
      | None \<Rightarrow>
          (case Option.bind (lf_pgCode err) classify_code of
             Some failure \<Rightarrow> failure
           | None \<Rightarrow> if lf_netTimeout err then (''timeout'', True) else (''unknown'', True)))"

end
