(* ===== verification/Bounded_Stream.thy ===== *)
theory Bounded_Stream
  imports Go_Utf8
begin

section \<open>Bounded command streams of the sandbox helper\<close>

text \<open>
  \<open>internal/sandbox/helper/internal/bound/cap_buffer.go\<close>: the buffer that keeps the head and
  the last bytes of a command's output, and the snapshots read from it; and from
  \<open>internal/sandbox/helper/internal/task/exec.go\<close> the code that takes a snapshot apart at its
  elision seam and accumulates successive polls of a detached command. The 64-bit counters
  are natural numbers: a stream of \<open>2 ^ 63\<close> bytes is out of reach.
\<close>

abbreviation newline :: char where "newline \<equiv> CHR 0x0A"

subsection \<open>The buffer\<close>

definition DefaultStreamStoreBytes :: int where
  "DefaultStreamStoreBytes = 1024 * 1024"

record StreamSnapshot =
  ss_Text :: bytes
  ss_TotalBytes :: nat
  ss_TotalLines :: nat
  ss_ReturnedBytes :: nat
  ss_Truncated :: bool

record CapBuffer =
  cb_headCap :: nat
  cb_tailCap :: nat
  cb_head :: bytes
  cb_tail :: bytes
  cb_tailStart :: nat
  cb_totalBytes :: nat
  cb_totalLines :: nat
  cb_windowBytes :: nat

definition NewCapBuffer :: "int \<Rightarrow> CapBuffer" where
  "NewCapBuffer storeCap0 =
     (let storeCap = nat (if storeCap0 \<le> 0 then DefaultStreamStoreBytes else storeCap0);
          headCap = storeCap div 2
      in \<lparr>cb_headCap = headCap, cb_tailCap = storeCap - headCap, cb_head = [], cb_tail = [], cb_tailStart = 0,
          cb_totalBytes = 0, cb_totalLines = 0, cb_windowBytes = 0\<rparr>)"

definition cb_Write :: "bytes \<Rightarrow> CapBuffer \<Rightarrow> CapBuffer" where
  "cb_Write p b =
     (if p = [] then b
      else
        let window = cb_windowBytes b + length p;
            b1 = b\<lparr>cb_totalBytes := cb_totalBytes b + length p, cb_windowBytes := window,
              cb_totalLines := cb_totalLines b + count_list p newline\<rparr>;
            b2 = (if length (cb_head b1) < cb_headCap b1
              then b1\<lparr>cb_head := cb_head b1 @ take (min (length p) (cb_headCap b1 - length (cb_head b1))) p\<rparr> else b1)
        in if 0 < cb_tailCap b2
           then
             let tail = cb_tail b2 @ p;
                 tail' = (if length tail > cb_tailCap b2 then drop (length tail - cb_tailCap b2) tail else tail)
             in b2\<lparr>cb_tail := tail', cb_tailStart := window - length tail'\<rparr>
           else b2)"

subsection \<open>Bounds that respect lines and runes\<close>

fun trim_end :: "bytes \<Rightarrow> nat \<Rightarrow> nat" where
  "trim_end v 0 = 0"
| "trim_end v (Suc limit) = (if ValidString (take (Suc limit) v) then Suc limit else trim_end v limit)"

definition trimUTF8End :: "bytes \<Rightarrow> nat \<Rightarrow> nat" where
  "trimUTF8End v limit = trim_end v (if length v < limit then length v else limit)"

fun skip_invalid :: "bytes \<Rightarrow> nat" where
  "skip_invalid [] = 0"
| "skip_invalid (c # v) = (if ValidString (c # v) then 0 else Suc (skip_invalid v))"

definition advanceUTF8Start :: "bytes \<Rightarrow> nat \<Rightarrow> nat" where
  "advanceUTF8Start v start = start + skip_invalid (drop start v)"

text \<open>The index after the \<open>maxLines\<close>-th line break, if there are so many.\<close>

fun lines_end :: "nat \<Rightarrow> nat \<Rightarrow> nat \<Rightarrow> bytes \<Rightarrow> nat option" where
  "lines_end maxLines i lines [] = None"
| "lines_end maxLines i lines (c # v) =
     (if c = newline
      then if Suc lines \<ge> maxLines then Some (Suc i) else lines_end maxLines (Suc i) (Suc lines) v
      else lines_end maxLines (Suc i) lines v)"

definition prefixBounded :: "bytes \<Rightarrow> nat \<Rightarrow> nat \<Rightarrow> bytes" where
  "prefixBounded v maxBytes maxLines =
     (if maxBytes = 0 \<or> maxLines = 0 \<or> v = [] then []
      else
        let limit = min (length v) maxBytes;
            limit' = (case lines_end maxLines 0 0 (take limit v) of Some e \<Rightarrow> e | None \<Rightarrow> limit)
        in take (trimUTF8End v limit') v)"

text \<open>The scan back from position \<open>i - 1\<close> to \<open>start\<close>.\<close>

fun lines_start :: "bytes \<Rightarrow> nat \<Rightarrow> nat \<Rightarrow> nat \<Rightarrow> nat \<Rightarrow> nat" where
  "lines_start v start maxLines lines 0 = start"
| "lines_start v start maxLines lines (Suc i) =
     (if i < start then start
      else if v ! i = newline
        then if Suc lines \<ge> maxLines then Suc i else lines_start v start maxLines (Suc lines) i
        else lines_start v start maxLines lines i)"

definition suffixBounded :: "bytes \<Rightarrow> nat \<Rightarrow> nat \<Rightarrow> bytes \<times> nat" where
  "suffixBounded v maxBytes maxLines =
     (if maxBytes = 0 \<or> maxLines = 0 \<or> v = [] then ([], length v)
      else
        let start = length v - min (length v) maxBytes;
            i = (if start < length v \<and> v ! (length v - 1) = newline then length v - 1 else length v);
            start' = advanceUTF8Start v (lines_start v start maxLines 0 i)
        in (drop start' v, start'))"

subsection \<open>Snapshots\<close>

definition truncationMarker :: "int \<Rightarrow> bytes" where
  "truncationMarker omitted = newline # ''[... '' @ FormatInt omitted @ '' bytes truncated ...]'' @ [newline]"

definition snapshot_head :: "CapBuffer \<Rightarrow> nat \<Rightarrow> nat \<Rightarrow> bytes" where
  "snapshot_head b visibleBytes visibleLines = prefixBounded (cb_head b) (visibleBytes div 2) (visibleLines div 2)"

definition snapshot_tail :: "CapBuffer \<Rightarrow> nat \<Rightarrow> nat \<Rightarrow> bytes" where
  "snapshot_tail b visibleBytes visibleLines =
     (let (tail, tailOffset) = suffixBounded (cb_tail b) (visibleBytes - visibleBytes div 2) (visibleLines - visibleLines div 2);
          overlap = int (length (snapshot_head b visibleBytes visibleLines)) - int (cb_tailStart b + tailOffset)
      in if overlap > 0 then drop (min (length tail) (nat overlap)) tail else tail)"

definition cb_Snapshot :: "CapBuffer \<Rightarrow> int \<Rightarrow> int \<Rightarrow> StreamSnapshot" where
  "cb_Snapshot b visibleBytes0 visibleLines0 =
     (let visibleBytes = nat (if visibleBytes0 \<le> 0 then 50 * 1024 else visibleBytes0);
          visibleLines = nat (if visibleLines0 \<le> 0 then 2000 else visibleLines0);
          head = snapshot_head b visibleBytes visibleLines;
          tail = snapshot_tail b visibleBytes visibleLines;
          omitted = max 0 (int (cb_windowBytes b) - int (length head) - int (length tail));
          truncated = omitted > 0
      in \<lparr>ss_Text = head @ (if truncated then truncationMarker omitted else []) @ tail,
          ss_TotalBytes = cb_totalBytes b, ss_TotalLines = cb_totalLines b,
          ss_ReturnedBytes = length head + length tail, ss_Truncated = truncated\<rparr>)"

definition cb_DrainSnapshot :: "CapBuffer \<Rightarrow> int \<Rightarrow> int \<Rightarrow> CapBuffer \<times> StreamSnapshot" where
  "cb_DrainSnapshot b visibleBytes visibleLines =
     (b\<lparr>cb_head := [], cb_tail := [], cb_tailStart := 0, cb_windowBytes := 0\<rparr>, cb_Snapshot b visibleBytes visibleLines)"

subsection \<open>The seam\<close>

definition seam_prefix :: bytes where "seam_prefix = newline # ''[... ''"
definition seam_suffix :: bytes where "seam_suffix = '' bytes truncated ...]'' @ [newline]"

text \<open>\<open>strings.Index\<close>\<close>

fun Index :: "bytes \<Rightarrow> bytes \<Rightarrow> nat option" where
  "Index [] sub = (if sub = [] then Some 0 else None)"
| "Index (c # s) sub = (if HasPrefix (c # s) sub then Some 0 else map_option Suc (Index s sub))"

definition is_seam :: "bytes \<Rightarrow> bool" where
  "is_seam marker \<longleftrightarrow> HasPrefix marker seam_prefix \<and>
     (let countText = drop (length seam_prefix) marker
      in HasPrefix (rev countText) (rev seam_suffix) \<and>
         (case ParseInt (take (length countText - length seam_suffix) countText) of Some count \<Rightarrow> 0 \<le> count | None \<Rightarrow> False))"

text \<open>A slice beyond the end of the text panics.\<close>

datatype split = Split bytes bytes | NoSeam | SplitPanics

function split_from :: "bytes \<Rightarrow> nat \<Rightarrow> nat \<Rightarrow> split" where
  "split_from text markerBytes start =
     (if start + markerBytes \<le> length text
      then case Index (drop start text) seam_prefix of
             None \<Rightarrow> NoSeam
           | Some relative \<Rightarrow>
               let start' = start + relative; end' = start' + markerBytes
               in if end' > length text then SplitPanics
                  else if is_seam (take markerBytes (drop start' text)) then Split (take start' text) (drop end' text)
                  else split_from text markerBytes (start' + length seam_prefix)
      else NoSeam)"
  by pat_completeness auto
termination
  by (relation "measure (\<lambda>(text, markerBytes, start). Suc (length text) - start)") (auto simp: seam_prefix_def)

definition splitTruncatedSnapshot :: "bytes \<Rightarrow> nat \<Rightarrow> split" where
  "splitTruncatedSnapshot text returnedBytes =
     (if length text \<le> returnedBytes then NoSeam else split_from text (length text - returnedBytes) 0)"

subsection \<open>Successive polls of a detached command\<close>

record initialStreamAccumulator =
  ia_buffer :: CapBuffer
  ia_truncated :: bool
  ia_seamOffset :: nat
  ia_captured :: nat

definition newInitialStreamAccumulator :: initialStreamAccumulator where
  "newInitialStreamAccumulator =
     \<lparr>ia_buffer = NewCapBuffer DefaultStreamStoreBytes, ia_truncated = False, ia_seamOffset = 0, ia_captured = 0\<rparr>"

definition initialRunningSnapshot :: "CapBuffer \<Rightarrow> StreamSnapshot \<Rightarrow> int \<Rightarrow> int \<Rightarrow> StreamSnapshot" where
  "initialRunningSnapshot buffer latest visibleBytes visibleLines =
     (let snapshot = cb_Snapshot buffer visibleBytes visibleLines
      in snapshot\<lparr>ss_TotalBytes := ss_TotalBytes latest, ss_TotalLines := ss_TotalLines latest,
           ss_Truncated := ss_Truncated snapshot \<or> ss_Truncated latest\<rparr>)"

text \<open>The bytes one poll contributes, and the accumulator with its seam noted.\<close>

definition capture_poll :: "StreamSnapshot \<Rightarrow> initialStreamAccumulator \<Rightarrow> (initialStreamAccumulator \<times> bytes) option" where
  "capture_poll latest a =
     (if ss_Truncated latest
      then case splitTruncatedSnapshot (ss_Text latest) (ss_ReturnedBytes latest) of
             Split head tail \<Rightarrow>
               Some (a\<lparr>ia_seamOffset := if ia_truncated a then ia_seamOffset a else ia_captured a + length head,
                   ia_truncated := True\<rparr>, head @ tail)
           | NoSeam \<Rightarrow> Some (a\<lparr>ia_truncated := True\<rparr>, ss_Text latest)
           | SplitPanics \<Rightarrow> None
      else Some (a, ss_Text latest))"

definition update_poll ::
    "StreamSnapshot \<Rightarrow> int \<Rightarrow> int \<Rightarrow> initialStreamAccumulator \<Rightarrow> (initialStreamAccumulator \<times> StreamSnapshot) option" where
  "update_poll latest visibleBytes visibleLines a0 =
     Option.bind (capture_poll latest a0) (\<lambda>(a1, captured).
       let a2 = a1\<lparr>ia_buffer := cb_Write captured (ia_buffer a1), ia_captured := ia_captured a1 + length captured\<rparr>;
           snapshot = initialRunningSnapshot (ia_buffer a2) latest visibleBytes visibleLines
       in if \<not> ia_truncated a2 then Some (a2, snapshot)
          else
            let omitted = max 0 (int (ss_TotalBytes latest) - int (ss_ReturnedBytes snapshot));
                seam = min (ia_seamOffset a2) (length (ss_Text snapshot))
            in map_option
                 (\<lambda>(head, tail). (a2, snapshot\<lparr>ss_Text := head @ truncationMarker omitted @ tail, ss_Truncated := True\<rparr>))
                 (case splitTruncatedSnapshot (ss_Text snapshot) (ss_ReturnedBytes snapshot) of
                    Split head tail \<Rightarrow> Some (head, tail)
                  | NoSeam \<Rightarrow> Some (take seam (ss_Text snapshot), drop seam (ss_Text snapshot))
                  | SplitPanics \<Rightarrow> None))"

end
