(* ===== verification/Bounded_Stream_Facts.thy ===== *)
theory Bounded_Stream_Facts
  imports Bounded_Stream
begin

section \<open>Snapshots of a bounded stream\<close>

text \<open>
  A snapshot is a prefix and a suffix of what was written since the last drain, with the
  seam naming exactly the bytes left out between them; both parts are valid UTF-8. Taking
  a snapshot apart at its seam returns these parts unless the output itself contains text
  that looks like the seam.
\<close>

subsection \<open>Valid strings split at rune boundaries\<close>

lemma DecodeRune_append:
  assumes "DecodeRune s = (r, n)" "s \<noteq> []" "n = 1 \<longrightarrow> r < 128"
  shows "DecodeRune (s @ t) = (r, n)"
proof (cases "1 < n")
  case True
  then show ?thesis using DecodeRune_prefix [OF assms(1) True, of "drop n s @ t"] by (metis append.assoc append_take_drop_id)
next
  case False
  then have "n = 1" using DecodeRune_width [OF assms(1)] assms(2) by auto
  then show ?thesis using assms by (cases s) (auto simp: DecodeRune.simps(2) Let_def RuneError_def split: if_splits list.splits)
qed

lemma ValidString_step:
  assumes "ValidString s" "s \<noteq> []"
  obtains r n where "DecodeRune s = (r, n)" "0 < n" "n \<le> length s" "n = 1 \<longrightarrow> r < 128" "ValidString (drop n s)"
proof -
  obtain r n where d: "DecodeRune s = (r, n)" by fastforce
  obtain c cs where s: "s = c # cs" using assms(2) by (cases s) auto
  have n: "n \<le> length s" "0 < n" using DecodeRune_width [OF d] assms(2) by auto
  have "drop (n - 1) cs = drop n s" using n s by (cases n) auto
  then show ?thesis using that [OF d n(2,1)] assms(1) d s by (simp add: ValidString.simps(2))
qed

lemma ValidStringI:
  "DecodeRune s = (r, n) \<Longrightarrow> s \<noteq> [] \<Longrightarrow> n = 1 \<longrightarrow> r < 128 \<Longrightarrow> ValidString (drop n s) \<Longrightarrow> ValidString s"
  using DecodeRune_width [of s r n] by (cases s; cases n) (auto simp: ValidString.simps(2))

lemma ValidString_append_right: "ValidString a \<Longrightarrow> ValidString (a @ b) \<longleftrightarrow> ValidString b"
proof (induction a rule: length_induct)
  case (1 a)
  show ?case
  proof (cases "a = []")
    case False
    obtain r n where d: "DecodeRune a = (r, n)" "0 < n" "n \<le> length a" "n = 1 \<longrightarrow> r < 128" "ValidString (drop n a)"
      using ValidString_step [OF 1(2) False] .
    have e: "DecodeRune (a @ b) = (r, n)" using DecodeRune_append [OF d(1) False d(4)] .
    have IH: "ValidString (drop n a @ b) \<longleftrightarrow> ValidString b" using 1(1) d(2,3,5) False by simp
    show ?thesis
    proof
      assume "ValidString (a @ b)"
      then obtain r' n' where "DecodeRune (a @ b) = (r', n')" "ValidString (drop n' (a @ b))"
        using ValidString_step [of "a @ b"] False by (metis append_is_Nil_conv)
      then show "ValidString b" using e d(3) IH by simp
    next
      assume "ValidString b"
      then show "ValidString (a @ b)" using ValidStringI [OF e _ d(4)] False IH d(3) by simp
    qed
  qed simp
qed

lemma DecodeRune_cont:
  assumes "DecodeRune s = (r, n)" "0 < i" "i < n"
  shows "cont (s ! i)"
proof -
  have "i = 1 \<or> i = 2 \<or> i = 3" using assms by (cases s) (auto simp: DecodeRune.simps(2) Let_def split: if_splits list.splits)
  then show ?thesis
    using assms
    by (cases s) (auto simp: DecodeRune.simps(2) Let_def cont_in_def second_lo_def second_hi_def numeral_2_eq_2 numeral_3_eq_3
      split: if_splits list.splits)
qed

lemma ValidString_hd: "ValidString b \<Longrightarrow> b \<noteq> [] \<Longrightarrow> \<not> cont (hd b)"
  by (cases b) (auto simp: ValidString.simps(2) DecodeRune.simps(2) Let_def cont_in_def RuneError_def split: if_splits list.splits)

lemma ValidString_cut:
  "ValidString (a @ b) \<Longrightarrow> b \<noteq> [] \<Longrightarrow> \<not> cont (hd b) \<Longrightarrow> ValidString a"
proof (induction a rule: length_induct)
  case (1 a)
  show ?case
  proof (cases "a = []")
    case False
    obtain r n where d: "DecodeRune (a @ b) = (r, n)" "0 < n" "n \<le> length (a @ b)" "n = 1 \<longrightarrow> r < 128" "ValidString (drop n (a @ b))"
      using ValidString_step [OF 1(2)] False by auto
    have n: "n \<le> length a"
    proof (rule ccontr)
      assume "\<not> n \<le> length a"
      then have "cont ((a @ b) ! length a)" using DecodeRune_cont [OF d(1), of "length a"] False by auto
      then show False using 1(3,4) by (simp add: nth_append hd_conv_nth)
    qed
    then have "ValidString (drop n a @ b)" using d(5) by simp
    then have rest: "ValidString (drop n a)" using 1(1,3,4) d(2) False n by (metis diff_less length_drop length_greater_0_conv)
    have "DecodeRune a = (r, n)"
    proof (cases "n = 1")
      case True
      then show ?thesis using d(1,4) False
        by (cases a) (auto simp: DecodeRune.simps(2) Let_def RuneError_def split: if_splits list.splits)
    next
      case False
      then have "DecodeRune (take n (a @ b) @ drop n a) = (r, n)" using DecodeRune_prefix [OF d(1)] d(2) by simp
      then show ?thesis using n by simp
    qed
    then show ?thesis using ValidStringI [of a r n] False d(4) rest by simp
  qed simp
qed

lemma ValidString_overlap:
  assumes "ValidString (take n w)" "ValidString (drop k w)" "k < n" "n \<le> length w"
  shows "ValidString (drop n w)"
proof -
  let ?m = "take (n - k) (drop k w)"
  have split: "take n w = take k w @ ?m" using assms(3) by (metis le_add_diff_inverse less_imp_le take_add)
  have ne: "drop k w \<noteq> []" using assms(3,4) by simp
  then have "?m \<noteq> []" "hd ?m = hd (drop k w)" using assms(3) by simp_all
  then have "ValidString (take k w)" using ValidString_cut assms(1) split ValidString_hd [OF assms(2) ne] by metis
  then have "ValidString ?m" using ValidString_append_right assms(1) split by metis
  then have "ValidString (drop (n - k) (drop k w))" using ValidString_append_right assms(2) by (metis append_take_drop_id)
  then show ?thesis using assms(3) by simp
qed

subsection \<open>What the buffer holds\<close>

text \<open>\<open>w\<close> is what was written since the last drain.\<close>

definition holds_window :: "CapBuffer \<Rightarrow> bytes \<Rightarrow> bool" where
  "holds_window b w \<longleftrightarrow> 0 < cb_tailCap b \<and> cb_head b = take (cb_headCap b) w \<and>
     cb_tail b = drop (length w - cb_tailCap b) w \<and> cb_tailStart b = length w - cb_tailCap b \<and> cb_windowBytes b = length w"

lemma New_holds: "holds_window (NewCapBuffer storeCap) []"
  by (auto simp: holds_window_def NewCapBuffer_def DefaultStreamStoreBytes_def Let_def)

lemma cb_Write_caps: "cb_headCap (cb_Write p b) = cb_headCap b" "cb_tailCap (cb_Write p b) = cb_tailCap b"
  by (simp_all add: cb_Write_def Let_def)

lemma cb_Write_head:
  assumes "cb_head b = take (cb_headCap b) w"
  shows "cb_head (cb_Write p b) = take (cb_headCap b) (w @ p)"
proof -
  have "cb_head (cb_Write p b) = (if length (cb_head b) < cb_headCap b
      then cb_head b @ take (min (length p) (cb_headCap b - length (cb_head b))) p else cb_head b)"
    by (simp add: cb_Write_def Let_def)
  then show ?thesis using assms by (cases "length w < cb_headCap b") (simp_all add: min_def)
qed

lemma cb_Write_tail:
  assumes "0 < cb_tailCap b" "cb_tail b = drop (length w - cb_tailCap b) w"
  shows "cb_tail (cb_Write p b) = drop (length (w @ p) - cb_tailCap b) (w @ p)"
proof (cases "length w \<le> cb_tailCap b")
  case True
  then show ?thesis using assms by (cases "length (w @ p) \<le> cb_tailCap b") (simp_all add: cb_Write_def Let_def)
next
  case False
  then have "drop (length p) (drop (length w - cb_tailCap b) w @ p) = drop (length w + length p - cb_tailCap b) (w @ p)"
    by (simp add: add.commute)
  then show ?thesis using assms False by (simp add: cb_Write_def Let_def)
qed

lemma cb_Write_tailStart:
  "p \<noteq> [] \<Longrightarrow> 0 < cb_tailCap b \<Longrightarrow> cb_tailStart (cb_Write p b) = cb_windowBytes b + length p - length (cb_tail (cb_Write p b))"
  by (simp add: cb_Write_def Let_def)

lemma cb_Write_window: "cb_windowBytes (cb_Write p b) = cb_windowBytes b + length p"
  by (simp add: cb_Write_def Let_def)

lemma cb_Write_holds:
  assumes "holds_window b w"
  shows "holds_window (cb_Write p b) (w @ p)"
proof (cases "p = []")
  case True
  then show ?thesis using assms by (simp add: cb_Write_def)
next
  case False
  have old: "0 < cb_tailCap b" "cb_head b = take (cb_headCap b) w" "cb_tail b = drop (length w - cb_tailCap b) w"
    "cb_windowBytes b = length w"
    using assms unfolding holds_window_def by blast+
  have tail: "cb_tail (cb_Write p b) = drop (length (w @ p) - cb_tailCap b) (w @ p)" using cb_Write_tail [OF old(1,3)] .
  have "cb_tailStart (cb_Write p b) = length (w @ p) - cb_tailCap b"
    unfolding cb_Write_tailStart [OF False old(1)] tail old(4) by simp
  then show ?thesis
    unfolding holds_window_def cb_Write_caps cb_Write_window old(4) using old(1) cb_Write_head [OF old(2)] tail by simp
qed

lemma cb_DrainSnapshot_holds: "holds_window b w \<Longrightarrow> holds_window (fst (cb_DrainSnapshot b vb vl)) []"
  by (simp add: holds_window_def cb_DrainSnapshot_def)

subsection \<open>The visible parts\<close>

lemma trim_end_valid: "ValidString (take (trim_end v l) v) \<and> trim_end v l \<le> l"
  by (induction v l rule: trim_end.induct) auto

lemma skip_invalid_valid: "ValidString (drop (skip_invalid v) v) \<and> skip_invalid v \<le> length v"
  by (induction v) auto

lemma lines_end_bound: "lines_end m i l v = Some e \<Longrightarrow> e \<le> i + length v"
  by (induction m i l v rule: lines_end.induct) (auto split: if_splits)

lemma lines_end_None: "l + count_list v newline < m \<Longrightarrow> lines_end m i l v = None"
  by (induction m i l v rule: lines_end.induct) auto

lemma lines_start_bound: "s \<le> lines_start v s m l n \<and> lines_start v s m l n \<le> max s n"
  by (induction v s m l n rule: lines_start.induct) auto

lemma prefixBounded_take:
  "\<exists>n. n \<le> length v \<and> n \<le> maxBytes \<and> prefixBounded v maxBytes maxLines = take n v \<and> ValidString (take n v)"
proof (cases "maxBytes = 0 \<or> maxLines = 0 \<or> v = []")
  case False
  define limit where "limit = (case lines_end maxLines 0 0 (take (min (length v) maxBytes) v) of
    Some e \<Rightarrow> e | None \<Rightarrow> min (length v) maxBytes)"
  have limit: "limit \<le> min (length v) maxBytes"
  proof (cases "lines_end maxLines 0 0 (take (min (length v) maxBytes) v)")
    case (Some e)
    then show ?thesis using lines_end_bound [OF Some] by (simp add: limit_def)
  qed (simp add: limit_def)
  have "prefixBounded v maxBytes maxLines = take (trimUTF8End v limit) v"
    using False unfolding prefixBounded_def limit_def Let_def by simp
  moreover have "trimUTF8End v limit = trim_end v limit" using limit by (simp add: trimUTF8End_def)
  ultimately show ?thesis
    using trim_end_valid [of v limit] limit by (intro exI [of _ "trim_end v limit"]) auto
qed (auto simp: prefixBounded_def)

lemma prefixBounded_whole:
  assumes "ValidString v" "length v \<le> maxBytes" "count_list v newline < maxLines"
  shows "prefixBounded v maxBytes maxLines = v"
proof (cases "v = []")
  case False
  have "trim_end v (length v) = length v" using assms(1) False by (cases "length v") auto
  then show ?thesis
    using assms False lines_end_None [of 0 v maxLines 0] by (cases maxBytes) (auto simp: prefixBounded_def trimUTF8End_def Let_def min_def)
qed (simp add: prefixBounded_def)

lemma suffixBounded_drop:
  assumes "suffixBounded v maxBytes maxLines = (t, off)"
  shows "off \<le> length v \<and> t = drop off v \<and> ValidString t \<and> length t \<le> maxBytes"
proof (cases "maxBytes = 0 \<or> maxLines = 0 \<or> v = []")
  case False
  let ?s = "length v - min (length v) maxBytes"
  define i where "i = (if ?s < length v \<and> v ! (length v - 1) = newline then length v - 1 else length v)"
  define p where "p = lines_start v ?s maxLines 0 i"
  have "i \<le> length v" "?s \<le> length v" by (simp_all add: i_def)
  then have p: "?s \<le> p" "p \<le> length v"
    using lines_start_bound [of ?s v maxLines 0 i] unfolding p_def by (blast, meson le_trans max.bounded_iff)
  have off: "off = p + skip_invalid (drop p v)" "t = drop off v"
    using assms False by (auto simp: suffixBounded_def advanceUTF8Start_def p_def i_def Let_def)
  have "drop off v = drop (skip_invalid (drop p v)) (drop p v)" by (simp add: off(1) add.commute)
  then show ?thesis using off p skip_invalid_valid [of "drop p v"] by auto
qed (use assms in \<open>auto simp: suffixBounded_def\<close>)

lemma snapshot_tail_drop:
  assumes "holds_window b w" "snapshot_head b vb vl = take n w" "n \<le> length w" "ValidString (take n w)"
  shows "\<exists>m. n \<le> m \<and> m \<le> length w \<and> snapshot_tail b vb vl = drop m w \<and> ValidString (drop m w) \<and> length w - m \<le> vb - vb div 2"
proof -
  obtain t off where s: "suffixBounded (cb_tail b) (vb - vb div 2) (vl - vl div 2) = (t, off)" by fastforce
  define k where "k = cb_tailStart b + off"
  have "off \<le> length (cb_tail b)" "t = drop off (cb_tail b)" "ValidString t" "length t \<le> vb - vb div 2"
    using suffixBounded_drop [OF s] by auto
  then have t: "t = drop k w" "k \<le> length w" "ValidString (drop k w)" "length w - k \<le> vb - vb div 2"
    using assms(1) by (auto simp: holds_window_def k_def add.commute)
  have tail: "snapshot_tail b vb vl = (if k < n then drop (min (length t) (n - k)) t else t)"
    using assms(2,3) s by (auto simp: snapshot_tail_def Let_def k_def nat_minus_as_int simp flip: of_nat_add)
  show ?thesis
  proof (cases "k < n")
    case True
    then have "snapshot_tail b vb vl = drop n w" using tail t(1,2) assms(3) by (simp add: min_def)
    then show ?thesis using ValidString_overlap [OF assms(4) t(3) True assms(3)] assms(3) True t(4) by (intro exI [of _ n]) auto
  next
    case False
    then show ?thesis using tail t by (intro exI [of _ k]) auto
  qed
qed

subsection \<open>Snapshots\<close>

lemma snapshot_window:
  assumes "holds_window b w"
  shows "\<exists>n m. n \<le> m \<and> m \<le> length w \<and>
    ss_Text (cb_Snapshot b vb vl) = take n w @ (if n < m then truncationMarker (int (m - n)) else []) @ drop m w \<and>
    ss_ReturnedBytes (cb_Snapshot b vb vl) = length w - (m - n) \<and> (ss_Truncated (cb_Snapshot b vb vl) \<longleftrightarrow> n < m) \<and>
    int (ss_ReturnedBytes (cb_Snapshot b vb vl)) \<le> (if vb \<le> 0 then 50 * 1024 else vb) \<and>
    ValidString (take n w) \<and> ValidString (drop m w)"
proof -
  define vbn where "vbn = nat (if vb \<le> 0 then 50 * 1024 else vb)"
  define vln where "vln = nat (if vl \<le> 0 then 2000 else vl)"
  obtain n where n: "n \<le> length (cb_head b)" "n \<le> vbn div 2" "snapshot_head b vbn vln = take n (cb_head b)"
      "ValidString (take n (cb_head b))"
    using prefixBounded_take [of "cb_head b" "vbn div 2" "vln div 2"] by (auto simp: snapshot_head_def)
  have "cb_head b = take (cb_headCap b) w" using assms by (simp add: holds_window_def)
  then have head: "n \<le> length w" "take n (cb_head b) = take n w" using n(1) by simp_all
  then have h: "snapshot_head b vbn vln = take n w" "n \<le> length w" "ValidString (take n w)" using n(3,4) by simp_all
  obtain m where m: "n \<le> m" "m \<le> length w" "snapshot_tail b vbn vln = drop m w" "ValidString (drop m w)"
      "length w - m \<le> vbn - vbn div 2"
    using snapshot_tail_drop [OF assms h] by blast
  have window: "cb_windowBytes b = length w" using assms by (simp add: holds_window_def)
  have snap: "cb_Snapshot b vb vl =
      (let head = snapshot_head b vbn vln; tail = snapshot_tail b vbn vln;
           omitted = max 0 (int (cb_windowBytes b) - int (length head) - int (length tail)); truncated = omitted > 0
       in \<lparr>ss_Text = head @ (if truncated then truncationMarker omitted else []) @ tail,
          ss_TotalBytes = cb_totalBytes b, ss_TotalLines = cb_totalLines b,
          ss_ReturnedBytes = length head + length tail, ss_Truncated = truncated\<rparr>)"
    unfolding cb_Snapshot_def vbn_def vln_def Let_def by (rule refl)
  have omitted: "max 0 (int (length w) - int (length (take n w)) - int (length (drop m w))) = int (m - n)"
    using h(2) m(1,2) by simp
  have "length (take n w) + length (drop m w) = length w - (m - n)" "length w - (m - n) \<le> vbn" using h(2) m n(2) by simp_all
  moreover have "int vbn = (if vb \<le> 0 then 50 * 1024 else vb)" by (simp add: vbn_def)
  ultimately show ?thesis
    using m(1,2,4) h(3) unfolding snap h(1) m(3) window Let_def omitted
    by (intro exI [of _ n] exI [of _ m]) (simp add: of_nat_diff)
qed

lemma snapshot_whole:
  assumes "holds_window b w" "ValidString w" "length w \<le> cb_headCap b" "2 * int (length w) \<le> vb"
    "2 * int (count_list w newline) + 2 \<le> vl"
  shows "ss_Text (cb_Snapshot b vb vl) = w"
proof -
  have vbn: "length w \<le> nat vb div 2" "count_list w newline < nat vl div 2" "\<not> vl \<le> 0" using assms(4,5) by simp_all
  show ?thesis
  proof (cases "w = []")
    case True
    then show ?thesis using snapshot_window [OF assms(1), of vb vl] by auto
  next
    case False
    then have pos: "\<not> vb \<le> 0" using assms(4) by (cases w) auto
    have "snapshot_head b (nat vb) (nat vl) = w"
      using assms(1-3) prefixBounded_whole [OF assms(2) vbn(1,2)] by (simp add: snapshot_head_def holds_window_def)
    then obtain t where "ss_Text (cb_Snapshot b vb vl) = w @ t" "length w \<le> ss_ReturnedBytes (cb_Snapshot b vb vl)"
      using pos vbn(3) by (auto simp: cb_Snapshot_def Let_def)
    then show ?thesis using snapshot_window [OF assms(1), of vb vl] by auto
  qed
qed

lemma writes_hold: "holds_window b w \<Longrightarrow> holds_window (fold cb_Write ps b) (w @ concat ps)"
proof (induction ps arbitrary: b w)
  case (Cons p ps)
  from Cons.IH [OF cb_Write_holds [OF Cons.prems, of p]] show ?case by simp
qed simp

lemma cb_Write_totals:
  "cb_totalBytes (cb_Write p b) = cb_totalBytes b + length p" "cb_totalLines (cb_Write p b) = cb_totalLines b + count_list p newline"
  by (simp_all add: cb_Write_def Let_def)

lemma writes_totals:
  "cb_totalBytes (fold cb_Write ps b) = cb_totalBytes b + length (concat ps) \<and>
   cb_totalLines (fold cb_Write ps b) = cb_totalLines b + count_list (concat ps) newline"
  by (induction ps arbitrary: b) (simp_all add: cb_Write_totals)

definition drained :: "int \<Rightarrow> bytes list \<Rightarrow> CapBuffer" where
  "drained storeCap earlier = fst (cb_DrainSnapshot (fold cb_Write earlier (NewCapBuffer storeCap)) 0 0)"

text \<open>C33: a snapshot of a command stream, after earlier output \<open>earlier\<close> was drained and \<open>ps\<close> was
  written: its text is a prefix and a suffix of what was written since the drain, which
  never overlap, with a seam between them that names exactly the bytes left out; it counts
  the bytes it returns, at most as many as were asked for, and says truthfully whether
  something is missing. Both parts are valid UTF-8, and the totals count everything ever
  written.\<close>

theorem snapshot_faithful:
  "\<exists>n m. n \<le> m \<and> m \<le> length (concat ps) \<and>
     ss_Text (cb_Snapshot (fold cb_Write ps (drained storeCap earlier)) vb vl) =
       take n (concat ps) @ (if n < m then truncationMarker (int (m - n)) else []) @ drop m (concat ps) \<and>
     ss_ReturnedBytes (cb_Snapshot (fold cb_Write ps (drained storeCap earlier)) vb vl) = length (concat ps) - (m - n) \<and>
     (ss_Truncated (cb_Snapshot (fold cb_Write ps (drained storeCap earlier)) vb vl) \<longleftrightarrow> n < m) \<and>
     int (length (concat ps) - (m - n)) \<le> (if vb \<le> 0 then 50 * 1024 else vb) \<and>
     ValidString (take n (concat ps)) \<and> ValidString (drop m (concat ps)) \<and>
     ss_TotalBytes (cb_Snapshot (fold cb_Write ps (drained storeCap earlier)) vb vl) = length (concat (earlier @ ps)) \<and>
     ss_TotalLines (cb_Snapshot (fold cb_Write ps (drained storeCap earlier)) vb vl) = count_list (concat (earlier @ ps)) newline"
proof -
  let ?b = "fold cb_Write ps (drained storeCap earlier)"
  have "holds_window (drained storeCap earlier) []"
    unfolding drained_def using cb_DrainSnapshot_holds [OF writes_hold [OF New_holds]] .
  from writes_hold [OF this, of ps] have "holds_window ?b (concat ps)" by simp
  then obtain n m where nm: "n \<le> m" "m \<le> length (concat ps)"
      "ss_Text (cb_Snapshot ?b vb vl) = take n (concat ps) @ (if n < m then truncationMarker (int (m - n)) else []) @ drop m (concat ps)"
      "ss_ReturnedBytes (cb_Snapshot ?b vb vl) = length (concat ps) - (m - n)" "ss_Truncated (cb_Snapshot ?b vb vl) \<longleftrightarrow> n < m"
      "int (ss_ReturnedBytes (cb_Snapshot ?b vb vl)) \<le> (if vb \<le> 0 then 50 * 1024 else vb)"
      "ValidString (take n (concat ps))" "ValidString (drop m (concat ps))"
    using snapshot_window by blast
  have "cb_totalBytes (drained storeCap earlier) = length (concat earlier) \<and>
      cb_totalLines (drained storeCap earlier) = count_list (concat earlier) newline"
    using writes_totals [of earlier "NewCapBuffer storeCap"]
    by (simp add: drained_def cb_DrainSnapshot_def NewCapBuffer_def Let_def)
  then have "ss_TotalBytes (cb_Snapshot ?b vb vl) = length (concat (earlier @ ps))"
    "ss_TotalLines (cb_Snapshot ?b vb vl) = count_list (concat (earlier @ ps)) newline"
    using writes_totals [of ps "drained storeCap earlier"] by (simp_all add: cb_Snapshot_def Let_def)
  then show ?thesis using nm by (intro exI [of _ n] exI [of _ m]) simp
qed

subsection \<open>Taking a snapshot apart\<close>

lemma Index_first:
  "HasPrefix (drop k s) sub \<Longrightarrow> k \<le> length s \<Longrightarrow> \<exists>i\<le>k. Index s sub = Some i \<and> HasPrefix (drop i s) sub"
proof (induction s arbitrary: k)
  case (Cons c s)
  show ?case
  proof (cases "HasPrefix (c # s) sub")
    case True
    then show ?thesis by auto
  next
    case False
    then obtain k' where k: "k = Suc k'" using Cons.prems by (cases k) auto
    then have "HasPrefix (drop k' s) sub" "k' \<le> length s" using Cons.prems by simp_all
    then obtain i where "i \<le> k'" "Index s sub = Some i" "HasPrefix (drop i s) sub" using Cons.IH by blast
    then show ?thesis using False k by (intro exI [of _ "Suc i"]) simp
  qed
qed (cases sub, simp_all)

lemma seam_prefix_disjoint:
  assumes "HasPrefix s seam_prefix" "HasPrefix (drop j s) seam_prefix" "0 < j"
  shows "length seam_prefix \<le> j"
proof (rule ccontr)
  assume "\<not> length seam_prefix \<le> j"
  then have j: "j < 6" by (simp add: seam_prefix_def)
  obtain t where s: "s = seam_prefix @ t" using assms(1) by (auto simp: HasPrefix_iff)
  obtain u where "drop j s = newline # u" using assms(2) by (auto simp: HasPrefix_iff seam_prefix_def)
  then have "s ! j = newline" using j s by (metis hd_drop_conv_nth list.sel(1) drop_all leI list.distinct(1))
  moreover have "j = 1 \<or> j = 2 \<or> j = 3 \<or> j = 4 \<or> j = 5" using j assms(3) by auto
  ultimately show False using s by (auto simp: seam_prefix_def)
qed

lemma is_seam_prefix: "is_seam (take m v) \<Longrightarrow> HasPrefix v seam_prefix"
  by (auto simp: is_seam_def HasPrefix_iff) (metis append.assoc append_take_drop_id)

declare split_from.simps [simp del]

text \<open>The search finds the first place where a seam of the expected width stands.\<close>

lemma split_from_first:
  assumes "start \<le> p" "p + m \<le> length text" "is_seam (take m (drop p text))"
    "\<forall>q. start \<le> q \<and> q < p \<longrightarrow> \<not> is_seam (take m (drop q text))"
  shows "split_from text m start = Split (take p text) (drop (p + m) text)"
  using assms
proof (induction "text" m start rule: split_from.induct)
  case (1 v m start)
  have "HasPrefix (drop (p - start) (drop start v)) seam_prefix" using is_seam_prefix [OF 1(4)] 1(2) by simp
  moreover have "p - start \<le> length (drop start v)" using 1(2,3) by simp
  ultimately obtain i where i: "i \<le> p - start" "Index (drop start v) seam_prefix = Some i" "HasPrefix (drop i (drop start v)) seam_prefix"
    using Index_first by blast
  have bounds: "start + m \<le> length v" "\<not> start + i + m > length v" using 1(2,3) i(1) by simp_all
  show ?case
  proof (cases "start + i = p")
    case True
    then show ?thesis using i(2) 1(3,4) bounds by (simp add: split_from.simps [of v m start] Let_def)
  next
    case False
    then have less: "start + i < p" using i(1) 1(2) by simp
    have no: "\<not> is_seam (take m (drop (start + i) v))" using 1(5) less by simp
    have "length seam_prefix \<le> p - (start + i)"
      using seam_prefix_disjoint [of "drop (start + i) v" "p - (start + i)"] i(3) is_seam_prefix [OF 1(4)] less
      by (simp add: add.commute)
    then have "split_from v m (start + i + length seam_prefix) = Split (take p v) (drop (p + m) v)"
      using 1(1) [OF bounds(1) i(2) refl refl bounds(2) no] 1(3) 1(4) 1(5) less by simp
    then show ?thesis using i(2) bounds no by (simp add: split_from.simps [of v m start] Let_def)
  qed
qed

lemma marker_not_Nil: "truncationMarker c \<noteq> []"
  by (simp add: truncationMarker_def)

lemma marker_is_seam: "0 \<le> c \<Longrightarrow> in_int64 c \<Longrightarrow> is_seam (truncationMarker c)"
  by (simp add: is_seam_def truncationMarker_def seam_prefix_def seam_suffix_def ParseInt_FormatInt Let_def)

text \<open>\<open>alias_at p\<close>: the output itself shows a seam of the same width at \<open>p\<close>.\<close>

definition seam_alias_at :: "bytes \<Rightarrow> int \<Rightarrow> bytes \<Rightarrow> nat \<Rightarrow> bool" where
  "seam_alias_at head c tail p \<longleftrightarrow> p < length head \<and>
     is_seam (take (length (truncationMarker c)) (drop p (head @ truncationMarker c @ tail)))"

lemma split_marker:
  assumes "0 \<le> c" "in_int64 c"
  shows "splitTruncatedSnapshot (head @ truncationMarker c @ tail) (length head + length tail) = Split head tail \<longleftrightarrow>
    (\<forall>p. \<not> seam_alias_at head c tail p)"
    and "\<exists>h t. splitTruncatedSnapshot (head @ truncationMarker c @ tail) (length head + length tail) = Split h t"
proof -
  let ?text = "head @ truncationMarker c @ tail" and ?m = "length (truncationMarker c)"
  have split: "splitTruncatedSnapshot ?text (length head + length tail) = split_from ?text ?m 0"
    using marker_not_Nil by (simp add: splitTruncatedSnapshot_def)
  define p where "p = (LEAST p. is_seam (take ?m (drop p ?text)))"
  have here: "is_seam (take ?m (drop (length head) ?text))" using marker_is_seam [OF assms] by simp
  then have p: "is_seam (take ?m (drop p ?text))" "p \<le> length head" unfolding p_def by (rule LeastI, rule Least_le)
  have least: "\<forall>q. 0 \<le> q \<and> q < p \<longrightarrow> \<not> is_seam (take ?m (drop q ?text))" unfolding p_def using not_less_Least by blast
  have res: "split_from ?text ?m 0 = Split (take p ?text) (drop (p + ?m) ?text)"
    using split_from_first [OF le0 _ p(1) least] p(2) by simp
  show "\<exists>h t. splitTruncatedSnapshot ?text (length head + length tail) = Split h t" using split res by simp
  show "splitTruncatedSnapshot ?text (length head + length tail) = Split head tail \<longleftrightarrow> (\<forall>p. \<not> seam_alias_at head c tail p)"
  proof
    assume "splitTruncatedSnapshot ?text (length head + length tail) = Split head tail"
    then have "take p ?text = head" using split res by simp
    then have "length head = min p (length ?text)" by (metis length_take min.commute)
    then have "p = length head" using p(2) by simp
    then show "\<forall>p. \<not> seam_alias_at head c tail p" using least by (simp add: seam_alias_at_def)
  next
    assume "\<forall>p. \<not> seam_alias_at head c tail p"
    then have "p = length head" using p by (metis le_neq_implies_less seam_alias_at_def)
    then show "splitTruncatedSnapshot ?text (length head + length tail) = Split head tail" using split res by simp
  qed
qed

text \<open>C34: taking a truncated snapshot apart at its seam never fails, and returns exactly the shown
  prefix and suffix of the stream, unless the output itself contains, before the seam, text
  that looks like a seam of the same width.\<close>

theorem seam_roundtrip:
  assumes "ss_Truncated (cb_Snapshot (fold cb_Write ps (drained storeCap earlier)) vb vl)" "length (concat ps) < 2 ^ 63"
  shows "\<exists>head tail c h t. head @ tail \<noteq> concat ps \<and> (\<exists>omitted. concat ps = head @ omitted @ tail \<and> c = int (length omitted)) \<and>
    ss_Text (cb_Snapshot (fold cb_Write ps (drained storeCap earlier)) vb vl) = head @ truncationMarker c @ tail \<and>
    splitTruncatedSnapshot (ss_Text (cb_Snapshot (fold cb_Write ps (drained storeCap earlier)) vb vl))
      (ss_ReturnedBytes (cb_Snapshot (fold cb_Write ps (drained storeCap earlier)) vb vl)) = Split h t \<and>
    ((h, t) = (head, tail) \<longleftrightarrow> (\<forall>p. \<not> seam_alias_at head c tail p))"
proof -
  let ?s = "cb_Snapshot (fold cb_Write ps (drained storeCap earlier)) vb vl" and ?w = "concat ps"
  have "holds_window (drained storeCap earlier) []"
    unfolding drained_def using cb_DrainSnapshot_holds [OF writes_hold [OF New_holds]] .
  from snapshot_window [OF writes_hold [OF this, of ps], of vb vl]
  obtain n m where nm: "n \<le> m" "m \<le> length ?w"
      "ss_Text ?s = take n ?w @ (if n < m then truncationMarker (int (m - n)) else []) @ drop m ?w"
      "ss_ReturnedBytes ?s = length ?w - (m - n)" "ss_Truncated ?s \<longleftrightarrow> n < m"
    by auto
  then have lt: "n < m" using assms(1) by simp
  have ret: "ss_ReturnedBytes ?s = length (take n ?w) + length (drop m ?w)" using nm by simp
  have "in_int64 (int (m - n))" using nm(1,2) assms(2) by (simp add: in_int64_def int64_min_def int64_max_def)
  note parts = split_marker [OF _ this, of "take n ?w" "drop m ?w"]
  have shown: "ss_Text ?s = take n ?w @ truncationMarker (int (m - n)) @ drop m ?w" using nm(3) lt by simp
  obtain h t where ht: "splitTruncatedSnapshot (ss_Text ?s) (ss_ReturnedBytes ?s) = Split h t" using parts(2) shown ret by auto
  have iff: "(h, t) = (take n ?w, drop m ?w) \<longleftrightarrow> (\<forall>p. \<not> seam_alias_at (take n ?w) (int (m - n)) (drop m ?w) p)"
    using parts(1) ht shown ret by simp
  have "drop n ?w = take (m - n) (drop n ?w) @ drop (m - n) (drop n ?w)" by (rule append_take_drop_id [symmetric])
  then have w: "?w = take n ?w @ take (m - n) (drop n ?w) @ drop m ?w"
    using nm(1) append_take_drop_id [of n ?w] by simp
  have c: "int (m - n) = int (length (take (m - n) (drop n ?w)))" using nm(1,2) by simp
  have "length (take n ?w @ drop m ?w) < length ?w" using lt nm(2) by simp
  then have ne: "take n ?w @ drop m ?w \<noteq> ?w" by (rule contrapos_pn) simp
  show ?thesis
    by (rule exI [of _ "take n ?w"], rule exI [of _ "drop m ?w"], rule exI [of _ "int (m - n)"], rule exI [of _ h], rule exI [of _ t],
        intro conjI, rule ne, rule exI, rule conjI [OF w c], rule shown, rule ht, rule iff)
qed

lemma drained_eq:
  "drained storeCap earlier = (fold cb_Write earlier (NewCapBuffer storeCap))\<lparr>cb_head := [], cb_tail := [], cb_tailStart := 0, cb_windowBytes := 0\<rparr>"
  by (simp add: drained_def cb_DrainSnapshot_def)

theorem seam_roundtrip_witness:
  "ss_Truncated (cb_Snapshot (fold cb_Write [replicate 10 CHR ''a'', replicate 20 CHR ''a''] (drained 20 [''b''])) 10 4) \<and>
   (\<exists>head tail c h t.
    ss_Text (cb_Snapshot (fold cb_Write [replicate 10 CHR ''a'', replicate 20 CHR ''a''] (drained 20 [''b''])) 10 4) =
      head @ truncationMarker c @ tail \<and>
    splitTruncatedSnapshot
      (ss_Text (cb_Snapshot (fold cb_Write [replicate 10 CHR ''a'', replicate 20 CHR ''a''] (drained 20 [''b''])) 10 4))
      (ss_ReturnedBytes (cb_Snapshot (fold cb_Write [replicate 10 CHR ''a'', replicate 20 CHR ''a''] (drained 20 [''b''])) 10 4)) = Split h t)"
proof
  show trunc: "ss_Truncated (cb_Snapshot (fold cb_Write [replicate 10 CHR ''a'', replicate 20 CHR ''a''] (drained 20 [''b''])) 10 4)"
    unfolding drained_eq by code_simp
  show "\<exists>head tail c h t.
    ss_Text (cb_Snapshot (fold cb_Write [replicate 10 CHR ''a'', replicate 20 CHR ''a''] (drained 20 [''b''])) 10 4) =
      head @ truncationMarker c @ tail \<and>
    splitTruncatedSnapshot
      (ss_Text (cb_Snapshot (fold cb_Write [replicate 10 CHR ''a'', replicate 20 CHR ''a''] (drained 20 [''b''])) 10 4))
      (ss_ReturnedBytes (cb_Snapshot (fold cb_Write [replicate 10 CHR ''a'', replicate 20 CHR ''a''] (drained 20 [''b''])) 10 4)) = Split h t"
    using seam_roundtrip [OF trunc] by (elim impE exE conjE meta_impE) (simp, intro exI conjI, assumption+)
qed

text \<open>A command that prints a line of the seam's own form, e.g. an earlier result of the tool:
  the bytes its poll contributes are not the bytes it printed.\<close>

definition alias_output :: bytes where
  "alias_output = truncationMarker 7 @ replicate 6 CHR ''x'' @ replicate 5 CHR ''y'' @ replicate 35 CHR ''z''"

lemma alias_snapshot:
  "cb_Snapshot (cb_Write alias_output (NewCapBuffer 200)) 70 40 =
     \<lparr>ss_Text = truncationMarker 7 @ replicate 6 CHR ''x'' @ truncationMarker 5 @ replicate 35 CHR ''z'',
      ss_TotalBytes = 75, ss_TotalLines = 2, ss_ReturnedBytes = 70, ss_Truncated = True\<rparr>"
  by code_simp

lemma alias_split:
  "splitTruncatedSnapshot (truncationMarker 7 @ replicate 6 CHR ''x'' @ truncationMarker 5 @ replicate 35 CHR ''z'') 70 =
     Split [] (replicate 6 CHR ''x'' @ truncationMarker 5 @ replicate 35 CHR ''z'')"
  by code_simp

text \<open>A command whose output begins with text of the seam's own form, for instance an earlier
  result of the tool: the snapshot is truncated behind it, but is taken apart at the text
  the command printed. The printed line is dropped from the accumulated output, and the
  real seam is kept as if the command had printed it.\<close>

theorem seam_alias_corrupts:
  "ss_Text (cb_Snapshot (cb_Write alias_output (NewCapBuffer 200)) 70 40) =
     truncationMarker 7 @ replicate 6 CHR ''x'' @ truncationMarker 5 @ replicate 35 CHR ''z'' \<and>
   map_option snd (capture_poll (cb_Snapshot (cb_Write alias_output (NewCapBuffer 200)) 70 40) newInitialStreamAccumulator) =
     Some (replicate 6 CHR ''x'' @ truncationMarker 5 @ replicate 35 CHR ''z'')"
  by (simp only: alias_snapshot) (simp add: capture_poll_def alias_split)

end
