(* ===== verification/Spec2Isabelle.thy ===== *)
theory Spec2Isabelle
  imports Queue_Recovery_Facts Queue_Replacement_Facts Queue_Maintenance_Facts Runner_System Wakeup_Facts Bounded_Stream_Facts
begin

text \<open>
  A verification development of parts of the Tetral platform: its durable job queue with the
  Job Runner's scheduler, the wake-up protocol between producers and consumers, and the
  tools of the sandbox helper.

  \<^bold>\<open>The program.\<close> Services enqueue jobs in two PostgreSQL tables (\<open>queue_jobs\<close> and
  \<open>queue_partition_counters\<close>). A request is admitted only when its payload, keys and delivery
  coordinates agree (\<open>internal/queue/queue.go\<close>); the store (\<open>postgresql_store.go\<close>) inserts
  it, announces it, leases it to a worker when the eligibility rule allows it, and settles it
  under the lease token. The Job Runner's direct path (\<open>job_runner_lease.go\<close>) rotates over the
  tenants and leases exact jobs. Consumers sleep on a wake signal that a listener of
  notifications broadcasts (\<open>wakeup.go\<close>). Inside a sandbox a helper binary runs the tools of
  the model; its command output passes through a bounded buffer.

  \<^bold>\<open>Language and libraries.\<close> \<open>Prelude\<close> has results with an error side, generic lemmas and the
  locale of systems with an invariant. \<open>Go_Text\<close>, \<open>Go_Utf8\<close>, \<open>Go_Time\<close>, \<open>Go_Json\<close> and
  \<open>Go_Json_Print\<close> model what the code uses of Go's standard library: strings as byte lists,
  decimal integers, UTF-8, instants, and \<open>encoding/json\<close> with the proof that decoding an
  encoded value returns it.

  \<^bold>\<open>The queue.\<close> \<open>Queue_Types\<close>, \<open>Queue_Keys\<close> and \<open>Queue_Admission\<close> are \<open>queue.go\<close> and
  \<open>recovery.go\<close>: the vocabulary, the requests (one record per struct), the key formatters and
  \<open>NormalizeEnqueueRequest\<close> with the shape of every kind. \<open>Queue_Table\<close> has the rows and the
  constraints of \<open>internal/storage/postgresql_schema.go\<close> and the invariant \<open>queue_inv\<close>: well
  formed rows, unique ids and active dedupe keys, sequences below their counter, and no two
  live leases that exclude each other. \<open>Queue_Enqueue\<close>, \<open>Queue_Lease\<close>,
  \<open>Queue_Transitions\<close>, \<open>Queue_Custody\<close> and \<open>Queue_Maintenance\<close> have one definition per
  operation of the store: a transaction is a function of the database, of the clock and of
  what PostgreSQL contributes, and returns an error or the new database. \<open>Queue_Contract\<close>
  states the contract of a guarded row update as a locale, which every transition interprets.
  The theories named \<open>_Facts\<close> and \<open>Queue_Eligibility\<close> show what the operations guarantee:
  the invariant is kept; admission is sound; leases exclude each other, are served in the
  discovery order and are fenced by their token; retries and backoff stay in their bounds;
  reclaim is complete; the Inbox and the queue change together; retention deletes only what
  is expired; and where the code falls short of its comments, the concrete input that shows it.

  \<^bold>\<open>The Job Runner.\<close> \<open>Runner_Discovery\<close> and \<open>Runner_Scheduler\<close> are \<open>job_runner_lease.go\<close>; a
  call is a small-step machine between whose units of work other transactions and other
  calls may run. \<open>Runner_Lease_Facts\<close> and \<open>Runner_Call_Facts\<close> prove the exact lease sound,
  its release exact, and that a call returns within \<open>call_fuel\<close> units (its turns times the
  candidates of a window, which the code itself bounds). \<open>Runner_System\<close> interleaves any
  number of calls, cleanups and shutdown and proves that a tenant is never reserved twice.

  \<^bold>\<open>Wake-ups and streams.\<close> \<open>Wakeup\<close> is \<open>wakeup.go\<close> and \<open>internal/pollbackoff\<close>: no wake-up
  is lost in any interleaving, and the reconnection delays have a closed form in spite of
  64-bit wrap-around. The fuel of \<open>RunListener\<close> is the number of connections; the theorems
  hold for every fuel. \<open>Bounded_Stream\<close> is the helper's \<open>bound/cap_buffer.go\<close> and the code of
  \<open>task/exec.go\<close> that reads its snapshots.

  \<^bold>\<open>Parameters.\<close> PostgreSQL is not part of the sources: the text collation, the order in which
  it returns unordered rows, its clock, its casts and the rows it finds locked are arguments
  of the definitions, with what is assumed of them as named hypotheses. A random generator
  and the results of network calls are arguments as well.

  \<^bold>\<open>Not modelled.\<close> Logging, metrics and tracing, since they have no influence on results; the
  transport (gRPC, HTTP, TLS), since it only carries the requests modelled here; the services
  around the queue (Bridge, Gateway, the Agent Runtime, Event Stream, the hubs and
  connectors), the command line client in Rust and the TypeScript runtime, which are
  programs of their own built on the tables and protocols of this repository.
\<close>

end
